(* ===== verification/Aon_Base.thy ===== *)
theory Aon_Base
  imports Main "HOL-Library.Word"
begin

text \<open>
  Prelude of the development: the machine integer types of the C sources, the values a C
  function can come back with (\<open>'a res\<close>), the state-passing actions built from them and
  the rules that carry the component proofs.

  A C function that returns \<^verbatim>\<open>csi_error_t\<close> (\<^verbatim>\<open>csi/csi/include/drv/common.h\<close>) and fills its
  output parameters is an action \<open>'s \<Rightarrow> 'a res \<times> 's\<close> over the state it mutates:
  \<open>Ok a\<close> is a return of \<open>CSI_OK\<close> with outputs \<open>a\<close>, \<open>Err e\<close> a return of a
  negative code, \<open>Hang\<close> a \<^verbatim>\<open>while(1);\<close> (or a loop that is still running when the model's
  fuel is used up) and \<open>Ub\<close> behaviour that C leaves undefined (a NULL function pointer
  or object, an index outside an array, a division by zero).
\<close>

unbundle bit_operations_syntax

subsection \<open>Machine integers\<close>

type_synonym u8 = "8 word"
type_synonym u16 = "16 word"
type_synonym u32 = "32 word"

text \<open>C's signed division on \<^verbatim>\<open>int32_t\<close>: it truncates towards zero.\<close>

definition trunc_div :: "int \<Rightarrow> int \<Rightarrow> int" where
  "trunc_div a b = sgn a * sgn b * (\<bar>a\<bar> div \<bar>b\<bar>)"

definition sdiv32 :: "u32 \<Rightarrow> u32 \<Rightarrow> u32" where
  "sdiv32 a b = word_of_int (trunc_div (sint a) (sint b))"

lemma trunc_div_nonneg: "0 \<le> a \<Longrightarrow> 0 < b \<Longrightarrow> trunc_div a b = a div b"
  by (cases "a = 0") (auto simp: trunc_div_def)

lemma trunc_div_neg: "a \<le> 0 \<Longrightarrow> 0 < b \<Longrightarrow> trunc_div a b = - ((- a) div b)"
  by (cases "a = 0") (auto simp: trunc_div_def)

lemma bit_below:
  fixes x :: "'a::len word"
  assumes "x < 2 ^ n" and "bit x i"
  shows "i < n"
proof -
  have "x AND mask n = x" using assms(1) by (rule less_mask_eq)
  with assms(2) show ?thesis by (metis bit_and_iff bit_mask_iff)
qed

subsection \<open>Results of C functions\<close>

datatype csi_error_t = CSI_ERROR | CSI_BUSY | CSI_TIMEOUT | CSI_UNSUPPORTED

datatype 'a res = Ok 'a | Err csi_error_t | Hang | Ub

type_synonym ('s, 'a) act = "'s \<Rightarrow> 'a res \<times> 's"

definition ret :: "'a \<Rightarrow> ('s, 'a) act" where
  "ret a s = (Ok a, s)"

definition fail :: "csi_error_t \<Rightarrow> ('s, 'a) act" where
  "fail e s = (Err e, s)"

definition undef :: "('s, 'a) act" where
  "undef s = (Ub, s)"

definition hang :: "('s, 'a) act" where
  "hang s = (Hang, s)"

text \<open>\<^verbatim>\<open>ret = f(...); if (ret) return ret;\<close> followed by the rest of the function.\<close>

definition bind_res :: "('s, 'a) act \<Rightarrow> ('a \<Rightarrow> ('s, 'b) act) \<Rightarrow> ('s, 'b) act" where
  "bind_res m f s =
     (case m s of
        (Ok a, s') \<Rightarrow> f a s'
      | (Err e, s') \<Rightarrow> (Err e, s')
      | (Hang, s') \<Rightarrow> (Hang, s')
      | (Ub, s') \<Rightarrow> (Ub, s'))"

text \<open>\<^verbatim>\<open>if (ret) return e;\<close>: every error code of \<open>m\<close> is reported as \<open>e\<close>.\<close>

definition as_err :: "csi_error_t \<Rightarrow> ('s, 'a) act \<Rightarrow> ('s, 'a) act" where
  "as_err e m s = (case m s of (Err _, s') \<Rightarrow> (Err e, s') | r \<Rightarrow> r)"

text \<open>The C code goes on whatever \<open>m\<close> returned; the code is handed to the rest.\<close>

definition catch_err :: "('s, 'a) act \<Rightarrow> (csi_error_t + 'a \<Rightarrow> ('s, 'b) act) \<Rightarrow> ('s, 'b) act" where
  "catch_err m f s =
     (case m s of
        (Ok a, s') \<Rightarrow> f (Inr a) s'
      | (Err e, s') \<Rightarrow> f (Inl e) s'
      | (Hang, s') \<Rightarrow> (Hang, s')
      | (Ub, s') \<Rightarrow> (Ub, s'))"

definition get_st :: "('s \<Rightarrow> 'a) \<Rightarrow> ('s, 'a) act" where
  "get_st f s = (Ok (f s), s)"

definition upd_st :: "('s \<Rightarrow> 's) \<Rightarrow> ('s, unit) act" where
  "upd_st f s = (Ok (), f s)"

text \<open>Dereferencing a pointer that may be NULL, and reading an array at an index.\<close>

definition deref :: "'a option \<Rightarrow> ('s, 'a) act" where
  "deref p s = (case p of None \<Rightarrow> (Ub, s) | Some a \<Rightarrow> (Ok a, s))"

definition arr_get :: "'a list \<Rightarrow> nat \<Rightarrow> ('s, 'a) act" where
  "arr_get xs i s = (if i < length xs then (Ok (xs ! i), s) else (Ub, s))"

text \<open>A loop over a list of values that stops at the first failing body.\<close>

fun for_each :: "'i list \<Rightarrow> ('i \<Rightarrow> ('s, unit) act) \<Rightarrow> ('s, unit) act" where
  "for_each [] f = ret ()"
| "for_each (i # is) f = bind_res (f i) (\<lambda>_. for_each is f)"

named_theorems act_defs "unfolding rules of the state-passing actions"

declare ret_def [act_defs] fail_def [act_defs] undef_def [act_defs] hang_def [act_defs]
  bind_res_def [act_defs] as_err_def [act_defs] catch_err_def [act_defs] get_st_def [act_defs]
  upd_st_def [act_defs] deref_def [act_defs] arr_get_def [act_defs]

subsection \<open>Rules for actions\<close>

lemma bind_ret [simp]: "bind_res (ret a) f = f a"
  by (rule ext) (simp add: act_defs)

lemma bind_fail [simp]: "bind_res (fail e) f = fail e"
  by (rule ext) (simp add: act_defs)

lemma bind_undef [simp]: "bind_res undef f = undef"
  by (rule ext) (simp add: act_defs)

lemma bind_hang [simp]: "bind_res hang f = hang"
  by (rule ext) (simp add: act_defs)

lemma bind_res_Ok:
  "bind_res m f s = (Ok b, t) \<longleftrightarrow> (\<exists>a s'. m s = (Ok a, s') \<and> f a s' = (Ok b, t))"
  by (auto simp: bind_res_def split: prod.splits res.splits)

lemma bind_res_step: "m s = (Ok a, s') \<Longrightarrow> bind_res m f s = f a s'"
  by (simp add: bind_res_def)

lemma bind_res_err: "m s = (Err e, s') \<Longrightarrow> bind_res m f s = (Err e, s')"
  by (simp add: bind_res_def)

lemma as_err_Ok: "as_err e m s = (Ok a, t) \<longleftrightarrow> m s = (Ok a, t)"
  by (auto simp: as_err_def split: prod.splits res.splits)

text \<open>
  \<open>keeps P m\<close>: whatever the action comes back with, it keeps \<open>P\<close> of the state.
  The rules follow the structure of an action, so that one lemma per operation gives
  the invariants of the functions built from it.
\<close>

definition keeps :: "('s \<Rightarrow> bool) \<Rightarrow> ('s, 'a) act \<Rightarrow> bool" where
  "keeps P m \<longleftrightarrow> (\<forall>s. P s \<longrightarrow> P (snd (m s)))"

named_theorems keeps_rules "what keeps a predicate of the state"

lemma keepsI: "(\<And>s. P s \<Longrightarrow> P (snd (m s))) \<Longrightarrow> keeps P m"
  by (simp add: keeps_def)

lemma keepsD: "keeps P m \<Longrightarrow> P s \<Longrightarrow> P (snd (m s))"
  by (simp add: keeps_def)

lemma keepsD_eq: "keeps P m \<Longrightarrow> P s \<Longrightarrow> m s = (r, t) \<Longrightarrow> P t"
  by (metis keepsD snd_conv)

lemma keeps_basic [keeps_rules]:
  "keeps P (ret a)" "keeps P (fail e)" "keeps P undef" "keeps P hang"
  "keeps P (get_st g)" "keeps P (deref p)" "keeps P (arr_get xs i)"
  by (auto simp: keeps_def act_defs split: option.splits)

lemma keeps_bind [keeps_rules]:
  assumes "keeps P m" and "\<And>a. keeps P (f a)"
  shows "keeps P (bind_res m f)"
proof (rule keepsI)
  fix s assume "P s"
  obtain r s' where m: "m s = (r, s')" by fastforce
  from keepsD_eq [OF assms(1) \<open>P s\<close> m] have "P s'" .
  then show "P (snd (bind_res m f s))"
    using keepsD [OF assms(2)] by (cases r) (simp_all add: bind_res_def m)
qed

lemma keeps_catch [keeps_rules]:
  assumes "keeps P m" and "\<And>a. keeps P (f a)"
  shows "keeps P (catch_err m f)"
proof (rule keepsI)
  fix s assume "P s"
  obtain r s' where m: "m s = (r, s')" by fastforce
  from keepsD_eq [OF assms(1) \<open>P s\<close> m] have "P s'" .
  then show "P (snd (catch_err m f s))"
    using keepsD [OF assms(2)] by (cases r) (simp_all add: catch_err_def m)
qed

lemma keeps_as_err [keeps_rules]: "keeps P m \<Longrightarrow> keeps P (as_err e m)"
  by (fastforce simp: keeps_def as_err_def split: prod.splits res.splits)

lemma keeps_upd [keeps_rules]: "(\<And>s. P s \<Longrightarrow> P (f s)) \<Longrightarrow> keeps P (upd_st f)"
  by (simp add: keeps_def upd_st_def)

lemma keeps_if [keeps_rules]:
  "(c \<Longrightarrow> keeps P m) \<Longrightarrow> (\<not> c \<Longrightarrow> keeps P n) \<Longrightarrow> keeps P (if c then m else n)"
  by simp

lemma keeps_for_each [keeps_rules]:
  "(\<And>i. i \<in> set is \<Longrightarrow> keeps P (f i)) \<Longrightarrow> keeps P (for_each is f)"
  by (induction "is") (auto intro: keeps_rules)

text \<open>
  \<open>ok_post m Q s\<close>: run from \<open>s\<close> the action returns \<open>CSI_OK\<close>, and \<open>Q\<close> holds of its
  outputs and the new state. This is total correctness: an error return, a hang or undefined
  behaviour does not satisfy it.
\<close>

definition ok_post :: "('s, 'a) act \<Rightarrow> ('a \<Rightarrow> 's \<Rightarrow> bool) \<Rightarrow> 's \<Rightarrow> bool" where
  "ok_post m Q s \<longleftrightarrow> (\<exists>a t. m s = (Ok a, t) \<and> Q a t)"

named_theorems ok_rules "total-correctness rules for actions"

lemma ok_postI: "m s = (Ok a, t) \<Longrightarrow> Q a t \<Longrightarrow> ok_post m Q s"
  by (auto simp: ok_post_def)

lemma ok_postE: "ok_post m Q s \<Longrightarrow> (\<And>a t. m s = (Ok a, t) \<Longrightarrow> Q a t \<Longrightarrow> R) \<Longrightarrow> R"
  by (auto simp: ok_post_def)

lemma ok_bind [ok_rules]: "ok_post m (\<lambda>a. ok_post (f a) Q) s \<Longrightarrow> ok_post (bind_res m f) Q s"
  by (auto simp: ok_post_def bind_res_def)

lemma ok_as_err [ok_rules]: "ok_post m Q s \<Longrightarrow> ok_post (as_err e m) Q s"
  by (auto simp: ok_post_def as_err_def)

lemma ok_ret [ok_rules]: "Q a s \<Longrightarrow> ok_post (ret a) Q s"
  by (simp add: ok_post_def ret_def)

lemma ok_get_st [ok_rules]: "Q (f s) s \<Longrightarrow> ok_post (get_st f) Q s"
  by (simp add: ok_post_def get_st_def)

lemma ok_upd_st [ok_rules]: "Q () (f s) \<Longrightarrow> ok_post (upd_st f) Q s"
  by (simp add: ok_post_def upd_st_def)

lemma ok_if [ok_rules]:
  "(c \<Longrightarrow> ok_post m Q s) \<Longrightarrow> (\<not> c \<Longrightarrow> ok_post n Q s) \<Longrightarrow> ok_post (if c then m else n) Q s"
  by simp

lemma ok_for_each_Cons [ok_rules]:
  "ok_post (f i) (\<lambda>_. ok_post (for_each is f) Q) s \<Longrightarrow> ok_post (for_each (i # is) f) Q s"
  by (simp add: ok_bind)

lemma ok_for_each_Nil [ok_rules]: "Q () s \<Longrightarrow> ok_post (for_each [] f) Q s"
  by (simp add: ok_ret)

lemma ok_mono: "ok_post m Q s \<Longrightarrow> (\<And>a t. Q a t \<Longrightarrow> R a t) \<Longrightarrow> ok_post m R s"
  by (auto simp: ok_post_def)

subsection \<open>Lists used as fixed-size C arrays\<close>

lemma nth_list_update_if: "i < length xs \<Longrightarrow> xs[j := v] ! i = (if i = j then v else xs ! i)"
  by (auto simp: nth_list_update)

lemma forall_less_3: "(\<forall>i < (3::nat). P i) \<longleftrightarrow> P 0 \<and> P 1 \<and> P 2"
  by (auto simp: numeral_3_eq_3 numeral_2_eq_2 less_Suc_eq)

lemma ball_set_update:
  "(\<forall>x \<in> set xs. P x) \<Longrightarrow> P v \<Longrightarrow> (\<forall>x \<in> set (xs[i := v]). P x)"
  using set_update_subset_insert [of xs i v] by blast

end
