(* ===== verification/Fifo_Spec.thy ===== *)
theory Fifo_Spec
  imports Aon_Base
begin

text \<open>
  The contracts of the two first-in first-out buffers of the firmware. A
  \<open>bounded_queue\<close> accepts one element at a time and refuses it when full; a
  \<open>byte_fifo\<close> copies as much of a block as fits and hands out as much as it holds.
  A \<open>byte_fifo\<close> used with blocks of one element is a \<open>bounded_queue\<close>, so the
  order-preservation theorem of the queue holds of both.
\<close>

datatype 'a qop = Enq 'a | Deq

text \<open>
  A run of operations: the elements that were accepted, the elements that came out, and
  the final queue.
\<close>

fun run_q :: "('a \<Rightarrow> 'q \<Rightarrow> bool \<times> 'q) \<Rightarrow> ('q \<Rightarrow> 'a option \<times> 'q) \<Rightarrow> 'a qop list \<Rightarrow> 'q
    \<Rightarrow> 'a list \<times> 'a list \<times> 'q" where
  "run_q enq deq [] q = ([], [], q)"
| "run_q enq deq (Enq x # ops) q =
     (let (ok, q') = enq x q; (ins, outs, q'') = run_q enq deq ops q'
      in (if ok then x # ins else ins, outs, q''))"
| "run_q enq deq (Deq # ops) q =
     (let (r, q') = deq q; (ins, outs, q'') = run_q enq deq ops q'
      in (ins, (case r of None \<Rightarrow> outs | Some x \<Rightarrow> x # outs), q''))"

locale bounded_queue =
  fixes invar :: "'q \<Rightarrow> bool"
    and content :: "'q \<Rightarrow> 'a list"
    and capacity :: "'q \<Rightarrow> nat"
    and enq :: "'a \<Rightarrow> 'q \<Rightarrow> bool \<times> 'q"
    and deq :: "'q \<Rightarrow> 'a option \<times> 'q"
  assumes enq_accepts: "invar q \<Longrightarrow> length (content q) < capacity q \<Longrightarrow>
      \<exists>q'. enq x q = (True, q') \<and> invar q' \<and> content q' = content q @ [x] \<and> capacity q' = capacity q"
    and enq_refuses: "invar q \<Longrightarrow> length (content q) = capacity q \<Longrightarrow> enq x q = (False, q)"
    and deq_empty: "invar q \<Longrightarrow> content q = [] \<Longrightarrow> deq q = (None, q)"
    and deq_head: "invar q \<Longrightarrow> content q = x # xs \<Longrightarrow>
      \<exists>q'. deq q = (Some x, q') \<and> invar q' \<and> content q' = xs \<and> capacity q' = capacity q"
    and bounded: "invar q \<Longrightarrow> length (content q) \<le> capacity q"
begin

lemma enq_cases:
  assumes "invar q" and "enq x q = (ok, q')"
  shows "invar q' \<and> capacity q' = capacity q
    \<and> content q' = (if ok then content q @ [x] else content q)
    \<and> (ok \<longleftrightarrow> length (content q) < capacity q)"
  using assms enq_accepts [of q x] enq_refuses [of q x] bounded [of q]
  by (cases "length (content q) < capacity q") auto

lemma deq_cases:
  assumes "invar q" and "deq q = (r, q')"
  shows "invar q' \<and> capacity q' = capacity q
    \<and> content q = (case r of None \<Rightarrow> content q' | Some x \<Rightarrow> x # content q')"
  using assms deq_empty [of q] deq_head [of q] by (cases "content q") auto

text \<open>
  Nothing is lost, duplicated or reordered by any sequence of operations: what was in the
  queue followed by what it accepted is what came out followed by what is left.
\<close>

lemma run_conserves:
  assumes "invar q" and "run_q enq deq ops q = (ins, outs, q')"
  shows "invar q' \<and> capacity q' = capacity q \<and> content q @ ins = outs @ content q'"
  using assms
proof (induction ops arbitrary: q ins outs q')
  case Nil
  then show ?case by simp
next
  case (Cons op ops)
  show ?case
  proof (cases op)
    case (Enq x)
    obtain ok q1 where e: "enq x q = (ok, q1)" by fastforce
    obtain ins1 outs1 q2 where r: "run_q enq deq ops q1 = (ins1, outs1, q2)" by (metis prod_cases3)
    show ?thesis
      using Cons.IH [OF _ r] enq_cases [OF Cons.prems(1) e] Cons.prems(2) Enq e r
      by (auto split: if_splits)
  next
    case Deq
    obtain d q1 where e: "deq q = (d, q1)" by fastforce
    obtain ins1 outs1 q2 where r: "run_q enq deq ops q1 = (ins1, outs1, q2)" by (metis prod_cases3)
    show ?thesis
      using Cons.IH [OF _ r] deq_cases [OF Cons.prems(1) e] Cons.prems(2) Deq e r
      by (auto split: option.splits)
  qed
qed

end

locale byte_fifo =
  fixes invar :: "'q \<Rightarrow> bool"
    and content :: "'q \<Rightarrow> 'a list"
    and capacity :: "'q \<Rightarrow> nat"
    and put :: "'a list \<Rightarrow> 'q \<Rightarrow> nat \<times> 'q"
    and get :: "nat \<Rightarrow> 'q \<Rightarrow> 'a list \<times> 'q"
  assumes put_copies: "invar q \<Longrightarrow> length xs \<le> capacity q \<Longrightarrow>
      \<exists>q'. put xs q = (min (length xs) (capacity q - length (content q)), q') \<and> invar q'
        \<and> content q' = content q @ take (capacity q - length (content q)) xs
        \<and> capacity q' = capacity q"
    and put_full: "invar q \<Longrightarrow> length (content q) = capacity q \<Longrightarrow> put xs q = (0, q)"
    and get_copies: "invar q \<Longrightarrow> \<exists>q'. get n q = (take n (content q), q') \<and> invar q'
        \<and> content q' = drop n (content q) \<and> capacity q' = capacity q"
    and get_empty: "invar q \<Longrightarrow> content q = [] \<Longrightarrow> get n q = ([], q)"
    and fifo_bounded: "invar q \<Longrightarrow> length (content q) \<le> capacity q"
    and fifo_positive: "invar q \<Longrightarrow> 0 < capacity q"

definition put1 :: "('a list \<Rightarrow> 'q \<Rightarrow> nat \<times> 'q) \<Rightarrow> 'a \<Rightarrow> 'q \<Rightarrow> bool \<times> 'q" where
  "put1 put x q = (let (n, q') = put [x] q in (n = 1, q'))"

definition get1 :: "(nat \<Rightarrow> 'q \<Rightarrow> 'a list \<times> 'q) \<Rightarrow> 'q \<Rightarrow> 'a option \<times> 'q" where
  "get1 get q = (let (out, q') = get 1 q in (case out of [] \<Rightarrow> None | x # _ \<Rightarrow> Some x, q'))"

sublocale byte_fifo \<subseteq> one: bounded_queue invar content capacity "put1 put" "get1 get"
proof (unfold_locales, goal_cases)
  case (1 q x)
  have "length [x] \<le> capacity q" using fifo_positive [OF 1(1)] by simp
  from put_copies [OF 1(1) this] 1(2) show ?case
    by (auto simp: put1_def)
next
  case (2 q x)
  then show ?case using put_full [of q "[x]"] by (simp add: put1_def)
next
  case (3 q)
  then show ?case using get_empty [of q 1] by (simp add: get1_def)
next
  case (4 q x xs)
  then show ?case using get_copies [of q 1] by (auto simp: get1_def)
next
  case (5 q)
  then show ?case by (rule fifo_bounded)
qed

end
