(* ===== verification/Rpc_Queue.thy ===== *)
theory Rpc_Queue
  imports Fifo_Spec
begin

text \<open>
  The circular queue of \<^verbatim>\<open>solutions/fm_aon_low_power/src/aon_rpc/aon_rpc.c\<close> that defers low
  priority RPC messages from the mailbox interrupt to the main loop. \<open>dequeue\<close> returns
  a pointer into the item array, modelled as the index of the slot.
\<close>

definition QUEUE_SIZE :: nat where "QUEUE_SIZE = 5"

record 'a rpc_queue =
  items :: "'a list"
  front :: nat
  rear :: nat

definition initializeQueue :: "'a rpc_queue \<Rightarrow> 'a rpc_queue" where
  "initializeQueue cq = cq\<lparr>front := 0, rear := 0\<rparr>"

definition isFull :: "'a rpc_queue \<Rightarrow> bool" where
  "isFull cq \<longleftrightarrow> front cq = rear cq + 1 \<or> (front cq = 0 \<and> rear cq = QUEUE_SIZE - 1)"

definition isEmpty :: "'a rpc_queue \<Rightarrow> bool" where
  "isEmpty cq \<longleftrightarrow> front cq = rear cq"

text \<open>The result is \<open>True\<close> for the return value 0 and \<open>False\<close> for -1.\<close>

definition enqueue :: "'a \<Rightarrow> 'a rpc_queue \<Rightarrow> bool \<times> 'a rpc_queue" where
  "enqueue element cq =
     (if isFull cq then (False, cq)
      else
        let cq1 = cq\<lparr>items := (items cq)[rear cq := element]\<rparr>;
            cq2 = cq1\<lparr>rear := rear cq1 + 1\<rparr>
        in (True, if rear cq2 \<ge> QUEUE_SIZE then cq2\<lparr>rear := rear cq2 - QUEUE_SIZE\<rparr> else cq2))"

definition dequeue :: "'a rpc_queue \<Rightarrow> nat option \<times> 'a rpc_queue" where
  "dequeue cq =
     (if isEmpty cq then (None, cq)
      else
        let element = front cq;
            cq1 = cq\<lparr>front := front cq + 1\<rparr>
        in (Some element,
            if front cq1 \<ge> QUEUE_SIZE then cq1\<lparr>front := front cq1 - QUEUE_SIZE\<rparr> else cq1))"

text \<open>Reading the message through the returned pointer.\<close>

definition dequeue_msg :: "'a rpc_queue \<Rightarrow> 'a option \<times> 'a rpc_queue" where
  "dequeue_msg cq =
     (case dequeue cq of (None, cq') \<Rightarrow> (None, cq') | (Some i, cq') \<Rightarrow> (Some (items cq' ! i), cq'))"

subsection \<open>The queue as a list\<close>

definition rpcq_ok :: "'a rpc_queue \<Rightarrow> bool" where
  "rpcq_ok cq \<longleftrightarrow> length (items cq) = QUEUE_SIZE \<and> front cq < QUEUE_SIZE \<and> rear cq < QUEUE_SIZE"

definition rpcq_len :: "'a rpc_queue \<Rightarrow> nat" where
  "rpcq_len cq = (if front cq \<le> rear cq then rear cq - front cq else QUEUE_SIZE + rear cq - front cq)"

definition rpcq_list :: "'a rpc_queue \<Rightarrow> 'a list" where
  "rpcq_list cq = map (\<lambda>i. items cq ! ((front cq + i) mod QUEUE_SIZE)) [0..<rpcq_len cq]"

named_theorems rpcq_defs "definitions of the RPC queue"

declare QUEUE_SIZE_def [rpcq_defs] isFull_def [rpcq_defs] isEmpty_def [rpcq_defs]
  enqueue_def [rpcq_defs] dequeue_def [rpcq_defs] dequeue_msg_def [rpcq_defs]
  rpcq_ok_def [rpcq_defs] rpcq_len_def [rpcq_defs] Let_def [rpcq_defs]

lemma isFull_iff: "rpcq_ok cq \<Longrightarrow> isFull cq \<longleftrightarrow> rpcq_len cq = QUEUE_SIZE - 1"
  by (auto simp: rpcq_defs)

lemma isEmpty_iff: "rpcq_ok cq \<Longrightarrow> isEmpty cq \<longleftrightarrow> rpcq_len cq = 0"
  by (auto simp: rpcq_defs)

lemma length_rpcq_list [simp]: "length (rpcq_list cq) = rpcq_len cq"
  by (simp add: rpcq_list_def)

lemma rpcq_len_bound: "rpcq_ok cq \<Longrightarrow> rpcq_len cq \<le> QUEUE_SIZE - 1"
  by (auto simp: rpcq_defs)

lemma rear_index: "rpcq_ok cq \<Longrightarrow> rear cq = (front cq + rpcq_len cq) mod QUEUE_SIZE"
  by (auto simp: rpcq_defs mod_if)

lemma mod_queue_neq:
  "f < QUEUE_SIZE \<Longrightarrow> i < n \<Longrightarrow> n < QUEUE_SIZE \<Longrightarrow> (f + i) mod QUEUE_SIZE \<noteq> (f + n) mod QUEUE_SIZE"
  by (auto simp: QUEUE_SIZE_def mod_if)

lemma enqueue_accepts:
  assumes ok: "rpcq_ok cq" and room: "rpcq_len cq < QUEUE_SIZE - 1"
  shows "\<exists>cq'. enqueue x cq = (True, cq') \<and> rpcq_ok cq' \<and> rpcq_list cq' = rpcq_list cq @ [x]
    \<and> front cq' = front cq \<and> items cq' = (items cq)[rear cq := x]"
proof -
  obtain cq' where e: "enqueue x cq = (True, cq')"
    using isFull_iff [OF ok] room by (auto simp: enqueue_def Let_def)
  have fields: "front cq' = front cq" "items cq' = (items cq)[rear cq := x]"
    "rpcq_len cq' = Suc (rpcq_len cq)" "rpcq_ok cq'"
    using e ok by (auto simp: rpcq_defs split: if_splits)
  from room have "rpcq_len cq < QUEUE_SIZE" by simp
  then have "items cq' ! ((front cq + i) mod QUEUE_SIZE) = items cq ! ((front cq + i) mod QUEUE_SIZE)"
    if "i < rpcq_len cq" for i
    using mod_queue_neq [of "front cq" i "rpcq_len cq"] that room ok rear_index [OF ok]
    by (simp add: fields rpcq_ok_def less_diff_conv)
  moreover have "items cq' ! ((front cq + rpcq_len cq) mod QUEUE_SIZE) = x"
    using ok by (simp add: fields rear_index [symmetric] rpcq_ok_def)
  ultimately have "rpcq_list cq' = rpcq_list cq @ [x]"
    by (simp add: rpcq_list_def fields)
  with e fields show ?thesis by auto
qed

lemma dequeue_head:
  assumes ok: "rpcq_ok cq" and ne: "rpcq_list cq = x # xs"
  shows "\<exists>cq'. dequeue_msg cq = (Some x, cq') \<and> rpcq_ok cq' \<and> rpcq_list cq' = xs"
proof -
  have len: "rpcq_len cq = Suc (length xs)"
    using ne length_rpcq_list [of cq] by simp
  obtain cq' where d: "dequeue cq = (Some (front cq), cq')"
    using isEmpty_iff [OF ok] len by (auto simp: dequeue_def Let_def)
  have fields: "front cq' = (front cq + 1) mod QUEUE_SIZE" "items cq' = items cq"
    "rpcq_len cq' = length xs" "rpcq_ok cq'"
    using d ok len by (auto simp: rpcq_defs mod_Suc split: if_splits)
  have idx: "((front cq + 1) mod QUEUE_SIZE + i) mod QUEUE_SIZE = (front cq + Suc i) mod QUEUE_SIZE" for i
    by (simp add: mod_simps)
  have "rpcq_list cq = (items cq ! (front cq mod QUEUE_SIZE)) #
      map (\<lambda>i. items cq ! ((front cq + Suc i) mod QUEUE_SIZE)) [0..<length xs]"
    unfolding rpcq_list_def len by (simp add: map_upt_Suc del: upt_Suc)
  also have "map (\<lambda>i. items cq ! ((front cq + Suc i) mod QUEUE_SIZE)) [0..<length xs] = rpcq_list cq'"
    by (simp only: rpcq_list_def fields idx)
  finally have "rpcq_list cq' = xs" and "items cq ! front cq = x"
    using ne ok by (auto simp: rpcq_ok_def)
  with d fields show ?thesis by (simp add: dequeue_msg_def)
qed

interpretation rpcq: bounded_queue rpcq_ok rpcq_list "\<lambda>_. QUEUE_SIZE - 1" enqueue dequeue_msg
proof (unfold_locales, goal_cases)
  case (1 q x)
  then show ?case using enqueue_accepts [of q x] by auto
next
  case (2 q x)
  then show ?case using isFull_iff [of q] by (simp add: enqueue_def)
next
  case (3 q)
  then have "rpcq_len q = 0" using length_rpcq_list [of q] by simp
  with 3 show ?case using isEmpty_iff [of q] by (simp add: dequeue_msg_def dequeue_def)
next
  case (4 q x xs)
  then show ?case by (simp add: dequeue_head)
next
  case (5 q)
  then show ?case using rpcq_len_bound [of q] by simp
qed

subsection \<open>Properties\<close>


definition sample_queue :: "nat rpc_queue" where
  "sample_queue = initializeQueue \<lparr>items = [0, 0, 0, 0, 0], front = 3, rear = 1\<rparr>"


text \<open>
  The pointer \<open>dequeue\<close> returns stays valid while the main loop works on the
  message: however many messages the interrupt enqueues before the next dequeue, the
  slot keeps the message.
\<close>

theorem dequeued_slot_stable:
  assumes "rpcq_ok cq" and "dequeue cq = (Some i, cq1)"
    and "run_q enqueue dequeue_msg (map Enq xs) cq1 = (ins, outs, cq2)"
  shows "items cq2 ! i = items cq ! i"
proof -
  have stable: "items cq2 ! i = items cq1 ! i"
    if "rpcq_ok cq1" "front cq1 = (i + 1) mod QUEUE_SIZE" "i < QUEUE_SIZE"
      "run_q enqueue dequeue_msg (map Enq xs) cq1 = (ins, outs, cq2)" for cq1 ins outs
    using that
  proof (induction xs arbitrary: cq1 ins outs)
    case Nil
    then show ?case by simp
  next
    case (Cons x xs)
    obtain ok q where e: "enqueue x cq1 = (ok, q)" by fastforce
    obtain ins1 outs1 q2 where r: "run_q enqueue dequeue_msg (map Enq xs) q = (ins1, outs1, q2)"
      by (metis prod_cases3)
    have q2: "q2 = cq2" using Cons.prems(4) e r by (auto split: if_splits)
    have "rpcq_ok q" "front q = front cq1" "items q ! i = items cq1 ! i"
      using e Cons.prems(1,2,3) by (auto simp: rpcq_defs mod_if nth_list_update split: if_splits)
    with Cons.IH [of q ins1 outs1] r q2 Cons.prems(2,3) show ?case by simp
  qed
  have "rpcq_ok cq1" "front cq1 = (i + 1) mod QUEUE_SIZE" "i < QUEUE_SIZE" "items cq1 = items cq"
    using assms(1,2) by (auto simp: rpcq_defs mod_Suc split: if_splits)
  with stable assms(3) show ?thesis by metis
qed

theorem dequeued_slot_stable_witness:
  "[7 :: nat, 4, 5, 6, 1] ! 0 = ([7, 1, 1, 1, 1] ! 0 :: nat)"
proof -
  let ?q = "\<lparr>items = [7, 1, 1, 1, 1], front = 0, rear = 1\<rparr> :: nat rpc_queue"
  let ?q1 = "?q\<lparr>front := 1\<rparr>"
  let ?q2 = "\<lparr>items = [7, 4, 5, 6, 3], front = 1, rear = 0\<rparr> :: nat rpc_queue"
  have ok: "rpcq_ok ?q" by (simp add: rpcq_ok_def QUEUE_SIZE_def)
  have d: "dequeue ?q = (Some 0, ?q1)" by (simp add: rpcq_defs)
  have run: "run_q enqueue dequeue_msg (map Enq [4, 5, 6, 3, 2]) ?q1 = ([4, 5, 6, 3], [], ?q2)"
    by (simp add: rpcq_defs)
  show ?thesis using dequeued_slot_stable [OF ok d run] by simp
qed

end
