(* ===== verification/Rpc_Msg.thy ===== *)
theory Rpc_Msg
  imports Aon_Base
begin

text \<open>
  The RPC message of \<^verbatim>\<open>solutions/fm_aon_low_power/src/inc/aon_rpc.h\<close> and the accessor macros
  the services use on it: header fields packed into the \<open>svc\<close> byte and big-endian fields
  of the 24 data bytes. The lemmas are the round trips of the accessors, their frame
  conditions, and what \<open>RPC_SET_HEAD\<close> leaves in a message.
\<close>

subsection \<open>The message and its header\<close>

definition AON_RPC_MAX_LEN :: nat where "AON_RPC_MAX_LEN = 28"
definition AON_RPC_VERSION :: u8 where "AON_RPC_VERSION = 2"

definition RPC_SVC_MSG_TYPE_ACK :: u8 where "RPC_SVC_MSG_TYPE_ACK = 1"
definition RPC_SVC_MSG_NEED_ACK :: u8 where "RPC_SVC_MSG_NEED_ACK = 0"
definition RPC_SVC_MSG_NO_NEED_ACK :: u8 where "RPC_SVC_MSG_NO_NEED_ACK = 1"

record aon_rpc_msg_t =
  version :: u8
  msg_size :: u8
  svc :: u8
  func :: u8
  data :: "u8 list"

text \<open>A message object has its 24 data bytes; \<^verbatim>\<open>{0}\<close> and \<^verbatim>\<open>memset\<close> give the zero message.\<close>

definition msg_ok :: "aon_rpc_msg_t \<Rightarrow> bool" where
  "msg_ok m \<longleftrightarrow> length (data m) = AON_RPC_MAX_LEN - 4"

definition zero_msg :: aon_rpc_msg_t where
  "zero_msg = \<lparr>version = 0, msg_size = 0, svc = 0, func = 0, data = replicate 24 0\<rparr>"

definition RPC_GET_SVC_ID :: "aon_rpc_msg_t \<Rightarrow> u8" where
  "RPC_GET_SVC_ID m = svc m AND 0x3F"

definition RPC_SET_SVC_ID :: "aon_rpc_msg_t \<Rightarrow> u8 \<Rightarrow> aon_rpc_msg_t" where
  "RPC_SET_SVC_ID m i = m\<lparr>svc := svc m OR (0x3F AND i)\<rparr>"

definition RPC_GET_SVC_FLAG_MSG_TYPE :: "aon_rpc_msg_t \<Rightarrow> u8" where
  "RPC_GET_SVC_FLAG_MSG_TYPE m = drop_bit 7 (svc m AND 0x80)"

definition RPC_SET_SVC_FLAG_MSG_TYPE :: "aon_rpc_msg_t \<Rightarrow> u8 \<Rightarrow> aon_rpc_msg_t" where
  "RPC_SET_SVC_FLAG_MSG_TYPE m t = m\<lparr>svc := svc m OR push_bit 7 t\<rparr>"

definition RPC_GET_SVC_FLAG_ACK_TYPE :: "aon_rpc_msg_t \<Rightarrow> u8" where
  "RPC_GET_SVC_FLAG_ACK_TYPE m = drop_bit 6 (svc m AND 0x40)"

definition RPC_SET_SVC_FLAG_ACK_TYPE :: "aon_rpc_msg_t \<Rightarrow> u8 \<Rightarrow> aon_rpc_msg_t" where
  "RPC_SET_SVC_FLAG_ACK_TYPE m a = m\<lparr>svc := svc m OR push_bit 6 a\<rparr>"

definition RPC_SET_ERR_CODE :: "aon_rpc_msg_t \<Rightarrow> u8 \<Rightarrow> aon_rpc_msg_t" where
  "RPC_SET_ERR_CODE m e = m\<lparr>data := (data m)[0 := e]\<rparr>"

definition RPC_SET_HEAD ::
  "aon_rpc_msg_t \<Rightarrow> u8 \<Rightarrow> u8 \<Rightarrow> u8 \<Rightarrow> u8 \<Rightarrow> u8 \<Rightarrow> u8 \<Rightarrow> u8 \<Rightarrow> aon_rpc_msg_t" where
  "RPC_SET_HEAD m ver sz ty ack sid fn err =
     (let m1 = m\<lparr>version := ver\<rparr>;
          m2 = m1\<lparr>msg_size := sz\<rparr>;
          m3 = RPC_SET_SVC_FLAG_MSG_TYPE m2 ty;
          m4 = RPC_SET_SVC_FLAG_ACK_TYPE m3 ack;
          m5 = RPC_SET_SVC_ID m4 sid;
          m6 = m5\<lparr>func := fn\<rparr>
      in RPC_SET_ERR_CODE m6 err)"

subsection \<open>Big-endian fields of the data bytes\<close>

definition RPC_SET_BE32 :: "u8 list \<Rightarrow> nat \<Rightarrow> u32 \<Rightarrow> u8 list" where
  "RPC_SET_BE32 d off v =
     (let d1 = d[off + 3 := ucast (v AND 0xFF)];
          d2 = d1[off + 2 := ucast (drop_bit 8 (v AND 0xFF00))];
          d3 = d2[off + 1 := ucast (drop_bit 16 (v AND 0xFF0000))]
      in d3[off + 0 := ucast (drop_bit 24 (v AND 0xFF000000))])"

definition RPC_SET_BE16 :: "u8 list \<Rightarrow> nat \<Rightarrow> u32 \<Rightarrow> u8 list" where
  "RPC_SET_BE16 d off v =
     (let d1 = d[off + 1 := ucast (v AND 0xFF)]
      in d1[off + 0 := ucast (drop_bit 8 (v AND 0xFF00))])"

definition RPC_GET_BE32 :: "u8 list \<Rightarrow> nat \<Rightarrow> u32" where
  "RPC_GET_BE32 d off =
     ucast (d ! (off + 3)) OR push_bit 8 (ucast (d ! (off + 2)))
       OR push_bit 16 (ucast (d ! (off + 1))) OR push_bit 24 (ucast (d ! (off + 0)))"

definition RPC_GET_BE16 :: "u8 list \<Rightarrow> nat \<Rightarrow> u16" where
  "RPC_GET_BE16 d off = ucast (d ! (off + 1)) OR push_bit 8 (ucast (d ! (off + 0)))"

definition RPC_GET_U8 :: "u8 list \<Rightarrow> nat \<Rightarrow> u8" where
  "RPC_GET_U8 d off = d ! off"

text \<open>
  \<^verbatim>\<open>RPC_GET_BE64\<close> stores only 32 bits, and it shifts the upper four bytes, promoted to a
  32-bit \<^verbatim>\<open>int\<close>, by 32 to 56 places, which C leaves undefined. The value the compiled code
  computes for such a shift is the parameter \<open>wide_shl\<close>.
\<close>

definition RPC_GET_BE64 :: "(u8 \<Rightarrow> nat \<Rightarrow> u32) \<Rightarrow> u8 list \<Rightarrow> nat \<Rightarrow> u32" where
  "RPC_GET_BE64 wide_shl d off =
     ucast (d ! (off + 7)) OR push_bit 8 (ucast (d ! (off + 6)))
       OR push_bit 16 (ucast (d ! (off + 5))) OR push_bit 24 (ucast (d ! (off + 4)))
       OR wide_shl (d ! (off + 3)) 32 OR wide_shl (d ! (off + 2)) 40
       OR wide_shl (d ! (off + 1)) 48 OR wide_shl (d ! (off + 0)) 56"

named_theorems rpc_defs "definitions of the header accessors"

declare RPC_GET_SVC_ID_def [rpc_defs] RPC_SET_SVC_ID_def [rpc_defs]
  RPC_GET_SVC_FLAG_MSG_TYPE_def [rpc_defs] RPC_SET_SVC_FLAG_MSG_TYPE_def [rpc_defs]
  RPC_GET_SVC_FLAG_ACK_TYPE_def [rpc_defs] RPC_SET_SVC_FLAG_ACK_TYPE_def [rpc_defs]
  RPC_SET_ERR_CODE_def [rpc_defs] RPC_SET_HEAD_def [rpc_defs] Let_def [rpc_defs]

subsection \<open>Bytes of a word\<close>

lemma byte_mask:
  fixes v :: u32
  assumes "n \<le> 24"
  shows "(ucast (drop_bit n (v AND push_bit n 0xFF)) :: u8) = ucast (drop_bit n v)"
proof (rule bit_word_eqI)
  fix k assume "k < LENGTH(8)"
  moreover have "bit (0xFF :: u32) k = (k < 8)"
    using bit_mask_iff [of 8 k, where ?'a = u32] by (simp add: mask_eq_exp_minus_1) auto
  ultimately show "bit (ucast (drop_bit n (v AND push_bit n 0xFF)) :: u8) k
      = bit (ucast (drop_bit n v) :: u8) k"
    using assms by (auto simp: bit_simps)
qed

lemma byte_masks:
  fixes v :: u32
  shows "(ucast (v AND 0xFF) :: u8) = ucast v"
    and "(ucast (drop_bit 8 (v AND 0xFF00)) :: u8) = ucast (drop_bit 8 v)"
    and "(ucast (drop_bit 16 (v AND 0xFF0000)) :: u8) = ucast (drop_bit 16 v)"
    and "(ucast (drop_bit 24 (v AND 0xFF000000)) :: u8) = ucast (drop_bit 24 v)"
  using byte_mask [of 0 v] byte_mask [of 8 v] byte_mask [of 16 v] byte_mask [of 24 v]
  by simp_all

lemma be32_bytes:
  fixes v :: u32
  shows "ucast (ucast v :: u8) OR push_bit 8 (ucast (ucast (drop_bit 8 v) :: u8))
      OR push_bit 16 (ucast (ucast (drop_bit 16 v) :: u8))
      OR push_bit 24 (ucast (ucast (drop_bit 24 v) :: u8)) = v"
proof (rule bit_word_eqI)
  fix k assume "k < LENGTH(32)"
  then consider "k < 8" | "8 \<le> k" "k < 16" | "16 \<le> k" "k < 24" | "24 \<le> k" "k < 32"
    by fastforce
  then show "bit ((ucast (ucast v :: u8) :: u32) OR push_bit 8 (ucast (ucast (drop_bit 8 v) :: u8))
      OR push_bit 16 (ucast (ucast (drop_bit 16 v) :: u8))
      OR push_bit 24 (ucast (ucast (drop_bit 24 v) :: u8))) k = bit v k"
    by cases (auto simp: bit_simps simp del: push_bit_numeral)
qed

lemma be16_bytes:
  fixes v :: u32
  shows "(ucast (ucast v :: u8) :: u16) OR push_bit 8 (ucast (ucast (drop_bit 8 v) :: u8)) = ucast v"
proof (rule bit_word_eqI)
  fix k assume "k < LENGTH(16)"
  then consider "k < 8" | "8 \<le> k" "k < 16"
    by fastforce
  then show "bit ((ucast (ucast v :: u8) :: u16)
      OR push_bit 8 (ucast (ucast (drop_bit 8 v) :: u8))) k = bit (ucast v :: u16) k"
    by cases (auto simp: bit_simps)
qed

text \<open>Reading a field back gives what was written; other data bytes are untouched.\<close>

lemma RPC_BE32_round_trip:
  "off + 4 \<le> length d \<Longrightarrow> RPC_GET_BE32 (RPC_SET_BE32 d off v) off = v"
  by (simp add: RPC_GET_BE32_def RPC_SET_BE32_def Let_def byte_masks be32_bytes)

lemma RPC_BE16_round_trip:
  "off + 2 \<le> length d \<Longrightarrow> RPC_GET_BE16 (RPC_SET_BE16 d off v) off = ucast v"
  by (simp add: RPC_GET_BE16_def RPC_SET_BE16_def Let_def byte_masks be16_bytes)

lemma RPC_SET_BE32_frame:
  "i < off \<or> off + 4 \<le> i \<Longrightarrow> RPC_SET_BE32 d off v ! i = d ! i"
  by (auto simp: RPC_SET_BE32_def Let_def nth_list_update_neq)

lemma RPC_SET_BE16_frame:
  "i < off \<or> off + 2 \<le> i \<Longrightarrow> RPC_SET_BE16 d off v ! i = d ! i"
  by (auto simp: RPC_SET_BE16_def Let_def nth_list_update_neq)

lemma length_RPC_SET [simp]:
  "length (RPC_SET_BE32 d off v) = length d" "length (RPC_SET_BE16 d off v) = length d"
  by (simp_all add: RPC_SET_BE32_def RPC_SET_BE16_def Let_def)

subsection \<open>The header\<close>

lemma bit_svc_masks:
  "bit (0x80 :: u8) n \<longleftrightarrow> n = 7" "bit (0x40 :: u8) n \<longleftrightarrow> n = 6" "bit (0x3F :: u8) n \<longleftrightarrow> n < 6"
  using bit_exp_iff [of 7 n, where ?'a = u8] bit_exp_iff [of 6 n, where ?'a = u8]
    bit_mask_iff [of 6 n, where ?'a = u8]
  by (auto simp: mask_eq_exp_minus_1)

lemma bit_C0: "bit (0xC0 :: u8) n \<longleftrightarrow> n = 6 \<or> n = 7"
proof -
  have "(0xC0 :: u8) = 0x80 OR 0x40" by simp
  then show ?thesis by (simp only: bit_or_iff bit_svc_masks) auto
qed

lemma svc_bits:
  fixes x i :: u8
  shows "(((x OR 0x80) OR 0x40) OR (0x3F AND i)) AND 0x3F = (x OR i) AND 0x3F"
    and "drop_bit 7 ((((x OR 0x80) OR 0x40) OR (0x3F AND i)) AND 0x80) = 1"
    and "drop_bit 6 ((((x OR 0x80) OR 0x40) OR (0x3F AND i)) AND 0x40) = 1"
  by (rule bit_word_eqI; auto simp only: bit_and_iff bit_or_iff bit_drop_bit_eq bit_svc_masks
      bit_1_iff o_apply; force)+

text \<open>
  \<open>RPC_SET_HEAD\<close> as the services call it: the service id is or-ed into the bits the
  message object already had.
\<close>

abbreviation ack_head :: "aon_rpc_msg_t \<Rightarrow> u8 \<Rightarrow> u8 \<Rightarrow> u8 \<Rightarrow> u8 \<Rightarrow> aon_rpc_msg_t" where
  "ack_head m sz sid fn err \<equiv>
     RPC_SET_HEAD m AON_RPC_VERSION sz RPC_SVC_MSG_TYPE_ACK RPC_SVC_MSG_NO_NEED_ACK sid fn err"

lemma ack_head_fields:
  "version (ack_head m sz sid fn err) = AON_RPC_VERSION"
  "msg_size (ack_head m sz sid fn err) = sz"
  "func (ack_head m sz sid fn err) = fn"
  "data (ack_head m sz sid fn err) = (data m)[0 := err]"
  "RPC_GET_SVC_FLAG_MSG_TYPE (ack_head m sz sid fn err) = RPC_SVC_MSG_TYPE_ACK"
  "RPC_GET_SVC_FLAG_ACK_TYPE (ack_head m sz sid fn err) = RPC_SVC_MSG_NO_NEED_ACK"
  "RPC_GET_SVC_ID (ack_head m sz sid fn err) = (svc m OR sid) AND 0x3F"
  by (simp_all add: rpc_defs RPC_SVC_MSG_TYPE_ACK_def RPC_SVC_MSG_NO_NEED_ACK_def svc_bits)

lemma svc_ack_head: "svc (ack_head m sz sid fn err) = (svc m OR 0xC0) OR (0x3F AND sid)"
proof -
  have "(svc m OR 0x80) OR 0x40 = svc m OR (0xC0 :: u8)" by (simp add: or.assoc)
  then show ?thesis by (simp add: rpc_defs RPC_SVC_MSG_TYPE_ACK_def RPC_SVC_MSG_NO_NEED_ACK_def)
qed

lemma svc_id_idem [simp]: "0x3F AND RPC_GET_SVC_ID m = RPC_GET_SVC_ID m"
  by (simp add: RPC_GET_SVC_ID_def and.left_commute)

lemma msg_ok_ack_head [simp]: "msg_ok (ack_head m sz sid fn err) = msg_ok m"
  by (simp add: msg_ok_def ack_head_fields)

lemma msg_ok_zero [simp]: "msg_ok zero_msg"
  by (simp add: msg_ok_def zero_msg_def AON_RPC_MAX_LEN_def)

end
