(* ===== verification/Ringbuffer.thy ===== *)
theory Ringbuffer
  imports Fifo_Spec
begin

text \<open>
  The byte ring buffer of \<^verbatim>\<open>csi/drivers/common/ringbuffer.c\<close>. The four \<^verbatim>\<open>uint32_t\<close> fields are
  natural numbers below \<open>2 ^ 32\<close>; sums are taken modulo \<open>2 ^ 32\<close> as the C code takes
  them. \<^verbatim>\<open>memcpy\<close> into the buffer is \<open>mem_write\<close>; the invariant is what keeps every copy
  inside the buffer.
\<close>

record ringbuffer_t =
  buffer :: "u8 list"
  rb_size :: nat
  rb_write :: nat
  rb_read :: nat
  data_len :: nat

definition mem_write :: "u8 list \<Rightarrow> nat \<Rightarrow> u8 list \<Rightarrow> u8 list" where
  "mem_write buf off xs = take off buf @ xs @ drop (off + length xs) buf"

definition mem_read :: "u8 list \<Rightarrow> nat \<Rightarrow> nat \<Rightarrow> u8 list" where
  "mem_read buf off n = take n (drop off buf)"

definition sub32 :: "nat \<Rightarrow> nat \<Rightarrow> nat" where
  "sub32 a b = (a + 2 ^ 32 - b) mod 2 ^ 32"

definition ringbuffer_reset :: "ringbuffer_t \<Rightarrow> ringbuffer_t" where
  "ringbuffer_reset fifo = fifo\<lparr>rb_write := 0, rb_read := 0, data_len := 0\<rparr>"

definition ringbuffer_len :: "ringbuffer_t \<Rightarrow> nat" where
  "ringbuffer_len fifo = data_len fifo"

definition ringbuffer_avail :: "ringbuffer_t \<Rightarrow> nat" where
  "ringbuffer_avail fifo = sub32 (rb_size fifo) (ringbuffer_len fifo)"

definition ringbuffer_is_empty :: "ringbuffer_t \<Rightarrow> bool" where
  "ringbuffer_is_empty fifo \<longleftrightarrow> ringbuffer_len fifo = 0"

definition ringbuffer_is_full :: "ringbuffer_t \<Rightarrow> bool" where
  "ringbuffer_is_full fifo \<longleftrightarrow> ringbuffer_avail fifo = 0"

text \<open>\<open>dat\<close> is the caller's block of exactly \<open>len\<close> bytes.\<close>

definition ringbuffer_in :: "u8 list \<Rightarrow> ringbuffer_t \<Rightarrow> nat \<times> ringbuffer_t" where
  "ringbuffer_in dat fifo =
     (if ringbuffer_is_full fifo then (0, fifo)
      else
        let len = length dat;
            tmplen = sub32 (rb_size fifo) (data_len fifo);
            writelen = (if tmplen > len then len else tmplen);
            buf =
              (if rb_write fifo < rb_read fifo
               then mem_write (buffer fifo) (rb_write fifo) (take writelen dat)
               else
                 let tmplen = sub32 (rb_size fifo) (rb_write fifo)
                 in if writelen \<le> tmplen
                    then mem_write (buffer fifo) (rb_write fifo) (take writelen dat)
                    else
                      let buf1 = mem_write (buffer fifo) (rb_write fifo) (take tmplen dat)
                      in mem_write buf1 0 (take (writelen - tmplen) (drop tmplen dat)))
        in (writelen,
            fifo\<lparr>buffer := buf,
              rb_write := ((rb_write fifo + writelen) mod 2 ^ 32) mod rb_size fifo,
              data_len := (data_len fifo + writelen) mod 2 ^ 32\<rparr>))"

text \<open>The output buffer is not NULL; the result is the bytes stored into it.\<close>

definition ringbuffer_out :: "nat \<Rightarrow> ringbuffer_t \<Rightarrow> u8 list \<times> ringbuffer_t" where
  "ringbuffer_out len fifo =
     (if ringbuffer_is_empty fifo then ([], fifo)
      else
        let readlen = (if len > data_len fifo then data_len fifo else len);
            tmplen = sub32 (rb_size fifo) (rb_read fifo);
            out =
              (if readlen \<le> tmplen then mem_read (buffer fifo) (rb_read fifo) readlen
               else mem_read (buffer fifo) (rb_read fifo) tmplen
                 @ mem_read (buffer fifo) 0 (readlen - tmplen))
        in (out,
            fifo\<lparr>rb_read := ((rb_read fifo + readlen) mod 2 ^ 32) mod rb_size fifo,
              data_len := sub32 (data_len fifo) readlen\<rparr>))"

subsection \<open>The buffer as a list of bytes\<close>

definition rb_ok :: "ringbuffer_t \<Rightarrow> bool" where
  "rb_ok fifo \<longleftrightarrow> length (buffer fifo) = rb_size fifo \<and> 0 < rb_size fifo \<and> rb_size fifo \<le> 2 ^ 31
     \<and> rb_read fifo < rb_size fifo \<and> data_len fifo \<le> rb_size fifo
     \<and> rb_write fifo = (rb_read fifo + data_len fifo) mod rb_size fifo"

definition rb_list :: "ringbuffer_t \<Rightarrow> u8 list" where
  "rb_list fifo = map (\<lambda>i. buffer fifo ! ((rb_read fifo + i) mod rb_size fifo)) [0..<data_len fifo]"

lemma length_rb_list [simp]: "length (rb_list fifo) = data_len fifo"
  by (simp add: rb_list_def)

lemma sub32_eq: "b \<le> a \<Longrightarrow> a < 2 ^ 32 \<Longrightarrow> sub32 a b = a - b"
  unfolding sub32_def by (metis Nat.add_diff_assoc2 add.commute le_add_diff_inverse2 mod_add_self2 mod_less less_imp_diff_less)

lemma length_mem_write: "off + length xs \<le> length buf \<Longrightarrow> length (mem_write buf off xs) = length buf"
  by (simp add: mem_write_def)

lemma nth_mem_write:
  "off + length xs \<le> length buf \<Longrightarrow> i < length buf \<Longrightarrow>
   mem_write buf off xs ! i = (if off \<le> i \<and> i < off + length xs then xs ! (i - off) else buf ! i)"
  by (auto simp: mem_write_def nth_append min_def)

text \<open>Position of the ring index relative to the write pointer.\<close>

lemma ring_write_index:
  assumes "rb_ok fifo"
  shows "rb_write fifo = (if rb_read fifo + data_len fifo < rb_size fifo
     then rb_read fifo + data_len fifo else rb_read fifo + data_len fifo - rb_size fifo)"
  using assms by (auto simp: rb_ok_def mod_if)

text \<open>A block written around the end of the buffer.\<close>

definition ring_put :: "u8 list \<Rightarrow> nat \<Rightarrow> u8 list \<Rightarrow> u8 list" where
  "ring_put buf w xs =
     (let room = length buf - w
      in if length xs \<le> room then mem_write buf w xs
         else mem_write (mem_write buf w (take room xs)) 0 (drop room xs))"

lemma length_ring_put:
  "w < length buf \<Longrightarrow> length xs \<le> length buf \<Longrightarrow> length (ring_put buf w xs) = length buf"
  by (simp add: ring_put_def Let_def length_mem_write)

lemma nth_ring_put_new:
  assumes "w < length buf" "length xs \<le> length buf" "k < length xs"
  shows "ring_put buf w xs ! ((w + k) mod length buf) = xs ! k"
proof (cases "w + k < length buf")
  case True
  with assms show ?thesis
    by (auto simp: ring_put_def Let_def nth_mem_write length_mem_write)
next
  case False
  then have "(w + k) mod length buf = w + k - length buf"
    using assms by (simp add: mod_if)
  with assms False show ?thesis
    by (auto simp: ring_put_def Let_def nth_mem_write length_mem_write add.commute)
qed

lemma nth_ring_put_old:
  assumes "w < length buf" "length xs \<le> length buf" "i < length buf"
    and "\<And>k. k < length xs \<Longrightarrow> (w + k) mod length buf \<noteq> i"
  shows "ring_put buf w xs ! i = buf ! i"
proof -
  have "w \<le> i \<Longrightarrow> w + length xs \<le> i"
    using assms(4) [of "i - w"] assms(3) by force
  moreover have "i < w \<Longrightarrow> length xs \<le> i + length buf - w"
    using assms(4) [of "i + length buf - w"] assms(1,3) by force
  ultimately show ?thesis
    using assms(1-3) by (auto simp: ring_put_def Let_def nth_mem_write length_mem_write)
qed

lemma ring_index_neq:
  assumes "r < n" "d + len \<le> (n::nat)" "i < d" "k < len"
  shows "((r + d) mod n + k) mod n \<noteq> (r + i) mod n"
proof -
  have "((r + d) mod n + k) mod n = (r + (d + k)) mod n"
    by (simp add: mod_simps add.assoc)
  moreover have "(r + (d + k)) mod n \<noteq> (r + i) mod n"
    using assms by (auto simp: mod_if)
  ultimately show ?thesis by simp
qed

lemma ringbuffer_in_eq:
  assumes ok: "rb_ok fifo" and room: "data_len fifo < rb_size fifo"
  shows "ringbuffer_in dat fifo =
    (let n = min (length dat) (rb_size fifo - data_len fifo)
     in (n, fifo\<lparr>buffer := ring_put (buffer fifo) (rb_write fifo) (take n dat),
           rb_write := (rb_write fifo + n) mod rb_size fifo, data_len := data_len fifo + n\<rparr>))"
proof -
  let ?n = "min (length dat) (rb_size fifo - data_len fifo)"
  have b: "rb_size fifo < 2 ^ 32" "data_len fifo \<le> rb_size fifo" "rb_write fifo < rb_size fifo"
    "length (buffer fifo) = rb_size fifo"
    using ok by (auto simp: rb_ok_def)
  have sub: "sub32 (rb_size fifo) (data_len fifo) = rb_size fifo - data_len fifo"
    "sub32 (rb_size fifo) (rb_write fifo) = rb_size fifo - rb_write fifo"
    using b by (simp_all add: sub32_eq)
  have notfull: "\<not> ringbuffer_is_full fifo"
    using room by (simp add: ringbuffer_is_full_def ringbuffer_avail_def ringbuffer_len_def sub)
  have bound: "rb_size fifo \<le> 2 ^ 31" "?n \<le> rb_size fifo" using ok by (auto simp: rb_ok_def)
  have two: "(2::nat) ^ 32 = 2 ^ 31 + 2 ^ 31" by simp
  have "rb_write fifo + ?n < 2 ^ 32" using bound b(3) unfolding two by linarith
  moreover have "data_len fifo + ?n < 2 ^ 32" using bound room unfolding two by linarith
  ultimately have small: "(rb_write fifo + ?n) mod 2 ^ 32 = rb_write fifo + ?n"
    "(data_len fifo + ?n) mod 2 ^ 32 = data_len fifo + ?n"
    by (simp_all only: mod_less)
  have fits: "rb_write fifo < rb_read fifo \<Longrightarrow> ?n \<le> rb_size fifo - rb_write fifo"
    using ok ring_write_index [OF ok] by (auto simp: rb_ok_def split: if_splits)
  have wl: "(if rb_size fifo - data_len fifo > length dat then length dat
      else rb_size fifo - data_len fifo) = ?n" by auto
  show ?thesis
    unfolding ringbuffer_in_def Let_def sub wl small
    using notfull fits b(4)
    by (auto simp: ring_put_def Let_def take_drop min_def)
qed

lemma ringbuffer_in_copies:
  assumes ok: "rb_ok fifo" and room: "data_len fifo < rb_size fifo"
  shows "\<exists>fifo'. ringbuffer_in dat fifo = (min (length dat) (rb_size fifo - data_len fifo), fifo')
    \<and> rb_ok fifo' \<and> rb_list fifo' = rb_list fifo @ take (rb_size fifo - data_len fifo) dat
    \<and> rb_size fifo' = rb_size fifo"
proof -
  let ?n = "min (length dat) (rb_size fifo - data_len fifo)"
  let ?xs = "take ?n dat"
  let ?buf = "ring_put (buffer fifo) (rb_write fifo) ?xs"
  let ?f = "fifo\<lparr>buffer := ?buf, rb_write := (rb_write fifo + ?n) mod rb_size fifo,
    data_len := data_len fifo + ?n\<rparr>"
  have e: "ringbuffer_in dat fifo = (?n, ?f)"
    by (simp add: ringbuffer_in_eq [OF ok room] Let_def)
  have b: "rb_read fifo < rb_size fifo" "rb_write fifo < rb_size fifo"
    "length (buffer fifo) = rb_size fifo" "0 < rb_size fifo" "data_len fifo + ?n \<le> rb_size fifo"
    "rb_write fifo = (rb_read fifo + data_len fifo) mod rb_size fifo"
    using ok room by (auto simp: rb_ok_def)
  have len: "length ?xs = ?n" by simp
  have ok': "rb_ok ?f"
    using ok b len length_ring_put [of "rb_write fifo" "buffer fifo" ?xs]
    by (simp add: rb_ok_def mod_simps add.assoc)
  have old: "?buf ! ((rb_read fifo + i) mod rb_size fifo)
      = buffer fifo ! ((rb_read fifo + i) mod rb_size fifo)" if "i < data_len fifo" for i
    using nth_ring_put_old [of "rb_write fifo" "buffer fifo" ?xs "(rb_read fifo + i) mod rb_size fifo"]
      ring_index_neq [OF b(1,5) that] b len by simp
  have new: "?buf ! ((rb_read fifo + (data_len fifo + k)) mod rb_size fifo) = dat ! k"
    if "k < ?n" for k
  proof -
    have "(rb_read fifo + (data_len fifo + k)) mod rb_size fifo = (rb_write fifo + k) mod rb_size fifo"
      by (simp add: b(6) mod_simps add.assoc)
    then show ?thesis
      using nth_ring_put_new [of "rb_write fifo" "buffer fifo" ?xs k] b that by simp
  qed
  have "rb_list ?f = rb_list fifo @ take (rb_size fifo - data_len fifo) dat"
  proof (rule nth_equalityI)
    show "length (rb_list ?f) = length (rb_list fifo @ take (rb_size fifo - data_len fifo) dat)"
      by simp
  next
    fix i assume "i < length (rb_list ?f)"
    then have i: "i < data_len fifo + ?n" by simp
    then have nth: "rb_list ?f ! i = ?buf ! ((rb_read fifo + i) mod rb_size fifo)"
      by (simp add: rb_list_def)
    show "rb_list ?f ! i = (rb_list fifo @ take (rb_size fifo - data_len fifo) dat) ! i"
    proof (cases "i < data_len fifo")
      case True
      with old [of i] show ?thesis unfolding nth by (simp add: rb_list_def nth_append)
    next
      case False
      then have "i - data_len fifo < ?n" "data_len fifo + (i - data_len fifo) = i"
        using i by linarith+
      with new [of "i - data_len fifo"] False show ?thesis
        unfolding nth by (simp add: nth_append)
    qed
  qed
  with e ok' show ?thesis by auto
qed

lemma ringbuffer_out_eq:
  assumes ok: "rb_ok fifo" and ne: "0 < data_len fifo"
  shows "ringbuffer_out len fifo =
    (take len (rb_list fifo),
     fifo\<lparr>rb_read := (rb_read fifo + min len (data_len fifo)) mod rb_size fifo,
       data_len := data_len fifo - min len (data_len fifo)\<rparr>)"
proof -
  let ?n = "min len (data_len fifo)"
  have b: "rb_read fifo < rb_size fifo" "length (buffer fifo) = rb_size fifo"
    "data_len fifo \<le> rb_size fifo" "rb_size fifo \<le> 2 ^ 31"
    using ok by (auto simp: rb_ok_def)
  have sub: "sub32 (rb_size fifo) (rb_read fifo) = rb_size fifo - rb_read fifo"
    "sub32 (data_len fifo) ?n = data_len fifo - ?n"
    using b by (simp_all add: sub32_eq)
  have "rb_read fifo + ?n < 2 ^ 32"
    using b by simp
  then have small: "(rb_read fifo + ?n) mod 2 ^ 32 = rb_read fifo + ?n"
    by (simp only: mod_less)
  have out: "(if ?n \<le> rb_size fifo - rb_read fifo then mem_read (buffer fifo) (rb_read fifo) ?n
      else mem_read (buffer fifo) (rb_read fifo) (rb_size fifo - rb_read fifo)
        @ mem_read (buffer fifo) 0 (?n - (rb_size fifo - rb_read fifo))) = take len (rb_list fifo)"
    (is "?out = _")
  proof (rule nth_equalityI)
    show "length ?out = length (take len (rb_list fifo))"
      using b by (auto simp: mem_read_def)
  next
    fix i assume i: "i < length ?out"
    then have "i < ?n" using b by (auto simp: mem_read_def split: if_splits)
    then show "?out ! i = take len (rb_list fifo) ! i"
      using b by (auto simp: mem_read_def rb_list_def nth_append mod_if add.commute)
  qed
  have rl: "(if len > data_len fifo then data_len fifo else len) = ?n" by auto
  show ?thesis
    unfolding ringbuffer_out_def Let_def rl sub small out
    using ne by (simp add: ringbuffer_is_empty_def ringbuffer_len_def)
qed

lemma ringbuffer_out_copies:
  assumes ok: "rb_ok fifo"
  shows "\<exists>fifo'. ringbuffer_out len fifo = (take len (rb_list fifo), fifo') \<and> rb_ok fifo'
    \<and> rb_list fifo' = drop len (rb_list fifo) \<and> rb_size fifo' = rb_size fifo"
proof (cases "data_len fifo = 0")
  case True
  then show ?thesis
    using ok by (simp add: ringbuffer_out_def ringbuffer_is_empty_def ringbuffer_len_def rb_list_def)
next
  case False
  let ?n = "min len (data_len fifo)"
  let ?f = "fifo\<lparr>rb_read := (rb_read fifo + ?n) mod rb_size fifo, data_len := data_len fifo - ?n\<rparr>"
  have e: "ringbuffer_out len fifo = (take len (rb_list fifo), ?f)"
    using False by (simp add: ringbuffer_out_eq [OF ok])
  have "((rb_read fifo + ?n) mod rb_size fifo + (data_len fifo - ?n)) mod rb_size fifo
      = (rb_read fifo + data_len fifo) mod rb_size fifo"
    using mod_add_left_eq [of "rb_read fifo + ?n" "rb_size fifo" "data_len fifo - ?n"] by simp
  then have ok': "rb_ok ?f"
    using ok by (auto simp: rb_ok_def)
  have "rb_list ?f = drop len (rb_list fifo)"
    by (rule nth_equalityI) (auto simp: rb_list_def mod_simps add.assoc min_def)
  with e ok' show ?thesis by auto
qed

interpretation rb: byte_fifo rb_ok rb_list rb_size ringbuffer_in ringbuffer_out
proof (unfold_locales, goal_cases)
  case (1 q xs)
  then show ?case
    using ringbuffer_in_copies [of q xs]
    by (cases "data_len q = rb_size q")
      (auto simp: rb_ok_def ringbuffer_in_def ringbuffer_is_full_def ringbuffer_avail_def
        ringbuffer_len_def sub32_def)
next
  case (2 q xs)
  then show ?case
    by (simp add: ringbuffer_in_def ringbuffer_is_full_def ringbuffer_avail_def ringbuffer_len_def
        sub32_def)
next
  case (3 q n)
  then show ?case by (rule ringbuffer_out_copies)
next
  case (4 q n)
  then have "data_len q = 0" using length_rb_list [of q] by simp
  then show ?case by (simp add: ringbuffer_out_def ringbuffer_is_empty_def ringbuffer_len_def)
qed (auto simp: rb_ok_def)

subsection \<open>Properties\<close>

text \<open>
  C23: a block written into a well-formed ring buffer is appended as far as it fits, the
  return value is the number of bytes copied, and a later read of \<open>n\<close> bytes returns the
  oldest bytes first, across the end of the buffer.
\<close>

theorem ringbuffer_in_out:
  assumes "rb_ok fifo" and "length dat \<le> rb_size fifo"
  shows "\<exists>k fifo1 fifo2. ringbuffer_in dat fifo = (k, fifo1)
    \<and> k = min (length dat) (rb_size fifo - data_len fifo)
    \<and> ringbuffer_out n fifo1 = (take n (rb_list fifo @ take k dat), fifo2)
    \<and> rb_list fifo2 = drop n (rb_list fifo @ take k dat) \<and> rb_ok fifo2"
proof -
  obtain fifo1 where 1: "ringbuffer_in dat fifo = (min (length dat) (rb_size fifo - data_len fifo), fifo1)"
    "rb_ok fifo1" "rb_list fifo1 = rb_list fifo @ take (rb_size fifo - data_len fifo) dat"
    using rb.put_copies [OF assms] by auto
  obtain fifo2 where 2: "ringbuffer_out n fifo1 = (take n (rb_list fifo1), fifo2)" "rb_ok fifo2"
    "rb_list fifo2 = drop n (rb_list fifo1)"
    using rb.get_copies [OF 1(2)] by blast
  have "take (rb_size fifo - data_len fifo) dat = take (min (length dat) (rb_size fifo - data_len fifo)) dat"
    by (simp add: min_def)
  with 1 2 show ?thesis by auto
qed

theorem ringbuffer_in_out_witness:
  "\<exists>k fifo1 fifo2. ringbuffer_in [4, 5, 6] \<lparr>buffer = [1, 0, 2], rb_size = 3, rb_write = Suc 0, rb_read = 2, data_len = 2\<rparr> = (k, fifo1)
    \<and> k = 1 \<and> ringbuffer_out 3 fifo1 = ([2, 1, 4], fifo2)"
proof -
  let ?f = "\<lparr>buffer = [1, 0, 2], rb_size = 3, rb_write = 1, rb_read = 2, data_len = 2\<rparr> :: ringbuffer_t"
  have ok: "rb_ok ?f" by (simp add: rb_ok_def)
  have l: "length [4, 5, 6 :: u8] \<le> rb_size ?f" by simp
  have "rb_list ?f = [2, 1]" by (simp add: rb_list_def upt_rec)
  then show ?thesis using ringbuffer_in_out [OF ok l, of 3] by fastforce
qed



end
