(* ===== verification/Pmic_Types.thy ===== *)
theory Pmic_Types
  imports Aon_Base
begin

text \<open>
  The data of the PMIC subsystem: the packed configuration structures of
  \<^verbatim>\<open>csi/csi/include/drv/pmic.h\<close>, the regulator tables of the three chip drivers of the build
  (\<^verbatim>\<open>da9063.c\<close>, \<^verbatim>\<open>da9121.c\<close>, \<^verbatim>\<open>slg51000.c\<close>), the state behind a \<^verbatim>\<open>csi_pmic_t\<close> handle, and the
  lookup functions of \<^verbatim>\<open>pmic.c\<close> every operation starts with.

  The I2C controller and GPIO drivers below \<^verbatim>\<open>pmic.c\<close> and the chips behind them are the
  hardware state \<open>'w\<close> and the handles \<open>iic_if\<close> and \<open>gpio_if\<close>: the calls
  \<^verbatim>\<open>pmic.c\<close> makes, as functions of the hardware state. A \<^verbatim>\<open>csi_pmic_dev_t *\<close> is an index into
  \<^verbatim>\<open>pmic_devs\<close>, a \<^verbatim>\<open>csi_regu_id_t *\<close> an index into \<^verbatim>\<open>regu_list\<close>; a pointer to a driver's table is
  the driver's name. A device's \<^verbatim>\<open>dev_info\<close>, which only that device points to, is stored in
  the device.
\<close>

subsection \<open>Constants\<close>

definition PMIC_ID_INVALID :: u8 where "PMIC_ID_INVALID = 0xff"
definition HW_ID_NO_SOFT_AUTO_ON :: u8 where "HW_ID_NO_SOFT_AUTO_ON = 0xff"
definition HW_ID_NO_SOFT_AUTO_OFF :: u8 where "HW_ID_NO_SOFT_AUTO_OFF = 0xff"
definition HW_ID_ACTIVATE_HIGH :: u8 where "HW_ID_ACTIVATE_HIGH = 0"
definition PMIC_MAX_HW_ID_NUM :: nat where "PMIC_MAX_HW_ID_NUM = 3"
definition PMIC_MAX_COUPLING_LIST_NUM :: nat where "PMIC_MAX_COUPLING_LIST_NUM = 3"
definition CONFIG_MAX_PMIC_NUM :: nat where "CONFIG_MAX_PMIC_NUM = 10"
definition CONFIG_MAX_REGU_EXT_NUM :: nat where "CONFIG_MAX_REGU_EXT_NUM = 30"

definition PMIC_DRV_SUPPORT_WDT :: u16 where "PMIC_DRV_SUPPORT_WDT = 1"
definition PMIC_DRV_SUPPORT_AUTO_REBOOT :: u16 where "PMIC_DRV_SUPPORT_AUTO_REBOOT = 8"

definition PMIC_DEV_ENABLE_WDT :: u8 where "PMIC_DEV_ENABLE_WDT = 1"
definition PMIC_DEV_ENABLE_ERR_IO :: u8 where "PMIC_DEV_ENABLE_ERR_IO = 2"
definition PMIC_DEV_ENABLE_LPM_IO :: u8 where "PMIC_DEV_ENABLE_LPM_IO = 4"
definition PMIC_DEV_ENABLE_AUTO_REBOOT :: u8 where "PMIC_DEV_ENABLE_AUTO_REBOOT = 8"

definition PMIC_CTRL_BY_AON_GPIO :: u8 where "PMIC_CTRL_BY_AON_GPIO = 0"
definition PMIC_CTRL_BY_PMIC_GPIO :: u8 where "PMIC_CTRL_BY_PMIC_GPIO = 1"
definition PMIC_CTRL_BY_NOTHINTG :: u8 where "PMIC_CTRL_BY_NOTHINTG = 0xFF"

datatype csi_pmic_dev_status_en =
    CSI_STATUS_PMIC_DEV_NOT_INIT | CSI_STATUS_PMIC_DEV_INIT_FAILD
  | CSI_STATUS_PMIC_DEV_UNINIT_FAILD | CSI_STATUS_PMIC_DEV_OK
  | CSI_STATUS_PMIC_DEV_OV | CSI_STATUS_PMIC_DEV_UV | CSI_STATUS_PMIC_DEV_OC | CSI_STATUS_PMIC_DEV_OT

datatype csi_pmic_status_en =
    CSI_STATUS_PMIC_NOT_INIT | CSI_STATUS_PMIC_OK | CSI_STATUS_PMIC_DEV_REG_ERR
  | CSI_STATUS_PMIC_REGU_REG_ERR | CSI_STATUS_PMIC_SOFT_POWER_CTRL_ERR
  | CSI_STATUS_PMIC_IIC_CONFIG_ERR | CSI_STATUS_PMIC_IIC_ERR

datatype pmic_buck_mode = SYNC | SLEEP | AUTO

subsection \<open>Configuration structures\<close>

record pmic_parent_hw_io_ctrl_info_t =
  pa_pmic_id :: u8
  pa_io_hw_id :: u8
  pa_activate_status :: u8

record regu_soft_power_ctrl_t =
  on_order :: u8
  on_delay_ms :: u8
  init_target_uv :: u32
  off_order :: u8
  off_delay_ms :: u8

text \<open>The spreads are \<^verbatim>\<open>int8_t\<close>: two's complement bytes, in units of 10 mV.\<close>

record coupling_desc_t =
  id0 :: u8
  id1 :: u8
  max_spread :: u8
  min_spread :: u8

record pmic_hw_info_t =
  pmic_id :: u8
  hw_id :: u8
  benable :: u8
  parent_hw_info :: pmic_parent_hw_io_ctrl_info_t
  soft_power_ctrl_info :: regu_soft_power_ctrl_t

record csi_regu_id_t =
  regu_ext_id :: u8
  coupling_list :: "coupling_desc_t list"
  sub_id :: "pmic_hw_info_t list"

text \<open>
  \<^verbatim>\<open>pmic_parent_ctrl_info_t\<close> holds a union of two three-byte structures; the bytes are kept
  and read through either member.
\<close>

record pmic_parent_ctrl_info_t =
  pmic_ctrl_type :: u8
  ctrl_b0 :: u8
  ctrl_b1 :: u8
  ctrl_b2 :: u8

record pmic_interrupt_io_info_t =
  io_gpio_port :: u8
  io_pin :: u8
  trigger_mode :: u8

record pmic_dev_info_t =
  device_name :: string
  version_name :: string
  dev_pmic_id :: u8
  addr1 :: u8
  addr2 :: u8
  flag :: u8
  slew_rate :: u8
  wdt_len :: u32
  err_io_info :: pmic_interrupt_io_info_t
  lpm_io_info :: pmic_interrupt_io_info_t
  ctrl_info :: pmic_parent_ctrl_info_t

record regu_voltage_param_t =
  rv_regu_ext_id :: u8
  target_uv :: "u32 list"

subsection \<open>Regulator tables of the chip drivers\<close>

record csi_regu_t =
  rid :: u8
  initial_benable :: u8
  vreg :: u32
  vmask :: u32
  vconf :: u32
  ereg :: u32
  emask :: u32
  linear_min_sel :: u32
  min_uv :: u32
  max_uv :: u32
  step_uv :: u32

definition DA_9063_REG_DVC :: "u8 \<Rightarrow> u32 \<Rightarrow> u32 \<Rightarrow> u32 \<Rightarrow> u8 \<Rightarrow> u32 \<Rightarrow> u32 \<Rightarrow> u32 \<Rightarrow> csi_regu_t" where
  "DA_9063_REG_DVC i mn mx st en cont va cfg =
     \<lparr>rid = i, initial_benable = en, vreg = va, vmask = 0x7F, vconf = cfg, ereg = cont,
      emask = 1, linear_min_sel = 0, min_uv = mn, max_uv = mx, step_uv = st\<rparr>"

definition DA_9063_REG_LDO ::
  "u8 \<Rightarrow> u32 \<Rightarrow> u32 \<Rightarrow> u32 \<Rightarrow> u8 \<Rightarrow> u32 \<Rightarrow> u32 \<Rightarrow> u32 \<Rightarrow> u32 \<Rightarrow> csi_regu_t" where
  "DA_9063_REG_LDO i mn mx st en va vm cont bias =
     \<lparr>rid = i, initial_benable = en, vreg = va, vmask = vm, vconf = 0, ereg = cont,
      emask = 1, linear_min_sel = bias, min_uv = mn, max_uv = mx, step_uv = st\<rparr>"

definition DA_9063_REG_GPIO :: "u8 \<Rightarrow> nat \<Rightarrow> u8 \<Rightarrow> csi_regu_t" where
  "DA_9063_REG_GPIO i n en =
     \<lparr>rid = i, initial_benable = en, vreg = 0, vmask = 0, vconf = 0, ereg = 0x1D,
      emask = push_bit n 1, linear_min_sel = 0, min_uv = 0, max_uv = 0, step_uv = 0\<rparr>"

definition da9063_regulator_info :: "csi_regu_t list" where
  "da9063_regulator_info =
     [DA_9063_REG_DVC 0 300000 1570000 10000 1 0x21 0xA4 0x9E,
      DA_9063_REG_DVC 1 300000 1570000 10000 1 0x20 0xA3 0x9D,
      DA_9063_REG_DVC 2 530000 1800000 10000 1 0x22 0xA5 0x9F,
      DA_9063_REG_DVC 3 800000 3340000 20000 1 0x23 0xA6 0xA1,
      DA_9063_REG_DVC 4 800000 3340000 20000 1 0x24 0xA7 0xA0,
      DA_9063_REG_DVC 5 800000 3340000 20000 1 0x25 0xA8 0xA2,
      DA_9063_REG_LDO 6 600000 1860000 20000 1 0xA9 0x3F 0x26 0,
      DA_9063_REG_LDO 7 600000 1860000 20000 1 0xAA 0x3F 0x27 0,
      DA_9063_REG_LDO 8 900000 3440000 20000 1 0xAB 0x7F 0x28 0,
      DA_9063_REG_LDO 9 600000 1860000 20000 1 0xAC 0x7F 0x29 0,
      DA_9063_REG_LDO 10 900000 3600000 50000 1 0xAD 0x3F 0x2A 2,
      DA_9063_REG_LDO 14 900000 3600000 50000 1 0xAE 0x3F 0x2B 2,
      DA_9063_REG_LDO 15 900000 3600000 50000 1 0xAF 0x3F 0x2C 2,
      DA_9063_REG_LDO 16 900000 3600000 50000 1 0xB0 0x3F 0x2D 2,
      DA_9063_REG_LDO 11 900000 3600000 50000 1 0xB1 0x3F 0x2E 3,
      DA_9063_REG_LDO 12 900000 3600000 50000 1 0xB2 0x3F 0x2F 2,
      DA_9063_REG_LDO 13 900000 3600000 50000 1 0xB3 0x3F 0x30 2,
      DA_9063_REG_GPIO 17 4 0,
      DA_9063_REG_GPIO 18 7 1]"

definition da9121_regulator_info :: "csi_regu_t list" where
  "da9121_regulator_info =
     [\<lparr>rid = 0, initial_benable = 1, vreg = 0x25, vmask = 0x7F, vconf = 0, ereg = 0x20,
       emask = 1, linear_min_sel = 0x1e, min_uv = 300000, max_uv = 1900000, step_uv = 10000\<rparr>]"

definition SLG51000_LDO :: "nat \<Rightarrow> u32 \<Rightarrow> u32 \<Rightarrow> u32 \<Rightarrow> u8 \<Rightarrow> u32 \<Rightarrow> csi_regu_t" where
  "SLG51000_LDO n mn mx st en vsel =
     \<lparr>rid = of_nat (n - 1), initial_benable = en, vreg = vsel, vmask = 0xFF, vconf = 0,
      ereg = 0x110d, emask = push_bit (n - 1) 1, linear_min_sel = 0,
      min_uv = mn, max_uv = mx, step_uv = st\<rparr>"

definition slg51000_regulator_info :: "csi_regu_t list" where
  "slg51000_regulator_info =
     [SLG51000_LDO 1 2200000 3475000 5000 0 0x2000,
      SLG51000_LDO 2 2200000 3475000 5000 0 0x2200,
      SLG51000_LDO 3 1200000 3600000 10000 1 0x2300,
      SLG51000_LDO 4 1200000 3600000 10000 0 0x2500,
      SLG51000_LDO 5 400000 1675000 5000 0 0x2700,
      SLG51000_LDO 6 400000 1675000 5000 0 0x2900,
      SLG51000_LDO 7 1200000 3600000 10000 0 0x3100]"

text \<open>The drivers of \<^verbatim>\<open>support_drv\<close> in the build configuration \<^verbatim>\<open>light_aon_defconfig\<close>.\<close>

datatype drv = DA9063 | DA9121 | SLG51000

fun drv_regu_info :: "drv \<Rightarrow> csi_regu_t list" where
  "drv_regu_info DA9063 = da9063_regulator_info"
| "drv_regu_info DA9121 = da9121_regulator_info"
| "drv_regu_info SLG51000 = slg51000_regulator_info"

subsection \<open>The handle and what is behind it\<close>

record 'w iic_if =
  iic_init :: "u8 \<Rightarrow> ('w, unit) act"
  iic_uninit :: "'w \<Rightarrow> 'w"
  iic_mode_master :: "('w, unit) act"
  iic_addr_mode :: "u8 \<Rightarrow> ('w, unit) act"
  iic_speed :: "u8 \<Rightarrow> ('w, unit) act"
  iic_master_send :: "u16 \<Rightarrow> u8 list \<Rightarrow> 'w \<Rightarrow> int \<times> 'w"
  iic_master_receive :: "u16 \<Rightarrow> nat \<Rightarrow> 'w \<Rightarrow> (int \<times> u8 list) \<times> 'w"
  iic_mem_receive :: "u16 \<Rightarrow> u32 \<Rightarrow> bool \<Rightarrow> nat \<Rightarrow> 'w \<Rightarrow> (int \<times> u8 list) \<times> 'w"

record 'w gpio_if =
  gpio_init :: "u32 \<Rightarrow> ('w, unit) act"
  gpio_dir_input :: "u32 \<Rightarrow> ('w, unit) act"
  gpio_dir_output :: "u32 \<Rightarrow> ('w, unit) act"
  gpio_irq_mode :: "u32 \<Rightarrow> u8 \<Rightarrow> ('w, unit) act"
  gpio_irq_enable :: "u32 \<Rightarrow> bool \<Rightarrow> ('w, unit) act"
  gpio_attach_callback :: "('w, unit) act"
  gpio_write :: "u32 \<Rightarrow> bool \<Rightarrow> 'w \<Rightarrow> 'w"
  gpio_read :: "u32 \<Rightarrow> 'w \<Rightarrow> u32"

record csi_pmic_dev_t =
  dev_info :: pmic_dev_info_t
  drv_data :: "drv option"
  is_fault :: u8
  dev_status :: csi_pmic_dev_status_en

text \<open>
  The fields of \<^verbatim>\<open>csi_pmic_t\<close>, the device array \<^verbatim>\<open>pmic_devs\<close> its \<^verbatim>\<open>dev_list\<close> points to, the
  static \<^verbatim>\<open>powerupflag\<close> of \<^verbatim>\<open>da9063.c\<close>, and the hardware. \<open>pmic_read_reg\<close> and
  \<open>pmic_write_reg\<close> tell whether the method pointer is set (to \<^verbatim>\<open>iic_read_reg\<close> and
  \<^verbatim>\<open>iic_write_reg\<close>) or NULL; \<open>drv_addr\<close> is the link-time address of a driver's
  \<^verbatim>\<open>csi_pmic_drv_data\<close>.
\<close>

record 'w csi_pmic_t =
  pmic_status :: csi_pmic_status_en
  if_dev :: "'w iic_if"
  pmic_csi_gpio :: "'w gpio_if"
  dev_num :: u8
  pmic_devs :: "csi_pmic_dev_t list"
  regu_num :: u8
  regu_list :: "csi_regu_id_t list"
  hw_wdt_pmic_id :: u8
  wdt_ops :: "drv option"
  pmic_read_reg :: bool
  pmic_write_reg :: bool
  powerupflag :: u32
  drv_addr :: "drv \<Rightarrow> u32"
  hw :: 'w

type_synonym ('w, 'a) pact = "('w csi_pmic_t, 'a) act"

text \<open>A call into the I2C or GPIO driver: it changes the hardware part of the state only.\<close>

definition hw_act :: "('w csi_pmic_t \<Rightarrow> ('w, 'a) act) \<Rightarrow> ('w, 'a) pact" where
  "hw_act f s = (let (r, w) = f s (hw s) in (r, s\<lparr>hw := w\<rparr>))"

definition upd_dev :: "nat \<Rightarrow> (csi_pmic_dev_t \<Rightarrow> csi_pmic_dev_t) \<Rightarrow> ('w, unit) pact" where
  "upd_dev k f s =
     (if k < length (pmic_devs s)
      then (Ok (), s\<lparr>pmic_devs := (pmic_devs s)[k := f (pmic_devs s ! k)]\<rparr>) else (Ub, s))"

definition get_dev :: "nat \<Rightarrow> ('w, csi_pmic_dev_t) pact" where
  "get_dev k s = arr_get (pmic_devs s) k s"

definition dev_drv :: "nat \<Rightarrow> ('w, drv) pact" where
  "dev_drv k = bind_res (get_dev k) (\<lambda>d. deref (drv_data d))"

declare hw_act_def [act_defs] upd_dev_def [act_defs] get_dev_def [act_defs] dev_drv_def [act_defs]

subsection \<open>Lookups of \<^verbatim>\<open>pmic.c\<close>\<close>

definition pmic_get_id_info :: "u32 \<Rightarrow> ('w, nat) pact" where
  "pmic_get_id_info ext s =
     (case List.find (\<lambda>i. ucast (regu_ext_id (regu_list s ! i)) = ext) [0..<unat (regu_num s)] of
        Some i \<Rightarrow> (Ok i, s)
      | None \<Rightarrow> (Err CSI_ERROR, s))"

definition find_regu :: "csi_regu_t list \<Rightarrow> u32 \<Rightarrow> csi_regu_t option" where
  "find_regu tab r = List.find (\<lambda>g. r = ucast (rid g)) tab"

definition pmic_get_regu_info :: "nat \<Rightarrow> u32 \<Rightarrow> ('w, csi_regu_t) pact" where
  "pmic_get_regu_info k r =
     bind_res (dev_drv k) (\<lambda>d.
       case find_regu (drv_regu_info d) r of Some g \<Rightarrow> ret g | None \<Rightarrow> fail CSI_UNSUPPORTED)"

definition hw_valid :: "pmic_hw_info_t \<Rightarrow> bool" where
  "hw_valid h \<longleftrightarrow> pmic_id h \<noteq> PMIC_ID_INVALID"

definition pmic_get_regu_hw_id_num :: "u32 \<Rightarrow> ('w, nat) pact" where
  "pmic_get_regu_hw_id_num ext =
     bind_res (as_err CSI_ERROR (pmic_get_id_info ext)) (\<lambda>i.
       get_st (\<lambda>s. length (filter hw_valid (sub_id (regu_list s ! i)))))"

text \<open>
  The comparison is on \<^verbatim>\<open>int\<close>: with no registered device \<^verbatim>\<open>dev_num - 1\<close> is -1 and every id is
  refused. The result is a pointer, \<open>None\<close> for NULL.
\<close>

definition csi_pmic_get_dev_by_pmic_id :: "'w csi_pmic_t \<Rightarrow> u8 \<Rightarrow> nat option" where
  "csi_pmic_get_dev_by_pmic_id s pid =
     (if int (unat pid) > int (unat (dev_num s)) - 1 then None else Some (unat pid))"

text \<open>\<^verbatim>\<open>if (!dev) return CSI_ERROR;\<close>\<close>

definition find_dev :: "u8 \<Rightarrow> ('w, nat) pact" where
  "find_dev pid s =
     (case csi_pmic_get_dev_by_pmic_id s pid of None \<Rightarrow> (Err CSI_ERROR, s) | Some k \<Rightarrow> (Ok k, s))"

subsection \<open>Well-formed states\<close>

text \<open>
  What the registration functions establish and every operation keeps: the arrays have
  their C sizes and every registered device has a driver.
\<close>

definition regu_id_ok :: "csi_regu_id_t \<Rightarrow> bool" where
  "regu_id_ok r \<longleftrightarrow> length (sub_id r) = PMIC_MAX_HW_ID_NUM
     \<and> length (coupling_list r) = PMIC_MAX_COUPLING_LIST_NUM"

definition pmic_ok :: "'w csi_pmic_t \<Rightarrow> bool" where
  "pmic_ok s \<longleftrightarrow> length (pmic_devs s) = CONFIG_MAX_PMIC_NUM \<and> unat (dev_num s) \<le> CONFIG_MAX_PMIC_NUM
     \<and> (\<forall>k < unat (dev_num s). drv_data (pmic_devs s ! k) \<noteq> None)
     \<and> unat (regu_num s) = length (regu_list s) \<and> (\<forall>r \<in> set (regu_list s). regu_id_ok r)"

lemma pmic_ok_hw [simp]: "pmic_ok (s\<lparr>hw := w\<rparr>) = pmic_ok s"
  by (simp add: pmic_ok_def)

lemma keeps_hw_act [keeps_rules]: "(\<And>s w. P s \<Longrightarrow> P (s\<lparr>hw := w\<rparr>)) \<Longrightarrow> keeps P (hw_act f)"
  by (simp add: keeps_def hw_act_def split: prod.splits)

lemma keeps_get_dev [keeps_rules]: "keeps P (get_dev k)"
  by (simp add: keeps_def act_defs)

lemma keeps_dev_drv [keeps_rules]: "keeps P (dev_drv k)"
  unfolding dev_drv_def by (intro keeps_rules)

lemma keeps_get_id_info [keeps_rules]: "keeps P (pmic_get_id_info ext)"
  by (simp add: keeps_def pmic_get_id_info_def split: option.splits)

lemma keeps_find_dev [keeps_rules]: "keeps P (find_dev pid)"
  by (simp add: keeps_def find_dev_def split: option.splits)

lemma keeps_get_regu_info [keeps_rules]: "keeps P (pmic_get_regu_info k r)"
  unfolding pmic_get_regu_info_def by (intro keeps_rules) (auto intro: keeps_rules split: option.splits)

lemma keeps_regu_hw_id_num [keeps_rules]: "keeps P (pmic_get_regu_hw_id_num ext)"
  unfolding pmic_get_regu_hw_id_num_def by (intro keeps_rules)

lemma keeps_upd_dev [keeps_rules]:
  "(\<And>s d. P s \<Longrightarrow> k < length (pmic_devs s) \<Longrightarrow> d = f (pmic_devs s ! k) \<Longrightarrow>
     P (s\<lparr>pmic_devs := (pmic_devs s)[k := d]\<rparr>)) \<Longrightarrow> keeps P (upd_dev k f)"
  by (simp add: keeps_def upd_dev_def)

lemma find_dev_bound:
  "csi_pmic_get_dev_by_pmic_id s pid = Some k \<longleftrightarrow> k = unat pid \<and> unat pid < unat (dev_num s)"
  by (auto simp: csi_pmic_get_dev_by_pmic_id_def simp del: of_nat_unat)

lemma pmic_get_id_info_Ok:
  "pmic_get_id_info ext s = (Ok i, t) \<Longrightarrow>
     t = s \<and> i < unat (regu_num s) \<and> ucast (regu_ext_id (regu_list s ! i)) = ext"
  by (auto simp: pmic_get_id_info_def find_Some_iff split: option.splits)

lemma find_regu_in: "find_regu tab r = Some g \<Longrightarrow> g \<in> set tab \<and> r = ucast (rid g)"
  unfolding find_regu_def find_Some_iff by (metis nth_mem)

end
