(* ===== verification/Pmic_Coupling.thy ===== *)
theory Pmic_Coupling
  imports Pmic_Types
begin

text \<open>
  Coupled rails (\<^verbatim>\<open>pmic.c\<close>): two rails of one regulator may be coupled by a minimal and a maximal
  spread, and \<^verbatim>\<open>csi_pmic_get_voltage_balanced\<close> computes how far a rail may move towards its target
  while the other rails stay where they are. The arithmetic mixes \<^verbatim>\<open>int32_t\<close> and \<^verbatim>\<open>uint32_t\<close>;
  every comparison of the two is unsigned, as in C.
\<close>

definition is_id_coupling :: "nat \<Rightarrow> coupling_desc_t \<Rightarrow> bool" where
  "is_id_coupling i c \<longleftrightarrow> (unat (id0 c) = i \<or> unat (id1 c) = i) \<and> id0 c \<noteq> id1 c
     \<and> \<not> (max_spread c = 0 \<and> min_spread c = 0)"

text \<open>A spread in microvolts: the \<^verbatim>\<open>int8_t\<close> is promoted to \<^verbatim>\<open>int\<close> and multiplied by 10000.\<close>

definition spread_uv :: "u8 \<Rightarrow> u32" where
  "spread_uv b = scast b * 10000"

text \<open>The loop body: the bounds one coupling gives for rail \<open>i\<close>; \<open>None\<close> is an index outside the array.\<close>

definition coupling_bounds :: "nat \<Rightarrow> u32 list \<Rightarrow> coupling_desc_t \<Rightarrow> (u32 \<times> u32) option" where
  "coupling_bounds i curent_uv c =
     (if unat (id0 c) = i
      then let coupling_id = unat (id1 c) in
        if coupling_id < length curent_uv
        then Some (spread_uv (min_spread c) + curent_uv ! coupling_id,
                   spread_uv (max_spread c) + curent_uv ! coupling_id)
        else None
      else let coupling_id = unat (id0 c) in
        if coupling_id < length curent_uv
        then Some (curent_uv ! coupling_id - spread_uv (max_spread c),
                   curent_uv ! coupling_id - spread_uv (min_spread c))
        else None)"

fun coupled_range ::
  "nat \<Rightarrow> u32 list \<Rightarrow> coupling_desc_t list \<Rightarrow> u32 \<times> u32 \<times> bool \<Rightarrow> (u32 \<times> u32 \<times> bool) option" where
  "coupled_range i curent_uv [] acc = Some acc"
| "coupled_range i curent_uv (c # cs) (mn, mx, not_get) =
     (if is_id_coupling i c
      then case coupling_bounds i curent_uv c of
             None \<Rightarrow> None
           | Some (min_uv_temp, max_uv_temp) \<Rightarrow>
               coupled_range i curent_uv cs
                 (if min_uv_temp > mn then min_uv_temp else mn,
                  if max_uv_temp < mx then max_uv_temp else mx, False)
      else coupled_range i curent_uv cs (mn, mx, not_get))"

definition get_min_and_max_vol_by_coupled_info ::
  "nat \<Rightarrow> u32 list \<Rightarrow> coupling_desc_t list \<Rightarrow> ('s, u32 \<times> u32) act" where
  "get_min_and_max_vol_by_coupled_info i curent_uv cs =
     (case coupled_range i curent_uv cs (0, 0xffffffff, True) of
        None \<Rightarrow> undef
      | Some (mn, mx, not_get) \<Rightarrow> if mn > mx \<or> not_get then fail CSI_ERROR else ret (mn, mx))"

definition get_hw_need_set_vol_by_coupled_info :: "csi_regu_id_t \<Rightarrow> bool list" where
  "get_hw_need_set_vol_by_coupled_info r =
     map (\<lambda>i. hw_valid (sub_id r ! i) \<and> (\<exists>c \<in> set (coupling_list r). is_id_coupling i c))
       [0..<length (sub_id r)]"

definition balanced_best_margin :: "u32 \<Rightarrow> u32 \<Rightarrow> u32 \<Rightarrow> u32 \<Rightarrow> u32" where
  "balanced_best_margin mn mx cur t =
     (if t > cur
      then (if mx - cur < t - cur then mx - cur else t - cur)
      else (if mn - cur > t - cur then mn - cur else t - cur))"

definition csi_pmic_get_voltage_balanced ::
  "csi_regu_id_t \<Rightarrow> nat \<Rightarrow> u32 \<Rightarrow> u32 \<Rightarrow> u32 list \<Rightarrow> ('s, u32) act" where
  "csi_pmic_get_voltage_balanced r i t st current_uv_list =
     bind_res (get_min_and_max_vol_by_coupled_info i current_uv_list (coupling_list r)) (\<lambda>(mn, mx).
     bind_res (arr_get current_uv_list i) (\<lambda>cur.
       let best_margin = balanced_best_margin mn mx cur t
       in ret (if st \<noteq> 0 then cur + sdiv32 best_margin st * st else cur + best_margin)))"

subsection \<open>The margin, over the integers\<close>

text \<open>
  What the unsigned minimum and maximum compute for bounds and voltages below \<open>2 ^ 31\<close> when
  the rail is not at its target. A rail at or below its lower bound moves all the way down, and one
  above its upper bound all the way up: the difference to the bound has the other sign and loses
  the unsigned comparison.
\<close>

definition balanced_margin :: "int \<Rightarrow> int \<Rightarrow> int \<Rightarrow> int \<Rightarrow> int" where
  "balanced_margin lo hi v t =
     (if v < t then (if v \<le> hi then min (hi - v) (t - v) else t - v)
      else (if lo < v then max (lo - v) (t - v) else t - v))"

definition step_margin :: "int \<Rightarrow> int \<Rightarrow> int" where
  "step_margin m st = (if st = 0 then m else trunc_div m st * st)"

lemma word_of_uint_diff: "(x :: u32) - y = word_of_int (uint x - uint y)"
  by simp

lemma uint_diff_31:
  fixes x y :: u32
  assumes "uint x < 2 ^ 31" and "uint y < 2 ^ 31"
  shows "uint (x - y) = (if uint y \<le> uint x then uint x - uint y else uint x - uint y + 2 ^ 32)"
  by (simp add: uint_sub_if')

lemma best_margin_int:
  assumes "uint mn < 2 ^ 31" and "uint mx < 2 ^ 31" and "uint v < 2 ^ 31" and "uint t < 2 ^ 31" and "t \<noteq> v"
  shows "balanced_best_margin mn mx v t = word_of_int (balanced_margin (uint mn) (uint mx) (uint v) (uint t))"
proof -
  have ne: "uint t \<noteq> uint v" using assms(5) by (simp add: word_uint_eq_iff)
  note cmp = word_less_def uint_diff_31 [OF assms(2,3)] uint_diff_31 [OF assms(4,3)] uint_diff_31 [OF assms(1,3)]
  show ?thesis
  proof (cases "uint v < uint t")
    case True
    then have "balanced_best_margin mn mx v t
        = (if uint v \<le> uint mx \<and> uint mx - uint v < uint t - uint v then mx - v else t - v)"
      using assms unfolding balanced_best_margin_def cmp
      by (auto; insert uint_ge_0 [of mx]; linarith)
    then show ?thesis using True by (auto simp: balanced_margin_def min_def)
  next
    case False
    then have "balanced_best_margin mn mx v t
        = (if uint mn < uint v \<and> uint mn - uint v > uint t - uint v then mn - v else t - v)"
      using assms ne unfolding balanced_best_margin_def cmp
      by (auto; insert uint_ge_0 [of t] uint_ge_0 [of mn]; linarith)
    then show ?thesis using False ne by (auto simp: balanced_margin_def max_def)
  qed
qed

lemma sint_small: "- (2 ^ 31) \<le> x \<Longrightarrow> x < 2 ^ 31 \<Longrightarrow> sint (word_of_int x :: u32) = x"
  by (simp add: signed_of_int signed_take_bit_int_eq_self)

lemma uint_small: "0 \<le> x \<Longrightarrow> x < 2 ^ 31 \<Longrightarrow> uint (word_of_int x :: u32) = x"
  by (simp add: unsigned_of_int take_bit_int_eq_self)

lemma uint_word_negative: "- (2 ^ 31) \<le> x \<Longrightarrow> x < 0 \<Longrightarrow> 2 ^ 31 \<le> uint (word_of_int x :: u32)"
  by (simp add: unsigned_of_int take_bit_eq_mod) (smt (verit) mod_add_self2 mod_pos_pos_trivial)

lemma trunc_div_bounds:
  assumes "0 < st"
  shows "0 \<le> m \<Longrightarrow> 0 \<le> trunc_div m st * st \<and> trunc_div m st * st \<le> m"
    and "m \<le> 0 \<Longrightarrow> m \<le> trunc_div m st * st \<and> trunc_div m st * st \<le> 0"
    and "m mod st = 0 \<Longrightarrow> trunc_div m st * st = m"
proof -
  have pos: "0 \<le> x \<Longrightarrow> 0 \<le> x div st * st \<and> x div st * st \<le> x" for x
    using assms by (simp add: div_mult_mod_eq pos_imp_zdiv_nonneg_iff)
      (metis add.commute assms div_mult_mod_eq le_add_same_cancel2 pos_mod_sign)
  show "0 \<le> m \<Longrightarrow> 0 \<le> trunc_div m st * st \<and> trunc_div m st * st \<le> m"
    using pos [of m] assms by (simp add: trunc_div_nonneg)
  show "m \<le> 0 \<Longrightarrow> m \<le> trunc_div m st * st \<and> trunc_div m st * st \<le> 0"
    using pos [of "- m"] assms by (simp add: trunc_div_neg)
  assume "m mod st = 0"
  then obtain q where q: "m = q * st" by (metis add.right_neutral div_mult_mod_eq)
  show "trunc_div m st * st = m"
    using assms unfolding q by (auto simp: trunc_div_def abs_mult sgn_mult mult_sgn_abs)
qed

text \<open>The rail moves towards its target and never past it.\<close>

lemma balanced_margin_between:
  assumes "t \<noteq> v"
  shows "v < t \<Longrightarrow> 0 \<le> balanced_margin lo hi v t \<and> balanced_margin lo hi v t \<le> t - v"
    and "t < v \<Longrightarrow> t - v \<le> balanced_margin lo hi v t \<and> balanced_margin lo hi v t \<le> 0"
  using assms by (auto simp: balanced_margin_def)

lemma step_margin_between:
  assumes "0 \<le> st"
  shows "0 \<le> m \<Longrightarrow> 0 \<le> step_margin m st \<and> step_margin m st \<le> m"
    and "m \<le> 0 \<Longrightarrow> m \<le> step_margin m st \<and> step_margin m st \<le> 0"
    and "m mod st = 0 \<Longrightarrow> step_margin m st = m"
  using assms trunc_div_bounds [of st m] by (auto simp: step_margin_def)

lemma balanced_next_between:
  assumes "t \<noteq> v" and "0 \<le> st"
  shows "v < t \<Longrightarrow> v \<le> v + step_margin (balanced_margin lo hi v t) st
      \<and> v + step_margin (balanced_margin lo hi v t) st \<le> t"
    and "t < v \<Longrightarrow> t \<le> v + step_margin (balanced_margin lo hi v t) st
      \<and> v + step_margin (balanced_margin lo hi v t) st \<le> v"
  using balanced_margin_between [OF assms(1), of lo hi] step_margin_between [OF assms(2), of "balanced_margin lo hi v t"]
  by auto

text \<open>The value \<^verbatim>\<open>csi_pmic_get_voltage_balanced\<close> returns, over the integers.\<close>

lemma balanced_word_int:
  assumes "uint mn < 2 ^ 31" and "uint mx < 2 ^ 31" and "uint v < 2 ^ 31" and "uint t < 2 ^ 31"
    and "uint st < 2 ^ 31" and "t \<noteq> v"
  shows "uint (if st \<noteq> 0 then v + sdiv32 (balanced_best_margin mn mx v t) st * st
        else v + balanced_best_margin mn mx v t)
      = uint v + step_margin (balanced_margin (uint mn) (uint mx) (uint v) (uint t)) (uint st)" (is "uint ?w = ?r")
proof -
  let ?m = "balanced_margin (uint mn) (uint mx) (uint v) (uint t)"
  have ne: "uint t \<noteq> uint v" using assms(6) by (simp add: word_uint_eq_iff)
  have m: "- (2 ^ 31) \<le> ?m" "?m < 2 ^ 31"
    using balanced_margin_between [OF ne, of "uint mn" "uint mx"] assms(3,4) ne uint_ge_0 [of v] uint_ge_0 [of t]
    by linarith+
  have "sint (balanced_best_margin mn mx v t) = ?m"
    using best_margin_int [OF assms(1-4,6)] sint_small [OF m] by simp
  moreover have "sint st = uint st"
    using sint_small [of "uint st"] assms(5) by (simp add: order_trans [OF _ uint_ge_0])
  ultimately have "?w = word_of_int ?r"
    using best_margin_int [OF assms(1-4,6)]
    by (auto simp: sdiv32_def step_margin_def uint_0_iff)
  moreover have "0 \<le> ?r" "?r < 2 ^ 31"
    using balanced_next_between [OF ne uint_ge_0 [of st], of "uint mn" "uint mx"] ne assms(3,4)
      uint_ge_0 [of v] uint_ge_0 [of t] by linarith+
  ultimately show ?thesis by (simp only: uint_small)
qed

subsection \<open>The range\<close>

lemma coupled_range_facts:
  assumes "coupled_range i cur cs (mn, mx, f) = Some (mn', mx', f')"
  shows "mn \<le> mn' \<and> mx' \<le> mx
    \<and> (\<forall>c \<in> set cs. is_id_coupling i c \<longrightarrow> (\<exists>a b. coupling_bounds i cur c = Some (a, b) \<and> a \<le> mn' \<and> mx' \<le> b))
    \<and> (mn' = mn \<or> (\<exists>c \<in> set cs. is_id_coupling i c \<and> (\<exists>b. coupling_bounds i cur c = Some (mn', b))))
    \<and> (mx' = mx \<or> (\<exists>c \<in> set cs. is_id_coupling i c \<and> (\<exists>a. coupling_bounds i cur c = Some (a, mx'))))
    \<and> (\<not> f' \<longrightarrow> \<not> f \<or> (\<exists>c \<in> set cs. is_id_coupling i c))"
  using assms
proof (induction cs arbitrary: mn mx f)
  case (Cons c cs)
  show ?case
  proof (cases "is_id_coupling i c")
    case True
    then obtain a b where ab: "coupling_bounds i cur c = Some (a, b)"
      and run: "coupled_range i cur cs (if a > mn then a else mn, if b < mx then b else mx, False)
        = Some (mn', mx', f')"
      using Cons.prems by (auto split: option.splits)
    from Cons.IH [OF run] show ?thesis
      using True ab by (auto split: if_splits)
  next
    case False
    then have "coupled_range i cur cs (mn, mx, f) = Some (mn', mx', f')" using Cons.prems by simp
    from Cons.IH [OF this] show ?thesis using False by auto
  qed
qed simp

text \<open>The condition a coupling states, over the integers.\<close>

definition in_spread :: "coupling_desc_t \<Rightarrow> u32 list \<Rightarrow> bool" where
  "in_spread c cur \<longleftrightarrow>
     sint (min_spread c) * 10000 \<le> uint (cur ! unat (id0 c)) - uint (cur ! unat (id1 c))
     \<and> uint (cur ! unat (id0 c)) - uint (cur ! unat (id1 c)) \<le> sint (max_spread c) * 10000"

definition lower_bound :: "nat \<Rightarrow> u32 list \<Rightarrow> coupling_desc_t \<Rightarrow> int" where
  "lower_bound i cur c =
     (if unat (id0 c) = i then uint (cur ! unat (id1 c)) + sint (min_spread c) * 10000
      else uint (cur ! unat (id0 c)) - sint (max_spread c) * 10000)"

definition upper_bound :: "nat \<Rightarrow> u32 list \<Rightarrow> coupling_desc_t \<Rightarrow> int" where
  "upper_bound i cur c =
     (if unat (id0 c) = i then uint (cur ! unat (id1 c)) + sint (max_spread c) * 10000
      else uint (cur ! unat (id0 c)) - sint (min_spread c) * 10000)"

text \<open>Voltages below 1073 V: sums with a spread stay within \<^verbatim>\<open>int32_t\<close>.\<close>

definition sane_uv :: "u32 list \<Rightarrow> bool" where
  "sane_uv cur \<longleftrightarrow> (\<forall>v \<in> set cur. uint v < 2 ^ 30)"

lemma spread_range: "- 1280000 \<le> sint (b :: u8) * 10000 \<and> sint b * 10000 \<le> 1270000"
  using sint_range_size [of b] by (simp add: word_size)

lemma bounds_range:
  assumes "sane_uv cur" and "unat (id0 c) < length cur" and "unat (id1 c) < length cur"
  shows "- (2 ^ 31) \<le> lower_bound i cur c" "lower_bound i cur c < 2 ^ 31"
    "- (2 ^ 31) \<le> upper_bound i cur c" "upper_bound i cur c < 2 ^ 31"
proof -
  have sum: "- (2 ^ 31) \<le> (if p then x1 + m else x0 - n) \<and> (if p then x1 + m else x0 - n) < 2 ^ 31"
    if "0 \<le> x0" "0 \<le> x1" "x0 < 2 ^ 30" "x1 < 2 ^ 30" "- 1280000 \<le> m \<and> m \<le> 1270000"
      "- 1280000 \<le> n \<and> n \<le> 1270000" for p and x0 x1 m n :: int
    using that by simp
  have "uint (cur ! unat (id0 c)) < 2 ^ 30" "uint (cur ! unat (id1 c)) < 2 ^ 30"
    using assms by (simp_all add: sane_uv_def)
  from sum [OF uint_ge_0 uint_ge_0 this spread_range spread_range]
  show "- (2 ^ 31) \<le> lower_bound i cur c" "lower_bound i cur c < 2 ^ 31"
    "- (2 ^ 31) \<le> upper_bound i cur c" "upper_bound i cur c < 2 ^ 31"
    unfolding lower_bound_def upper_bound_def by blast+
qed

lemma coupling_bounds_int:
  assumes "coupling_bounds i cur c = Some (a, b)" and "is_id_coupling i c" and "i < length cur"
  shows "unat (id0 c) < length cur" "unat (id1 c) < length cur"
    and "a = word_of_int (lower_bound i cur c)" and "b = word_of_int (upper_bound i cur c)"
    and "in_spread c (cur[i := x]) \<longleftrightarrow> lower_bound i cur c \<le> uint x \<and> uint x \<le> upper_bound i cur c"
  using assms
  by (auto simp: coupling_bounds_def is_id_coupling_def lower_bound_def upper_bound_def in_spread_def
      spread_uv_def Let_def nth_list_update word_unat_eq_iff algebra_simps split: if_splits)

lemma get_range_Ok:
  assumes "get_min_and_max_vol_by_coupled_info i cur cs s = (Ok (mn, mx), s')"
  shows "s' = s" and "coupled_range i cur cs (0, 0xffffffff, True) = Some (mn, mx, False)" and "mn \<le> mx"
  using assms
  by (auto simp: get_min_and_max_vol_by_coupled_info_def act_defs split: option.splits if_splits)

text \<open>
  When the call succeeds, every bound of a coupling of the rail is exact: no lower bound was
  negative, and the range is within all of them.
\<close>

lemma range_exact:
  assumes run: "get_min_and_max_vol_by_coupled_info i cur cs s = (Ok (mn, mx), s')"
    and "sane_uv cur" and "i < length cur"
    and hi: "\<And>c. c \<in> set cs \<Longrightarrow> is_id_coupling i c \<Longrightarrow> 0 \<le> upper_bound i cur c"
  shows "uint mx < 2 ^ 31" and "uint mn < 2 ^ 31"
    and "\<And>c. c \<in> set cs \<Longrightarrow> is_id_coupling i c \<Longrightarrow>
      0 \<le> lower_bound i cur c \<and> lower_bound i cur c \<le> uint mn \<and> uint mx \<le> upper_bound i cur c"
    and "\<exists>c \<in> set cs. is_id_coupling i c \<and> upper_bound i cur c = uint mx"
    and "mn = 0 \<or> (\<exists>c \<in> set cs. is_id_coupling i c \<and> lower_bound i cur c = uint mn)"
proof -
  note run' = get_range_Ok [OF run]
  note facts = coupled_range_facts [OF run'(2)]
  have ub: "uint b = upper_bound i cur c" and lb: "a = word_of_int (lower_bound i cur c)"
    and rng: "- (2 ^ 31) \<le> lower_bound i cur c" "lower_bound i cur c < 2 ^ 31" "upper_bound i cur c < 2 ^ 31"
    if "c \<in> set cs" "is_id_coupling i c" "coupling_bounds i cur c = Some (a, b)" for a b c
    using coupling_bounds_int [OF that(3,2) assms(3)] bounds_range [OF assms(2), of c i] hi [OF that(1,2)]
    by (auto simp: uint_small simp del: of_int_uint)
  have mnmx: "uint mn \<le> uint mx" using run'(3) by (simp add: word_le_def)
  have le: "0 \<le> lower_bound i cur c \<and> lower_bound i cur c \<le> uint mn \<and> uint mx \<le> upper_bound i cur c
      \<and> upper_bound i cur c < 2 ^ 31"
    if c: "c \<in> set cs" "is_id_coupling i c" for c
  proof -
    obtain a b where ab: "coupling_bounds i cur c = Some (a, b)" "uint a \<le> uint mn" "uint mx \<le> uint b"
      using facts c by (auto simp: word_le_def)
    note w = ub [OF c ab(1)] lb [OF c ab(1)] rng [OF c ab(1)]
    have "\<not> lower_bound i cur c < 0"
      using uint_word_negative [of "lower_bound i cur c"] w ab(2,3) mnmx by auto
    then show ?thesis
      using w ab mnmx uint_small [of "lower_bound i cur c"] by auto
  qed
  obtain c where c: "c \<in> set cs" "is_id_coupling i c" using facts by auto
  then show "uint mx < 2 ^ 31" using le [OF c] by linarith
  then show "uint mn < 2 ^ 31" using mnmx by linarith
  show "\<And>c. c \<in> set cs \<Longrightarrow> is_id_coupling i c \<Longrightarrow>
      0 \<le> lower_bound i cur c \<and> lower_bound i cur c \<le> uint mn \<and> uint mx \<le> upper_bound i cur c"
    using le by blast
  have "mx \<noteq> 0xffffffff" using \<open>uint mx < 2 ^ 31\<close> by auto
  then show "\<exists>c \<in> set cs. is_id_coupling i c \<and> upper_bound i cur c = uint mx"
    using facts ub by metis
  show "mn = 0 \<or> (\<exists>c \<in> set cs. is_id_coupling i c \<and> lower_bound i cur c = uint mn)"
    using facts lb rng le by (metis uint_small)
qed

lemma balanced_Ok:
  assumes run: "csi_pmic_get_voltage_balanced r i t st cur s = (Ok uv, s')"
    and hold: "\<And>c. c \<in> set (coupling_list r) \<Longrightarrow> is_id_coupling i c \<Longrightarrow> 0 \<le> upper_bound i cur c"
    and "t \<noteq> cur ! i" "sane_uv cur" "uint t < 2 ^ 30" "uint st < 2 ^ 31" "i < length cur"
  obtains mn mx where "get_min_and_max_vol_by_coupled_info i cur (coupling_list r) s = (Ok (mn, mx), s)"
    and "s' = s"
    and "uint uv = uint (cur ! i) + step_margin (balanced_margin (uint mn) (uint mx) (uint (cur ! i)) (uint t)) (uint st)"
proof -
  obtain mn mx s1 where r1: "get_min_and_max_vol_by_coupled_info i cur (coupling_list r) s = (Ok (mn, mx), s1)"
    and rest: "bind_res (arr_get cur i) (\<lambda>c. let m = balanced_best_margin mn mx c t
      in ret (if st \<noteq> 0 then c + sdiv32 m st * st else c + m)) s1 = (Ok uv, s')"
    using run unfolding csi_pmic_get_voltage_balanced_def bind_res_Ok [of "get_min_and_max_vol_by_coupled_info _ _ _"]
    by fastforce
  have s1: "s1 = s" by (rule get_range_Ok(1) [OF r1])
  note r = r1 [unfolded s1]
  have uv: "uv = (let m = balanced_best_margin mn mx (cur ! i) t
      in if st \<noteq> 0 then cur ! i + sdiv32 m st * st else cur ! i + m)" "s' = s"
    using rest s1 assms(7) by (simp_all add: bind_res_def arr_get_def ret_def Let_def)
  have "uint (cur ! i) < 2 ^ 31" "uint t < 2 ^ 31"
    using assms(4,5) nth_mem [OF assms(7)] by (fastforce simp: sane_uv_def)+
  with range_exact(1,2) [OF r assms(4,7) hold] show ?thesis
    using that [OF r uv(2)] balanced_word_int [of mn mx "cur ! i" t st] assms(3,6)
    by (simp add: uv(1) Let_def)
qed

lemma in_spread_iff:
  assumes "is_id_coupling i c" and "i < length cur"
  shows "in_spread c (cur[i := x]) \<longleftrightarrow> lower_bound i cur c \<le> uint x \<and> uint x \<le> upper_bound i cur c"
    and "in_spread c cur \<longleftrightarrow> lower_bound i cur c \<le> uint (cur ! i) \<and> uint (cur ! i) \<le> upper_bound i cur c"
  using assms
  by (auto simp: is_id_coupling_def lower_bound_def upper_bound_def in_spread_def nth_list_update
      word_unat_eq_iff)

lemma balanced_next_in_range:
  assumes "t \<noteq> v" and "0 \<le> st" and "lo \<le> v" and "v \<le> hi" and "v < t \<or> lo < v"
  shows "lo \<le> v + step_margin (balanced_margin lo hi v t) st
    \<and> v + step_margin (balanced_margin lo hi v t) st \<le> hi"
proof (cases "v < t")
  case True
  then have "0 \<le> balanced_margin lo hi v t" "balanced_margin lo hi v t \<le> hi - v"
    using assms(4) by (auto simp: balanced_margin_def)
  then show ?thesis using step_margin_between(1) [OF assms(2)] assms(3) by force
next
  case False
  then have "balanced_margin lo hi v t \<le> 0" "lo - v \<le> balanced_margin lo hi v t"
    using assms(1,5) by (auto simp: balanced_margin_def)
  then show ?thesis using step_margin_between(2) [OF assms(2)] assms(4) by force
qed

subsection \<open>Properties\<close>

text \<open>
  C4: a rail that satisfies its couplings is never commanded outside of them. When
  \<^verbatim>\<open>csi_pmic_get_voltage_balanced\<close> succeeds, the voltage it returns lies between the present
  voltage and the target and keeps every coupling of the rail, with the other rails where they
  are, provided that a rail that has to go down is not already at its lower bound.
\<close>

theorem balanced_keeps_spread:
  assumes "csi_pmic_get_voltage_balanced r i t st cur s = (Ok uv, s')"
    and "\<forall>c \<in> set (coupling_list r). is_id_coupling i c \<longrightarrow> in_spread c cur"
    and "cur ! i < t \<or> (\<forall>c \<in> set (coupling_list r). is_id_coupling i c \<longrightarrow> lower_bound i cur c < uint (cur ! i))"
    and "t \<noteq> cur ! i" and "sane_uv cur" and "uint t < 2 ^ 30" and "uint st < 2 ^ 31" and "i < length cur"
  shows "(\<forall>c \<in> set (coupling_list r). is_id_coupling i c \<longrightarrow> in_spread c (cur[i := uv]))
    \<and> min (cur ! i) t \<le> uv \<and> uv \<le> max (cur ! i) t"
proof -
  let ?v = "uint (cur ! i)" and ?t = "uint t"
  have now: "lower_bound i cur c \<le> ?v \<and> ?v \<le> upper_bound i cur c \<and> 0 \<le> upper_bound i cur c"
    if "c \<in> set (coupling_list r)" "is_id_coupling i c" for c
    using in_spread_iff(2) [OF that(2) assms(8)] assms(2) that order_trans [OF uint_ge_0 [of "cur ! i"]] by blast
  obtain mn mx where g: "get_min_and_max_vol_by_coupled_info i cur (coupling_list r) s = (Ok (mn, mx), s)"
    and uv: "uint uv = ?v + step_margin (balanced_margin (uint mn) (uint mx) ?v ?t) (uint st)"
    using balanced_Ok [OF assms(1) _ assms(4-8)] now by metis
  note ex = range_exact [OF g assms(5,8)]
  have ne: "?t \<noteq> ?v" using assms(4) by (simp add: word_uint_eq_iff)
  have "\<exists>c \<in> set (coupling_list r). is_id_coupling i c \<and> upper_bound i cur c = uint mx" using ex(4) now by blast
  then have hi: "?v \<le> uint mx" using now by metis
  have mn: "mn = 0 \<or> (\<exists>c \<in> set (coupling_list r). is_id_coupling i c \<and> lower_bound i cur c = uint mn)"
    using ex(5) now by blast
  then have lo: "uint mn \<le> ?v" using now by (metis uint_0_eq uint_ge_0)
  have strict: "?v < ?t \<or> uint mn < ?v"
  proof (cases "?v < ?t")
    case False
    then have "0 < ?v" using ne uint_ge_0 [of t] by linarith
    then show ?thesis using mn assms(3) False by (auto simp: word_less_def)
  qed simp
  have "uint mn \<le> uint uv \<and> uint uv \<le> uint mx"
    unfolding uv by (rule balanced_next_in_range [OF ne uint_ge_0 lo hi strict])
  then have "in_spread c (cur[i := uv])" if "c \<in> set (coupling_list r)" "is_id_coupling i c" for c
    using in_spread_iff(1) [OF that(2) assms(8)] ex(3) [OF _ that] now by force
  moreover have "min ?v ?t \<le> uint uv \<and> uint uv \<le> max ?v ?t"
    using balanced_next_between [OF ne uint_ge_0 [of st], of "uint mn" "uint mx"] ne uv by linarith
  ultimately show ?thesis by (auto simp: word_le_def min_def max_def split: if_splits)
qed

definition sample_coupled :: csi_regu_id_t where
  "sample_coupled =
     \<lparr>regu_ext_id = 7,
      coupling_list = [\<lparr>id0 = 0, id1 = 1, max_spread = 10, min_spread = 0\<rparr>,
        \<lparr>id0 = 0xff, id1 = 0xff, max_spread = 0, min_spread = 0\<rparr>, \<lparr>id0 = 0xff, id1 = 0xff, max_spread = 0, min_spread = 0\<rparr>],
      sub_id = []\<rparr>"

lemmas balanced_eval = csi_pmic_get_voltage_balanced_def get_min_and_max_vol_by_coupled_info_def
  is_id_coupling_def coupling_bounds_def spread_uv_def balanced_best_margin_def sdiv32_def trunc_div_def

theorem balanced_keeps_spread_witness:
  "csi_pmic_get_voltage_balanced sample_coupled 0 1000000 10000 [850000, 800000, 0] () = (Ok 900000, ())
   \<and> in_spread (coupling_list sample_coupled ! 0) [900000, 800000, 0]"
proof -
  have run: "csi_pmic_get_voltage_balanced sample_coupled 0 1000000 10000 [850000, 800000, 0] () = (Ok 900000, ())"
    by (simp add: balanced_eval sample_coupled_def act_defs)
  have "\<forall>c \<in> set (coupling_list sample_coupled). is_id_coupling 0 c \<longrightarrow> in_spread c [850000, 800000, 0]"
    by (simp add: sample_coupled_def in_spread_def is_id_coupling_def)
  from balanced_keeps_spread [OF run this] show ?thesis
    using run by (simp add: sample_coupled_def is_id_coupling_def sane_uv_def)
qed

text \<open>
  C28: a rail that sits exactly at the lower bound of a coupling and has to go down is commanded
  straight to its target, outside of the coupling: the distance to the bound is 0, the distance to
  the target is negative, and the unsigned maximum of the two is the negative one.
\<close>

theorem balanced_at_lower_bound_breaks_spread:
  assumes "csi_pmic_get_voltage_balanced r i t st cur s = (Ok uv, s')"
    and "\<forall>c \<in> set (coupling_list r). is_id_coupling i c \<longrightarrow> in_spread c cur"
    and "c \<in> set (coupling_list r)" and "is_id_coupling i c" and "lower_bound i cur c = uint (cur ! i)"
    and "t < cur ! i" and "(uint (cur ! i) - uint t) mod uint st = 0"
    and "sane_uv cur" and "uint t < 2 ^ 30" and "uint st < 2 ^ 31" and "i < length cur"
  shows "uv = t \<and> \<not> in_spread c (cur[i := uv])"
proof -
  let ?v = "uint (cur ! i)" and ?t = "uint t"
  have lt: "?t < ?v" using assms(6) by (simp add: word_less_def)
  have hi: "0 \<le> upper_bound i cur c'" if "c' \<in> set (coupling_list r)" "is_id_coupling i c'" for c'
    using in_spread_iff(2) [OF that(2) assms(11)] assms(2) that order_trans [OF uint_ge_0 [of "cur ! i"]] by blast
  obtain mn mx where g: "get_min_and_max_vol_by_coupled_info i cur (coupling_list r) s = (Ok (mn, mx), s)"
    and uv: "uint uv = ?v + step_margin (balanced_margin (uint mn) (uint mx) ?v ?t) (uint st)"
    using balanced_Ok [OF assms(1) _ _ assms(8-11)] hi assms(6) by blast
  have "?v \<le> uint mn" using range_exact(3) [OF g assms(8,11) hi assms(3,4)] assms(5) by simp
  then have "balanced_margin (uint mn) (uint mx) ?v ?t = ?t - ?v"
    using lt by (simp add: balanced_margin_def)
  moreover have "(?t - ?v) mod uint st = 0"
    using assms(7) by (metis minus_diff_eq mod_minus_eq mod_0 minus_zero)
  ultimately have "uint uv = ?t"
    using uv step_margin_between(3) [OF uint_ge_0 [of st]] by simp
  then show ?thesis
    using in_spread_iff(1) [OF assms(4,11)] assms(5) lt by (simp add: word_uint_eq_iff)
qed

theorem balanced_at_lower_bound_breaks_spread_witness:
  "csi_pmic_get_voltage_balanced sample_coupled 0 700000 10000 [900000, 900000, 0] () = (Ok 700000, ())
   \<and> \<not> in_spread (coupling_list sample_coupled ! 0) [700000, 900000, 0]"
proof -
  have run: "csi_pmic_get_voltage_balanced sample_coupled 0 700000 10000 [900000, 900000, 0] () = (Ok 700000, ())"
    by (simp add: balanced_eval sample_coupled_def act_defs)
  have c: "\<forall>c \<in> set (coupling_list sample_coupled). is_id_coupling 0 c \<longrightarrow> in_spread c [900000, 900000, 0]"
    by (simp add: sample_coupled_def in_spread_def is_id_coupling_def)
  from balanced_at_lower_bound_breaks_spread [OF run c, of "coupling_list sample_coupled ! 0"] show ?thesis
    using run by (simp add: sample_coupled_def is_id_coupling_def sane_uv_def lower_bound_def)
qed

end
