(* ===== verification/Pmic_Iic.thy ===== *)
theory Pmic_Iic
  imports Pmic_Types
begin

text \<open>
  The register access methods of \<^verbatim>\<open>pmic.c\<close> over the I2C bus: single-byte and multi-byte reads
  and writes with an 8-bit or 16-bit register address, chosen by the address itself. What the
  drivers rely on of the bus and the chips is stated as \<open>iic_register_file\<close>: a chip
  stores what is written to a register and returns it when the register is read.
\<close>

definition I2C_MAX_SEND_DATA_SZIE :: nat where "I2C_MAX_SEND_DATA_SZIE = 30"

text \<open>The address bytes the four methods put in front: two when bits 8 to 15 are not all zero.\<close>

definition reg_addr_bytes :: "u32 \<Rightarrow> u8 list" where
  "reg_addr_bytes offset =
     (if drop_bit 8 offset AND 0xff \<noteq> 0
      then [ucast (drop_bit 8 offset AND 0xff), ucast (offset AND 0xff)]
      else [ucast (offset AND 0xff)])"

definition bus_send :: "u16 \<Rightarrow> u8 list \<Rightarrow> ('w, int) pact" where
  "bus_send dev_addr bs = hw_act (\<lambda>s w. let (n, w') = iic_master_send (if_dev s) dev_addr bs w in (Ok n, w'))"

definition bus_receive :: "u16 \<Rightarrow> nat \<Rightarrow> ('w, int \<times> u8 list) pact" where
  "bus_receive dev_addr k =
     hw_act (\<lambda>s w. let (r, w') = iic_master_receive (if_dev s) dev_addr k w in (Ok r, w'))"

definition iic_write_reg :: "u16 \<Rightarrow> u32 \<Rightarrow> u32 \<Rightarrow> ('w, unit) pact" where
  "iic_write_reg dev_addr offset val =
     (let temp = reg_addr_bytes offset @ [ucast val]
      in bind_res (bus_send dev_addr temp) (\<lambda>num.
           if num \<noteq> int (length temp) then fail CSI_ERROR else ret ()))"

definition iic_write_reg_multi_bytes :: "u16 \<Rightarrow> u32 \<Rightarrow> u8 list \<Rightarrow> ('w, unit) pact" where
  "iic_write_reg_multi_bytes dev_addr offset dat =
     (if length dat > I2C_MAX_SEND_DATA_SZIE - 4 then fail CSI_ERROR
      else
        let temp = reg_addr_bytes offset @ dat
        in bind_res (bus_send dev_addr temp) (\<lambda>num.
             if num \<noteq> int (length temp) then fail CSI_ERROR else ret ()))"

text \<open>The byte read is stored over the first address byte of the same buffer.\<close>

definition iic_read_reg :: "u16 \<Rightarrow> u32 \<Rightarrow> ('w, u32) pact" where
  "iic_read_reg dev_addr offset =
     (let temp = reg_addr_bytes offset
      in bind_res (bus_send dev_addr temp) (\<lambda>num.
           if num \<noteq> int (length temp) then fail CSI_ERROR
           else bind_res (bus_receive dev_addr 1) (\<lambda>(num, bs).
             if num \<noteq> 1 then fail CSI_ERROR else ret (ucast (hd (bs @ temp))))))"

definition iic_read_reg_sr :: "u16 \<Rightarrow> u32 \<Rightarrow> ('w, u32) pact" where
  "iic_read_reg_sr dev_addr offset =
     bind_res (hw_act (\<lambda>s w. let (r, w') = iic_mem_receive (if_dev s) dev_addr offset (drop_bit 8 offset \<noteq> 0) 1 w
                             in (Ok r, w'))) (\<lambda>(num, bs).
       if num \<noteq> 1 then fail CSI_ERROR else ret (ucast (hd (bs @ [0]))))"

definition iic_read_reg_multi_bytes :: "u16 \<Rightarrow> u32 \<Rightarrow> nat \<Rightarrow> ('w, u8 list) pact" where
  "iic_read_reg_multi_bytes dev_addr offset get_len =
     (let temp = reg_addr_bytes offset
      in bind_res (bus_send dev_addr temp) (\<lambda>num.
           if num \<noteq> int (length temp) then fail CSI_ERROR
           else bind_res (bus_receive dev_addr get_len) (\<lambda>(num, bs).
             if num \<noteq> int get_len then fail CSI_ERROR else ret bs)))"

text \<open>\<^verbatim>\<open>pmic->pmic_read_reg(...)\<close> and \<^verbatim>\<open>pmic->pmic_write_reg(...)\<close>: calls through the method pointers.\<close>

definition call_read_reg :: "u16 \<Rightarrow> u32 \<Rightarrow> ('w, u32) pact" where
  "call_read_reg dev_addr offset =
     bind_res (get_st pmic_read_reg) (\<lambda>set. if set then iic_read_reg dev_addr offset else undef)"

definition call_write_reg :: "u16 \<Rightarrow> u32 \<Rightarrow> u32 \<Rightarrow> ('w, unit) pact" where
  "call_write_reg dev_addr offset val =
     bind_res (get_st pmic_write_reg) (\<lambda>set. if set then iic_write_reg dev_addr offset val else undef)"

definition csi_pmic_if_config :: "u8 \<Rightarrow> u8 \<Rightarrow> ('w, unit) pact" where
  "csi_pmic_if_config addr_mode speed =
     bind_res (hw_act (\<lambda>s. iic_mode_master (if_dev s))) (\<lambda>_.
     bind_res (hw_act (\<lambda>s. iic_addr_mode (if_dev s) addr_mode)) (\<lambda>_.
     hw_act (\<lambda>s. iic_speed (if_dev s) speed)))"

subsection \<open>Frame: register accesses touch the hardware only\<close>

lemma keeps_bus [keeps_rules]:
  assumes "\<And>s w. P s \<Longrightarrow> P (s\<lparr>hw := w\<rparr>)"
  shows "keeps P (bus_send a bs)" and "keeps P (bus_receive a k)"
  using assms unfolding bus_send_def bus_receive_def by (auto intro: keeps_rules)

lemma keeps_read_reg [keeps_rules]:
  assumes "\<And>s w. P s \<Longrightarrow> P (s\<lparr>hw := w\<rparr>)"
  shows "keeps P (call_read_reg a r)"
  unfolding call_read_reg_def iic_read_reg_def Let_def
  by (intro keeps_rules assms) (auto intro!: keeps_rules assms split: prod.splits)

lemma keeps_write_reg [keeps_rules]:
  assumes "\<And>s w. P s \<Longrightarrow> P (s\<lparr>hw := w\<rparr>)"
  shows "keeps P (call_write_reg a r v)"
  unfolding call_write_reg_def iic_write_reg_def Let_def
  by (intro keeps_rules assms)

subsection \<open>A bus with register-file chips\<close>

text \<open>
  \<open>regs w a r\<close> is the content of register \<open>r\<close> of the chip at bus address \<open>a\<close>.
  A chip has one-byte register addresses or, where \<open>wide a\<close>, two-byte ones with a high
  byte that is not zero: the methods tell them apart by that byte alone.
\<close>

definition reg_addressed :: "bool \<Rightarrow> u32 \<Rightarrow> bool" where
  "reg_addressed two off \<longleftrightarrow> (if two then 0x100 \<le> off \<and> off < 0x10000 else off < 0x100)"

definition iic_register_file :: "'w iic_if \<Rightarrow> (u16 \<Rightarrow> bool) \<Rightarrow> ('w \<Rightarrow> u16 \<Rightarrow> u32 \<Rightarrow> u8) \<Rightarrow> bool" where
  "iic_register_file bus wide regs \<longleftrightarrow>
     (\<forall>w a off v. reg_addressed (wide a) off \<longrightarrow>
        (\<exists>w'. iic_master_send bus a (reg_addr_bytes off @ [v]) w
             = (int (length (reg_addr_bytes off)) + 1, w')
           \<and> regs w' = (regs w)(a := (regs w a)(off := v)))
      \<and> (\<exists>w1 w2. iic_master_send bus a (reg_addr_bytes off) w = (int (length (reg_addr_bytes off)), w1)
           \<and> iic_master_receive bus a 1 w1 = ((1, [regs w a off]), w2) \<and> regs w2 = regs w))"

text \<open>The handle is initialised and its bus is a register file.\<close>

definition bus_ready :: "(u16 \<Rightarrow> bool) \<Rightarrow> ('w \<Rightarrow> u16 \<Rightarrow> u32 \<Rightarrow> u8) \<Rightarrow> 'w csi_pmic_t \<Rightarrow> bool" where
  "bus_ready wide regs s \<longleftrightarrow> pmic_read_reg s \<and> pmic_write_reg s \<and> iic_register_file (if_dev s) wide regs"

lemma bus_ready_hw [simp]: "bus_ready wide regs (s\<lparr>hw := w\<rparr>) = bus_ready wide regs s"
  by (simp add: bus_ready_def)

lemma call_read_reg_ready:
  assumes "bus_ready wide regs s" and "reg_addressed (wide a) off"
  shows "\<exists>w. call_read_reg a off s = (Ok (ucast (regs (hw s) a off)), s\<lparr>hw := w\<rparr>) \<and> regs w = regs (hw s)"
proof -
  obtain w1 w2 where
    "iic_master_send (if_dev s) a (reg_addr_bytes off) (hw s) = (int (length (reg_addr_bytes off)), w1)"
    "iic_master_receive (if_dev s) a 1 w1 = ((1, [regs (hw s) a off]), w2)" "regs w2 = regs (hw s)"
    using assms unfolding bus_ready_def iic_register_file_def by meson
  then show ?thesis
    using assms(1)
    by (auto simp: call_read_reg_def iic_read_reg_def bus_send_def bus_receive_def Let_def act_defs
        bus_ready_def)
qed

lemma call_write_reg_ready:
  assumes "bus_ready wide regs s" and "reg_addressed (wide a) off"
  shows "\<exists>w. call_write_reg a off val s = (Ok (), s\<lparr>hw := w\<rparr>)
    \<and> regs w = (regs (hw s))(a := (regs (hw s) a)(off := ucast val))"
proof -
  obtain w' where
    "iic_master_send (if_dev s) a (reg_addr_bytes off @ [ucast val]) (hw s)
      = (int (length (reg_addr_bytes off)) + 1, w')"
    "regs w' = (regs (hw s))(a := (regs (hw s) a)(off := ucast val))"
    using assms unfolding bus_ready_def iic_register_file_def by meson
  then show ?thesis
    using assms(1)
    by (auto simp: call_write_reg_def iic_write_reg_def bus_send_def Let_def act_defs bus_ready_def)
qed

end
