(* ===== verification/Pmic_Ops.thy ===== *)
theory Pmic_Ops
  imports Pmic_Iic
begin

text \<open>
  The driver interface of \<^verbatim>\<open>pmic.h\<close>: the tables of function pointers \<^verbatim>\<open>csi_regu_ops_t\<close> (any entry
  may be NULL) and \<^verbatim>\<open>csi_wdt_ops_t\<close>, and the contract a driver with linear voltage selectors
  fulfils, as a locale.
\<close>

record 'w csi_regu_ops_t =
  gpio_output :: "(nat \<Rightarrow> u32 \<Rightarrow> u32 \<Rightarrow> ('w, unit) pact) option"
  set_voltage :: "(nat \<Rightarrow> u32 \<Rightarrow> u32 \<Rightarrow> ('w, unit) pact) option"
  get_voltage :: "(nat \<Rightarrow> u32 \<Rightarrow> ('w, u32) pact) option"
  set_reg :: "(nat \<Rightarrow> u32 \<Rightarrow> u32 \<Rightarrow> ('w, unit) pact) option"
  get_reg :: "(nat \<Rightarrow> u32 \<Rightarrow> ('w, u32) pact) option"
  get_powerup :: "(nat \<Rightarrow> ('w, u32) pact) option"
  regu_power_ctrl :: "(nat \<Rightarrow> u32 \<Rightarrow> u32 \<Rightarrow> ('w, unit) pact) option"
  get_temperature :: "(nat \<Rightarrow> ('w, u32) pact) option"
  read_faults :: "(nat \<Rightarrow> ('w, unit) pact) option"
  mode_select :: "(nat \<Rightarrow> u32 \<Rightarrow> pmic_buck_mode \<Rightarrow> ('w, unit) pact) option"
  read_id :: "(nat \<Rightarrow> ('w, unit) pact) option"
  set_log_level :: "(nat \<Rightarrow> u8 \<Rightarrow> ('w, unit) pact) option"
  op_init :: "(nat \<Rightarrow> ('w, unit) pact) option"
  op_uninit :: "(nat \<Rightarrow> ('w, unit) pact) option"

definition null_ops :: "'w csi_regu_ops_t" where
  "null_ops =
     \<lparr>gpio_output = None, set_voltage = None, get_voltage = None, set_reg = None, get_reg = None,
      get_powerup = None, regu_power_ctrl = None, get_temperature = None, read_faults = None,
      mode_select = None, read_id = None, set_log_level = None, op_init = None, op_uninit = None\<rparr>"

record 'w csi_wdt_ops_t =
  w_set_timer_len :: "nat \<Rightarrow> u32 \<Rightarrow> ('w, unit) pact"
  w_start :: "nat \<Rightarrow> ('w, unit) pact"
  w_stop :: "nat \<Rightarrow> ('w, unit) pact"
  w_feed :: "nat \<Rightarrow> ('w, unit) pact"
  w_repower :: "nat \<Rightarrow> ('w, unit) pact"

text \<open>The bus address of a device, \<^verbatim>\<open>pmic_dev->dev_info->addr1\<close>.\<close>

definition dev_addr1 :: "nat \<Rightarrow> ('w, u16) pact" where
  "dev_addr1 k = bind_res (get_dev k) (\<lambda>d. ret (ucast (addr1 (dev_info d))))"

definition dev_addr2 :: "nat \<Rightarrow> ('w, u16) pact" where
  "dev_addr2 k = bind_res (get_dev k) (\<lambda>d. ret (ucast (addr2 (dev_info d))))"

definition upd_dev_info :: "nat \<Rightarrow> (pmic_dev_info_t \<Rightarrow> pmic_dev_info_t) \<Rightarrow> ('w, unit) pact" where
  "upd_dev_info k f = upd_dev k (\<lambda>d. d\<lparr>dev_info := f (dev_info d)\<rparr>)"

lemma keeps_dev_addr [keeps_rules]: "keeps P (dev_addr1 k)" "keeps P (dev_addr2 k)"
  unfolding dev_addr1_def dev_addr2_def by (intro keeps_rules)+

lemma keeps_option [keeps_rules]:
  "keeps P m \<Longrightarrow> (\<And>a. x = Some a \<Longrightarrow> keeps P (f a)) \<Longrightarrow> keeps P (case x of None \<Rightarrow> m | Some a \<Rightarrow> f a)"
  by (cases x) auto

text \<open>Device \<open>k\<close> of the handle is driven by \<open>d\<close> and its chip is at bus address \<open>a\<close>.\<close>

definition dev_at :: "'w csi_pmic_t \<Rightarrow> nat \<Rightarrow> drv \<Rightarrow> u16 \<Rightarrow> bool" where
  "dev_at s k d a \<longleftrightarrow> k < length (pmic_devs s) \<and> drv_data (pmic_devs s ! k) = Some d
     \<and> ucast (addr1 (dev_info (pmic_devs s ! k))) = a"

lemma dev_at_hw [simp]: "dev_at (s\<lparr>hw := w\<rparr>) k d a = dev_at s k d a"
  by (simp add: dev_at_def)

lemma dev_at_simps:
  assumes "dev_at s k d a"
  shows "dev_addr1 k s = (Ok a, s)" and "dev_drv k s = (Ok d, s)"
    and "pmic_get_regu_info k r s = (case find_regu (drv_regu_info d) r of
           Some g \<Rightarrow> (Ok g, s) | None \<Rightarrow> (Err CSI_UNSUPPORTED, s))"
  using assms
  by (auto simp: dev_at_def dev_addr1_def pmic_get_regu_info_def act_defs split: option.splits)

text \<open>
  Register accesses of device \<open>k\<close>, whose chip has one-byte register addresses, on a bus that is a
  register file.
\<close>

definition chip_ready :: "(u16 \<Rightarrow> bool) \<Rightarrow> ('w \<Rightarrow> u16 \<Rightarrow> u32 \<Rightarrow> u8) \<Rightarrow> nat \<Rightarrow> u16 \<Rightarrow> u16 \<Rightarrow> 'w csi_pmic_t \<Rightarrow> bool" where
  "chip_ready wide regs k a pg s \<longleftrightarrow> bus_ready wide regs s \<and> k < length (pmic_devs s) \<and> \<not> wide a \<and> \<not> wide pg
     \<and> ucast (addr1 (dev_info (pmic_devs s ! k))) = a \<and> ucast (addr2 (dev_info (pmic_devs s ! k))) = pg"

lemma chip_ready_upd [simp]:
  "chip_ready wide regs k a pg (s\<lparr>hw := w\<rparr>) = chip_ready wide regs k a pg s"
  "chip_ready wide regs k a pg (s\<lparr>powerupflag := p\<rparr>) = chip_ready wide regs k a pg s"
  by (simp_all add: chip_ready_def bus_ready_def)

lemma chip_ready_len: "chip_ready wide regs k a pg s \<Longrightarrow> k < length (pmic_devs s)"
  by (simp add: chip_ready_def)

lemma chip_narrow:
  assumes "chip_ready wide regs k a pg s"
  shows "reg_addressed (wide a) off \<longleftrightarrow> off < 0x100" and "reg_addressed (wide pg) off \<longleftrightarrow> off < 0x100"
  using assms by (simp_all add: chip_ready_def reg_addressed_def)

lemma ok_read_reg:
  assumes "chip_ready wide regs k a pg s" and "reg_addressed (wide b) off"
    and "\<And>w. regs w = regs (hw s) \<Longrightarrow> Q (ucast (regs (hw s) b off)) (s\<lparr>hw := w\<rparr>)"
  shows "ok_post (call_read_reg b off) Q s"
  using call_read_reg_ready [of wide regs s b off] assms by (auto simp: chip_ready_def intro: ok_postI)

lemma ok_write_reg:
  assumes "chip_ready wide regs k a pg s" and "reg_addressed (wide b) off"
    and "\<And>w. regs w = (regs (hw s))(b := (regs (hw s) b)(off := ucast v)) \<Longrightarrow> Q () (s\<lparr>hw := w\<rparr>)"
  shows "ok_post (call_write_reg b off v) Q s"
  using call_write_reg_ready [of wide regs s b off v] assms by (auto simp: chip_ready_def intro: ok_postI)

lemma ok_dev_addr:
  assumes "chip_ready wide regs k a pg s"
  shows "Q a s \<Longrightarrow> ok_post (dev_addr1 k) Q s" and "Q pg s \<Longrightarrow> ok_post (dev_addr2 k) Q s"
  using assms by (auto simp: chip_ready_def dev_addr1_def dev_addr2_def act_defs ok_post_def)

lemma ok_get_dev: "k < length (pmic_devs s) \<Longrightarrow> Q (pmic_devs s ! k) s \<Longrightarrow> ok_post (get_dev k) Q s"
  by (simp add: ok_post_def act_defs)

text \<open>A change of the device information that leaves the bus addresses alone.\<close>

lemma ok_upd_dev_info:
  assumes "chip_ready wide regs k a pg s" and "\<And>i. addr1 (f i) = addr1 i" and "\<And>i. addr2 (f i) = addr2 i"
    and "\<And>t. chip_ready wide regs k a pg t \<Longrightarrow> hw t = hw s \<Longrightarrow> powerupflag t = powerupflag s \<Longrightarrow>
      pmic_devs t = (pmic_devs s)[k := (pmic_devs s ! k)\<lparr>dev_info := f (dev_info (pmic_devs s ! k))\<rparr>] \<Longrightarrow> Q () t"
  shows "ok_post (upd_dev_info k f) Q s"
  using assms
  by (auto simp: chip_ready_def bus_ready_def upd_dev_info_def upd_dev_def ok_post_def)

text \<open>The SLG51000 has two-byte register addresses, the other chips one-byte ones.\<close>

definition drv_wide :: "drv \<Rightarrow> bool" where
  "drv_wide d \<longleftrightarrow> d = SLG51000"

text \<open>A voltage the regulator can be set to: in range and on a step of the selector.\<close>

definition on_step :: "csi_regu_t \<Rightarrow> u32 \<Rightarrow> bool" where
  "on_step g uv \<longleftrightarrow> 0 < step_uv g \<and> min_uv g \<le> uv \<and> uv \<le> max_uv g \<and> (uv - min_uv g) mod step_uv g = 0"

text \<open>
  The selector of every voltage up to \<open>utop\<close> fits into the selector field of the register.
\<close>

definition selector_of :: "csi_regu_t \<Rightarrow> u32 \<Rightarrow> u32" where
  "selector_of g uv = (uv - min_uv g) div step_uv g + linear_min_sel g"

definition selector_fits :: "csi_regu_t \<Rightarrow> u32 \<Rightarrow> bool" where
  "selector_fits g utop \<longleftrightarrow> vmask g \<in> {0x3F, 0x7F, 0xFF} \<and> 0 < step_uv g
     \<and> min_uv g \<le> utop
     \<and> unat (utop - min_uv g) div unat (step_uv g) + unat (linear_min_sel g) \<le> unat (vmask g)"

lemma selector_bound:
  assumes "selector_fits g utop" and "min_uv g \<le> uv" and "uv \<le> utop"
  shows "unat (selector_of g uv) = unat (uv - min_uv g) div unat (step_uv g) + unat (linear_min_sel g)"
    and "unat (selector_of g uv) \<le> unat (vmask g)"
proof -
  have le: "unat (uv - min_uv g) \<le> unat (utop - min_uv g)"
    using assms unat_sub [of "min_uv g" uv] unat_sub [of "min_uv g" utop]
    by (simp add: selector_fits_def word_le_nat_alt)
  then have sum: "unat (uv - min_uv g) div unat (step_uv g) + unat (linear_min_sel g) \<le> unat (vmask g)"
    using assms(1) div_le_mono [OF le, of "unat (step_uv g)"] by (simp add: selector_fits_def)
  moreover have "unat (vmask g) < 2 ^ 32" by (rule order_less_le_trans [OF unsigned_less]) simp
  ultimately show eq: "unat (selector_of g uv)
      = unat (uv - min_uv g) div unat (step_uv g) + unat (linear_min_sel g)"
    by (simp add: selector_of_def unat_word_ariths unat_div)
  show "unat (selector_of g uv) \<le> unat (vmask g)"
    using sum by (simp add: eq)
qed

text \<open>A selector that fits comes back unchanged from the field, whatever the other bits were.\<close>

lemma field_round_trip:
  fixes x :: u32 and old :: u8
  assumes "vm \<in> {0x3F, 0x7F, 0xFF :: u32}" and "unat x \<le> unat vm"
  shows "(ucast (ucast ((ucast old AND NOT vm) OR (vm AND x)) :: u8) :: u32) AND vm = x"
    and "(ucast (ucast x :: u8) :: u32) = x" and "x AND vm = x"
proof -
  obtain n where n: "vm = mask n" "n \<le> 8" "vm < 2 ^ n"
    using assms(1) by (auto simp: mask_eq_exp_minus_1 intro: that [of 6] that [of 7] that [of 8])
  have "x \<le> vm" using assms(2) by (simp add: word_le_nat_alt)
  then have "x < 2 ^ n" using n(3) by simp
  then have "x AND mask n = x" by (rule less_mask_eq)
  then have bx: "bit x i \<Longrightarrow> i < n" for i
    by (metis bit_and_iff bit_mask_iff)
  have bx8: "bit x i \<Longrightarrow> i < 8" for i
    using bx [of i] n(2) by linarith
  show "(ucast (ucast ((ucast old AND NOT vm) OR (vm AND x)) :: u8) :: u32) AND vm = x"
    unfolding n(1) by (rule bit_word_eqI) (use bx bx8 n(2) in \<open>auto simp: bit_simps\<close>)
  show "(ucast (ucast x :: u8) :: u32) = x"
    by (rule bit_word_eqI) (use bx bx8 n(2) in \<open>auto simp: bit_simps\<close>)
  show "x AND vm = x"
    unfolding n(1) by (rule bit_word_eqI) (use bx bx8 n(2) in \<open>auto simp: bit_simps\<close>)
qed

lemma selector_voltage:
  assumes "selector_fits g utop" and "on_step g uv" and "uv \<le> utop"
  shows "min_uv g + (selector_of g uv - linear_min_sel g) * step_uv g = uv"
proof -
  have "(uv - min_uv g) div step_uv g * step_uv g + (uv - min_uv g) mod step_uv g = uv - min_uv g"
    by (rule div_mult_mod_eq)
  with assms(2) show ?thesis by (simp add: selector_of_def on_step_def)
qed

lemmas selector_facts = selector_bound selector_voltage field_round_trip

text \<open>
  The contract of a driver with linear selectors: reading a voltage decodes the selector
  register, setting one stores the encoded selector, and decoding gives back every
  \<open>settable\<close> voltage.
\<close>

locale linear_regulator =
  fixes d :: drv
    and get_v :: "nat \<Rightarrow> u32 \<Rightarrow> ('w, u32) pact"
    and set_v :: "nat \<Rightarrow> u32 \<Rightarrow> u32 \<Rightarrow> ('w, unit) pact"
    and decode :: "csi_regu_t \<Rightarrow> u8 \<Rightarrow> u32"
    and encode :: "csi_regu_t \<Rightarrow> u32 \<Rightarrow> u8 \<Rightarrow> u8"
    and settable :: "csi_regu_t \<Rightarrow> u32 \<Rightarrow> bool"
  assumes get_law: "\<lbrakk>bus_ready wide regs s; dev_at s k d a; wide a = drv_wide d; find_regu (drv_regu_info d) r = Some g; vreg g \<noteq> 0\<rbrakk> \<Longrightarrow>
      \<exists>w. get_v k r s = (Ok (decode g (regs (hw s) a (vreg g))), s\<lparr>hw := w\<rparr>) \<and> regs w = regs (hw s)"
    and set_law: "\<lbrakk>bus_ready wide regs s; dev_at s k d a; wide a = drv_wide d; find_regu (drv_regu_info d) r = Some g; vreg g \<noteq> 0\<rbrakk> \<Longrightarrow>
      \<exists>w. set_v k r uv s = (Ok (), s\<lparr>hw := w\<rparr>)
        \<and> regs w = (regs (hw s))(a := (regs (hw s) a)(vreg g := encode g uv (regs (hw s) a (vreg g))))"
    and code_law: "\<lbrakk>g \<in> set (drv_regu_info d); vreg g \<noteq> 0; settable g uv\<rbrakk> \<Longrightarrow> decode g (encode g uv old) = uv"
begin

text \<open>What was set is what is read back, and only the selector register has changed.\<close>

lemma set_then_get:
  assumes "bus_ready wide regs s" and "dev_at s k d a" and "wide a = drv_wide d"
    and "find_regu (drv_regu_info d) r = Some g" and "vreg g \<noteq> 0" and "settable g uv"
  shows "\<exists>w w'. set_v k r uv s = (Ok (), s\<lparr>hw := w\<rparr>) \<and> get_v k r (s\<lparr>hw := w\<rparr>) = (Ok uv, s\<lparr>hw := w'\<rparr>)
    \<and> (\<forall>b q. (b, q) \<noteq> (a, vreg g) \<longrightarrow> regs w' b q = regs (hw s) b q)"
proof -
  obtain w where w: "set_v k r uv s = (Ok (), s\<lparr>hw := w\<rparr>)"
    "regs w = (regs (hw s))(a := (regs (hw s) a)(vreg g := encode g uv (regs (hw s) a (vreg g))))"
    using set_law [OF assms(1-5)] by blast
  have "bus_ready wide regs (s\<lparr>hw := w\<rparr>)" "dev_at (s\<lparr>hw := w\<rparr>) k d a"
    using assms(1,2) by simp_all
  then obtain w' where w': "get_v k r (s\<lparr>hw := w\<rparr>) = (Ok (decode g (regs w a (vreg g))), s\<lparr>hw := w'\<rparr>)"
    "regs w' = regs w"
    using get_law [of wide regs "s\<lparr>hw := w\<rparr>" k a r g] assms(3-5) by auto
  have "decode g (regs w a (vreg g)) = uv"
    using find_regu_in [OF assms(4)] code_law [of g uv] assms(5,6) w(2) by simp
  moreover have "\<forall>b q. (b, q) \<noteq> (a, vreg g) \<longrightarrow> regs w' b q = regs (hw s) b q"
    using w(2) w'(2) by auto
  ultimately show ?thesis using w(1) w'(1) by metis
qed

end

end
