(* ===== verification/Pmic_Sample.thy ===== *)
theory Pmic_Sample
  imports Pmic_Ops
begin

text \<open>
  A concrete bus on which the hypotheses of the driver theorems hold: every chip is an array of
  registers with an address pointer. It is used to evaluate the drivers on concrete inputs and
  stands for no code of the repository.
\<close>

type_synonym sample_hw = "(u16 \<Rightarrow> u32 \<Rightarrow> u8) \<times> (u16 \<Rightarrow> u32)"

definition bytes_addr :: "u8 list \<Rightarrow> u32" where
  "bytes_addr bs = foldl (\<lambda>v b. push_bit 8 v OR ucast b) 0 bs"

definition sample_send :: "(u16 \<Rightarrow> bool) \<Rightarrow> u16 \<Rightarrow> u8 list \<Rightarrow> sample_hw \<Rightarrow> int \<times> sample_hw" where
  "sample_send wide a bs w =
     (let n = (if wide a then 2 else 1)
      in if length bs = n then (int n, fst w, (snd w)(a := bytes_addr bs))
         else if length bs = n + 1
         then (int n + 1, (fst w)(a := (fst w a)(bytes_addr (butlast bs) := last bs)), snd w)
         else (-1, w))"

definition sample_receive :: "u16 \<Rightarrow> nat \<Rightarrow> sample_hw \<Rightarrow> (int \<times> u8 list) \<times> sample_hw" where
  "sample_receive a n w = ((int n, map (\<lambda>i. fst w a (snd w a + of_nat i)) [0..<n]), w)"

definition sample_bus :: "(u16 \<Rightarrow> bool) \<Rightarrow> sample_hw iic_if" where
  "sample_bus wide =
     \<lparr>iic_init = (\<lambda>_. ret ()), iic_uninit = id, iic_mode_master = ret (), iic_addr_mode = (\<lambda>_. ret ()),
      iic_speed = (\<lambda>_. ret ()), iic_master_send = sample_send wide, iic_master_receive = sample_receive,
      iic_mem_receive = (\<lambda>a r _ n w. ((int n, map (\<lambda>i. fst w a (r + of_nat i)) [0..<n]), w))\<rparr>"

definition sample_gpio :: "sample_hw gpio_if" where
  "sample_gpio =
     \<lparr>gpio_init = (\<lambda>_. ret ()), gpio_dir_input = (\<lambda>_. ret ()), gpio_dir_output = (\<lambda>_. ret ()),
      gpio_irq_mode = (\<lambda>_ _. ret ()), gpio_irq_enable = (\<lambda>_ _. ret ()), gpio_attach_callback = ret (),
      gpio_write = (\<lambda>_ _ w. w), gpio_read = (\<lambda>_ _. 0)\<rparr>"

lemma bytes_addr_narrow:
  assumes "off < 0x100"
  shows "reg_addr_bytes off = [ucast off] \<and> bytes_addr [ucast off] = off"
proof -
  have b: "bit off n \<Longrightarrow> n < 8" for n using bit_below [of off 8 n] assms by simp
  have "drop_bit 8 off = 0" by (rule bit_word_eqI) (use b in \<open>auto simp: bit_simps\<close>)
  moreover have "(ucast (ucast off :: u8) :: u32) = off"
    by (rule bit_word_eqI) (use b in \<open>auto simp: bit_simps\<close>)
  moreover have "off AND mask 8 = off" using assms by (intro less_mask_eq) simp
  ultimately show ?thesis
    by (simp add: reg_addr_bytes_def bytes_addr_def mask_eq_exp_minus_1)
qed

lemma bytes_addr_wide:
  assumes "0x100 \<le> off" and "off < 0x10000"
  shows "reg_addr_bytes off = [ucast (drop_bit 8 off), ucast off]
    \<and> bytes_addr [ucast (drop_bit 8 off), ucast off] = off"
proof -
  have b: "bit off n \<Longrightarrow> n < 16" for n using bit_below [of off 16 n] assms by simp
  have ff: "(0xff :: u32) = mask 8" by (simp add: mask_eq_exp_minus_1)
  have hi: "drop_bit 8 off AND 0xff = drop_bit 8 off"
    unfolding ff by (rule bit_word_eqI) (use b in \<open>fastforce simp: bit_simps\<close>)
  have "unat (drop_bit 8 off) = unat off div 256" by (simp add: drop_bit_eq_div unat_div)
  moreover have "256 \<le> unat off" using assms(1) by (simp add: word_le_nat_alt)
  ultimately have "drop_bit 8 off \<noteq> 0" by (metis div_greater_zero_iff less_irrefl unsigned_0 zero_less_numeral)
  moreover have "(ucast (off AND 0xff) :: u8) = ucast off"
    unfolding ff by (rule bit_word_eqI) (auto simp: bit_simps)
  moreover have "push_bit 8 (ucast (ucast (drop_bit 8 off) :: u8)) OR ucast (ucast off :: u8) = off"
    by (rule bit_word_eqI) (auto simp: bit_simps dest: b)
  ultimately show ?thesis by (simp add: reg_addr_bytes_def hi bytes_addr_def)
qed

lemma sample_bus_register_file: "iic_register_file (sample_bus wide) wide fst"
  unfolding iic_register_file_def
proof (intro allI impI)
  fix w :: sample_hw and a off and v :: u8
  assume "reg_addressed (wide a) off"
  then have "length (reg_addr_bytes off) = (if wide a then 2 else 1)" "bytes_addr (reg_addr_bytes off) = off"
    using bytes_addr_narrow [of off] bytes_addr_wide [of off] by (auto simp: reg_addressed_def split: if_splits)
  then show "(\<exists>w'. iic_master_send (sample_bus wide) a (reg_addr_bytes off @ [v]) w
        = (int (length (reg_addr_bytes off)) + 1, w') \<and> fst w' = (fst w)(a := (fst w a)(off := v)))
    \<and> (\<exists>w1 w2. iic_master_send (sample_bus wide) a (reg_addr_bytes off) w = (int (length (reg_addr_bytes off)), w1)
        \<and> iic_master_receive (sample_bus wide) a 1 w1 = ((1, [fst w a off]), w2) \<and> fst w2 = fst w)"
    by (simp add: sample_bus_def sample_send_def sample_receive_def)
qed

subsection \<open>A handle with one device\<close>

definition sample_dev :: "drv option \<Rightarrow> u8 \<Rightarrow> u8 \<Rightarrow> csi_pmic_dev_t" where
  "sample_dev d a a2 =
     \<lparr>dev_info = \<lparr>device_name = [], version_name = [], dev_pmic_id = 0, addr1 = a, addr2 = a2, flag = 0,
        slew_rate = 10, wdt_len = 60, err_io_info = \<lparr>io_gpio_port = 0, io_pin = 0, trigger_mode = 0\<rparr>,
        lpm_io_info = \<lparr>io_gpio_port = 0, io_pin = 0, trigger_mode = 0\<rparr>,
        ctrl_info = \<lparr>pmic_ctrl_type = PMIC_CTRL_BY_NOTHINTG, ctrl_b0 = 0, ctrl_b1 = 0, ctrl_b2 = 0\<rparr>\<rparr>,
      drv_data = d, is_fault = 0, dev_status = CSI_STATUS_PMIC_DEV_OK\<rparr>"

definition sample_pmic :: "csi_pmic_dev_t list \<Rightarrow> csi_regu_id_t list \<Rightarrow> (u16 \<Rightarrow> bool) \<Rightarrow> sample_hw csi_pmic_t" where
  "sample_pmic ds rs wide =
     \<lparr>pmic_status = CSI_STATUS_PMIC_OK, if_dev = sample_bus wide, pmic_csi_gpio = sample_gpio,
      dev_num = of_nat (length ds), pmic_devs = ds @ replicate (10 - length ds) (sample_dev None 0 0),
      regu_num = of_nat (length rs), regu_list = rs, hw_wdt_pmic_id = 0, wdt_ops = Some DA9063,
      pmic_read_reg = True, pmic_write_reg = True, powerupflag = 0, drv_addr = (\<lambda>_. 0),
      hw = (\<lambda>_ _. 0, \<lambda>_. 0)\<rparr>"

lemma sample_pmic_bus: "bus_ready wide fst (sample_pmic ds rs wide)"
  by (simp add: bus_ready_def sample_pmic_def sample_bus_register_file)

lemma sample_pmic_dev_at:
  "k < length ds \<Longrightarrow> dev_at (sample_pmic ds rs wide) k d a
     \<longleftrightarrow> drv_data (ds ! k) = Some d \<and> ucast (addr1 (dev_info (ds ! k))) = a"
  by (auto simp: dev_at_def sample_pmic_def nth_append)

end
