(* ===== verification/Da9063.thy ===== *)
theory Da9063
  imports Pmic_Sample
begin

text \<open>
  The DA9063 driver \<^verbatim>\<open>csi/drivers/pmic/wj/v1.0/da9063.c\<close>: register access on both I2C pages,
  regulator control, GPIO outputs, watchdog, faults, temperature, initialisation and power
  off. Delays have no effect on the modelled state.
\<close>

definition DA_9063_REG_REG_FAULT_LOG :: u32 where "DA_9063_REG_REG_FAULT_LOG = 0x05"
definition DA_9063_REG_REG_EVENT_A :: u32 where "DA_9063_REG_REG_EVENT_A = 0x06"
definition DA_9063_REG_REG_EVENT_B :: u32 where "DA_9063_REG_REG_EVENT_B = 0x07"
definition DA_9063_REG_REG_IRQ_MASK_B :: u32 where "DA_9063_REG_REG_IRQ_MASK_B = 0x0B"
definition DA_9063_REG_REG_CONTROL_A :: u32 where "DA_9063_REG_REG_CONTROL_A = 0x0E"
definition DA_9063_REG_REG_CONTROL_C :: u32 where "DA_9063_REG_REG_CONTROL_C = 0x10"
definition DA_9063_REG_REG_CONTROL_D :: u32 where "DA_9063_REG_REG_CONTROL_D = 0x11"
definition DA_9063_REG_REG_CONTROL_F :: u32 where "DA_9063_REG_REG_CONTROL_F = 0x13"
definition DA_9063_REG_REG_GPIO_2_3 :: u32 where "DA_9063_REG_REG_GPIO_2_3 = 0x16"
definition DA_9063_REG_REG_GPIO_4_5 :: u32 where "DA_9063_REG_REG_GPIO_4_5 = 0x17"
definition DA_9063_REG_REG_GPIO_6_7 :: u32 where "DA_9063_REG_REG_GPIO_6_7 = 0x18"
definition DA_9063_REG_REG_GPIO_MODE0_7 :: u32 where "DA_9063_REG_REG_GPIO_MODE0_7 = 0x1D"
definition DA_9063_REG_REG_GPIO_MODE8_15 :: u32 where "DA_9063_REG_REG_GPIO_MODE8_15 = 0x1E"
definition DA_9063_REG_REG_ADC_MAN :: u32 where "DA_9063_REG_REG_ADC_MAN = 0x34"
definition DA_9063_REG_REG_ADC_RES_L :: u32 where "DA_9063_REG_REG_ADC_RES_L = 0x37"
definition DA_9063_REG_REG_ADC_RES_H :: u32 where "DA_9063_REG_REG_ADC_RES_H = 0x38"
definition DA_9063_REG_REG_CONFIG_B :: u32 where "DA_9063_REG_REG_CONFIG_B = 0x107"
definition DA_9063_REG_REG_CONFIG_C :: u32 where "DA_9063_REG_REG_CONFIG_C = 0x108"
definition DA_9063_REG_AUTO_BOOT :: u32 where "DA_9063_REG_AUTO_BOOT = 0x08"
definition DA_9063_REG_SLEW_RATE_1US :: u32 where "DA_9063_REG_SLEW_RATE_1US = 0x40"
definition WDT_TMR_LEN_MIN :: u32 where "WDT_TMR_LEN_MIN = 2"

named_theorems da9063_regs "register numbers of the DA9063"

declare DA_9063_REG_REG_FAULT_LOG_def [da9063_regs] DA_9063_REG_REG_EVENT_A_def [da9063_regs]
  DA_9063_REG_REG_EVENT_B_def [da9063_regs] DA_9063_REG_REG_IRQ_MASK_B_def [da9063_regs]
  DA_9063_REG_REG_CONTROL_A_def [da9063_regs] DA_9063_REG_REG_CONTROL_C_def [da9063_regs]
  DA_9063_REG_REG_CONTROL_D_def [da9063_regs] DA_9063_REG_REG_CONTROL_F_def [da9063_regs]
  DA_9063_REG_REG_GPIO_2_3_def [da9063_regs] DA_9063_REG_REG_GPIO_4_5_def [da9063_regs]
  DA_9063_REG_REG_GPIO_6_7_def [da9063_regs] DA_9063_REG_REG_GPIO_MODE0_7_def [da9063_regs]
  DA_9063_REG_REG_GPIO_MODE8_15_def [da9063_regs] DA_9063_REG_REG_ADC_MAN_def [da9063_regs]
  DA_9063_REG_REG_ADC_RES_L_def [da9063_regs] DA_9063_REG_REG_ADC_RES_H_def [da9063_regs]
  DA_9063_REG_REG_CONFIG_B_def [da9063_regs] DA_9063_REG_REG_CONFIG_C_def [da9063_regs]

subsection \<open>Operations\<close>

definition da9063_get_reg :: "nat \<Rightarrow> u32 \<Rightarrow> ('w, u32) pact" where
  "da9063_get_reg k reg =
     (if reg \<ge> 0x100
      then bind_res (dev_addr2 k) (\<lambda>a. as_err CSI_ERROR (call_read_reg a (reg - 0x100)))
      else bind_res (dev_addr1 k) (\<lambda>a. as_err CSI_ERROR (call_read_reg a reg)))"

definition da9063_set_reg :: "nat \<Rightarrow> u32 \<Rightarrow> u32 \<Rightarrow> ('w, unit) pact" where
  "da9063_set_reg k reg val =
     (if reg \<ge> 0x100
      then bind_res (dev_addr2 k) (\<lambda>a. as_err CSI_ERROR (call_write_reg a (reg - 0x100) val))
      else bind_res (dev_addr1 k) (\<lambda>a. as_err CSI_ERROR (call_write_reg a reg val)))"

definition da9063_regu_power_ctrl :: "nat \<Rightarrow> u32 \<Rightarrow> u32 \<Rightarrow> ('w, unit) pact" where
  "da9063_regu_power_ctrl k regu_id bon =
     bind_res (dev_addr1 k) (\<lambda>a.
     bind_res (pmic_get_regu_info k regu_id) (\<lambda>regu.
       if ereg regu = 0 \<or> emask regu = 0 then fail CSI_UNSUPPORTED
       else bind_res (call_read_reg a (ereg regu)) (\<lambda>val.
         call_write_reg a (ereg regu) (if bon \<noteq> 0 then val OR emask regu else val AND NOT (emask regu)))))"

definition da9063_get_voltage :: "nat \<Rightarrow> u32 \<Rightarrow> ('w, u32) pact" where
  "da9063_get_voltage k regu_id =
     bind_res (dev_addr1 k) (\<lambda>a.
     bind_res (pmic_get_regu_info k regu_id) (\<lambda>regu.
       if vreg regu = 0 \<or> vmask regu = 0 then fail CSI_UNSUPPORTED
       else bind_res (call_read_reg a (vreg regu)) (\<lambda>val.
         ret (min_uv regu + ((val AND vmask regu) - linear_min_sel regu) * step_uv regu))))"

definition da9063_set_voltage :: "nat \<Rightarrow> u32 \<Rightarrow> u32 \<Rightarrow> ('w, unit) pact" where
  "da9063_set_voltage k regu_id uv =
     bind_res (dev_addr1 k) (\<lambda>a.
     bind_res (pmic_get_regu_info k regu_id) (\<lambda>regu.
       if vreg regu = 0 \<or> vmask regu = 0 then fail CSI_UNSUPPORTED
       else bind_res (call_read_reg a (vreg regu)) (\<lambda>temp.
         if step_uv regu = 0 then undef
         else call_write_reg a (vreg regu)
           ((temp AND NOT (vmask regu))
             OR (vmask regu AND ((uv - min_uv regu) div step_uv regu + linear_min_sel regu))))))"

definition da9063_gpio_ctrl :: "nat \<Rightarrow> u32 \<Rightarrow> u32 \<Rightarrow> ('w, unit) pact" where
  "da9063_gpio_ctrl k gpio_index val =
     bind_res (dev_addr1 k) (\<lambda>a.
       if gpio_index \<le> 7
       then bind_res (as_err CSI_ERROR (call_read_reg a DA_9063_REG_REG_GPIO_MODE0_7)) (\<lambda>rv.
         call_write_reg a DA_9063_REG_REG_GPIO_MODE0_7
           (if val \<noteq> 0 then rv OR push_bit (unat gpio_index) 1
            else rv AND NOT (push_bit (unat gpio_index) 1)))
       else if gpio_index - 8 \<ge> 32 then undef
       else bind_res (as_err CSI_ERROR (call_read_reg a DA_9063_REG_REG_GPIO_MODE8_15)) (\<lambda>rv.
         call_write_reg a DA_9063_REG_REG_GPIO_MODE8_15
           (if val \<noteq> 0 then rv OR push_bit (unat (gpio_index - 8)) 1
            else rv AND NOT (push_bit (unat (gpio_index - 8)) 1))))"

definition da9063_get_twdscale :: "u32 \<Rightarrow> u32" where
  "da9063_get_twdscale tick_scale =
     (if tick_scale \<le> 2 then 1 else if tick_scale \<le> 4 then 2 else if tick_scale \<le> 8 then 3
      else if tick_scale \<le> 16 then 4 else if tick_scale \<le> 32 then 5
      else if tick_scale \<le> 64 then 6 else 7)"

definition da9063_wdt_update_timer :: "nat \<Rightarrow> u32 \<Rightarrow> ('w, unit) pact" where
  "da9063_wdt_update_timer k second =
     bind_res (dev_addr1 k) (\<lambda>a.
     bind_res (call_read_reg a DA_9063_REG_REG_CONTROL_D) (\<lambda>val.
       call_write_reg a DA_9063_REG_REG_CONTROL_D ((val AND NOT 0x7) OR da9063_get_twdscale second)))"

definition da9063_wdt_stop :: "nat \<Rightarrow> ('w, unit) pact" where
  "da9063_wdt_stop k =
     bind_res (dev_addr1 k) (\<lambda>a.
     bind_res (call_read_reg a DA_9063_REG_REG_CONTROL_D) (\<lambda>val.
       call_write_reg a DA_9063_REG_REG_CONTROL_D (val AND NOT 0x7)))"

definition da9063_wdt_feed :: "nat \<Rightarrow> ('w, unit) pact" where
  "da9063_wdt_feed k =
     bind_res (dev_addr1 k) (\<lambda>a. call_write_reg a DA_9063_REG_REG_CONTROL_F 1)"

definition da9063_wdt_set_timer_len :: "nat \<Rightarrow> u32 \<Rightarrow> ('w, unit) pact" where
  "da9063_wdt_set_timer_len k second =
     bind_res (da9063_wdt_update_timer k second) (\<lambda>_. da9063_wdt_feed k)"

definition da9063_wdt_start_len :: "nat \<Rightarrow> u32 \<Rightarrow> ('w, unit) pact" where
  "da9063_wdt_start_len k second =
     bind_res (da9063_wdt_stop k) (\<lambda>_. da9063_wdt_update_timer k second)"

definition da9063_wdt_start :: "nat \<Rightarrow> ('w, unit) pact" where
  "da9063_wdt_start k = bind_res (get_dev k) (\<lambda>d. da9063_wdt_start_len k (wdt_len (dev_info d)))"

definition da9063_wdt_repower :: "nat \<Rightarrow> ('w, unit) pact" where
  "da9063_wdt_repower k = bind_res (da9063_wdt_start_len k WDT_TMR_LEN_MIN) (\<lambda>_. hang)"

definition da9063_select_buck_mode :: "nat \<Rightarrow> u32 \<Rightarrow> pmic_buck_mode \<Rightarrow> ('w, unit) pact" where
  "da9063_select_buck_mode k regu_id mode =
     bind_res (dev_addr1 k) (\<lambda>a.
     bind_res (pmic_get_regu_info k regu_id) (\<lambda>regu.
       if vreg regu = 0 \<or> vmask regu = 0 \<or> vconf regu = 0 then fail CSI_UNSUPPORTED
       else bind_res (call_read_reg a (vconf regu)) (\<lambda>temp.
         call_write_reg a (vconf regu)
           ((case mode of SYNC \<Rightarrow> 0x80 | SLEEP \<Rightarrow> 0x40 | AUTO \<Rightarrow> 0xC0) OR (NOT 0xC0 AND temp)))))"

definition da9063_fault_status :: "u32 \<Rightarrow> csi_pmic_dev_status_en" where
  "da9063_fault_status ev =
     (if ev = 0x02 then CSI_STATUS_PMIC_DEV_OT
      else if ev = 0x40 then CSI_STATUS_PMIC_DEV_OV
      else if ev = 0x80 then CSI_STATUS_PMIC_DEV_UV
      else if ev = 0x08 then CSI_STATUS_PMIC_DEV_OC
      else CSI_STATUS_PMIC_DEV_OK)"

definition da9063_regu_read_faults :: "nat \<Rightarrow> ('w, unit) pact" where
  "da9063_regu_read_faults k =
     bind_res (dev_addr1 k) (\<lambda>a.
     bind_res (call_read_reg a DA_9063_REG_REG_EVENT_B) (\<lambda>ev.
     bind_res (call_read_reg a DA_9063_REG_REG_FAULT_LOG) (\<lambda>fl.
     bind_res (if ev \<noteq> 0
         then bind_res (upd_dev k (\<lambda>d. d\<lparr>dev_status := da9063_fault_status ev\<rparr>)) (\<lambda>_.
           call_write_reg a DA_9063_REG_REG_EVENT_B ev)
         else ret ()) (\<lambda>_.
       if fl \<noteq> 0 then call_write_reg a DA_9063_REG_REG_FAULT_LOG fl else ret ()))))"

definition da9063_adc_value :: "u32 \<Rightarrow> u32 \<Rightarrow> u32" where
  "da9063_adc_value val_h val_l = push_bit 2 (val_h AND 0xFF) OR drop_bit 8 (val_l AND 0xC0)"

definition da9063_regu_get_temperature :: "nat \<Rightarrow> ('w, u32) pact" where
  "da9063_regu_get_temperature k =
     bind_res (dev_addr1 k) (\<lambda>a.
     bind_res (call_write_reg a DA_9063_REG_REG_ADC_MAN (push_bit 2 1 OR push_bit 4 3)) (\<lambda>_.
     bind_res (call_read_reg a DA_9063_REG_REG_ADC_RES_L) (\<lambda>val_l.
     bind_res (call_read_reg a DA_9063_REG_REG_ADC_RES_H) (\<lambda>val_h.
       ret (330000 - 398 * da9063_adc_value val_h val_l)))))"

definition da9063_get_powerflag :: "nat \<Rightarrow> ('w, u32) pact" where
  "da9063_get_powerflag k =
     bind_res (as_err CSI_ERROR (da9063_get_reg k DA_9063_REG_REG_EVENT_A)) (\<lambda>val.
       ret (if val AND 1 \<noteq> 0 then 1 else 0))"

definition da9063_clear_fault_log :: "nat \<Rightarrow> ('w, unit) pact" where
  "da9063_clear_fault_log k =
     bind_res (for_each [0x0A, 0x0B, 0x0C, 0x0D] (\<lambda>reg. da9063_set_reg k reg 0xFF)) (\<lambda>_.
     for_each [0x06, 0x07, 0x08, 0x09] (\<lambda>reg.
       bind_res (da9063_get_reg k reg) (\<lambda>val. da9063_set_reg k reg val)))"

definition da9063_get_bootmode :: "nat \<Rightarrow> ('w, unit) pact" where
  "da9063_get_bootmode k =
     bind_res (da9063_get_reg k DA_9063_REG_REG_CONTROL_C) (\<lambda>val.
       if val AND DA_9063_REG_AUTO_BOOT \<noteq> 0
       then upd_dev_info k (\<lambda>i. i\<lparr>flag := flag i OR PMIC_DEV_ENABLE_AUTO_REBOOT\<rparr>)
       else ret ())"

definition da9063_gpio_init :: "nat \<Rightarrow> ('w, unit) pact" where
  "da9063_gpio_init k =
     as_err CSI_ERROR
      (bind_res (da9063_get_reg k DA_9063_REG_REG_GPIO_4_5) (\<lambda>val.
       bind_res (da9063_set_reg k DA_9063_REG_REG_GPIO_4_5 (val OR (push_bit 0 3 OR push_bit 3 1))) (\<lambda>_.
       bind_res (da9063_get_reg k DA_9063_REG_REG_GPIO_2_3) (\<lambda>val.
       bind_res (da9063_set_reg k DA_9063_REG_REG_GPIO_2_3 (val OR (push_bit 0 3 OR push_bit 3 1))) (\<lambda>_.
       bind_res (da9063_get_reg k DA_9063_REG_REG_GPIO_6_7) (\<lambda>val.
       da9063_set_reg k DA_9063_REG_REG_GPIO_6_7 (val OR (push_bit 4 3 OR push_bit 7 1))))))))"

definition da9063_get_powerup_flag :: "nat \<Rightarrow> ('w, u32) pact" where
  "da9063_get_powerup_flag k = get_st powerupflag"

definition da9063_uninit :: "nat \<Rightarrow> ('w, unit) pact" where
  "da9063_uninit k =
     bind_res (dev_addr1 k) (\<lambda>a.
     bind_res (as_err CSI_ERROR (call_read_reg a DA_9063_REG_REG_CONTROL_A)) (\<lambda>val.
     bind_res (as_err CSI_ERROR (call_write_reg a DA_9063_REG_REG_CONTROL_A (val AND NOT 1))) (\<lambda>_.
     hang)))"

definition da9063_init :: "nat \<Rightarrow> ('w, unit) pact" where
  "da9063_init k =
     bind_res (dev_addr1 k) (\<lambda>a.
     bind_res (dev_addr2 k) (\<lambda>pg.
     bind_res (da9063_get_powerflag k) (\<lambda>pf.
     bind_res (upd_st (\<lambda>s. s\<lparr>powerupflag := pf\<rparr>)) (\<lambda>_.
     bind_res (da9063_clear_fault_log k) (\<lambda>_.
     bind_res (da9063_get_bootmode k) (\<lambda>_.
     bind_res (da9063_gpio_init k) (\<lambda>_.
     bind_res (da9063_set_reg k DA_9063_REG_REG_CONTROL_C (push_bit 5 DA_9063_REG_SLEW_RATE_1US)) (\<lambda>_.
     bind_res (upd_dev_info k (\<lambda>i. i\<lparr>slew_rate := 10\<rparr>)) (\<lambda>_.
     bind_res (da9063_get_reg k DA_9063_REG_REG_CONFIG_C) (\<lambda>val.
     bind_res (da9063_set_reg k DA_9063_REG_REG_CONFIG_C (val OR push_bit 2 1)) (\<lambda>_.
     bind_res (call_write_reg pg (DA_9063_REG_REG_CONFIG_B - 0x100) (NOT (push_bit 7 1))) (\<lambda>_.
     bind_res (call_read_reg a DA_9063_REG_REG_IRQ_MASK_B) (\<lambda>val.
     call_write_reg a DA_9063_REG_REG_IRQ_MASK_B
       (val AND NOT (push_bit 6 3 OR push_bit 1 1 OR push_bit 3 1)))))))))))))))"

definition da9063_ops :: "'w csi_regu_ops_t" where
  "da9063_ops = null_ops
     \<lparr>set_voltage := Some da9063_set_voltage, get_voltage := Some da9063_get_voltage,
      set_reg := Some da9063_set_reg, get_reg := Some da9063_get_reg,
      get_powerup := Some da9063_get_powerup_flag, regu_power_ctrl := Some da9063_regu_power_ctrl,
      read_faults := Some da9063_regu_read_faults, mode_select := Some da9063_select_buck_mode,
      get_temperature := Some da9063_regu_get_temperature, gpio_output := Some da9063_gpio_ctrl,
      op_init := Some da9063_init, op_uninit := Some da9063_uninit\<rparr>"

definition da9063_wdt_ops :: "'w csi_wdt_ops_t" where
  "da9063_wdt_ops =
     \<lparr>w_set_timer_len = da9063_wdt_set_timer_len, w_start = da9063_wdt_start,
      w_stop = da9063_wdt_stop, w_feed = da9063_wdt_feed, w_repower = da9063_wdt_repower\<rparr>"

subsection \<open>Voltages\<close>

definition da9063_decode :: "csi_regu_t \<Rightarrow> u8 \<Rightarrow> u32" where
  "da9063_decode g b = min_uv g + ((ucast b AND vmask g) - linear_min_sel g) * step_uv g"

definition da9063_encode :: "csi_regu_t \<Rightarrow> u32 \<Rightarrow> u8 \<Rightarrow> u8" where
  "da9063_encode g uv old = ucast ((ucast old AND NOT (vmask g)) OR (vmask g AND selector_of g uv))"

lemma da9063_table:
  "g \<in> set da9063_regulator_info \<Longrightarrow> vreg g \<noteq> 0 \<Longrightarrow> selector_fits g (max_uv g) \<and> vmask g \<noteq> 0 \<and> reg_addressed False (vreg g)"
  unfolding da9063_regulator_info_def
  by (auto simp: selector_fits_def reg_addressed_def DA_9063_REG_DVC_def DA_9063_REG_LDO_def DA_9063_REG_GPIO_def
      word_less_nat_alt word_le_nat_alt)

lemma da9063_regu:
  assumes "dev_at s k DA9063 a" and "wide a = drv_wide DA9063" and "find_regu (drv_regu_info DA9063) r = Some g" and "vreg g \<noteq> 0"
  shows "vmask g \<noteq> 0" "reg_addressed (wide a) (vreg g)" "step_uv g \<noteq> 0"
    "pmic_get_regu_info k r s = (Ok g, s)" "dev_addr1 k s = (Ok a, s)"
  using da9063_table [of g] find_regu_in [OF assms(3)] assms dev_at_simps [OF assms(1)]
  by (auto simp: selector_fits_def drv_wide_def)

interpretation da9063: linear_regulator DA9063 da9063_get_voltage da9063_set_voltage
  da9063_decode da9063_encode on_step
proof (unfold_locales, goal_cases)
  case (1 wide regs s k a r g)
  note f = da9063_regu [of s k a wide r g, OF 1(2-5)]
  from call_read_reg_ready [OF 1(1), of a "vreg g", OF f(2)] obtain w where
    "call_read_reg a (vreg g) s = (Ok (ucast (regs (hw s) a (vreg g))), s\<lparr>hw := w\<rparr>)" "regs w = regs (hw s)"
    by blast
  then show ?case
    using f 1(5) by (auto simp: da9063_get_voltage_def bind_res_def ret_def da9063_decode_def)
next
  case (2 wide regs s k a r g uv)
  note f = da9063_regu [of s k a wide r g, OF 2(2-5)]
  from call_read_reg_ready [OF 2(1), of a "vreg g", OF f(2)] obtain w where w:
    "call_read_reg a (vreg g) s = (Ok (ucast (regs (hw s) a (vreg g))), s\<lparr>hw := w\<rparr>)" "regs w = regs (hw s)"
    by blast
  have ready: "bus_ready wide regs (s\<lparr>hw := w\<rparr>)" using 2(1) by simp
  let ?v = "(ucast (regs (hw s) a (vreg g)) AND NOT (vmask g))
    OR (vmask g AND ((uv - min_uv g) div step_uv g + linear_min_sel g)) :: u32"
  from call_write_reg_ready [OF ready, of a "vreg g" ?v, OF f(2)] obtain w' where w':
    "call_write_reg a (vreg g) ?v (s\<lparr>hw := w\<rparr>) = (Ok (), s\<lparr>hw := w'\<rparr>)"
    "regs w' = (regs (hw s))(a := (regs (hw s) a)(vreg g := ucast ?v))"
    using w(2) by auto
  show ?case
    using f 2(5) w w'
    by (auto simp: da9063_set_voltage_def bind_res_def da9063_encode_def selector_of_def)
next
  case (3 g uv old)
  then have fits: "selector_fits g (max_uv g)" using da9063_table by simp
  have le: "uv \<le> max_uv g" "min_uv g \<le> uv" using 3(3) by (simp_all add: on_step_def)
  have "(ucast (da9063_encode g uv old) :: u32) AND vmask g = selector_of g uv"
    unfolding da9063_encode_def
    using field_round_trip(1) selector_bound(2) [OF fits le(2,1)] fits
    by (simp add: selector_fits_def)
  then show ?case
    using selector_voltage [OF fits 3(3) le(1)] by (simp add: da9063_decode_def)
qed

subsection \<open>Effect of the operations on the chip\<close>

lemma ok_da9063_get_reg:
  assumes "chip_ready wide regs k a pg s" and "reg < 0x200"
    and "\<And>w. regs w = regs (hw s) \<Longrightarrow>
      Q (ucast (regs (hw s) (if reg \<ge> 0x100 then pg else a) (if reg \<ge> 0x100 then reg - 0x100 else reg))) (s\<lparr>hw := w\<rparr>)"
  shows "ok_post (da9063_get_reg k reg) Q s"
proof -
  have "reg_addressed (wide a) reg" if "\<not> reg \<ge> 0x100"
    using that assms(1) by (simp add: reg_addressed_def chip_ready_def)
  moreover have "reg_addressed (wide pg) (reg - 0x100)" if "reg \<ge> 0x100"
    using that assms(1,2) by (auto simp: reg_addressed_def chip_ready_def word_less_nat_alt word_le_nat_alt unat_sub_if_size)
  ultimately show ?thesis
    using assms unfolding da9063_get_reg_def
    by (auto intro!: ok_rules ok_dev_addr [OF assms(1)] ok_read_reg [OF assms(1)])
qed

lemma ok_da9063_set_reg:
  assumes "chip_ready wide regs k a pg s" and "reg < 0x200"
    and "\<And>w. regs w = (let b = (if reg \<ge> 0x100 then pg else a); q = (if reg \<ge> 0x100 then reg - 0x100 else reg)
      in (regs (hw s))(b := (regs (hw s) b)(q := ucast v))) \<Longrightarrow> Q () (s\<lparr>hw := w\<rparr>)"
  shows "ok_post (da9063_set_reg k reg v) Q s"
proof -
  have "reg_addressed (wide a) reg" if "\<not> reg \<ge> 0x100"
    using that assms(1) by (simp add: reg_addressed_def chip_ready_def)
  moreover have "reg_addressed (wide pg) (reg - 0x100)" if "reg \<ge> 0x100"
    using that assms(1,2) by (auto simp: reg_addressed_def chip_ready_def word_less_nat_alt word_le_nat_alt unat_sub_if_size)
  ultimately show ?thesis
    using assms unfolding da9063_set_reg_def
    by (auto intro!: ok_rules ok_dev_addr [OF assms(1)] ok_write_reg [OF assms(1)])
qed

lemma da9063_twdscale:
  shows "1 \<le> da9063_get_twdscale sec" and "da9063_get_twdscale sec \<le> 7"
    and "sec \<le> 128 \<Longrightarrow> unat sec \<le> 2 ^ unat (da9063_get_twdscale sec)"
    and "1 < da9063_get_twdscale sec \<Longrightarrow> 2 ^ (unat (da9063_get_twdscale sec) - 1) < unat sec"
  by (auto simp: da9063_get_twdscale_def word_le_nat_alt word_less_nat_alt)

lemma scale_bits:
  "ucast ((ucast (x :: u8) :: u32) AND - 8) = x AND 0xF8"
  "ucast ((ucast (x :: u8) :: u32) AND - 8 OR c) = (x AND 0xF8) OR ucast c"
proof -
  have m: "(- 8 :: u32) = NOT (mask 3)" "(0xF8 :: u8) = NOT (mask 3)" by (simp_all add: mask_eq_exp_minus_1)
  show "ucast ((ucast (x :: u8) :: u32) AND - 8) = x AND 0xF8"
    unfolding m by (rule bit_word_eqI) (auto simp: bit_simps)
  show "ucast ((ucast (x :: u8) :: u32) AND - 8 OR c) = (x AND 0xF8) OR ucast c"
    unfolding m by (rule bit_word_eqI) (auto simp: bit_simps)
qed

lemma ok_da9063_wdt_update_timer:
  assumes "chip_ready wide regs k a pg s"
    and "\<And>w. regs w = (regs (hw s))(a := (regs (hw s) a)(0x11 :=
      (regs (hw s) a 0x11 AND 0xF8) OR ucast (da9063_get_twdscale sec))) \<Longrightarrow> Q () (s\<lparr>hw := w\<rparr>)"
  shows "ok_post (da9063_wdt_update_timer k sec) Q s"
  using assms(2) unfolding da9063_wdt_update_timer_def DA_9063_REG_REG_CONTROL_D_def
  by (auto intro!: ok_rules ok_dev_addr [OF assms(1)] ok_read_reg [where k = k and a = a and pg = pg and regs = regs and wide = wide]
      ok_write_reg [where k = k and a = a and pg = pg and regs = regs and wide = wide] simp: assms(1) scale_bits chip_narrow [OF assms(1)])

lemma ok_da9063_wdt_feed:
  assumes "chip_ready wide regs k a pg s"
    and "\<And>w. regs w = (regs (hw s))(a := (regs (hw s) a)(0x13 := 1)) \<Longrightarrow> Q () (s\<lparr>hw := w\<rparr>)"
  shows "ok_post (da9063_wdt_feed k) Q s"
  using assms(2) unfolding da9063_wdt_feed_def DA_9063_REG_REG_CONTROL_F_def
  by (auto intro!: ok_rules ok_dev_addr [OF assms(1)]
      ok_write_reg [where k = k and a = a and pg = pg and regs = regs and wide = wide] simp: assms(1) scale_bits chip_narrow [OF assms(1)])

lemma ok_da9063_wdt_stop:
  assumes "chip_ready wide regs k a pg s"
    and "\<And>w. regs w = (regs (hw s))(a := (regs (hw s) a)(0x11 :=
      regs (hw s) a 0x11 AND 0xF8)) \<Longrightarrow> Q () (s\<lparr>hw := w\<rparr>)"
  shows "ok_post (da9063_wdt_stop k) Q s"
  using assms(2) unfolding da9063_wdt_stop_def DA_9063_REG_REG_CONTROL_D_def
  by (auto intro!: ok_rules ok_dev_addr [OF assms(1)] ok_read_reg [where k = k and a = a and pg = pg and regs = regs and wide = wide]
      ok_write_reg [where k = k and a = a and pg = pg and regs = regs and wide = wide] simp: assms(1) scale_bits chip_narrow [OF assms(1)])

subsection \<open>Properties\<close>


definition sample_da9063 :: "sample_hw csi_pmic_t" where
  "sample_da9063 = sample_pmic [sample_dev (Some DA9063) 0x58 0x59] [] (\<lambda>_. False)"

lemma sample_da9063_ready: "chip_ready (\<lambda>_. False) fst 0 0x58 0x59 sample_da9063"
  using sample_pmic_bus [of "\<lambda>_. False" "[sample_dev (Some DA9063) 0x58 0x59]" "[]"]
  by (simp add: chip_ready_def sample_da9063_def sample_pmic_def sample_dev_def)


text \<open>
  Stopping the watchdog of the DA9063 clears the scale code and nothing else; starting it
  programs the code of the configured period, whatever it was before.
\<close>

theorem da9063_wdt_stop_start:
  assumes "chip_ready wide regs k a pg s"
  shows "\<exists>w w'. da9063_wdt_stop k s = (Ok (), s\<lparr>hw := w\<rparr>)
    \<and> regs w = (regs (hw s))(a := (regs (hw s) a)(0x11 := regs (hw s) a 0x11 AND 0xF8))
    \<and> da9063_wdt_start k s = (Ok (), s\<lparr>hw := w'\<rparr>)
    \<and> regs w' = (regs (hw s))(a := (regs (hw s) a)(0x11 := (regs (hw s) a 0x11 AND 0xF8)
          OR ucast (da9063_get_twdscale (wdt_len (dev_info (pmic_devs s ! k))))))"
proof -
  have "ok_post (da9063_wdt_stop k) (\<lambda>_ t. \<exists>w. t = s\<lparr>hw := w\<rparr> \<and>
      regs w = (regs (hw s))(a := (regs (hw s) a)(0x11 := regs (hw s) a 0x11 AND 0xF8))) s"
    by (auto intro!: ok_da9063_wdt_stop [OF assms])
  moreover have "ok_post (da9063_wdt_start k) (\<lambda>_ t. \<exists>w. t = s\<lparr>hw := w\<rparr> \<and>
      regs w = (regs (hw s))(a := (regs (hw s) a)(0x11 := (regs (hw s) a 0x11 AND 0xF8)
          OR ucast (da9063_get_twdscale (wdt_len (dev_info (pmic_devs s ! k))))))) s"
    using assms unfolding da9063_wdt_start_def da9063_wdt_start_len_def
    by (auto intro!: ok_rules ok_da9063_wdt_stop [OF assms] ok_get_dev
        ok_da9063_wdt_update_timer [where regs = regs and wide = wide and a = a and pg = pg and k = k]
        simp: chip_ready_def and.assoc)
  ultimately show ?thesis by (auto elim!: ok_postE) blast
qed

theorem da9063_wdt_stop_start_witness:
  "\<exists>w. da9063_wdt_start 0 sample_da9063 = (Ok (), sample_da9063\<lparr>hw := w\<rparr>) \<and> fst w 0x58 0x11 = 6"
  using da9063_wdt_stop_start [OF sample_da9063_ready]
  by (auto simp: da9063_get_twdscale_def sample_da9063_def sample_pmic_def sample_dev_def)

lemmas da9063_init_regs = DA_9063_REG_REG_FAULT_LOG_def DA_9063_REG_REG_EVENT_A_def
  DA_9063_REG_REG_EVENT_B_def DA_9063_REG_REG_IRQ_MASK_B_def DA_9063_REG_REG_CONTROL_C_def
  DA_9063_REG_REG_CONFIG_C_def DA_9063_REG_REG_CONFIG_B_def DA_9063_REG_REG_GPIO_2_3_def
  DA_9063_REG_REG_GPIO_4_5_def DA_9063_REG_REG_GPIO_6_7_def DA_9063_REG_SLEW_RATE_1US_def

lemma ok_da9063_clear_fault_log:
  assumes "chip_ready wide regs k a pg s" and "\<And>w. Q () (s\<lparr>hw := w\<rparr>)"
  shows "ok_post (da9063_clear_fault_log k) Q s"
  unfolding da9063_clear_fault_log_def
  by (auto intro!: ok_rules ok_da9063_set_reg [where wide = wide and regs = regs and a = a and pg = pg]
       ok_da9063_get_reg [where wide = wide and regs = regs and a = a and pg = pg] simp: assms)

lemma ok_da9063_gpio_init:
  assumes "chip_ready wide regs k a pg s" and "\<And>w. Q () (s\<lparr>hw := w\<rparr>)"
  shows "ok_post (da9063_gpio_init k) Q s"
  unfolding da9063_gpio_init_def da9063_init_regs
  by (auto intro!: ok_rules ok_da9063_set_reg [where wide = wide and regs = regs and a = a and pg = pg]
       ok_da9063_get_reg [where wide = wide and regs = regs and a = a and pg = pg] simp: assms)

lemma ok_da9063_get_bootmode:
  assumes "chip_ready wide regs k a pg s"
    and "\<And>t. chip_ready wide regs k a pg t \<Longrightarrow> powerupflag t = powerupflag s \<Longrightarrow> Q () t"
  shows "ok_post (da9063_get_bootmode k) Q s"
  unfolding da9063_get_bootmode_def da9063_init_regs
  by (auto intro!: ok_rules ok_upd_dev_info [where wide = wide and regs = regs and a = a and pg = pg]
       ok_da9063_get_reg [where wide = wide and regs = regs and a = a and pg = pg] simp: assms)

lemma ok_da9063_get_powerflag:
  assumes "chip_ready wide regs k a pg s"
    and "\<And>w. regs w = regs (hw s) \<Longrightarrow> Q (if ucast (regs (hw s) a 0x06) AND (1 :: u32) \<noteq> 0 then 1 else 0) (s\<lparr>hw := w\<rparr>)"
  shows "ok_post (da9063_get_powerflag k) Q s"
  using assms(2) unfolding da9063_get_powerflag_def da9063_init_regs
  by (auto intro!: ok_rules ok_da9063_get_reg [where wide = wide and regs = regs and a = a and pg = pg]
      simp: assms(1))

text \<open>
  C32: initialisation of the DA9063 succeeds on a working bus, records whether the power-up was
  caused by the ON key and a slew rate of 10 mV/us, and leaves CONTROL_C at zero: the slew rate
  selector \<^verbatim>\<open>0x40 << 5\<close> does not fit into the byte that is written, so the slew rate bits and
  the auto-boot bit are cleared.
\<close>

theorem da9063_init_control_c:
  assumes "chip_ready wide regs k a pg s" and "a \<noteq> pg"
  shows "ok_post (da9063_init k) (\<lambda>_ t. regs (hw t) a 0x10 = 0
      \<and> slew_rate (dev_info (pmic_devs t ! k)) = 10
      \<and> powerupflag t = (if ucast (regs (hw s) a 0x06) AND (1 :: u32) \<noteq> 0 then 1 else 0)
      \<and> regs (hw t) pg 0x07 = 0x7F) s"
  unfolding da9063_init_def da9063_init_regs
  by (auto intro!: ok_rules ok_dev_addr [OF assms(1)] ok_da9063_get_powerflag [OF assms(1)]
   ok_da9063_clear_fault_log [where wide = wide and regs = regs and a = a and pg = pg]
   ok_da9063_get_bootmode [where wide = wide and regs = regs and a = a and pg = pg]
   ok_da9063_gpio_init [where wide = wide and regs = regs and a = a and pg = pg]
   ok_upd_dev_info [where wide = wide and regs = regs and a = a and pg = pg]
   ok_da9063_set_reg [where wide = wide and regs = regs and a = a and pg = pg]
   ok_da9063_get_reg [where wide = wide and regs = regs and a = a and pg = pg]
   ok_read_reg [where k = k and wide = wide and regs = regs and a = a and pg = pg]
   ok_write_reg [where k = k and wide = wide and regs = regs and a = a and pg = pg]
    simp: assms assms(2) [symmetric] chip_narrow [OF assms(1)] chip_ready_len Let_def)

theorem da9063_init_control_c_witness:
  "ok_post (da9063_init 0) (\<lambda>_ t. fst (hw t) 0x58 0x10 = 0) sample_da9063"
  by (rule ok_mono [OF da9063_init_control_c [OF sample_da9063_ready]]) simp_all

text \<open>
  The temperature the DA9063 driver computes depends on the high ADC byte only. The low
  result bits 7 and 6 are shifted right by eight instead of six, which removes them.
\<close>

theorem da9063_adc_ignores_low_bits:
  "da9063_adc_value val_h val_l = push_bit 2 (val_h AND 0xFF)"
proof -
  have "drop_bit 8 (val_l AND 0xC0) = 0"
  proof (rule bit_word_eqI)
    fix n
    have "(0xC0 :: u32) < 2 ^ 8" by simp
    then show "bit (drop_bit 8 (val_l AND 0xC0)) n = bit 0 n"
      using bit_below [of "0xC0 :: u32" 8 "8 + n"] by (auto simp: bit_drop_bit_eq bit_and_iff)
  qed
  then show ?thesis by (simp add: da9063_adc_value_def)
qed

end
