(* ===== verification/Da9121.thy ===== *)
theory Da9121
  imports Pmic_Sample
begin

text \<open>
  The DA9121 driver \<^verbatim>\<open>csi/drivers/pmic/wj/v1.0/da9121.c\<close>: one buck converter with a linear
  selector. The selector register is masked when it is read but not when it is written.
\<close>

definition da9121_get_voltage :: "nat \<Rightarrow> u32 \<Rightarrow> ('w, u32) pact" where
  "da9121_get_voltage k regu_id =
     bind_res (pmic_get_regu_info k regu_id) (\<lambda>regu.
       if vreg regu = 0 \<or> vmask regu = 0 then fail CSI_UNSUPPORTED
       else bind_res (dev_addr1 k) (\<lambda>a.
         bind_res (call_read_reg a (vreg regu)) (\<lambda>val.
         ret (min_uv regu + ((val AND vmask regu) - linear_min_sel regu) * step_uv regu))))"

definition da9121_set_voltage :: "nat \<Rightarrow> u32 \<Rightarrow> u32 \<Rightarrow> ('w, unit) pact" where
  "da9121_set_voltage k regu_id uv =
     bind_res (pmic_get_regu_info k regu_id) (\<lambda>regu.
       if vreg regu = 0 \<or> vmask regu = 0 then fail CSI_UNSUPPORTED
       else if step_uv regu = 0 then undef
       else bind_res (dev_addr1 k) (\<lambda>a.
         call_write_reg a (vreg regu) ((uv - min_uv regu) div step_uv regu + linear_min_sel regu)))"

definition da9121_regu_power_ctrl :: "nat \<Rightarrow> u32 \<Rightarrow> u32 \<Rightarrow> ('w, unit) pact" where
  "da9121_regu_power_ctrl k regu_id bon =
     bind_res (pmic_get_regu_info k regu_id) (\<lambda>regu.
       if ereg regu = 0 \<or> emask regu = 0 then fail CSI_UNSUPPORTED
       else bind_res (dev_addr1 k) (\<lambda>a.
         bind_res (call_read_reg a (ereg regu)) (\<lambda>val.
         call_write_reg a (ereg regu) (if bon \<noteq> 0 then val OR emask regu else val AND NOT (emask regu)))))"

definition da9121_uninit :: "nat \<Rightarrow> ('w, unit) pact" where
  "da9121_uninit k = ret ()"

definition da9121_init :: "nat \<Rightarrow> ('w, unit) pact" where
  "da9121_init k = upd_dev_info k (\<lambda>i. i\<lparr>slew_rate := 20\<rparr>)"

definition da9121_ops :: "'w csi_regu_ops_t" where
  "da9121_ops = null_ops
     \<lparr>set_voltage := Some da9121_set_voltage, get_voltage := Some da9121_get_voltage,
      regu_power_ctrl := Some da9121_regu_power_ctrl, op_init := Some da9121_init,
      op_uninit := Some da9121_uninit\<rparr>"

subsection \<open>Voltages\<close>

definition da9121_decode :: "csi_regu_t \<Rightarrow> u8 \<Rightarrow> u32" where
  "da9121_decode g b = min_uv g + ((ucast b AND vmask g) - linear_min_sel g) * step_uv g"

definition da9121_encode :: "csi_regu_t \<Rightarrow> u32 \<Rightarrow> u8 \<Rightarrow> u8" where
  "da9121_encode g uv old = ucast (selector_of g uv)"

text \<open>The seven selector bits reach 1.27 V, not the 1.9 V of the table.\<close>

definition da9121_settable :: "csi_regu_t \<Rightarrow> u32 \<Rightarrow> bool" where
  "da9121_settable g uv \<longleftrightarrow> on_step g uv \<and> uv \<le> 1270000"

lemma da9121_table:
  "g \<in> set da9121_regulator_info \<Longrightarrow>
     selector_fits g 1270000 \<and> vmask g \<noteq> 0 \<and> vreg g \<noteq> 0 \<and> reg_addressed False (vreg g)"
  unfolding da9121_regulator_info_def
  by (auto simp: selector_fits_def reg_addressed_def word_less_nat_alt word_le_nat_alt)

lemma da9121_regu:
  assumes "dev_at s k DA9121 a" and "wide a = drv_wide DA9121" and "find_regu (drv_regu_info DA9121) r = Some g"
  shows "vmask g \<noteq> 0" "reg_addressed (wide a) (vreg g)" "step_uv g \<noteq> 0" "vreg g \<noteq> 0"
    "pmic_get_regu_info k r s = (Ok g, s)" "dev_addr1 k s = (Ok a, s)"
  using da9121_table [of g] find_regu_in [OF assms(3)] assms dev_at_simps [OF assms(1)]
  by (auto simp: selector_fits_def drv_wide_def)

interpretation da9121: linear_regulator DA9121 da9121_get_voltage da9121_set_voltage
  da9121_decode da9121_encode da9121_settable
proof (unfold_locales, goal_cases)
  case (1 wide regs s k a r g)
  note f = da9121_regu [of s k a wide r g, OF 1(2-4)]
  from call_read_reg_ready [OF 1(1), of a "vreg g", OF f(2)] show ?case
    using f by (auto simp: da9121_get_voltage_def bind_res_def ret_def da9121_decode_def)
next
  case (2 wide regs s k a r g uv)
  note f = da9121_regu [of s k a wide r g, OF 2(2-4)]
  from call_write_reg_ready [OF 2(1), of a "vreg g" "selector_of g uv", OF f(2)] show ?case
    using f by (auto simp: da9121_set_voltage_def bind_res_def da9121_encode_def selector_of_def)
next
  case (3 g uv old)
  then have fits: "selector_fits g 1270000" and step: "on_step g uv" and le: "uv \<le> 1270000"
    using da9121_table by (simp_all add: da9121_settable_def)
  then have "unat (selector_of g uv) \<le> unat (vmask g)" "vmask g \<in> {0x3F, 0x7F, 0xFF}"
    using selector_bound(2) [OF fits _ le] by (simp_all add: on_step_def selector_fits_def)
  then show ?case
    using selector_voltage [OF fits step le] field_round_trip(2,3) [of "vmask g" "selector_of g uv"]
    by (simp add: da9121_decode_def da9121_encode_def)
qed

lemma and_7F_high:
  fixes x :: u32
  assumes "128 \<le> unat x" and "unat x < 256"
  shows "x AND 0x7F = x - 128"
proof (rule word_unat_eq_iff [THEN iffD2])
  have "unat (x AND 0x7F) = unat (take_bit 7 x)" by (simp add: take_bit_eq_mask mask_eq_exp_minus_1)
  also have "\<dots> = unat x mod 128" by (simp only: unsigned_take_bit_eq) (simp add: take_bit_eq_mod)
  also have "\<dots> = unat (x - 128)"
    using assms by (simp add: unat_sub word_le_nat_alt mod_if)
  finally show "unat (x AND 0x7F) = unat (x - 128)" .
qed

lemma da9121_decode_high:
  assumes "find_regu (drv_regu_info DA9121) 0 = Some g"
    and "1280000 \<le> uv" and "uv \<le> 1900000" and "(uv - 300000) mod 10000 = 0"
  shows "da9121_decode g (da9121_encode g uv old) = uv - 1280000"
proof -
  have g: "min_uv g = 300000" "step_uv g = 10000" "linear_min_sel g = 30" "vmask g = 0x7F"
    using assms(1) by (auto simp: find_regu_def da9121_regulator_info_def)
  define q where "q = (uv - 300000) div 10000"
  have uv: "uv - 300000 = q * 10000"
    using div_mult_mod_eq [of "uv - 300000" 10000] assms(4) by (simp add: q_def)
  have "unat (uv - 300000) = unat uv - 300000" using assms(2) by (intro unat_sub [THEN trans]) (auto simp: word_le_nat_alt)
  then have q: "98 \<le> unat q" "unat q \<le> 160"
    using assms(2,3) by (auto simp: q_def unat_div word_le_nat_alt)
  then have sel: "unat (q + 30) = unat q + 30" by (simp add: unat_word_ariths)
  have "(ucast (ucast (q + 30) :: u8) :: u32) = q + 30"
    using q sel by (intro field_round_trip(2) [of "0xFF"]) simp_all
  moreover have "(q + 30) AND 0x7F = (q + 30) - 128"
    using q sel by (intro and_7F_high) simp_all
  ultimately have "da9121_decode g (da9121_encode g uv old) = 300000 + (q + 30 - 128 - 30) * 10000"
    by (simp add: da9121_decode_def da9121_encode_def selector_of_def g q_def)
  also have "\<dots> = q * 10000 + 300000 - 1280000" by (simp add: algebra_simps)
  also have "\<dots> = uv - 1280000" by (simp flip: uv)
  finally show ?thesis .
qed

text \<open>
  Above 1.27 V the DA9121 driver does not read back what it has set. The table allows
  voltages up to 1.9 V, but the selector of 1.28 V has the value 128 and the driver masks it with
  \<^verbatim>\<open>0x7F\<close>: after setting 1.28 V to 1.9 V the voltage that is read back is 1.28 V too low.
\<close>

theorem da9121_high_voltage_not_read_back:
  assumes "bus_ready wide regs s" and "dev_at s k DA9121 a" and "\<not> wide a"
    and "1280000 \<le> uv" and "uv \<le> 1900000" and "(uv - 300000) mod 10000 = 0"
  shows "\<exists>w w'. da9121_set_voltage k 0 uv s = (Ok (), s\<lparr>hw := w\<rparr>)
    \<and> da9121_get_voltage k 0 (s\<lparr>hw := w\<rparr>) = (Ok (uv - 1280000), s\<lparr>hw := w'\<rparr>)"
proof -
  obtain g where g: "find_regu (drv_regu_info DA9121) 0 = Some g" "vreg g \<noteq> 0"
    by (simp add: find_regu_def da9121_regulator_info_def)
  have narrow: "wide a = drv_wide DA9121" using assms(3) by (simp add: drv_wide_def)
  obtain w where w: "da9121_set_voltage k 0 uv s = (Ok (), s\<lparr>hw := w\<rparr>)"
    "regs w a (vreg g) = da9121_encode g uv (regs (hw s) a (vreg g))"
    using da9121.set_law [OF assms(1,2) narrow g, of uv] by auto
  moreover have "bus_ready wide regs (s\<lparr>hw := w\<rparr>)" "dev_at (s\<lparr>hw := w\<rparr>) k DA9121 a"
    using assms(1,2) by simp_all
  ultimately show ?thesis
    using da9121.get_law [of wide regs "s\<lparr>hw := w\<rparr>" k a 0 g] narrow g
      da9121_decode_high [OF g(1) assms(4-6)]
    by auto
qed

definition sample_da9121 :: "sample_hw csi_pmic_t" where
  "sample_da9121 = sample_pmic [sample_dev (Some DA9121) 0x68 0] [] (\<lambda>_. False)"

theorem da9121_high_voltage_not_read_back_witness:
  "\<exists>w w'. da9121_set_voltage 0 0 1300000 sample_da9121 = (Ok (), sample_da9121\<lparr>hw := w\<rparr>)
    \<and> da9121_get_voltage 0 0 (sample_da9121\<lparr>hw := w\<rparr>) = (Ok 20000, sample_da9121\<lparr>hw := w'\<rparr>)"
  using da9121_high_voltage_not_read_back [where wide = "\<lambda>_. False" and regs = fst and s = sample_da9121 and k = 0 and a = "0x68" and uv = 1300000]
  by (simp add: sample_da9121_def sample_pmic_bus sample_pmic_dev_at sample_dev_def)

end
