(* ===== verification/Slg51000.thy ===== *)
theory Slg51000
  imports Pmic_Sample
begin

text \<open>
  The SLG51000 driver \<^verbatim>\<open>csi/drivers/pmic/wj/v1.0/slg51000.c\<close>: seven LDOs with eight-bit linear
  selectors and a matrix register of enable bits, behind two-byte register addresses.
\<close>

definition slg51000_get_voltage :: "nat \<Rightarrow> u32 \<Rightarrow> ('w, u32) pact" where
  "slg51000_get_voltage k regu_id =
     bind_res (pmic_get_regu_info k regu_id) (\<lambda>regu.
       if vreg regu = 0 \<or> vmask regu = 0 then fail CSI_UNSUPPORTED
       else bind_res (dev_addr1 k) (\<lambda>a.
         bind_res (call_read_reg a (vreg regu)) (\<lambda>val.
         ret (min_uv regu + val * step_uv regu))))"

definition slg51000_set_voltage :: "nat \<Rightarrow> u32 \<Rightarrow> u32 \<Rightarrow> ('w, unit) pact" where
  "slg51000_set_voltage k regu_id uv =
     bind_res (pmic_get_regu_info k regu_id) (\<lambda>regu.
       if vreg regu = 0 \<or> vmask regu = 0 then fail CSI_UNSUPPORTED
       else if step_uv regu = 0 then undef
       else bind_res (dev_addr1 k) (\<lambda>a.
         call_write_reg a (vreg regu) ((uv - min_uv regu) div step_uv regu)))"

definition slg51000_regu_power_ctrl :: "nat \<Rightarrow> u32 \<Rightarrow> u32 \<Rightarrow> ('w, unit) pact" where
  "slg51000_regu_power_ctrl k regu_id bon =
     bind_res (pmic_get_regu_info k regu_id) (\<lambda>regu.
       if ereg regu = 0 \<or> emask regu = 0 then fail CSI_UNSUPPORTED
       else bind_res (dev_addr1 k) (\<lambda>a.
         bind_res (call_read_reg a (ereg regu)) (\<lambda>val.
         call_write_reg a (ereg regu) (if bon \<noteq> 0 then val OR emask regu else val AND NOT (emask regu)))))"

definition slg51000_uninit :: "nat \<Rightarrow> ('w, unit) pact" where
  "slg51000_uninit k = ret ()"

text \<open>The sequence of register writes of \<^verbatim>\<open>slg51000_init\<close>, each followed by \<^verbatim>\<open>if (ret) return ret;\<close>.\<close>

definition slg51000_init_seq :: "(u32 \<times> u32) list" where
  "slg51000_init_seq =
     [(0x111a, 0x45), (0x111b, 0x53), (0x111c, 0x54), (0x111d, 0x4d),
      (0x1106, 0x04), (0x1107, 0xb1), (0x110d, 0x00), (0x1500, 0x00), (0x1503, 0x00),
      (0x1715, 0x02), (0x1716, 0x03), (0x1717, 0x0d), (0x1718, 0x05), (0x1719, 0x06),
      (0x171a, 0x07), (0x171b, 0x08),
      (0x2000, 0x78), (0x2200, 0x3c), (0x2365, 0x30), (0x2700, 0xa0), (0x2766, 0x41),
      (0x2900, 0xa0), (0x2966, 0x41)]"

definition slg51000_init :: "nat \<Rightarrow> ('w, unit) pact" where
  "slg51000_init k =
     bind_res (upd_dev_info k (\<lambda>i. i\<lparr>slew_rate := 10\<rparr>)) (\<lambda>_.
     for_each slg51000_init_seq (\<lambda>(reg, val).
       bind_res (dev_addr1 k) (\<lambda>a. call_write_reg a reg val)))"

definition slg51000_ops :: "'w csi_regu_ops_t" where
  "slg51000_ops = null_ops
     \<lparr>set_voltage := Some slg51000_set_voltage, get_voltage := Some slg51000_get_voltage,
      regu_power_ctrl := Some slg51000_regu_power_ctrl, op_init := Some slg51000_init,
      op_uninit := Some slg51000_uninit\<rparr>"

subsection \<open>Voltages\<close>

definition slg51000_decode :: "csi_regu_t \<Rightarrow> u8 \<Rightarrow> u32" where
  "slg51000_decode g b = min_uv g + ucast b * step_uv g"

definition slg51000_encode :: "csi_regu_t \<Rightarrow> u32 \<Rightarrow> u8 \<Rightarrow> u8" where
  "slg51000_encode g uv old = ucast (selector_of g uv)"

lemma slg51000_table:
  "g \<in> set slg51000_regulator_info \<Longrightarrow> selector_fits g (max_uv g) \<and> vmask g = 0xFF \<and> vreg g \<noteq> 0
     \<and> linear_min_sel g = 0 \<and> reg_addressed True (vreg g)"
  unfolding slg51000_regulator_info_def
  by (auto simp: selector_fits_def reg_addressed_def SLG51000_LDO_def word_less_nat_alt word_le_nat_alt)

lemma slg51000_regu:
  assumes "dev_at s k SLG51000 a" and "wide a = drv_wide SLG51000"
    and "find_regu (drv_regu_info SLG51000) r = Some g"
  shows "vmask g \<noteq> 0" "reg_addressed (wide a) (vreg g)" "step_uv g \<noteq> 0" "vreg g \<noteq> 0" "linear_min_sel g = 0"
    "pmic_get_regu_info k r s = (Ok g, s)" "dev_addr1 k s = (Ok a, s)"
  using slg51000_table [of g] find_regu_in [OF assms(3)] assms dev_at_simps [OF assms(1)]
  by (auto simp: selector_fits_def drv_wide_def)

interpretation slg51000: linear_regulator SLG51000 slg51000_get_voltage slg51000_set_voltage
  slg51000_decode slg51000_encode on_step
proof (unfold_locales, goal_cases)
  case (1 wide regs s k a r g)
  note f = slg51000_regu [of s k a wide r g, OF 1(2-4)]
  from call_read_reg_ready [OF 1(1), of a "vreg g", OF f(2)] show ?case
    using f by (auto simp: slg51000_get_voltage_def bind_res_def ret_def slg51000_decode_def)
next
  case (2 wide regs s k a r g uv)
  note f = slg51000_regu [of s k a wide r g, OF 2(2-4)]
  from call_write_reg_ready [OF 2(1), of a "vreg g" "selector_of g uv", OF f(2)] show ?case
    using f by (auto simp: slg51000_set_voltage_def bind_res_def slg51000_encode_def selector_of_def)
next
  case (3 g uv old)
  then have fits: "selector_fits g (max_uv g)" and z: "linear_min_sel g = 0" "vmask g = 0xFF"
    using slg51000_table by simp_all
  have le: "uv \<le> max_uv g" "min_uv g \<le> uv" using 3(3) by (simp_all add: on_step_def)
  have "unat (selector_of g uv) \<le> unat (vmask g)" using selector_bound(2) [OF fits le(2,1)] .
  then show ?case
    using selector_voltage [OF fits 3(3) le(1)] field_round_trip(2) [of "vmask g" "selector_of g uv"] z
    by (simp add: slg51000_decode_def slg51000_encode_def)
qed

subsection \<open>Initialisation\<close>

text \<open>A sequence of writes to one chip ends with the last value of every register.\<close>

lemma slg51000_writes:
  assumes "bus_ready wide regs s" and "dev_at s k SLG51000 a" and "\<forall>(q, v) \<in> set seq. reg_addressed (wide a) q"
  shows "\<exists>w. for_each seq (\<lambda>(reg, val). bind_res (dev_addr1 k) (\<lambda>a. call_write_reg a reg val)) s
      = (Ok (), s\<lparr>hw := w\<rparr>)
    \<and> regs w = (regs (hw s))(a := fold (\<lambda>(q, v) f. f(q := ucast v)) seq (regs (hw s) a))"
  using assms
proof (induction seq arbitrary: s)
  case Nil
  then show ?case by (auto simp: act_defs intro: exI [of _ "hw s"])
next
  case (Cons e seq)
  obtain q v where e: "e = (q, v)" by fastforce
  obtain w where w: "call_write_reg a q v s = (Ok (), s\<lparr>hw := w\<rparr>)"
    "regs w = (regs (hw s))(a := (regs (hw s) a)(q := ucast v))"
    using call_write_reg_ready [OF Cons.prems(1), of a q v] Cons.prems(3) e by auto
  have "bus_ready wide regs (s\<lparr>hw := w\<rparr>)" "dev_at (s\<lparr>hw := w\<rparr>) k SLG51000 a"
    "\<forall>(q, v) \<in> set seq. reg_addressed (wide a) q"
    using Cons.prems by simp_all
  from Cons.IH [OF this] obtain w' where
    "for_each seq (\<lambda>(reg, val). bind_res (dev_addr1 k) (\<lambda>a. call_write_reg a reg val)) (s\<lparr>hw := w\<rparr>)
      = (Ok (), s\<lparr>hw := w\<rparr>\<lparr>hw := w'\<rparr>)"
    "regs w' = (regs (hw (s\<lparr>hw := w\<rparr>)))(a := fold (\<lambda>(q, v) f. f(q := ucast v)) seq (regs (hw (s\<lparr>hw := w\<rparr>)) a))"
    by blast
  then show ?case
    using w dev_at_simps(1) [OF Cons.prems(2)] by (intro exI [of _ w']) (simp add: e bind_res_step fun_upd_same del: fun_upd_apply)
qed

text \<open>
  Initialisation of the SLG51000 succeeds on a working bus; it leaves every LDO disabled in
  the matrix register and programs LDO1 to 2.8 V, LDO2 to 2.5 V and LDO5 and LDO6 to 1.2 V, which
  is what the driver then reads back.
\<close>

theorem slg51000_init_voltages:
  assumes "bus_ready wide regs s" and "dev_at s k SLG51000 a" and "wide a"
  shows "\<exists>t. slg51000_init k s = (Ok (), t) \<and> regs (hw t) a 0x110d = 0
    \<and> slew_rate (dev_info (pmic_devs t ! k)) = 10
    \<and> fst (slg51000_get_voltage k 0 t) = Ok 2800000 \<and> fst (slg51000_get_voltage k 1 t) = Ok 2500000
    \<and> fst (slg51000_get_voltage k 4 t) = Ok 1200000 \<and> fst (slg51000_get_voltage k 5 t) = Ok 1200000"
proof -
  define u where "u = s\<lparr>pmic_devs := (pmic_devs s)[k := (pmic_devs s ! k)\<lparr>dev_info :=
    (dev_info (pmic_devs s ! k))\<lparr>slew_rate := 10\<rparr>\<rparr>]\<rparr>"
  have k: "k < length (pmic_devs s)" using assms(2) by (simp add: dev_at_def)
  have u: "bus_ready wide regs u" "dev_at u k SLG51000 a"
    using assms(1,2) by (auto simp: u_def bus_ready_def dev_at_def)
  have "\<forall>(q, v) \<in> set slg51000_init_seq. reg_addressed (wide a) q"
    using assms(3) by (auto simp: slg51000_init_seq_def reg_addressed_def word_le_nat_alt word_less_nat_alt)
  from slg51000_writes [OF u this] obtain w where
    w: "for_each slg51000_init_seq (\<lambda>(reg, val). bind_res (dev_addr1 k) (\<lambda>a. call_write_reg a reg val)) u
      = (Ok (), u\<lparr>hw := w\<rparr>)"
      "regs w = (regs (hw u))(a := fold (\<lambda>(q, v) f. f(q := ucast v)) slg51000_init_seq (regs (hw u) a))"
    by blast
  have run: "slg51000_init k s = (Ok (), u\<lparr>hw := w\<rparr>)"
    using k w(1) by (simp add: slg51000_init_def upd_dev_info_def upd_dev_def bind_res_def u_def)
  have r: "regs w a 0x110d = 0" "regs w a 0x2000 = 0x78" "regs w a 0x2200 = 0x3c"
    "regs w a 0x2700 = 0xa0" "regs w a 0x2900 = 0xa0"
    unfolding w(2) slg51000_init_seq_def by simp_all
  have "fst (slg51000_get_voltage k r (u\<lparr>hw := w\<rparr>)) = Ok (slg51000_decode g (regs w a (vreg g)))"
    if "find_regu (drv_regu_info SLG51000) r = Some g" for r g
    using slg51000.get_law [of wide regs "u\<lparr>hw := w\<rparr>" k a r g] u assms(3) that slg51000_table [of g]
      find_regu_in [OF that] by (auto simp: drv_wide_def)
  note get = this
  have "fst (slg51000_get_voltage k 0 (u\<lparr>hw := w\<rparr>)) = Ok 2800000"
    "fst (slg51000_get_voltage k 1 (u\<lparr>hw := w\<rparr>)) = Ok 2500000"
    "fst (slg51000_get_voltage k 4 (u\<lparr>hw := w\<rparr>)) = Ok 1200000"
    "fst (slg51000_get_voltage k 5 (u\<lparr>hw := w\<rparr>)) = Ok 1200000"
    using r by (simp_all add: get find_regu_def slg51000_regulator_info_def SLG51000_LDO_def slg51000_decode_def)
  then show ?thesis using run r(1) k by (auto simp: u_def)
qed

definition sample_slg51000 :: "sample_hw csi_pmic_t" where
  "sample_slg51000 = sample_pmic [sample_dev (Some SLG51000) 0x75 0] [] (\<lambda>a. a = 0x75)"

theorem slg51000_init_voltages_witness:
  "\<exists>t. slg51000_init 0 sample_slg51000 = (Ok (), t) \<and> fst (slg51000_get_voltage 0 0 t) = Ok 2800000"
  using slg51000_init_voltages [where wide = "\<lambda>a. a = 0x75" and regs = fst and s = sample_slg51000 and k = 0 and a = "0x75"]
  by (auto simp: sample_slg51000_def sample_pmic_bus sample_pmic_dev_at sample_dev_def)

end
