(* ===== verification/Pmic_Regulator.thy ===== *)
theory Pmic_Regulator
  imports Pmic_Coupling Da9063 Da9121 Slg51000
begin

text \<open>
  The regulator operations of \<^verbatim>\<open>pmic.c\<close>: setting the voltages of the one to three rails of a
  regulator (in steps, when they are coupled), reading them, switching a regulator on and off,
  and the mode of a buck converter. A driver is called through its operation table.
\<close>

subsection \<open>Driver tables\<close>

fun drv_ops :: "drv \<Rightarrow> 'w csi_regu_ops_t" where
  "drv_ops DA9063 = da9063_ops"
| "drv_ops DA9121 = da9121_ops"
| "drv_ops SLG51000 = slg51000_ops"

fun drv_wdt_ops :: "drv \<Rightarrow> 'w csi_wdt_ops_t option" where
  "drv_wdt_ops DA9063 = Some da9063_wdt_ops"
| "drv_wdt_ops DA9121 = None"
| "drv_wdt_ops SLG51000 = None"

fun drv_features :: "drv \<Rightarrow> u16" where
  "drv_features DA9063 = PMIC_DRV_SUPPORT_WDT OR PMIC_DRV_SUPPORT_AUTO_REBOOT"
| "drv_features DA9121 = 0"
| "drv_features SLG51000 = 0"

text \<open>\<^verbatim>\<open>pmic_dev->drv_data->ops\<close>.\<close>

definition dev_ops :: "nat \<Rightarrow> ('w, 'w csi_regu_ops_t) pact" where
  "dev_ops k = bind_res (dev_drv k) (\<lambda>d. ret (drv_ops d))"

subsection \<open>Setting voltages\<close>

text \<open>
  The local arrays of \<^verbatim>\<open>csi_pmic_regulator_set_voltage\<close>, indexed by rail: the devices, their
  regulators, the voltages last read, and which rails still have to be set.
\<close>

record sv_state =
  sv_dev :: "nat option list"
  sv_regu :: "csi_regu_t option list"
  sv_current :: "u32 list"
  sv_need_set :: u8
  sv_need_set_flag :: u8

definition sv_init :: sv_state where
  "sv_init = \<lparr>sv_dev = replicate PMIC_MAX_HW_ID_NUM None, sv_regu = replicate PMIC_MAX_HW_ID_NUM None,
     sv_current = replicate PMIC_MAX_HW_ID_NUM 0, sv_need_set = 0, sv_need_set_flag = 0\<rparr>"

fun sv_prepare :: "csi_regu_id_t \<Rightarrow> u32 list \<Rightarrow> nat list \<Rightarrow> sv_state \<Rightarrow> ('w, sv_state) pact" where
  "sv_prepare r tgt [] st = ret st"
| "sv_prepare r tgt (i # is) st =
     (let h = sub_id r ! i in
      if hw_valid h then
        bind_res (find_dev (pmic_id h)) (\<lambda>k.
        bind_res (dev_ops k) (\<lambda>ops.
          case (get_voltage ops, set_voltage ops) of
            (Some getv, Some setv) \<Rightarrow>
              bind_res (pmic_get_regu_info k (ucast (hw_id h))) (\<lambda>g.
                if tgt ! i > max_uv g \<or> tgt ! i < min_uv g then fail CSI_ERROR
                else bind_res (getv k (ucast (hw_id h))) (\<lambda>v.
                  let st' = st\<lparr>sv_dev := (sv_dev st)[i := Some k], sv_regu := (sv_regu st)[i := Some g],
                               sv_current := (sv_current st)[i := v]\<rparr>
                  in sv_prepare r tgt is
                       (if v \<noteq> tgt ! i
                        then st'\<lparr>sv_need_set_flag := sv_need_set_flag st OR push_bit i 1,
                                 sv_need_set := sv_need_set st + 1\<rparr>
                        else st')))
          | _ \<Rightarrow> fail CSI_ERROR))
      else sv_prepare r tgt is st)"

text \<open>One turn of the inner loop. The wait divides by the slew rate of the device.\<close>

definition sv_body :: "csi_regu_id_t \<Rightarrow> u32 list \<Rightarrow> bool list \<Rightarrow> nat \<Rightarrow> sv_state \<Rightarrow> ('w, sv_state) pact" where
  "sv_body r tgt coupling_flag i st =
     (if bit (sv_need_set_flag st) i then
        if tgt ! i = sv_current st ! i
        then ret (st\<lparr>sv_need_set := sv_need_set st - 1,
                     sv_need_set_flag := sv_need_set_flag st AND NOT (push_bit i 1)\<rparr>)
        else
          bind_res (deref (sv_regu st ! i)) (\<lambda>g.
          bind_res (deref (sv_dev st ! i)) (\<lambda>k.
          bind_res (if coupling_flag ! i
                    then csi_pmic_get_voltage_balanced r i (tgt ! i) (step_uv g) (sv_current st)
                    else ret (tgt ! i)) (\<lambda>current_target_uv.
          bind_res (dev_ops k) (\<lambda>ops.
          bind_res (deref (set_voltage ops)) (\<lambda>setv.
          bind_res (setv k (ucast (hw_id (sub_id r ! i))) current_target_uv) (\<lambda>_.
          bind_res (get_dev k) (\<lambda>d.
            if slew_rate (dev_info d) = 0 then undef
            else
              bind_res (deref (get_voltage ops)) (\<lambda>getv.
              bind_res (getv k (ucast (hw_id (sub_id r ! i)))) (\<lambda>v.
              ret (st\<lparr>sv_current := (sv_current st)[i := v]\<rparr>))))))))))
      else ret st)"

fun sv_pass :: "csi_regu_id_t \<Rightarrow> u32 list \<Rightarrow> bool list \<Rightarrow> nat list \<Rightarrow> sv_state \<Rightarrow> ('w, sv_state) pact" where
  "sv_pass r tgt cf [] st = ret st"
| "sv_pass r tgt cf (i # is) st = bind_res (sv_body r tgt cf i st) (sv_pass r tgt cf is)"

text \<open>\<^verbatim>\<open>while (need_set)\<close>, with fuel for the number of passes.\<close>

fun sv_loop :: "nat \<Rightarrow> csi_regu_id_t \<Rightarrow> u32 list \<Rightarrow> bool list \<Rightarrow> nat \<Rightarrow> sv_state \<Rightarrow> ('w, unit) pact" where
  "sv_loop 0 r tgt cf n st = (if sv_need_set st = 0 then ret () else hang)"
| "sv_loop (Suc fuel) r tgt cf n st =
     (if sv_need_set st = 0 then ret ()
      else bind_res (sv_pass r tgt cf [0..<n] st) (sv_loop fuel r tgt cf n))"

definition csi_pmic_regulator_set_voltage :: "nat \<Rightarrow> regu_voltage_param_t \<Rightarrow> ('w, unit) pact" where
  "csi_pmic_regulator_set_voltage fuel regu_param =
     bind_res (as_err CSI_ERROR (pmic_get_id_info (ucast (rv_regu_ext_id regu_param)))) (\<lambda>j.
     bind_res (get_st (\<lambda>s. regu_list s ! j)) (\<lambda>r.
     let coupling_flag = get_hw_need_set_vol_by_coupled_info r;
         current_uv_num = length (filter hw_valid (sub_id r))
     in bind_res (sv_prepare r (target_uv regu_param) [0..<length (sub_id r)] sv_init) (\<lambda>st.
          sv_loop fuel r (target_uv regu_param) coupling_flag current_uv_num st)))"

subsection \<open>Reading voltages\<close>

fun gv_loop :: "csi_regu_id_t \<Rightarrow> nat list \<Rightarrow> u32 list \<Rightarrow> ('w, u32 list) pact" where
  "gv_loop r [] uvs = ret uvs"
| "gv_loop r (i # is) uvs =
     (let h = sub_id r ! i in
      if hw_valid h then
        bind_res (find_dev (pmic_id h)) (\<lambda>k.
        bind_res (dev_ops k) (\<lambda>ops.
          case get_voltage ops of
            None \<Rightarrow> fail CSI_ERROR
          | Some getv \<Rightarrow> bind_res (getv k (ucast (hw_id h))) (\<lambda>v. gv_loop r is (uvs[i := v]))))
      else gv_loop r is uvs)"

definition csi_pmic_regulator_get_voltage :: "regu_voltage_param_t \<Rightarrow> ('w, regu_voltage_param_t) pact" where
  "csi_pmic_regulator_get_voltage regu_param =
     bind_res (as_err CSI_ERROR (pmic_get_id_info (ucast (rv_regu_ext_id regu_param)))) (\<lambda>j.
     bind_res (get_st (\<lambda>s. regu_list s ! j)) (\<lambda>r.
     bind_res (gv_loop r [0..<length (sub_id r)] (target_uv regu_param)) (\<lambda>uvs.
       ret (regu_param\<lparr>target_uv := uvs\<rparr>))))"

subsection \<open>Switching regulators\<close>

definition set_benable :: "nat \<Rightarrow> nat \<Rightarrow> u8 \<Rightarrow> ('w, unit) pact" where
  "set_benable j i b =
     upd_st (\<lambda>s. s\<lparr>regu_list := (regu_list s)[j := (regu_list s ! j)\<lparr>sub_id :=
       (sub_id (regu_list s ! j))[i := (sub_id (regu_list s ! j) ! i)\<lparr>benable := b\<rparr>]\<rparr>]\<rparr>)"

definition bool_val :: "bool \<Rightarrow> u32" where
  "bool_val b = (if b then 1 else 0)"

text \<open>
  A parent device that is missing or has no GPIO operation ends the whole function with the code
  of the last call, which is \<open>CSI_OK\<close> there, before the new state of the rail is recorded.
\<close>

fun ctrl_loop :: "nat \<Rightarrow> bool \<Rightarrow> nat list \<Rightarrow> ('w, unit) pact" where
  "ctrl_loop j enable [] = ret ()"
| "ctrl_loop j enable (i # is) =
     bind_res (get_st (\<lambda>s. sub_id (regu_list s ! j) ! i)) (\<lambda>h.
     if hw_valid h then
       bind_res (find_dev (pmic_id h)) (\<lambda>k.
       bind_res (dev_ops k) (\<lambda>ops.
         case regu_power_ctrl ops of
           None \<Rightarrow> fail CSI_ERROR
         | Some ctrl \<Rightarrow>
             bind_res (ctrl k (ucast (hw_id h)) (bool_val enable)) (\<lambda>_.
             if pa_pmic_id (parent_hw_info h) \<noteq> PMIC_ID_INVALID then
               bind_res (get_st (\<lambda>s. csi_pmic_get_dev_by_pmic_id s (pa_pmic_id (parent_hw_info h)))) (\<lambda>pa.
                 case pa of
                   None \<Rightarrow> ret ()
                 | Some p \<Rightarrow>
                     bind_res (dev_ops p) (\<lambda>pops.
                       case gpio_output pops of
                         None \<Rightarrow> ret ()
                       | Some out \<Rightarrow>
                           bind_res (out p (ucast (pa_io_hw_id (parent_hw_info h)))
                             (bool_val (if pa_activate_status (parent_hw_info h) = HW_ID_ACTIVATE_HIGH
                                        then enable else \<not> enable))) (\<lambda>_.
                           bind_res (set_benable j i (if enable then 1 else 0)) (\<lambda>_.
                           ctrl_loop j enable is))))
             else
               bind_res (set_benable j i (if enable then 1 else 0)) (\<lambda>_. ctrl_loop j enable is))))
     else ctrl_loop j enable is)"

definition csi_pmic_regulator_ctrl :: "u8 \<Rightarrow> bool \<Rightarrow> ('w, unit) pact" where
  "csi_pmic_regulator_ctrl ext enable =
     bind_res (as_err CSI_ERROR (pmic_get_id_info (ucast ext))) (\<lambda>j.
     bind_res (get_st (\<lambda>s. length (sub_id (regu_list s ! j)))) (\<lambda>n.
     ctrl_loop j enable [0..<n]))"

definition csi_pmic_regulator_is_enable :: "u8 \<Rightarrow> ('w, u32) pact" where
  "csi_pmic_regulator_is_enable ext =
     bind_res (as_err CSI_ERROR (pmic_get_id_info (ucast ext))) (\<lambda>j.
     bind_res (get_st (\<lambda>s. filter hw_valid (sub_id (regu_list s ! j)))) (\<lambda>hs.
       ret (if hs = [] then 0 else bool_val (\<forall>h \<in> set hs. benable h \<noteq> 0))))"

fun mode_loop :: "csi_regu_id_t \<Rightarrow> pmic_buck_mode \<Rightarrow> nat list \<Rightarrow> ('w, unit) pact" where
  "mode_loop r mode [] = ret ()"
| "mode_loop r mode (i # is) =
     (let h = sub_id r ! i in
      if hw_valid h then
        bind_res (find_dev (pmic_id h)) (\<lambda>k.
        bind_res (dev_ops k) (\<lambda>ops.
          case mode_select ops of
            None \<Rightarrow> fail CSI_UNSUPPORTED
          | Some sel \<Rightarrow> bind_res (sel k (ucast (hw_id h)) mode) (\<lambda>_. mode_loop r mode is)))
      else mode_loop r mode is)"

definition csi_pmic_mode_select :: "u8 \<Rightarrow> pmic_buck_mode \<Rightarrow> ('w, unit) pact" where
  "csi_pmic_mode_select ext mode =
     bind_res (as_err CSI_ERROR (pmic_get_id_info (ucast ext))) (\<lambda>j.
     bind_res (get_st (\<lambda>s. regu_list s ! j)) (\<lambda>r.
     mode_loop r mode [0..<length (sub_id r)]))"

end
