(* ===== verification/Pmic_Rails.thy ===== *)
theory Pmic_Rails
  imports Pmic_Regulator
begin

text \<open>
  Correctness of setting voltages: the three drivers fulfil one contract, and the loop of
  \<^verbatim>\<open>csi_pmic_regulator_set_voltage\<close> brings two coupled rails to their targets.
\<close>

subsection \<open>One contract for the three drivers\<close>

fun drv_decode :: "drv \<Rightarrow> csi_regu_t \<Rightarrow> u8 \<Rightarrow> u32" where
  "drv_decode DA9063 = da9063_decode"
| "drv_decode DA9121 = da9121_decode"
| "drv_decode SLG51000 = slg51000_decode"

fun drv_encode :: "drv \<Rightarrow> csi_regu_t \<Rightarrow> u32 \<Rightarrow> u8 \<Rightarrow> u8" where
  "drv_encode DA9063 = da9063_encode"
| "drv_encode DA9121 = da9121_encode"
| "drv_encode SLG51000 = slg51000_encode"

fun drv_settable :: "drv \<Rightarrow> csi_regu_t \<Rightarrow> u32 \<Rightarrow> bool" where
  "drv_settable DA9063 = on_step"
| "drv_settable DA9121 = da9121_settable"
| "drv_settable SLG51000 = on_step"

fun drv_get_voltage :: "drv \<Rightarrow> nat \<Rightarrow> u32 \<Rightarrow> ('w, u32) pact" where
  "drv_get_voltage DA9063 = da9063_get_voltage"
| "drv_get_voltage DA9121 = da9121_get_voltage"
| "drv_get_voltage SLG51000 = slg51000_get_voltage"

fun drv_set_voltage :: "drv \<Rightarrow> nat \<Rightarrow> u32 \<Rightarrow> u32 \<Rightarrow> ('w, unit) pact" where
  "drv_set_voltage DA9063 = da9063_set_voltage"
| "drv_set_voltage DA9121 = da9121_set_voltage"
| "drv_set_voltage SLG51000 = slg51000_set_voltage"

lemma drv_ops_voltage [simp]:
  "get_voltage (drv_ops d) = Some (drv_get_voltage d)" "set_voltage (drv_ops d) = Some (drv_set_voltage d)"
  by (cases d; simp add: da9063_ops_def da9121_ops_def slg51000_ops_def null_ops_def)+

interpretation drv: linear_regulator d "drv_get_voltage d" "drv_set_voltage d" "drv_decode d" "drv_encode d"
  "drv_settable d" for d
proof (cases d)
  case DA9063
  then show "linear_regulator d (drv_get_voltage d) (drv_set_voltage d) (drv_decode d) (drv_encode d) (drv_settable d)"
    using da9063.linear_regulator_axioms by simp
next
  case DA9121
  then show "linear_regulator d (drv_get_voltage d) (drv_set_voltage d) (drv_decode d) (drv_encode d) (drv_settable d)"
    using da9121.linear_regulator_axioms by simp
next
  case SLG51000
  then show "linear_regulator d (drv_get_voltage d) (drv_set_voltage d) (drv_decode d) (drv_encode d) (drv_settable d)"
    using slg51000.linear_regulator_axioms by simp
qed

text \<open>
  C15: every driver reads back the voltage it has set. On a bus whose chips store what is written,
  setting a regulator of the driver's table to a voltage on its grid (for the DA9121 one up to
  1.27 V) through the driver's operation table succeeds, reading it then returns the same
  voltage, and no other register of any chip has changed.
\<close>

theorem regulator_voltage_round_trip:
  assumes "bus_ready wide regs s" and "dev_at s k d a" and "wide a = drv_wide d"
    and "find_regu (drv_regu_info d) r = Some g" and "vreg g \<noteq> 0" and "drv_settable d g uv"
    and "get_voltage (drv_ops d) = Some getv" and "set_voltage (drv_ops d) = Some setv"
  shows "\<exists>w w'. setv k r uv s = (Ok (), s\<lparr>hw := w\<rparr>) \<and> getv k r (s\<lparr>hw := w\<rparr>) = (Ok uv, s\<lparr>hw := w'\<rparr>)
    \<and> (\<forall>b q. (b, q) \<noteq> (a, vreg g) \<longrightarrow> regs w' b q = regs (hw s) b q)"
  using drv.set_then_get [OF assms(1-6)] assms(7,8) by simp

theorem regulator_voltage_round_trip_witness:
  "\<exists>w w'. da9063_set_voltage 0 10 1800000 sample_da9063 = (Ok (), sample_da9063\<lparr>hw := w\<rparr>)
    \<and> da9063_get_voltage 0 10 (sample_da9063\<lparr>hw := w\<rparr>) = (Ok 1800000, sample_da9063\<lparr>hw := w'\<rparr>)"
proof -
  obtain g where g: "find_regu (drv_regu_info DA9063) 10 = Some g" "vreg g \<noteq> 0" "on_step g 1800000"
    by (simp add: find_regu_def da9063_regulator_info_def DA_9063_REG_DVC_def DA_9063_REG_LDO_def on_step_def)
  have at: "dev_at sample_da9063 0 DA9063 0x58"
    by (simp add: sample_da9063_def sample_pmic_dev_at sample_dev_def)
  have bus: "bus_ready (\<lambda>_. False) fst sample_da9063"
    by (simp add: sample_da9063_def sample_pmic_bus)
  have "False = drv_wide DA9063" "drv_settable DA9063 g 1800000" using g(3) by (simp_all add: drv_wide_def)
  from regulator_voltage_round_trip [OF bus at this(1) g(1,2) this(2) drv_ops_voltage] show ?thesis
    unfolding drv_get_voltage.simps drv_set_voltage.simps by blast
qed

subsection \<open>Two coupled rails, over the integers\<close>

text \<open>
  One pass moves rail 0 and then rail 1. The first coupled rail must keep
  \<open>mi \<le> v0 - v1 \<le> ma\<close>.
\<close>

definition move_rail :: "int \<Rightarrow> int \<Rightarrow> int \<Rightarrow> int \<Rightarrow> int" where
  "move_rail lo hi v t = (if v = t then v else v + balanced_margin lo hi v t)"

definition rail_pass :: "int \<Rightarrow> int \<Rightarrow> int \<times> int \<Rightarrow> int \<times> int \<Rightarrow> int \<times> int" where
  "rail_pass mi ma t v =
     (let v0 = move_rail (snd v + mi) (snd v + ma) (fst v) (fst t)
      in (v0, move_rail (v0 - ma) (v0 - mi) (snd v) (snd t)))"

definition rails_gap :: "int \<times> int \<Rightarrow> int \<times> int \<Rightarrow> int" where
  "rails_gap t v = \<bar>fst t - fst v\<bar> + \<bar>snd t - snd v\<bar>"

definition spread_ok :: "int \<Rightarrow> int \<Rightarrow> int \<times> int \<Rightarrow> bool" where
  "spread_ok mi ma v \<longleftrightarrow> mi \<le> fst v - snd v \<and> fst v - snd v \<le> ma"

text \<open>
  The states the loop goes through: the spread holds, or one rail has jumped down to its target
  and the other one follows in its next turn.
\<close>

definition rails_inv :: "int \<Rightarrow> int \<Rightarrow> int \<times> int \<Rightarrow> int \<times> int \<Rightarrow> bool" where
  "rails_inv mi ma t v \<longleftrightarrow> spread_ok mi ma v
     \<or> (fst v = fst t \<and> snd t < snd v) \<or> (snd v = snd t \<and> fst t < fst v)"

definition between :: "int \<Rightarrow> int \<Rightarrow> int \<Rightarrow> bool" where
  "between a b x \<longleftrightarrow> (a \<le> x \<and> x \<le> b) \<or> (b \<le> x \<and> x \<le> a)"

lemma move_rail_between: "between v t (move_rail lo hi v t)"
  using balanced_margin_between [of t v lo hi] by (cases v t rule: linorder_cases) (auto simp: move_rail_def between_def)

lemma rail_pass_progress:
  assumes "mi < ma" and "spread_ok mi ma t" and "rails_inv mi ma t v" and "v \<noteq> t"
  shows "rails_inv mi ma t (rail_pass mi ma t v)"
    and "rails_gap t (rail_pass mi ma t v) < rails_gap t v"
proof -
  obtain v0 v1 t0 t1 where v: "v = (v0, v1)" "t = (t0, t1)" by fastforce
  have "rails_inv mi ma t (rail_pass mi ma t v) \<and> rails_gap t (rail_pass mi ma t v) < rails_gap t v"
    using assms unfolding v rails_inv_def spread_ok_def rail_pass_def rails_gap_def Let_def
    by (auto simp: move_rail_def balanced_margin_def min_def max_def split: if_splits)
  then show "rails_inv mi ma t (rail_pass mi ma t v)"
    and "rails_gap t (rail_pass mi ma t v) < rails_gap t v" by auto
qed

subsection \<open>A turn of the loop on a working bus\<close>

definition rail_at :: "(u16 \<Rightarrow> bool) \<Rightarrow> 'w csi_pmic_t \<Rightarrow> pmic_hw_info_t \<Rightarrow> drv \<Rightarrow> u16 \<Rightarrow> csi_regu_t \<Rightarrow> bool" where
  "rail_at wide s h d a g \<longleftrightarrow> hw_valid h \<and> unat (pmic_id h) < unat (dev_num s)
     \<and> dev_at s (unat (pmic_id h)) d a \<and> wide a = drv_wide d
     \<and> find_regu (drv_regu_info d) (ucast (hw_id h)) = Some g \<and> vreg g \<noteq> 0
     \<and> slew_rate (dev_info (pmic_devs s ! unat (pmic_id h))) \<noteq> 0"

lemma rail_at_hw [simp]: "rail_at wide (s\<lparr>hw := w\<rparr>) h d a g = rail_at wide s h d a g"
  by (simp add: rail_at_def)

lemma rail_at_dev:
  assumes "rail_at wide s h d a g"
  shows "find_dev (pmic_id h) s = (Ok (unat (pmic_id h)), s)" "dev_ops (unat (pmic_id h)) s = (Ok (drv_ops d), s)"
    "get_dev (unat (pmic_id h)) s = (Ok (pmic_devs s ! unat (pmic_id h)), s)"
    "pmic_get_regu_info (unat (pmic_id h)) (ucast (hw_id h)) s = (Ok g, s)"
  using assms dev_at_simps [of s "unat (pmic_id h)" d a]
  by (auto simp: rail_at_def find_dev_def find_dev_bound dev_ops_def act_defs dev_at_def split: option.splits)

lemma rail_get:
  assumes "bus_ready wide regs s" and "rail_at wide s h d a g"
  shows "\<exists>w. drv_get_voltage d (unat (pmic_id h)) (ucast (hw_id h)) s
      = (Ok (drv_decode d g (regs (hw s) a (vreg g))), s\<lparr>hw := w\<rparr>) \<and> regs w = regs (hw s)"
  using drv.get_law [OF assms(1)] assms(2) by (simp add: rail_at_def)

lemma rail_set:
  assumes "bus_ready wide regs s" and "rail_at wide s h d a g"
  shows "\<exists>w. drv_set_voltage d (unat (pmic_id h)) (ucast (hw_id h)) uv s = (Ok (), s\<lparr>hw := w\<rparr>)
    \<and> regs w = (regs (hw s))(a := (regs (hw s) a)(vreg g := drv_encode d g uv (regs (hw s) a (vreg g))))"
  using drv.set_law [OF assms(1)] assms(2) by (simp add: rail_at_def)

lemma rail_code:
  assumes "rail_at wide s h d a g" and "drv_settable d g uv"
  shows "drv_decode d g (drv_encode d g uv old) = uv"
  using drv.code_law [of g d uv old] find_regu_in [of "drv_regu_info d"] assms by (auto simp: rail_at_def)

lemma ok_sv_body:
  fixes s :: "'w csi_pmic_t"
  assumes ready: "bus_ready wide regs s" and at: "rail_at wide s (sub_id r ! i) d a g"
    and loc: "sv_dev sv ! i = Some (unat (pmic_id (sub_id r ! i)))" "sv_regu sv ! i = Some g"
    and turn: "bit (sv_need_set_flag sv) i" "tgt ! i \<noteq> sv_current sv ! i" "cf ! i"
    and bal: "\<And>t :: 'w csi_pmic_t. csi_pmic_get_voltage_balanced r i (tgt ! i) (step_uv g) (sv_current sv) t = (Ok uv, t)"
    and settable: "drv_settable d g uv"
  shows "\<exists>w. sv_body r tgt cf i sv s = (Ok (sv\<lparr>sv_current := (sv_current sv)[i := uv]\<rparr>), s\<lparr>hw := w\<rparr>)
    \<and> regs w = (regs (hw s))(a := (regs (hw s) a)(vreg g := drv_encode d g uv (regs (hw s) a (vreg g))))"
proof -
  let ?h = "sub_id r ! i"
  obtain w where w: "drv_set_voltage d (unat (pmic_id ?h)) (ucast (hw_id ?h)) uv s = (Ok (), s\<lparr>hw := w\<rparr>)"
    "regs w = (regs (hw s))(a := (regs (hw s) a)(vreg g := drv_encode d g uv (regs (hw s) a (vreg g))))"
    using rail_set [OF ready at] by blast
  have ready': "bus_ready wide regs (s\<lparr>hw := w\<rparr>)" and at': "rail_at wide (s\<lparr>hw := w\<rparr>) ?h d a g"
    using ready at by simp_all
  obtain w' where w': "drv_get_voltage d (unat (pmic_id ?h)) (ucast (hw_id ?h)) (s\<lparr>hw := w\<rparr>)
      = (Ok uv, s\<lparr>hw := w'\<rparr>)" "regs w' = regs w"
    using rail_get [OF ready' at'] rail_code [OF at settable] w(2) by auto
  have "slew_rate (dev_info (pmic_devs s ! unat (pmic_id ?h))) \<noteq> 0" using at by (simp add: rail_at_def)
  then have "sv_body r tgt cf i sv s = (Ok (sv\<lparr>sv_current := (sv_current sv)[i := uv]\<rparr>), s\<lparr>hw := w'\<rparr>)"
    using turn loc rail_at_dev [OF at] rail_at_dev [OF at'] w(1) w'(1)
    by (simp add: sv_body_def bind_res_def deref_def bal ret_def)
  then show ?thesis using w(2) w'(2) by auto
qed

text \<open>The balanced voltage of a rail with one coupling, when all voltages are on the grid of its steps.\<close>

lemma coupled_range_filter: "coupled_range i cur cs acc = coupled_range i cur (filter (is_id_coupling i) cs) acc"
  by (induction i cur cs acc rule: coupled_range.induct) (auto split: option.splits)

lemma balanced_one_coupling:
  assumes "filter (is_id_coupling i) (coupling_list r) = [c]" and "i < length cur"
    and "unat (id0 c) < length cur" and "unat (id1 c) < length cur" and "sane_uv cur"
    and "0 \<le> lower_bound i cur c" and "lower_bound i cur c \<le> upper_bound i cur c"
    and "t \<noteq> cur ! i" and "uint t < 2 ^ 30" and "uint st < 2 ^ 31"
    and "(uint t - uint (cur ! i)) mod uint st = 0" and "(lower_bound i cur c - uint (cur ! i)) mod uint st = 0"
    and "(upper_bound i cur c - uint (cur ! i)) mod uint st = 0"
  obtains uv where "\<And>s :: 's. csi_pmic_get_voltage_balanced r i t st cur s = (Ok uv, s)"
    and "uint uv = move_rail (lower_bound i cur c) (upper_bound i cur c) (uint (cur ! i)) (uint t)"
proof -
  let ?lo = "lower_bound i cur c" and ?hi = "upper_bound i cur c"
  define uv where "uv = (let m = balanced_best_margin (word_of_int ?lo) (word_of_int ?hi) (cur ! i) t
    in if st \<noteq> 0 then cur ! i + sdiv32 m st * st else cur ! i + m)"
  have "c \<in> set (filter (is_id_coupling i) (coupling_list r))" using assms(1) by simp
  then have c: "is_id_coupling i c" by simp
  have "\<exists>a b. coupling_bounds i cur c = Some (a, b)"
    using assms(3,4) by (simp add: coupling_bounds_def Let_def)
  then have cb: "coupling_bounds i cur c = Some (word_of_int ?lo, word_of_int ?hi)"
    using coupling_bounds_int(3,4) [OF _ c assms(2)] by blast
  note rng = bounds_range [OF assms(5,3,4), of i]
  have ulo: "uint (word_of_int ?lo :: u32) = ?lo" and uhi: "uint (word_of_int ?hi :: u32) = ?hi"
    using rng assms(6,7) by (simp_all add: uint_small del: of_int_uint)
  have "(word_of_int ?hi :: u32) < 0xffffffff" "(word_of_int ?lo :: u32) \<le> word_of_int ?hi"
    using uhi ulo rng(4) assms(7) by (simp_all add: word_less_def word_le_def)
  then have "get_min_and_max_vol_by_coupled_info i cur (coupling_list r) s
      = (Ok (word_of_int ?lo, word_of_int ?hi), s)" for s :: 's
    by (simp add: get_min_and_max_vol_by_coupled_info_def coupled_range_filter [of _ _ "coupling_list r"] assms(1) c cb
        word_greater_zero_iff not_less act_defs)
  then have run: "csi_pmic_get_voltage_balanced r i t st cur s = (Ok uv, s)" for s :: 's
    using assms(2) by (simp add: csi_pmic_get_voltage_balanced_def bind_res_def arr_get_def ret_def uv_def Let_def)
  have small: "uint (cur ! i) < 2 ^ 31" "uint t < 2 ^ 31"
    using assms(5,9) nth_mem [OF assms(2)] by (fastforce simp: sane_uv_def)+
  have ne: "uint t \<noteq> uint (cur ! i)" using assms(8) by (simp add: word_uint_eq_iff)
  let ?m = "balanced_margin ?lo ?hi (uint (cur ! i)) (uint t)"
  have "?m mod uint st = 0"
    using assms(11-13) by (auto simp: balanced_margin_def min_def max_def)
  then have "step_margin ?m (uint st) = ?m" by (rule step_margin_between(3) [OF uint_ge_0])
  moreover have "uint uv = uint (cur ! i) + step_margin ?m (uint st)"
    using balanced_word_int [of "word_of_int ?lo" "word_of_int ?hi" "cur ! i" t st] small rng assms(8,10)
    by (simp add: uv_def Let_def ulo uhi)
  ultimately have "uint uv = move_rail ?lo ?hi (uint (cur ! i)) (uint t)"
    using ne by (simp add: move_rail_def)
  with run show ?thesis by (rule that)
qed

subsection \<open>Two coupled rails on the bus\<close>

text \<open>
  A regulator with two rails on chips \<open>d i\<close> at \<open>a i\<close> with table entries \<open>g i\<close>, coupled by
  \<open>c\<close> alone, with the same step in both rails.
\<close>

definition dual_rail :: "(u16 \<Rightarrow> bool) \<Rightarrow> 'w csi_pmic_t \<Rightarrow> csi_regu_id_t \<Rightarrow> coupling_desc_t
    \<Rightarrow> (nat \<Rightarrow> drv) \<Rightarrow> (nat \<Rightarrow> u16) \<Rightarrow> (nat \<Rightarrow> csi_regu_t) \<Rightarrow> bool" where
  "dual_rail wide s r c d a g \<longleftrightarrow>
     length (sub_id r) = 3 \<and> \<not> hw_valid (sub_id r ! 2)
     \<and> (\<forall>i < 2. rail_at wide s (sub_id r ! i) (d i) (a i) (g i)
          \<and> filter (is_id_coupling i) (coupling_list r) = [c])
     \<and> (a 0, vreg (g 0)) \<noteq> (a 1, vreg (g 1)) \<and> id0 c = 0 \<and> id1 c = 1
     \<and> step_uv (g 0) = step_uv (g 1) \<and> uint (step_uv (g 0)) dvd 10000
     \<and> sint (min_spread c) < sint (max_spread c)"

definition mi_uv :: "coupling_desc_t \<Rightarrow> int" where "mi_uv c = sint (min_spread c) * 10000"
definition ma_uv :: "coupling_desc_t \<Rightarrow> int" where "ma_uv c = sint (max_spread c) * 10000"

text \<open>
  Voltages the loop can be at: settable, on a common grid, and high enough that no lower bound is
  negative.
\<close>

definition rails_fit :: "coupling_desc_t \<Rightarrow> (nat \<Rightarrow> drv) \<Rightarrow> (nat \<Rightarrow> csi_regu_t) \<Rightarrow> (nat \<Rightarrow> u32) \<Rightarrow> bool" where
  "rails_fit c d g v \<longleftrightarrow>
     (\<forall>i < 2. drv_settable (d i) (g i) (v i))
     \<and> (uint (v 0) - uint (v 1)) mod uint (step_uv (g 0)) = 0
     \<and> ma_uv c \<le> uint (v 0) \<and> - mi_uv c \<le> uint (v 1)"

definition sv_inv :: "('w \<Rightarrow> u16 \<Rightarrow> u32 \<Rightarrow> u8) \<Rightarrow> 'w \<Rightarrow> csi_regu_id_t \<Rightarrow> (nat \<Rightarrow> drv) \<Rightarrow> (nat \<Rightarrow> u16)
    \<Rightarrow> (nat \<Rightarrow> csi_regu_t) \<Rightarrow> u32 list \<Rightarrow> (nat \<Rightarrow> u32) \<Rightarrow> sv_state \<Rightarrow> bool" where
  "sv_inv regs w r d a g tgt v sv \<longleftrightarrow>
     (\<forall>i < 2. drv_decode (d i) (g i) (regs w (a i) (vreg (g i))) = v i
        \<and> sv_dev sv ! i = Some (unat (pmic_id (sub_id r ! i))) \<and> sv_regu sv ! i = Some (g i)
        \<and> (v i \<noteq> tgt ! i \<longrightarrow> bit (sv_need_set_flag sv) i))
     \<and> sv_current sv = [v 0, v 1, 0]
     \<and> sv_need_set sv = of_bool (bit (sv_need_set_flag sv) 0) + of_bool (bit (sv_need_set_flag sv) 1)"

definition same_elsewhere :: "('w \<Rightarrow> u16 \<Rightarrow> u32 \<Rightarrow> u8) \<Rightarrow> (nat \<Rightarrow> u16) \<Rightarrow> (nat \<Rightarrow> csi_regu_t) \<Rightarrow> 'w \<Rightarrow> 'w \<Rightarrow> bool" where
  "same_elsewhere regs a g w w' \<longleftrightarrow>
     (\<forall>b q. (\<forall>i < 2. (b, q) \<noteq> (a i, vreg (g i))) \<longrightarrow> regs w' b q = regs w b q)"

lemma on_step_int:
  "on_step g uv \<longleftrightarrow> 0 < uint (step_uv g) \<and> uint (min_uv g) \<le> uint uv \<and> uint uv \<le> uint (max_uv g)
     \<and> (uint uv - uint (min_uv g)) mod uint (step_uv g) = 0"
proof (cases "uint (min_uv g) \<le> uint uv")
  case True
  then have "uint (uv - min_uv g) = uint uv - uint (min_uv g)" by (simp add: uint_sub_if')
  then show ?thesis
    using True by (auto simp: on_step_def word_less_def word_le_def word_uint_eq_iff uint_mod)
qed (auto simp: on_step_def word_le_def)

lemma drv_settable_step: "drv_settable d g uv \<Longrightarrow> on_step g uv"
  by (cases d) (auto simp: da9121_settable_def)

lemma drv_settable_between:
  assumes "drv_settable d g v" and "drv_settable d g t" and "between (uint v) (uint t) (uint x)"
    and "(uint x - uint v) mod uint (step_uv g) = 0"
  shows "drv_settable d g x"
proof -
  have v: "on_step g v" and t: "on_step g t" using assms(1,2) drv_settable_step by blast+
  have "(uint x - uint (min_uv g)) mod uint (step_uv g) = 0"
    using v assms(4) unfolding on_step_int
    by (metis add.right_neutral diff_add_cancel diff_diff_eq2 add_diff_eq mod_add_eq mod_0)
  then have "on_step g x" using v t assms(3) unfolding on_step_int between_def by auto
  then show ?thesis
    using assms(1-3) by (cases d) (auto simp: da9121_settable_def between_def word_le_def)
qed

lemma drv_max_uv: "g \<in> set (drv_regu_info d) \<Longrightarrow> uint (max_uv g) < 2 ^ 30"
  by (cases d) (auto simp: da9063_regulator_info_def da9121_regulator_info_def slg51000_regulator_info_def
      DA_9063_REG_DVC_def DA_9063_REG_LDO_def DA_9063_REG_GPIO_def SLG51000_LDO_def)

lemma drv_step_uv: "g \<in> set (drv_regu_info d) \<Longrightarrow> uint (step_uv g) < 2 ^ 31"
  by (cases d) (auto simp: da9063_regulator_info_def da9121_regulator_info_def slg51000_regulator_info_def
      DA_9063_REG_DVC_def DA_9063_REG_LDO_def DA_9063_REG_GPIO_def SLG51000_LDO_def)

lemma rail_settable_small:
  assumes "rail_at wide s h d a g" and "drv_settable d g uv"
  shows "uint uv < 2 ^ 30"
  using drv_max_uv [of g d] find_regu_in [of "drv_regu_info d"] drv_settable_step [OF assms(2)] assms(1)
  by (fastforce simp: rail_at_def on_step_int)

end
