(* ===== verification/Pmic_Dual.thy ===== *)
theory Pmic_Dual
  imports Pmic_Rails
begin

text \<open>
  Setting the voltages of a regulator with two coupled rails terminates with both rails at their
  targets.
\<close>

definition lo_uv :: "coupling_desc_t \<Rightarrow> (nat \<Rightarrow> u32) \<Rightarrow> nat \<Rightarrow> int" where
  "lo_uv c v i = (if i = 0 then uint (v 1) + mi_uv c else uint (v 0) - ma_uv c)"

definition hi_uv :: "coupling_desc_t \<Rightarrow> (nat \<Rightarrow> u32) \<Rightarrow> nat \<Rightarrow> int" where
  "hi_uv c v i = (if i = 0 then uint (v 1) + ma_uv c else uint (v 0) - mi_uv c)"

lemma less_2_cases': "i < (2 :: nat) \<Longrightarrow> i = 0 \<or> i = 1" by auto

lemma mod_diff_zero: "(x - m) mod q = 0 \<Longrightarrow> (y - m) mod q = 0 \<Longrightarrow> (y - x) mod q = (0 :: int)"
  using dvd_diff [of q "y - m" "x - m"] by (simp add: mod_eq_0_iff_dvd)

lemma dual_bounds:
  assumes "dual_rail wide s r c d a g" and "i < 2"
  shows "lower_bound i [v 0, v 1, 0] c = lo_uv c v i" "upper_bound i [v 0, v 1, 0] c = hi_uv c v i"
  using assms less_2_cases' [OF assms(2)]
  by (auto simp: lower_bound_def upper_bound_def lo_uv_def hi_uv_def mi_uv_def ma_uv_def dual_rail_def)

lemma dual_rail_hw [simp]: "dual_rail wide (s\<lparr>hw := w\<rparr>) r c d a g = dual_rail wide s r c d a g"
  by (simp add: dual_rail_def)

lemma dual_railD:
  assumes "dual_rail wide s r c d a g" and "i < 2"
  shows "rail_at wide s (sub_id r ! i) (d i) (a i) (g i)" "filter (is_id_coupling i) (coupling_list r) = [c]"
    "step_uv (g i) = step_uv (g 0)"
  using assms less_2_cases' [OF assms(2)] by (auto simp: dual_rail_def)

lemma dual_grid:
  assumes "dual_rail wide s r c d a g" and "i < 2" and "(uint (v 0) - uint (v 1)) mod uint (step_uv (g 0)) = 0"
  shows "(lo_uv c v i - uint (v i)) mod uint (step_uv (g i)) = 0"
    and "(hi_uv c v i - uint (v i)) mod uint (step_uv (g i)) = 0"
proof -
  let ?st = "uint (step_uv (g 0))"
  have dv: "?st dvd 10000" "?st dvd uint (v 0) - uint (v 1)"
    using assms(1,3) by (auto simp: dual_rail_def)
  then have "?st dvd mi_uv c" "?st dvd ma_uv c" by (simp_all add: mi_uv_def ma_uv_def)
  moreover have "?st dvd uint (v 1) - uint (v 0)"
    using dv(2) by (metis dvd_minus_iff minus_diff_eq)
  ultimately have "?st dvd mi_uv c + (uint (v 1) - uint (v 0))" "?st dvd ma_uv c + (uint (v 1) - uint (v 0))"
    "?st dvd (uint (v 0) - uint (v 1)) - ma_uv c" "?st dvd (uint (v 0) - uint (v 1)) - mi_uv c"
    using dv(2) by (simp_all add: dvd_add dvd_diff)
  then show "(lo_uv c v i - uint (v i)) mod uint (step_uv (g i)) = 0"
    and "(hi_uv c v i - uint (v i)) mod uint (step_uv (g i)) = 0"
    using less_2_cases' [OF assms(2)] dual_railD(3) [OF assms(1,2)]
    by (auto simp: lo_uv_def hi_uv_def algebra_simps)
qed

text \<open>The voltage that is commanded for a rail that is not at its target.\<close>

lemma dual_command:
  assumes dual: "dual_rail wide s r c d a g" and i: "i < 2"
    and fit: "\<And>j. j < 2 \<Longrightarrow> drv_settable (d j) (g j) (v j)" "drv_settable (d i) (g i) t"
    and grid: "(uint (v 0) - uint (v 1)) mod uint (step_uv (g 0)) = 0"
    and low: "0 \<le> lo_uv c v i" and ne: "t \<noteq> v i"
  obtains uv where "\<And>s :: 's. csi_pmic_get_voltage_balanced r i t (step_uv (g i)) [v 0, v 1, 0] s = (Ok uv, s)"
    and "uint uv = move_rail (lo_uv c v i) (hi_uv c v i) (uint (v i)) (uint t)"
    and "drv_settable (d i) (g i) uv" and "(uint uv - uint (v i)) mod uint (step_uv (g 0)) = 0"
proof -
  let ?cur = "[v 0, v 1, 0]"
  have cur: "?cur ! i = v i" using less_2_cases' [OF i] by auto
  note at = dual_railD [OF dual i]
  have small: "uint (v 0) < 2 ^ 30" "uint (v 1) < 2 ^ 30" "uint t < 2 ^ 30"
    using rail_settable_small [OF dual_railD(1) [OF dual, of 0]] rail_settable_small [OF dual_railD(1) [OF dual, of 1]]
      rail_settable_small [OF at(1)] fit by simp_all
  have st: "uint (step_uv (g i)) < 2 ^ 31"
    using drv_step_uv find_regu_in at(1) by (fastforce simp: rail_at_def)
  have "lo_uv c v i \<le> hi_uv c v i"
    using dual by (simp add: lo_uv_def hi_uv_def dual_rail_def mi_uv_def ma_uv_def)
  moreover have tv: "(uint t - uint (v i)) mod uint (step_uv (g i)) = 0"
    using drv_settable_step [OF fit(1) [OF i]] drv_settable_step [OF fit(2)] unfolding on_step_int
    by (intro mod_diff_zero [of "uint (v i)" "uint (min_uv (g i))"]) simp_all
  ultimately obtain uv where uv: "\<And>s :: 's. csi_pmic_get_voltage_balanced r i t (step_uv (g i)) ?cur s = (Ok uv, s)"
    "uint uv = move_rail (lo_uv c v i) (hi_uv c v i) (uint (v i)) (uint t)"
    using balanced_one_coupling [OF at(2), of ?cur t "step_uv (g i)" thesis, where ?'s = 's]
      low ne small st cur i dual dual_bounds [OF dual i, of v] dual_grid [OF dual i grid]
    by (auto simp: sane_uv_def dual_rail_def)
  have "(uint uv - uint (v i)) mod uint (step_uv (g i)) = 0"
    using tv dual_grid [OF dual i grid] unfolding uv(2)
    by (auto simp: move_rail_def balanced_margin_def min_def max_def)
  moreover from this have "drv_settable (d i) (g i) uv"
    using drv_settable_between [OF fit(1) [OF i] fit(2)] uv(2) move_rail_between by metis
  ultimately show ?thesis using that uv at(3) by metis
qed

lemma clear_flag_bits:
  "bit ((f :: u8) AND NOT (push_bit i 1)) j \<longleftrightarrow> bit f j \<and> j \<noteq> i"
  by (auto simp: bit_simps dest: bit_imp_le_length)

definition turn_result :: "('w \<Rightarrow> u16 \<Rightarrow> u32 \<Rightarrow> u8) \<Rightarrow> csi_regu_id_t \<Rightarrow> coupling_desc_t \<Rightarrow> (nat \<Rightarrow> drv) \<Rightarrow> (nat \<Rightarrow> u16)
    \<Rightarrow> (nat \<Rightarrow> csi_regu_t) \<Rightarrow> u32 list \<Rightarrow> (nat \<Rightarrow> u32) \<Rightarrow> nat \<Rightarrow> sv_state \<Rightarrow> 'w \<Rightarrow> sv_state \<Rightarrow> 'w \<Rightarrow> u32 \<Rightarrow> bool" where
  "turn_result regs r c d a g tgt v i sv w sv' w' x \<longleftrightarrow>
     sv_inv regs w' r d a g tgt (v(i := x)) sv'
     \<and> uint x = move_rail (lo_uv c v i) (hi_uv c v i) (uint (v i)) (uint (tgt ! i))
     \<and> drv_settable (d i) (g i) x \<and> (uint x - uint (v i)) mod uint (step_uv (g 0)) = 0
     \<and> same_elsewhere regs a g w w'
     \<and> (bit (sv_need_set_flag sv') i \<longleftrightarrow> v i \<noteq> tgt ! i)
     \<and> (\<forall>j < 2. j \<noteq> i \<longrightarrow> bit (sv_need_set_flag sv') j = bit (sv_need_set_flag sv) j)"

lemma dual_turn:
  fixes s :: "'w csi_pmic_t"
  assumes dual: "dual_rail wide s r c d a g" and ready: "bus_ready wide regs s" and i: "i < 2"
    and inv: "sv_inv regs w r d a g tgt v sv"
    and fit: "\<And>j. j < 2 \<Longrightarrow> drv_settable (d j) (g j) (v j)" "drv_settable (d i) (g i) (tgt ! i)"
    and grid: "(uint (v 0) - uint (v 1)) mod uint (step_uv (g 0)) = 0"
    and low: "0 \<le> lo_uv c v i" and cf: "cf ! i"
  shows "\<exists>w' sv' x. sv_body r tgt cf i sv (s\<lparr>hw := w\<rparr>) = (Ok sv', s\<lparr>hw := w'\<rparr>)
    \<and> turn_result regs r c d a g tgt v i sv w sv' w' x"
proof -
  note i' = less_2_cases' [OF i]
  have cur: "sv_current sv ! i = v i" using inv i' by (auto simp: sv_inv_def)
  consider (settled) "\<not> bit (sv_need_set_flag sv) i" "v i = tgt ! i"
    | (reached) "bit (sv_need_set_flag sv) i" "v i = tgt ! i"
    | (move) "bit (sv_need_set_flag sv) i" "v i \<noteq> tgt ! i"
    using inv i by (auto simp: sv_inv_def)
  then show ?thesis
  proof cases
    case settled
    have "sv_body r tgt cf i sv (s\<lparr>hw := w\<rparr>) = (Ok sv, s\<lparr>hw := w\<rparr>)"
      using settled by (simp add: sv_body_def ret_def)
    moreover have "turn_result regs r c d a g tgt v i sv w sv w (v i)"
      using settled inv fit i by (simp add: turn_result_def move_rail_def same_elsewhere_def fun_upd_idem)
    ultimately show ?thesis by blast
  next
    case reached
    define f where "f = sv_need_set_flag sv AND NOT (push_bit i 1)"
    have f: "bit f j \<longleftrightarrow> bit (sv_need_set_flag sv) j \<and> j \<noteq> i" for j
      unfolding f_def by (rule clear_flag_bits)
    let ?sv = "sv\<lparr>sv_need_set := sv_need_set sv - 1, sv_need_set_flag := f\<rparr>"
    have "sv_body r tgt cf i sv (s\<lparr>hw := w\<rparr>) = (Ok ?sv, s\<lparr>hw := w\<rparr>)"
      using reached cur by (simp add: sv_body_def ret_def f_def)
    moreover have "sv_inv regs w r d a g tgt v ?sv"
      using reached inv i' by (auto simp: sv_inv_def f intro!: gr0I)
    then have "turn_result regs r c d a g tgt v i sv w ?sv w (v i)"
      using reached fit i by (simp add: turn_result_def move_rail_def same_elsewhere_def f fun_upd_idem)
    ultimately show ?thesis by blast
  next
    case move
    obtain uv where uv: "\<And>s :: 'w csi_pmic_t. csi_pmic_get_voltage_balanced r i (tgt ! i) (step_uv (g i)) [v 0, v 1, 0] s = (Ok uv, s)"
      "uint uv = move_rail (lo_uv c v i) (hi_uv c v i) (uint (v i)) (uint (tgt ! i))"
      "drv_settable (d i) (g i) uv" "(uint uv - uint (v i)) mod uint (step_uv (g 0)) = 0"
      using dual_command [OF dual i fit grid low, where ?'s = "'w csi_pmic_t"] move(2) by metis
    have at: "rail_at wide (s\<lparr>hw := w\<rparr>) (sub_id r ! i) (d i) (a i) (g i)" using dual_railD(1) [OF dual i] by simp
    have "\<exists>w'. sv_body r tgt cf i sv (s\<lparr>hw := w\<rparr>) = (Ok (sv\<lparr>sv_current := (sv_current sv)[i := uv]\<rparr>), s\<lparr>hw := w'\<rparr>)
      \<and> regs w' = (regs w)(a i := (regs w (a i))(vreg (g i) := drv_encode (d i) (g i) uv (regs w (a i) (vreg (g i)))))"
      using ok_sv_body [OF _ at, of regs sv tgt cf uv] ready inv i cur move cf uv(1,3)
      by (auto simp: sv_inv_def)
    then obtain w' where w': "sv_body r tgt cf i sv (s\<lparr>hw := w\<rparr>)
        = (Ok (sv\<lparr>sv_current := (sv_current sv)[i := uv]\<rparr>), s\<lparr>hw := w'\<rparr>)"
      "regs w' = (regs w)(a i := (regs w (a i))(vreg (g i) := drv_encode (d i) (g i) uv (regs w (a i) (vreg (g i)))))"
      by blast
    have "turn_result regs r c d a g tgt v i sv w (sv\<lparr>sv_current := (sv_current sv)[i := uv]\<rparr>) w' uv"
    proof -
      have other: "(a j, vreg (g j)) \<noteq> (a i, vreg (g i))" if "j < 2" "j \<noteq> i" for j
        using that dual i' less_2_cases' [OF that(1)] by (auto simp: dual_rail_def)
      have dec: "drv_decode (d j) (g j) (regs w' (a j) (vreg (g j))) = (v(i := uv)) j" if "j < 2" for j
        using that other [of j] inv w'(2) rail_code [OF at uv(3)] by (cases "j = i") (auto simp: sv_inv_def)
      have "sv_inv regs w' r d a g tgt (v(i := uv)) (sv\<lparr>sv_current := (sv_current sv)[i := uv]\<rparr>)"
        using inv move i' dec by (auto simp: sv_inv_def)
      moreover have "same_elsewhere regs a g w w'"
        using w'(2) i by (auto simp: same_elsewhere_def)
      ultimately show ?thesis using uv(2-4) move by (simp add: turn_result_def)
    qed
    with w'(1) show ?thesis by blast
  qed
qed

lemma pair_uint_eq: "((uint x, uint y) = (uint x', uint y')) = (x = x' \<and> y = y')"
  by (simp add: word_uint_eq_iff)

lemma dual_pass:
  fixes s :: "'w csi_pmic_t" and v :: "nat \<Rightarrow> u32" and tgt :: "u32 list"
  defines "V \<equiv> (uint (v 0), uint (v 1))" and "T \<equiv> (uint (tgt ! 0), uint (tgt ! 1))"
  assumes dual: "dual_rail wide s r c d a g" and ready: "bus_ready wide regs s"
    and inv: "sv_inv regs w r d a g tgt v sv" and cf: "cf ! 0" "cf ! 1"
    and fit: "rails_fit c d g v" and fitT: "rails_fit c d g (\<lambda>i. tgt ! i)"
  shows "\<exists>w' sv' v'. sv_pass r tgt cf [0..<2] sv (s\<lparr>hw := w\<rparr>) = (Ok sv', s\<lparr>hw := w'\<rparr>)
    \<and> sv_inv regs w' r d a g tgt v' sv' \<and> rails_fit c d g v'
    \<and> (uint (v' 0), uint (v' 1)) = rail_pass (mi_uv c) (ma_uv c) T V
    \<and> same_elsewhere regs a g w w' \<and> (V = T \<longrightarrow> sv_need_set sv' = 0)"
proof -
  have fits: "\<And>j. j < 2 \<Longrightarrow> drv_settable (d j) (g j) (v j)" "\<And>j. j < 2 \<Longrightarrow> drv_settable (d j) (g j) (tgt ! j)"
    and grid: "(uint (v 0) - uint (v 1)) mod uint (step_uv (g 0)) = 0"
    and low: "ma_uv c \<le> uint (v 0)" "- mi_uv c \<le> uint (v 1)" "ma_uv c \<le> uint (tgt ! 0)" "- mi_uv c \<le> uint (tgt ! 1)"
    using fit fitT by (auto simp: rails_fit_def)
  have "0 \<le> lo_uv c v 0" using low(2) by (simp add: lo_uv_def)
  from dual_turn [OF dual ready _ inv fits(1) fits(2) grid this cf(1)]
  obtain w1 sv1 x where b0: "sv_body r tgt cf 0 sv (s\<lparr>hw := w\<rparr>) = (Ok sv1, s\<lparr>hw := w1\<rparr>)"
    and t0: "turn_result regs r c d a g tgt v 0 sv w sv1 w1 x" by auto
  let ?v1 = "v(0 := x)"
  have x: "between (uint (v 0)) (uint (tgt ! 0)) (uint x)"
    using t0 move_rail_between by (simp add: turn_result_def)
  then have lx: "ma_uv c \<le> uint x" using low by (auto simp: between_def)
  have fits1: "\<And>j. j < 2 \<Longrightarrow> drv_settable (d j) (g j) (?v1 j)"
    using fits(1) t0 by (auto simp: turn_result_def)
  have "(uint x - uint (v 0)) mod uint (step_uv (g 0)) = 0" using t0 unfolding turn_result_def by blast
  then have grid1: "(uint (?v1 0) - uint (?v1 1)) mod uint (step_uv (g 0)) = 0"
    using grid dvd_add [of "uint (step_uv (g 0))" "uint x - uint (v 0)" "uint (v 0) - uint (v 1)"]
    by (simp add: mod_eq_0_iff_dvd)
  have low1: "0 \<le> lo_uv c ?v1 1" using lx by (simp add: lo_uv_def)
  have inv1: "sv_inv regs w1 r d a g tgt ?v1 sv1" using t0 unfolding turn_result_def by blast
  have "(1 :: nat) < 2" by simp
  from dual_turn [OF dual ready this inv1 fits1 fits(2) [OF this] grid1 low1 cf(2)]
  obtain w2 sv2 y where b1: "sv_body r tgt cf 1 sv1 (s\<lparr>hw := w1\<rparr>) = (Ok sv2, s\<lparr>hw := w2\<rparr>)"
    and t1: "turn_result regs r c d a g tgt ?v1 1 sv1 w1 sv2 w2 y" by blast
  let ?v2 = "?v1(1 := y)"
  have "between (uint (v 1)) (uint (tgt ! 1)) (uint y)"
    using t1 move_rail_between [of "uint (v 1)"] by (simp add: turn_result_def)
  then have ly: "- mi_uv c \<le> uint y" using low by (auto simp: between_def)
  have "(uint y - uint (?v1 1)) mod uint (step_uv (g 0)) = 0" using t1 unfolding turn_result_def by blast
  then have grid2: "(uint x - uint y) mod uint (step_uv (g 0)) = 0"
    using grid1 dvd_diff [of "uint (step_uv (g 0))" "uint x - uint (v 1)" "uint y - uint (v 1)"]
    by (simp add: mod_eq_0_iff_dvd)
  have "drv_settable (d 1) (g 1) y" using t1 by (simp add: turn_result_def)
  then have "drv_settable (d j) (g j) (?v2 j)" if "j < 2" for j using fits1 [OF that] by auto
  then have "rails_fit c d g ?v2" using grid2 lx ly by (simp add: rails_fit_def)
  moreover have "sv_pass r tgt cf [0..<2] sv (s\<lparr>hw := w\<rparr>) = (Ok sv2, s\<lparr>hw := w2\<rparr>)"
    using b0 b1 by (simp add: upt_rec [of 0] upt_rec [of 1] numeral_2_eq_2 bind_res_def ret_def)
  moreover have "sv_inv regs w2 r d a g tgt ?v2 sv2" using t1 by (simp add: turn_result_def)
  moreover have "(uint (?v2 0), uint (?v2 1)) = rail_pass (mi_uv c) (ma_uv c) T V"
    using t0 t1 by (simp add: turn_result_def rail_pass_def V_def T_def lo_uv_def hi_uv_def Let_def)
  moreover have "same_elsewhere regs a g w w2"
    using t0 t1 unfolding turn_result_def same_elsewhere_def by metis
  moreover have "V = T \<longrightarrow> sv_need_set sv2 = 0"
  proof
    assume "V = T"
    then have eq: "v 0 = tgt ! 0" "v 1 = tgt ! 1" by (simp_all add: V_def T_def word_uint_eq_iff)
    then have "\<not> bit (sv_need_set_flag sv1) 0" "\<not> bit (sv_need_set_flag sv2) 1"
      using t0 t1 by (simp_all add: turn_result_def)
    then have "\<not> bit (sv_need_set_flag sv2) 0" using t1 by (simp add: turn_result_def)
    with \<open>\<not> bit (sv_need_set_flag sv2) 1\<close> show "sv_need_set sv2 = 0"
      using t1 by (simp add: turn_result_def sv_inv_def)
  qed
  ultimately show ?thesis by blast
qed

text \<open>Enough fuel: one pass for each step of distance, one to notice the end.\<close>

definition dual_fuel :: "int \<Rightarrow> int \<times> int \<Rightarrow> int \<times> int \<Rightarrow> nat" where
  "dual_fuel st t v = nat (rails_gap t v div st) + 2"

lemma rails_gap_step:
  assumes "0 < st" and "rails_gap t v' < rails_gap t v" and "st dvd rails_gap t v" and "st dvd rails_gap t v'"
  shows "dual_fuel st t v' < dual_fuel st t v"
proof -
  obtain p q where "rails_gap t v = st * p" "rails_gap t v' = st * q" using assms(3,4) by blast
  moreover have "0 \<le> rails_gap t v'" by (simp add: rails_gap_def)
  ultimately show ?thesis
    using assms(1,2) by (auto simp: dual_fuel_def zero_le_mult_iff)
qed

lemma rails_fit_gap:
  assumes "dual_rail wide s r c d a g" and "rails_fit c d g v" and "rails_fit c d g t"
  shows "uint (step_uv (g 0)) dvd rails_gap (uint (t 0), uint (t 1)) (uint (v 0), uint (v 1))"
proof -
  have "uint (step_uv (g i)) dvd \<bar>uint (t i) - uint (v i)\<bar>" if "i < 2" for i
  proof -
    have "on_step (g i) (v i)" "on_step (g i) (t i)"
      using assms(2,3) that drv_settable_step unfolding rails_fit_def by blast+
    then have "(uint (t i) - uint (v i)) mod uint (step_uv (g i)) = 0"
      unfolding on_step_int using mod_diff_zero [of "uint (v i)" "uint (min_uv (g i))"] by simp
    then show ?thesis by (simp add: mod_eq_0_iff_dvd)
  qed
  from this [of 0] this [of 1] show ?thesis
    using dual_railD(3) [OF assms(1), of 1] by (simp add: rails_gap_def dvd_add)
qed

lemma dual_loop:
  fixes s :: "'w csi_pmic_t" and tgt :: "u32 list"
  defines "T \<equiv> (uint (tgt ! 0), uint (tgt ! 1))"
  assumes dual: "dual_rail wide s r c d a g" and ready: "bus_ready wide regs s" and cf: "cf ! 0" "cf ! 1"
    and fitT: "rails_fit c d g (\<lambda>i. tgt ! i)" and spT: "spread_ok (mi_uv c) (ma_uv c) T"
  shows "sv_inv regs w r d a g tgt v sv \<Longrightarrow> rails_fit c d g v \<Longrightarrow>
    rails_inv (mi_uv c) (ma_uv c) T (uint (v 0), uint (v 1)) \<Longrightarrow>
    dual_fuel (uint (step_uv (g 0))) T (uint (v 0), uint (v 1)) \<le> fuel \<Longrightarrow>
    \<exists>w'. sv_loop fuel r tgt cf 2 sv (s\<lparr>hw := w\<rparr>) = (Ok (), s\<lparr>hw := w'\<rparr>)
      \<and> (\<forall>i < 2. drv_decode (d i) (g i) (regs w' (a i) (vreg (g i))) = tgt ! i) \<and> same_elsewhere regs a g w w'"
proof (induction fuel arbitrary: w v sv)
  case 0
  then show ?case by (simp add: dual_fuel_def)
next
  case (Suc fuel)
  let ?V = "(uint (v 0), uint (v 1))"
  have at_target: "\<forall>i < 2. drv_decode (d i) (g i) (regs w' (a i) (vreg (g i))) = tgt ! i"
    if "sv_inv regs w' r d a g tgt v' sv'" "sv_need_set sv' = 0" for w' v' sv'
  proof (intro allI impI)
    fix i :: nat assume i: "i < 2"
    have "\<not> bit (sv_need_set_flag sv') 0 \<and> \<not> bit (sv_need_set_flag sv') 1"
      using that by (auto simp: sv_inv_def of_bool_def split: if_splits)
    then show "drv_decode (d i) (g i) (regs w' (a i) (vreg (g i))) = tgt ! i"
      using that(1) i less_2_cases' [OF i] unfolding sv_inv_def by metis
  qed
  show ?case
  proof (cases "sv_need_set sv = 0")
    case True
    then have "sv_loop (Suc fuel) r tgt cf 2 sv (s\<lparr>hw := w\<rparr>) = (Ok (), s\<lparr>hw := w\<rparr>)" by (simp add: ret_def)
    then show ?thesis using at_target [OF Suc.prems(1) True] by (auto simp: same_elsewhere_def)
  next
    case False
    from dual_pass [OF dual ready Suc.prems(1) cf Suc.prems(2) fitT]
    obtain w1 sv1 v1 where run: "sv_pass r tgt cf [0..<2] sv (s\<lparr>hw := w\<rparr>) = (Ok sv1, s\<lparr>hw := w1\<rparr>)"
      and inv1: "sv_inv regs w1 r d a g tgt v1 sv1" and fit1: "rails_fit c d g v1"
      and V1: "(uint (v1 0), uint (v1 1)) = rail_pass (mi_uv c) (ma_uv c) T ?V"
      and same1: "same_elsewhere regs a g w w1" and end1: "?V = T \<longrightarrow> sv_need_set sv1 = 0"
      unfolding T_def by blast
    have step: "sv_loop (Suc fuel) r tgt cf 2 sv (s\<lparr>hw := w\<rparr>) = sv_loop fuel r tgt cf 2 sv1 (s\<lparr>hw := w1\<rparr>)"
      using False run by (simp add: bind_res_def)
    show ?thesis
    proof (cases "?V = T")
      case True
      then have z: "sv_need_set sv1 = 0" using end1 by simp
      then have "sv_loop fuel r tgt cf 2 sv1 (s\<lparr>hw := w1\<rparr>) = (Ok (), s\<lparr>hw := w1\<rparr>)"
        by (cases fuel) (simp_all add: ret_def)
      then show ?thesis using step at_target [OF inv1 z] same1 by auto
    next
      case ne: False
      have lt: "mi_uv c < ma_uv c" using dual by (simp add: dual_rail_def mi_uv_def ma_uv_def)
      note prog = rail_pass_progress [OF lt spT Suc.prems(3) ne]
      have st: "0 < uint (step_uv (g 0))"
        using fit1 drv_settable_step [of "d 0" "g 0" "v1 0"] by (auto simp: rails_fit_def on_step_int)
      have "dual_fuel (uint (step_uv (g 0))) T (uint (v1 0), uint (v1 1)) < dual_fuel (uint (step_uv (g 0))) T ?V"
        using prog(2) V1 rails_fit_gap [OF dual Suc.prems(2) fitT] rails_fit_gap [OF dual fit1 fitT]
        unfolding T_def by (intro rails_gap_step [OF st]) simp_all
      then have "dual_fuel (uint (step_uv (g 0))) T (uint (v1 0), uint (v1 1)) \<le> fuel" using Suc.prems(4) by simp
      from Suc.IH [OF inv1 fit1 _ this] prog(1) V1 obtain w' where
        "sv_loop fuel r tgt cf 2 sv1 (s\<lparr>hw := w1\<rparr>) = (Ok (), s\<lparr>hw := w'\<rparr>)"
        "\<forall>i < 2. drv_decode (d i) (g i) (regs w' (a i) (vreg (g i))) = tgt ! i" "same_elsewhere regs a g w1 w'"
        by auto
      then show ?thesis using step same1 unfolding same_elsewhere_def by auto
    qed
  qed
qed

text \<open>What preparing rail \<open>i\<close> with present voltage \<open>v\<close> records.\<close>

definition sv_add :: "nat \<Rightarrow> nat \<Rightarrow> csi_regu_t \<Rightarrow> u32 \<Rightarrow> u32 \<Rightarrow> sv_state \<Rightarrow> sv_state" where
  "sv_add i k g v t st =
     (let st' = st\<lparr>sv_dev := (sv_dev st)[i := Some k], sv_regu := (sv_regu st)[i := Some g],
                   sv_current := (sv_current st)[i := v]\<rparr>
      in if v \<noteq> t
         then st'\<lparr>sv_need_set_flag := sv_need_set_flag st OR push_bit i 1, sv_need_set := sv_need_set st + 1\<rparr>
         else st')"

lemma sv_prepare_rail:
  assumes "bus_ready wide regs s" and "rail_at wide s (sub_id r ! i) d a g" and "drv_settable d g (tgt ! i)"
  shows "\<exists>w. (\<forall>is st. sv_prepare r tgt (i # is) st s = sv_prepare r tgt is
      (sv_add i (unat (pmic_id (sub_id r ! i))) g (drv_decode d g (regs (hw s) a (vreg g))) (tgt ! i) st) (s\<lparr>hw := w\<rparr>))
    \<and> regs w = regs (hw s)"
proof -
  obtain w where w: "drv_get_voltage d (unat (pmic_id (sub_id r ! i))) (ucast (hw_id (sub_id r ! i))) s
      = (Ok (drv_decode d g (regs (hw s) a (vreg g))), s\<lparr>hw := w\<rparr>)" "regs w = regs (hw s)"
    using rail_get [OF assms(1,2)] by blast
  have "\<not> tgt ! i > max_uv g" "\<not> tgt ! i < min_uv g" "hw_valid (sub_id r ! i)"
    using drv_settable_step [OF assms(3)] assms(2) by (auto simp: on_step_def rail_at_def not_less)
  then show ?thesis
    using rail_at_dev [OF assms(2)] w by (auto simp: bind_res_def Let_def sv_add_def)
qed

lemma dual_prepare:
  fixes s :: "'w csi_pmic_t"
  assumes dual: "dual_rail wide s r c d a g" and ready: "bus_ready wide regs s"
    and fitT: "rails_fit c d g (\<lambda>i. tgt ! i)"
  defines "v \<equiv> (\<lambda>i. drv_decode (d i) (g i) (regs (hw s) (a i) (vreg (g i))))"
  shows "\<exists>w sv. sv_prepare r tgt [0..<length (sub_id r)] sv_init s = (Ok sv, s\<lparr>hw := w\<rparr>)
    \<and> regs w = regs (hw s) \<and> sv_inv regs w r d a g tgt v sv"
proof -
  let ?k = "\<lambda>i. unat (pmic_id (sub_id r ! i))"
  have len: "[0..<length (sub_id r)] = [0, 1, 2]" and inval: "\<not> hw_valid (sub_id r ! 2)"
    using dual by (simp_all add: dual_rail_def upt_rec)
  have set: "drv_settable (d i) (g i) (tgt ! i)" if "i < 2" for i using fitT that by (simp add: rails_fit_def)
  obtain w0 where p0: "\<And>is st. sv_prepare r tgt (0 # is) st s
      = sv_prepare r tgt is (sv_add 0 (?k 0) (g 0) (v 0) (tgt ! 0) st) (s\<lparr>hw := w0\<rparr>)"
    and w0: "regs w0 = regs (hw s)"
    using sv_prepare_rail [OF ready dual_railD(1) [OF dual] set, of 0] unfolding v_def by auto
  obtain w1 where p1: "\<And>is st. sv_prepare r tgt (1 # is) st (s\<lparr>hw := w0\<rparr>)
      = sv_prepare r tgt is (sv_add 1 (?k 1) (g 1) (v 1) (tgt ! 1) st) (s\<lparr>hw := w1\<rparr>)"
    and w1: "regs w1 = regs (hw s)"
  proof -
    have at1: "bus_ready wide regs (s\<lparr>hw := w0\<rparr>)" "rail_at wide (s\<lparr>hw := w0\<rparr>) (sub_id r ! 1) (d 1) (a 1) (g 1)"
      using ready dual_railD(1) [OF dual, of 1] by simp_all
    have "hw (s\<lparr>hw := w0\<rparr>) = w0" "s\<lparr>hw := w0\<rparr>\<lparr>hw := w\<rparr> = s\<lparr>hw := w\<rparr>" for w by simp_all
    moreover have "drv_settable (d 1) (g 1) (tgt ! 1)" by (rule set) simp
    ultimately show ?thesis
      using sv_prepare_rail [OF at1] that w0 unfolding v_def by metis
  qed
  let ?sv = "sv_add 1 (?k 1) (g 1) (v 1) (tgt ! 1) (sv_add 0 (?k 0) (g 0) (v 0) (tgt ! 0) sv_init)"
  have "sv_prepare r tgt [2] ?sv (s\<lparr>hw := w1\<rparr>) = (Ok ?sv, s\<lparr>hw := w1\<rparr>)"
    using inval by (simp add: ret_def)
  then have "sv_prepare r tgt [0..<length (sub_id r)] sv_init s = (Ok ?sv, s\<lparr>hw := w1\<rparr>)"
    unfolding len p0 p1 .
  moreover have "sv_inv regs w1 r d a g tgt v ?sv"
    unfolding sv_inv_def numeral_2_eq_2 All_less_Suc
    by (auto simp: sv_add_def sv_init_def PMIC_MAX_HW_ID_NUM_def v_def w1 Let_def numeral_3_eq_3)
  ultimately show ?thesis using w1 by blast
qed

text \<open>The voltage the selector register of rail \<open>i\<close> stands for.\<close>

definition rail_uv :: "('w \<Rightarrow> u16 \<Rightarrow> u32 \<Rightarrow> u8) \<Rightarrow> (nat \<Rightarrow> drv) \<Rightarrow> (nat \<Rightarrow> u16) \<Rightarrow> (nat \<Rightarrow> csi_regu_t) \<Rightarrow> 'w \<Rightarrow> nat \<Rightarrow> u32" where
  "rail_uv regs d a g w i = drv_decode (d i) (g i) (regs w (a i) (vreg (g i)))"

lemma dual_flags:
  assumes "dual_rail wide s r c d a g"
  shows "get_hw_need_set_vol_by_coupled_info r ! 0" "get_hw_need_set_vol_by_coupled_info r ! 1"
    and "length (filter hw_valid (sub_id r)) = 2"
proof -
  obtain h0 h1 h2 where h: "sub_id r = [h0, h1, h2]"
    using assms by (auto simp: dual_rail_def length_Suc_conv numeral_3_eq_3)
  have v: "hw_valid h0" "hw_valid h1" "\<not> hw_valid h2"
    using dual_railD(1) [OF assms, of 0] dual_railD(1) [OF assms, of 1] assms h
    by (auto simp: rail_at_def dual_rail_def)
  have "c \<in> set (filter (is_id_coupling i) (coupling_list r))" if "i < 2" for i
    using dual_railD(2) [OF assms that] by simp
  then have "\<exists>c \<in> set (coupling_list r). is_id_coupling i c" if "i < 2" for i using that by auto
  then show "get_hw_need_set_vol_by_coupled_info r ! 0" "get_hw_need_set_vol_by_coupled_info r ! 1"
    using v by (simp_all add: get_hw_need_set_vol_by_coupled_info_def h nth_append)
  show "length (filter hw_valid (sub_id r)) = 2" using v by (simp add: h)
qed

text \<open>
  C1: setting the voltages of two coupled rails ends, with both rails at their targets. For a
  regulator whose two rails are coupled with a maximal spread above the minimal one, have the same
  step and start within the spread, with targets within the spread and on the grid, the loop
  stops after at most one pass per step of total distance and two more; the selector
  registers of the two rails then hold the targets and no other register has changed.
\<close>

theorem dual_rail_set_voltage:
  assumes "bus_ready wide regs s" and "pmic_get_id_info (ucast ext) s = (Ok j, s)"
    and "dual_rail wide s (regu_list s ! j) c d a g"
    and "rails_fit c d g (rail_uv regs d a g (hw s))" and "rails_fit c d g (\<lambda>i. tgt ! i)"
    and "spread_ok (mi_uv c) (ma_uv c) (uint (rail_uv regs d a g (hw s) 0), uint (rail_uv regs d a g (hw s) 1))"
    and "spread_ok (mi_uv c) (ma_uv c) (uint (tgt ! 0), uint (tgt ! 1))"
    and "dual_fuel (uint (step_uv (g 0))) (uint (tgt ! 0), uint (tgt ! 1)) (uint (rail_uv regs d a g (hw s) 0), uint (rail_uv regs d a g (hw s) 1)) \<le> fuel"
  shows "\<exists>w. csi_pmic_regulator_set_voltage fuel \<lparr>rv_regu_ext_id = ext, target_uv = tgt\<rparr> s = (Ok (), s\<lparr>hw := w\<rparr>)
    \<and> rail_uv regs d a g w 0 = tgt ! 0 \<and> rail_uv regs d a g w 1 = tgt ! 1 \<and> same_elsewhere regs a g (hw s) w"
proof -
  let ?r = "regu_list s ! j"
  obtain w0 sv where prep: "sv_prepare ?r tgt [0..<length (sub_id ?r)] sv_init s = (Ok sv, s\<lparr>hw := w0\<rparr>)"
    and w0: "regs w0 = regs (hw s)" and inv: "sv_inv regs w0 ?r d a g tgt (rail_uv regs d a g (hw s)) sv"
    using dual_prepare [OF assms(3,1,5)] unfolding rail_uv_def by blast
  have "rails_inv (mi_uv c) (ma_uv c) (uint (tgt ! 0), uint (tgt ! 1)) (uint (rail_uv regs d a g (hw s) 0), uint (rail_uv regs d a g (hw s) 1))"
    using assms(6) by (simp add: rails_inv_def)
  from dual_loop [OF assms(3,1) dual_flags(1,2) [OF assms(3)] assms(5,7) inv assms(4) this assms(8)]
  obtain w where loop: "sv_loop fuel ?r tgt (get_hw_need_set_vol_by_coupled_info ?r) 2 sv (s\<lparr>hw := w0\<rparr>)
      = (Ok (), s\<lparr>hw := w\<rparr>)"
    and v: "\<forall>i < 2. rail_uv regs d a g w i = tgt ! i" and same: "same_elsewhere regs a g w0 w"
    unfolding rail_uv_def by blast
  have "csi_pmic_regulator_set_voltage fuel \<lparr>rv_regu_ext_id = ext, target_uv = tgt\<rparr> s = (Ok (), s\<lparr>hw := w\<rparr>)"
    using assms(2) prep loop dual_flags(3) [OF assms(3)]
    by (simp add: csi_pmic_regulator_set_voltage_def bind_res_def as_err_def get_st_def Let_def)
  then show ?thesis using v same w0 by (intro exI [of _ w]) (simp add: same_elsewhere_def)
qed

definition sample_hw_info :: "u8 \<Rightarrow> u8 \<Rightarrow> pmic_hw_info_t" where
  "sample_hw_info p h =
     \<lparr>pmic_id = p, hw_id = h, benable = 0,
      parent_hw_info = \<lparr>pa_pmic_id = PMIC_ID_INVALID, pa_io_hw_id = 0, pa_activate_status = 0\<rparr>,
      soft_power_ctrl_info = \<lparr>on_order = 0xff, on_delay_ms = 0, init_target_uv = 0, off_order = 0xff, off_delay_ms = 0\<rparr>\<rparr>"

definition sample_coupling :: "coupling_desc_t list" where
  "sample_coupling =
     [\<lparr>id0 = 0, id1 = 1, max_spread = 10, min_spread = 0xF6\<rparr>, \<lparr>id0 = 0, id1 = 0, max_spread = 0, min_spread = 0\<rparr>,
      \<lparr>id0 = 0, id1 = 0, max_spread = 0, min_spread = 0\<rparr>]"

definition sample_dual :: "sample_hw csi_pmic_t" where
  "sample_dual = sample_pmic [sample_dev (Some DA9063) 0x58 0x59]
     [\<lparr>regu_ext_id = 4, coupling_list = sample_coupling,
       sub_id = [sample_hw_info 0 0, sample_hw_info 0 1, sample_hw_info 0xff 0]\<rparr>] (\<lambda>_. False)"

definition sample_dual_regu :: "nat \<Rightarrow> csi_regu_t" where
  "sample_dual_regu i = da9063_regulator_info ! i"

lemma sample_dual_regs [simp]:
  "sample_dual_regu 0 = DA_9063_REG_DVC 0 300000 1570000 10000 1 0x21 0xA4 0x9E"
  "sample_dual_regu (Suc 0) = DA_9063_REG_DVC 1 300000 1570000 10000 1 0x20 0xA3 0x9D"
  by (simp_all add: sample_dual_regu_def da9063_regulator_info_def)

lemma sample_dual_simps [simp]:
  "dev_num sample_dual = 1" "pmic_devs sample_dual ! 0 = sample_dev (Some DA9063) 0x58 0x59"
  "regu_list sample_dual ! 0 = \<lparr>regu_ext_id = 4, coupling_list = sample_coupling,
     sub_id = [sample_hw_info 0 0, sample_hw_info 0 1, sample_hw_info 0xff 0]\<rparr>"
  "dev_at sample_dual 0 DA9063 0x58"
  by (simp_all add: sample_dual_def sample_pmic_dev_at) (simp_all add: sample_pmic_def sample_dev_def)

lemma sample_dual_find:
  "find_regu (drv_regu_info DA9063) 0 = Some (sample_dual_regu 0)"
  "find_regu (drv_regu_info DA9063) 1 = Some (sample_dual_regu 1)"
  by (simp_all add: find_regu_def da9063_regulator_info_def DA_9063_REG_DVC_def)

lemma sample_dual_rail:
  "dual_rail (\<lambda>_. False) sample_dual (regu_list sample_dual ! 0) (sample_coupling ! 0) (\<lambda>_. DA9063) (\<lambda>_. 0x58) sample_dual_regu"
proof -
  have valid: "hw_valid (sample_hw_info 0 x)" "\<not> hw_valid (sample_hw_info 0xff x)" for x
    by (simp_all add: hw_valid_def sample_hw_info_def PMIC_ID_INVALID_def)
  have id: "pmic_id (sample_hw_info p x) = p" "hw_id (sample_hw_info p x) = x" for p x
    by (simp_all add: sample_hw_info_def)
  have vr: "vreg (sample_dual_regu 0) = 0xA4" "vreg (sample_dual_regu (Suc 0)) = 0xA3"
    "step_uv (sample_dual_regu 0) = 10000" "step_uv (sample_dual_regu (Suc 0)) = 10000"
    by (simp_all add: DA_9063_REG_DVC_def)
  have slew: "slew_rate (dev_info (sample_dev x y z)) = 10" for x y z by (simp add: sample_dev_def)
  have at: "rail_at (\<lambda>_. False) sample_dual (sub_id (regu_list sample_dual ! 0) ! i) DA9063 0x58 (sample_dual_regu i)"
    if "i < 2" for i
    using less_2_cases' [OF that] sample_dual_find
    by (auto simp: rail_at_def valid id drv_wide_def vr slew simp del: sample_dual_regs)
  have fl: "filter (is_id_coupling i) sample_coupling = [sample_coupling ! 0]" if "i < 2" for i
    using less_2_cases' [OF that] by (auto simp: sample_coupling_def is_id_coupling_def)
  show ?thesis
    using at fl unfolding dual_rail_def
    by (simp add: valid vr del: sample_dual_regs) (simp add: sample_coupling_def)
qed

theorem dual_rail_set_voltage_witness:
  "\<exists>w. csi_pmic_regulator_set_voltage 97 \<lparr>rv_regu_ext_id = 4, target_uv = [800000, 750000, 0]\<rparr> sample_dual
      = (Ok (), sample_dual\<lparr>hw := w\<rparr>)
    \<and> da9063_decode (sample_dual_regu 0) (fst w 0x58 0xA4) = 800000"
proof -
  let ?uv = "rail_uv fst (\<lambda>_. DA9063) (\<lambda>_. 0x58) sample_dual_regu (hw sample_dual)"
  let ?c = "sample_coupling ! 0" and ?T = "[800000, 750000, 0] :: u32 list"
  have bus: "bus_ready (\<lambda>_. False) fst sample_dual" by (simp add: sample_dual_def sample_pmic_bus)
  have info: "pmic_get_id_info (ucast (4 :: u8)) sample_dual = (Ok 0, sample_dual)"
    by (simp add: pmic_get_id_info_def sample_dual_def sample_pmic_def)
  have uv: "?uv 0 = 300000" "?uv (Suc 0) = 300000"
    by (simp_all add: rail_uv_def sample_dual_def sample_pmic_def da9063_decode_def DA_9063_REG_DVC_def)
  have c: "mi_uv ?c = - 100000" "ma_uv ?c = 100000" by (simp_all add: mi_uv_def ma_uv_def sample_coupling_def)
  have fit: "rails_fit ?c (\<lambda>_. DA9063) sample_dual_regu x"
    if "x 0 \<in> {300000, 800000}" "x 1 \<in> {300000, 750000}" for x
    using that by (auto simp: rails_fit_def c on_step_def DA_9063_REG_DVC_def dest!: less_2_cases')
  have "\<exists>w. csi_pmic_regulator_set_voltage 97 \<lparr>rv_regu_ext_id = 4, target_uv = ?T\<rparr> sample_dual = (Ok (), sample_dual\<lparr>hw := w\<rparr>)
      \<and> rail_uv fst (\<lambda>_. DA9063) (\<lambda>_. 0x58) sample_dual_regu w 0 = ?T ! 0
      \<and> rail_uv fst (\<lambda>_. DA9063) (\<lambda>_. 0x58) sample_dual_regu w 1 = ?T ! 1
      \<and> same_elsewhere fst (\<lambda>_. 0x58) sample_dual_regu (hw sample_dual) w"
    by (rule dual_rail_set_voltage [OF bus info sample_dual_rail fit fit])
      (simp_all add: uv c spread_ok_def dual_fuel_def rails_gap_def DA_9063_REG_DVC_def)
  then show ?thesis by (auto simp: rail_uv_def DA_9063_REG_DVC_def)
qed

end
