(* ===== verification/Pmic_Device.thy ===== *)
theory Pmic_Device
  imports Pmic_Regulator
begin

text \<open>
  The device operations of \<^verbatim>\<open>pmic.c\<close>: faults and temperature, the watchdog of the PMIC, raw
  register access, the interrupt of the PMIC pins, and the registration of devices and
  regulators. The functions that power up and down in order are in \<open>Pmic_Power\<close>.
\<close>

subsection \<open>Faults, temperature, registers\<close>

definition csi_pmic_read_faults :: "u8 \<Rightarrow> ('w, unit) pact" where
  "csi_pmic_read_faults pid =
     bind_res (find_dev pid) (\<lambda>k.
     bind_res (dev_ops k) (\<lambda>ops.
       case read_faults ops of
         None \<Rightarrow> fail CSI_UNSUPPORTED
       | Some f \<Rightarrow> as_err CSI_ERROR (f k)))"

fun temp_loop :: "nat list \<Rightarrow> u32 \<Rightarrow> ('w, u32) pact" where
  "temp_loop [] max_temp = ret max_temp"
| "temp_loop (i # is) max_temp =
     bind_res (dev_ops i) (\<lambda>ops.
       case get_temperature ops of
         None \<Rightarrow> temp_loop is max_temp
       | Some f \<Rightarrow> bind_res (f i) (\<lambda>temp. temp_loop is (if temp > max_temp then temp else max_temp)))"

definition csi_pmic_read_temperature :: "('w, u32) pact" where
  "csi_pmic_read_temperature = bind_res (get_st dev_num) (\<lambda>n. temp_loop [0..<unat n] 0)"

definition csi_pmic_set_log_level :: "u8 \<Rightarrow> u8 \<Rightarrow> ('w, unit) pact" where
  "csi_pmic_set_log_level pid level =
     bind_res (find_dev pid) (\<lambda>k.
     bind_res (dev_ops k) (\<lambda>ops.
       case set_log_level ops of
         None \<Rightarrow> fail CSI_UNSUPPORTED
       | Some f \<Rightarrow> as_err CSI_ERROR (f k level)))"

definition csi_pmic_get_reg :: "u8 \<Rightarrow> u32 \<Rightarrow> ('w, u32) pact" where
  "csi_pmic_get_reg pid reg =
     bind_res (find_dev pid) (\<lambda>k.
     bind_res (dev_ops k) (\<lambda>ops.
       case get_reg ops of
         None \<Rightarrow> fail CSI_UNSUPPORTED
       | Some f \<Rightarrow> as_err CSI_ERROR (f k reg)))"

definition csi_pmic_set_reg :: "u8 \<Rightarrow> u32 \<Rightarrow> u32 \<Rightarrow> ('w, unit) pact" where
  "csi_pmic_set_reg pid reg val =
     bind_res (find_dev pid) (\<lambda>k.
     bind_res (dev_ops k) (\<lambda>ops.
       case set_reg ops of
         None \<Rightarrow> fail CSI_UNSUPPORTED
       | Some f \<Rightarrow> as_err CSI_ERROR (f k reg val)))"

text \<open>The first device that answers wins; a failing one is passed over.\<close>

fun powerup_loop :: "nat list \<Rightarrow> ('w, u32) pact" where
  "powerup_loop [] = fail CSI_UNSUPPORTED"
| "powerup_loop (i # is) =
     bind_res (dev_ops i) (\<lambda>ops.
       case get_powerup ops of
         None \<Rightarrow> powerup_loop is
       | Some f \<Rightarrow> catch_err (f i) (\<lambda>r. case r of Inl e \<Rightarrow> powerup_loop is | Inr v \<Rightarrow> ret v))"

definition csi_pmic_get_powerup_flag :: "('w, u32) pact" where
  "csi_pmic_get_powerup_flag = bind_res (get_st dev_num) (\<lambda>n. powerup_loop [0..<unat n])"

subsection \<open>Watchdog\<close>

text \<open>\<^verbatim>\<open>if (!pmic->wdt_ops) return e; ... if (!dev) return CSI_ERROR;\<close>: the operations and the device.\<close>

definition wdt_dev :: "csi_error_t \<Rightarrow> ('w, 'w csi_wdt_ops_t \<times> nat) pact" where
  "wdt_dev e =
     bind_res (get_st wdt_ops) (\<lambda>ops.
       case ops of
         None \<Rightarrow> fail e
       | Some d \<Rightarrow>
           bind_res (get_st hw_wdt_pmic_id) (\<lambda>pid.
           bind_res (find_dev pid) (\<lambda>k.
           bind_res (deref (drv_wdt_ops d)) (\<lambda>w. ret (w, k)))))"

definition csi_pmic_wdt_start :: "('w, unit) pact" where
  "csi_pmic_wdt_start =
     bind_res (wdt_dev CSI_ERROR) (\<lambda>(w, k).
     bind_res (as_err CSI_ERROR (w_start w k)) (\<lambda>_.
     upd_dev_info k (\<lambda>i. i\<lparr>flag := flag i OR PMIC_DEV_ENABLE_WDT\<rparr>)))"

definition csi_pmic_wdt_stop :: "('w, unit) pact" where
  "csi_pmic_wdt_stop =
     bind_res (wdt_dev CSI_UNSUPPORTED) (\<lambda>(w, k).
     bind_res (as_err CSI_ERROR (w_stop w k)) (\<lambda>_.
     upd_dev_info k (\<lambda>i. i\<lparr>flag := flag i AND NOT PMIC_DEV_ENABLE_WDT\<rparr>)))"

definition csi_pmic_wdt_set_timer :: "u32 \<Rightarrow> ('w, unit) pact" where
  "csi_pmic_wdt_set_timer tmr_len =
     bind_res (wdt_dev CSI_ERROR) (\<lambda>(w, k).
     bind_res (upd_dev_info k (\<lambda>i. i\<lparr>wdt_len := tmr_len\<rparr>)) (\<lambda>_.
     bind_res (get_dev k) (\<lambda>d.
       if flag (dev_info d) AND PMIC_DEV_ENABLE_WDT \<noteq> 0 then w_set_timer_len w k tmr_len else ret ())))"

definition csi_pmic_wdt_is_enable :: "('w, u32) pact" where
  "csi_pmic_wdt_is_enable =
     bind_res (wdt_dev CSI_UNSUPPORTED) (\<lambda>(w, k).
     bind_res (get_dev k) (\<lambda>d.
       ret (if flag (dev_info d) AND PMIC_DEV_ENABLE_WDT \<noteq> 0 then 1 else 0)))"

definition csi_pmic_wdt_feed :: "('w, unit) pact" where
  "csi_pmic_wdt_feed = bind_res (wdt_dev CSI_ERROR) (\<lambda>(w, k). w_feed w k)"

definition csi_pmic_get_autoboot_flag :: "('w, u32) pact" where
  "csi_pmic_get_autoboot_flag =
     bind_res (get_st wdt_ops) (\<lambda>ops.
       if ops = None then ret 0
       else
         bind_res (get_st hw_wdt_pmic_id) (\<lambda>pid.
         bind_res (find_dev pid) (\<lambda>k.
         bind_res (get_dev k) (\<lambda>d. ret (ucast (flag (dev_info d) AND PMIC_DEV_ENABLE_AUTO_REBOOT))))))"

definition csi_pmic_repower :: "('w, unit) pact" where
  "csi_pmic_repower =
     bind_res (wdt_dev CSI_UNSUPPORTED) (\<lambda>(w, k).
     bind_res (w_repower w k) (\<lambda>_. hang))"

subsection \<open>The interrupt of the PMIC pins\<close>

datatype pmic_interrupt_io_type_en = PMIC_INTERRUPT_IO_ERR | PMIC_INTERRUPT_IO_LPM

text \<open>\<^verbatim>\<open>1 << pin\<close> on a 32-bit \<^verbatim>\<open>int\<close>.\<close>

definition one_shl :: "u8 \<Rightarrow> ('w, u32) pact" where
  "one_shl pin = (if unat pin < 32 then ret (push_bit (unat pin) 1) else undef)"

text \<open>
  The condition is \<^verbatim>\<open>(1 << pin) & pins != 0\<close>, which C reads as \<^verbatim>\<open>(1 << pin) & (pins != 0)\<close>: the
  mask is taken with the value 0 or 1 of the comparison. \<open>None\<close> is the unknown pin.
\<close>

definition pin_hit :: "u32 \<Rightarrow> u32 \<Rightarrow> bool" where
  "pin_hit mask_pin pins \<longleftrightarrow> mask_pin AND bool_val (pins \<noteq> 0) \<noteq> 0"

fun interrupt_loop :: "u32 \<Rightarrow> nat list \<Rightarrow> ('w, (pmic_interrupt_io_type_en \<times> u8) option) pact" where
  "interrupt_loop pins [] = ret None"
| "interrupt_loop pins (i # is) =
     bind_res (get_dev i) (\<lambda>d.
     let info = dev_info d in
     bind_res (if flag info AND PMIC_DEV_ENABLE_ERR_IO \<noteq> 0
               then bind_res (one_shl (io_pin (err_io_info info))) (\<lambda>b. ret (pin_hit b pins)) else ret False) (\<lambda>err.
     if err then ret (Some (PMIC_INTERRUPT_IO_ERR, dev_pmic_id info))
     else
       bind_res (if flag info AND PMIC_DEV_ENABLE_LPM_IO \<noteq> 0
                 then bind_res (one_shl (io_pin (lpm_io_info info))) (\<lambda>b. ret (pin_hit b pins)) else ret False) (\<lambda>lpm.
       if lpm then ret (Some (PMIC_INTERRUPT_IO_LPM, dev_pmic_id info)) else interrupt_loop pins is)))"

definition get_interrupt_pmic_id :: "u32 \<Rightarrow> ('w, (pmic_interrupt_io_type_en \<times> u8) option) pact" where
  "get_interrupt_pmic_id pins = bind_res (get_st dev_num) (\<lambda>n. interrupt_loop pins [0..<unat n])"

definition GPIO_IRQ_MODE_LOW_LEVEL :: u8 where "GPIO_IRQ_MODE_LOW_LEVEL = 3"
definition GPIO_IRQ_MODE_HIGH_LEVEL :: u8 where "GPIO_IRQ_MODE_HIGH_LEVEL = 4"

definition gpio_interrupt_handler :: "u32 \<Rightarrow> ('w, unit) pact" where
  "gpio_interrupt_handler pins =
     bind_res (get_interrupt_pmic_id pins) (\<lambda>r.
       case r of
         None \<Rightarrow> ret ()
       | Some (PMIC_INTERRUPT_IO_ERR, pid) \<Rightarrow> catch_err (csi_pmic_read_faults pid) (\<lambda>_. ret ())
       | Some (PMIC_INTERRUPT_IO_LPM, pid) \<Rightarrow>
           bind_res (get_st (\<lambda>s. gpio_read (pmic_csi_gpio s) pins (hw s))) (\<lambda>level.
           catch_err (hw_act (\<lambda>s. gpio_irq_mode (pmic_csi_gpio s) pins
             (if level \<noteq> 0 then GPIO_IRQ_MODE_LOW_LEVEL else GPIO_IRQ_MODE_HIGH_LEVEL))) (\<lambda>_. ret ())))"

definition light_pin_irq_cfg :: "u32 \<Rightarrow> u32 \<Rightarrow> u8 \<Rightarrow> ('w, unit) pact" where
  "light_pin_irq_cfg gpio_port pin mode =
     bind_res (hw_act (\<lambda>s. gpio_init (pmic_csi_gpio s) gpio_port)) (\<lambda>_.
     bind_res (hw_act (\<lambda>s. gpio_dir_input (pmic_csi_gpio s) pin)) (\<lambda>_.
     bind_res (hw_act (\<lambda>s. gpio_irq_mode (pmic_csi_gpio s) pin mode)) (\<lambda>_.
     hw_act (\<lambda>s. gpio_irq_enable (pmic_csi_gpio s) pin True))))"

subsection \<open>Registration of devices\<close>

definition support_drv :: "(string \<times> string \<times> drv) list" where
  "support_drv =
     [(''dialog,da9063'', ''v1'', DA9063), (''dialog,da9121'', ''v1'', DA9121), (''dialog,slg51000'', ''v1'', SLG51000)]"

text \<open>\<^verbatim>\<open>!strncmp(s, name, strlen(s))\<close>: \<open>s\<close> is a prefix of the name.\<close>

definition pmic_dev_drv_found :: "string \<Rightarrow> string \<Rightarrow> drv option" where
  "pmic_dev_drv_found name vers =
     map_option (\<lambda>(_, _, d). d)
       (List.find (\<lambda>(n, v, _). take (length n) name = n \<and> take (length v) vers = v) support_drv)"

definition pmic_parent_ctrl_init :: "pmic_parent_ctrl_info_t \<Rightarrow> ('w, unit) pact" where
  "pmic_parent_ctrl_init c =
     (if pmic_ctrl_type c = PMIC_CTRL_BY_NOTHINTG then ret ()
      else if pmic_ctrl_type c = PMIC_CTRL_BY_AON_GPIO then
        bind_res (hw_act (\<lambda>s. gpio_init (pmic_csi_gpio s) (ucast (ctrl_b0 c)))) (\<lambda>_.
        hw_act (\<lambda>s. gpio_dir_output (pmic_csi_gpio s) (ucast (ctrl_b1 c))))
      else if pmic_ctrl_type c = PMIC_CTRL_BY_PMIC_GPIO then
        (if ctrl_b0 c \<noteq> PMIC_ID_INVALID then
           bind_res (find_dev (ctrl_b0 c)) (\<lambda>k.
           bind_res (dev_ops k) (\<lambda>ops. if gpio_output ops = None then fail CSI_ERROR else ret ()))
         else fail CSI_ERROR)
      else ret ())"

definition pmic_parent_ctrl :: "pmic_parent_ctrl_info_t \<Rightarrow> bool \<Rightarrow> ('w, unit) pact" where
  "pmic_parent_ctrl c enable =
     (let on = (if ctrl_b2 c = HW_ID_ACTIVATE_HIGH then enable else \<not> enable) in
      if pmic_ctrl_type c = PMIC_CTRL_BY_NOTHINTG then ret ()
      else if pmic_ctrl_type c = PMIC_CTRL_BY_AON_GPIO then
        hw_act (\<lambda>s w. (Ok (), gpio_write (pmic_csi_gpio s) (ucast (ctrl_b1 c)) on w))
      else if pmic_ctrl_type c = PMIC_CTRL_BY_PMIC_GPIO then
        bind_res (get_st (\<lambda>s. csi_pmic_get_dev_by_pmic_id s (ctrl_b0 c))) (\<lambda>p.
        bind_res (deref p) (\<lambda>k.
        bind_res (dev_ops k) (\<lambda>ops.
        bind_res (deref (gpio_output ops)) (\<lambda>out. out k (ucast (ctrl_b1 c)) (bool_val on)))))
      else fail CSI_ERROR)"

text \<open>
  The callers pass \<^verbatim>\<open>&pmic_devs[i]\<close>, a \<^verbatim>\<open>csi_pmic_dev_t *\<close>, where \<^verbatim>\<open>pmic_parent_ctrl\<close> expects a
  \<^verbatim>\<open>pmic_dev_info_t *\<close>. The member \<^verbatim>\<open>ctrl_info\<close> is at byte 55 of the packed \<^verbatim>\<open>pmic_dev_info_t\<close>; a
  \<^verbatim>\<open>csi_pmic_dev_t\<close> has 16 bytes (two pointers, the fault byte, padding, the status). What is
  read is therefore the last byte of the pointer \<^verbatim>\<open>drv_data\<close> of \<^verbatim>\<open>pmic_devs[i + 3]\<close>, its fault byte
  and two bytes of padding (zero in the static array).
\<close>

definition misread_ctrl_info :: "nat \<Rightarrow> ('w, pmic_parent_ctrl_info_t) pact" where
  "misread_ctrl_info i =
     bind_res (get_dev (i + 3)) (\<lambda>d.
     bind_res (get_st drv_addr) (\<lambda>adr.
     ret \<lparr>pmic_ctrl_type = ucast (drop_bit 24 (case drv_data d of None \<Rightarrow> 0 | Some x \<Rightarrow> adr x)),
          ctrl_b0 = is_fault d, ctrl_b1 = 0, ctrl_b2 = 0\<rparr>))"

text \<open>The first loop: find the driver, set up the watchdog, the interrupt pins and the parent.\<close>

fun reg_dev_loop :: "nat list \<Rightarrow> pmic_dev_info_t list \<Rightarrow> bool \<Rightarrow> ('w, bool) pact" where
  "reg_dev_loop [] infos irq = ret irq"
| "reg_dev_loop (i # is) infos irq =
     (let info = infos ! i in
      case pmic_dev_drv_found (device_name info) (version_name info) of
        None \<Rightarrow> fail CSI_ERROR
      | Some d \<Rightarrow>
          bind_res (if flag info AND PMIC_DEV_ENABLE_WDT \<noteq> 0
                    then (if drv_wdt_ops d \<noteq> (None :: 'w csi_wdt_ops_t option) \<and> drv_features d AND PMIC_DRV_SUPPORT_WDT \<noteq> 0
                          then bind_res (upd_st (\<lambda>s. s\<lparr>wdt_ops := Some d, hw_wdt_pmic_id := dev_pmic_id info\<rparr>)) (\<lambda>_.
                               ret (info\<lparr>flag := flag info AND NOT PMIC_DEV_ENABLE_WDT\<rparr>))
                          else fail CSI_ERROR)
                    else ret info) (\<lambda>info.
          bind_res (if flag info AND PMIC_DEV_ENABLE_ERR_IO \<noteq> 0
                    then bind_res (one_shl (io_pin (err_io_info info))) (\<lambda>b.
                         bind_res (as_err CSI_ERROR (light_pin_irq_cfg (ucast (io_gpio_port (err_io_info info))) b
                           (trigger_mode (err_io_info info)))) (\<lambda>_. ret True))
                    else ret irq) (\<lambda>irq.
          bind_res (if flag info AND PMIC_DEV_ENABLE_LPM_IO \<noteq> 0
                    then bind_res (one_shl (io_pin (lpm_io_info info))) (\<lambda>b.
                         bind_res (as_err CSI_ERROR (light_pin_irq_cfg (ucast (io_gpio_port (lpm_io_info info))) b
                           (trigger_mode (lpm_io_info info)))) (\<lambda>_. ret True))
                    else ret irq) (\<lambda>irq.
          bind_res (as_err CSI_ERROR (pmic_parent_ctrl_init (ctrl_info info))) (\<lambda>_.
          bind_res (upd_dev i (\<lambda>v. v\<lparr>drv_data := Some d, dev_info := info\<rparr>)) (\<lambda>_.
          reg_dev_loop is infos irq))))))"

text \<open>\<^verbatim>\<open>if (ret) { dev_status = e; return CSI_ERROR; }\<close>\<close>

definition or_status :: "nat \<Rightarrow> csi_pmic_dev_status_en \<Rightarrow> ('w, unit) pact \<Rightarrow> ('w, unit) pact" where
  "or_status i e m =
     catch_err m (\<lambda>r. case r of
       Inl _ \<Rightarrow> bind_res (upd_dev i (\<lambda>d. d\<lparr>dev_status := e\<rparr>)) (\<lambda>_. fail CSI_ERROR)
     | Inr _ \<Rightarrow> ret ())"

text \<open>The second loop: power the parent and initialise the device.\<close>

definition init_dev :: "nat \<Rightarrow> ('w, unit) pact" where
  "init_dev i =
     bind_res (misread_ctrl_info i) (\<lambda>c.
     bind_res (as_err CSI_ERROR (pmic_parent_ctrl c True)) (\<lambda>_.
     bind_res (dev_ops i) (\<lambda>ops.
     bind_res (case op_init ops of None \<Rightarrow> ret () | Some f \<Rightarrow> or_status i CSI_STATUS_PMIC_DEV_INIT_FAILD (f i)) (\<lambda>_.
     bind_res (case read_id ops of None \<Rightarrow> ret () | Some f \<Rightarrow> or_status i CSI_STATUS_PMIC_DEV_INIT_FAILD (f i)) (\<lambda>_.
     upd_dev i (\<lambda>d. d\<lparr>dev_status := CSI_STATUS_PMIC_DEV_OK\<rparr>))))))"

definition pmic_register_device :: "pmic_dev_info_t list \<Rightarrow> ('w, unit) pact" where
  "pmic_register_device infos =
     (if infos = [] then fail CSI_ERROR
      else if length infos > CONFIG_MAX_PMIC_NUM then fail CSI_ERROR
      else
        bind_res (reg_dev_loop [0..<length infos] infos False) (\<lambda>has_interrupt_pin.
        bind_res (for_each [0..<length infos] init_dev) (\<lambda>_.
        bind_res (upd_st (\<lambda>s. s\<lparr>dev_num := of_nat (length infos)\<rparr>)) (\<lambda>_.
        if has_interrupt_pin
        then as_err CSI_ERROR (hw_act (\<lambda>s. gpio_attach_callback (pmic_csi_gpio s)))
        else ret ()))))"

subsection \<open>Registration of regulators\<close>

definition reg_regu_hw :: "nat \<Rightarrow> nat \<Rightarrow> ('w, unit) pact" where
  "reg_regu_hw i j =
     bind_res (get_st (\<lambda>s. sub_id (regu_list s ! i) ! j)) (\<lambda>h.
     if hw_valid h then
       bind_res (find_dev (pmic_id h)) (\<lambda>k.
       bind_res (as_err CSI_ERROR (pmic_get_regu_info k (ucast (hw_id h)))) (\<lambda>g.
       set_benable i j (initial_benable g)))
     else ret ())"

definition pmic_register_regu :: "csi_regu_id_t list \<Rightarrow> ('w, unit) pact" where
  "pmic_register_regu rs =
     (if rs = [] then fail CSI_ERROR
      else if length rs > CONFIG_MAX_REGU_EXT_NUM then fail CSI_ERROR
      else
        bind_res (upd_st (\<lambda>s. s\<lparr>regu_num := of_nat (length rs), regu_list := rs\<rparr>)) (\<lambda>_.
        for_each [0..<length rs] (\<lambda>i. for_each [0..<PMIC_MAX_HW_ID_NUM] (reg_regu_hw i))))"

end
