(* ===== verification/Pmic_Power.thy ===== *)
theory Pmic_Power
  imports Pmic_Device "HOL-Library.Multiset"
begin

text \<open>
  Powering up and down in order (\<^verbatim>\<open>pmic_soft_power_ctrl\<close> of \<^verbatim>\<open>pmic.c\<close>), initialisation and power off
  of the PMIC subsystem. Delays have no effect on the modelled state.
\<close>

subsection \<open>The sequence of rails\<close>

definition HW_SEQ_LEN :: nat where "HW_SEQ_LEN = CONFIG_MAX_REGU_EXT_NUM * PMIC_MAX_HW_ID_NUM"

text \<open>\<^verbatim>\<open>regu_ext_id | j << 8 | order << 16\<close>\<close>

definition seq_entry :: "u8 \<Rightarrow> nat \<Rightarrow> u8 \<Rightarrow> u32" where
  "seq_entry ext j order = ucast ext OR push_bit 8 (of_nat j) OR push_bit 16 (ucast order)"

definition seq_of_hw :: "bool \<Rightarrow> u8 \<Rightarrow> nat \<Rightarrow> pmic_hw_info_t \<Rightarrow> u32 list" where
  "seq_of_hw on ext j h =
     (if \<not> hw_valid h then []
      else if on \<and> on_order (soft_power_ctrl_info h) \<noteq> HW_ID_NO_SOFT_AUTO_ON
      then [seq_entry ext j (on_order (soft_power_ctrl_info h))]
      else if \<not> on \<and> off_order (soft_power_ctrl_info h) \<noteq> HW_ID_NO_SOFT_AUTO_OFF
      then [seq_entry ext j (off_order (soft_power_ctrl_info h))]
      else [])"

definition hw_seq_of :: "bool \<Rightarrow> csi_regu_id_t list \<Rightarrow> u32 list" where
  "hw_seq_of on rs =
     concat (map (\<lambda>r. concat (map (\<lambda>j. seq_of_hw on (regu_ext_id r) j (sub_id r ! j)) [0..<length (sub_id r)])) rs)"

subsection \<open>The bubble sort\<close>

definition seq_key :: "u32 \<Rightarrow> u32" where
  "seq_key x = x AND 0xFFFF0000"

definition bubble_step :: "nat \<Rightarrow> u32 list \<Rightarrow> u32 list" where
  "bubble_step l xs =
     (if seq_key (xs ! l) > seq_key (xs ! (l + 1)) then xs[l := xs ! (l + 1), l + 1 := xs ! l] else xs)"

definition bubble_pass :: "nat \<Rightarrow> nat \<Rightarrow> u32 list \<Rightarrow> u32 list" where
  "bubble_pass n k xs = fold bubble_step [0..<n - k - 1] xs"

definition hw_seq_sort :: "u32 list \<Rightarrow> u32 list" where
  "hw_seq_sort xs = fold (bubble_pass (length xs)) [0..<length xs - 1] xs"

subsection \<open>Switching in order\<close>

text \<open>
  The voltages of the rails of one regulator. \<open>prev\<close> is the local pointer \<^verbatim>\<open>regu\<close>, which keeps its value
  when the lookup fails (its return code is not checked).
\<close>

fun power_targets :: "csi_regu_id_t \<Rightarrow> u32 list \<Rightarrow> nat \<Rightarrow> nat list \<Rightarrow> u32 \<Rightarrow> csi_regu_t option \<Rightarrow> u32 list
    \<Rightarrow> ('w, u32 list) pact" where
  "power_targets r hw_seq h [] ext prev tgt = ret tgt"
| "power_targets r hw_seq h (j # js) ext prev tgt =
     bind_res (arr_get hw_seq (h + j)) (\<lambda>e.
     let hwid = unat (drop_bit 8 e AND 0xFF) in
     bind_res (arr_get (sub_id r) hwid) (\<lambda>info.
     let on_uv = init_target_uv (soft_power_ctrl_info info) in
     if e AND 0xFF \<noteq> ext then fail CSI_ERROR
     else if on_uv \<noteq> 0 then
       bind_res (find_dev (pmic_id info)) (\<lambda>k.
       catch_err (pmic_get_regu_info k (ucast (hw_id info))) (\<lambda>res.
       let prev = (case res of Inr g \<Rightarrow> Some g | Inl _ \<Rightarrow> prev) in
       bind_res (deref prev) (\<lambda>g.
       power_targets r hw_seq h js ext prev
         (tgt[hwid := if max_uv g = min_uv g \<and> step_uv g = 0 then 0 else on_uv]))))
     else power_targets r hw_seq h js ext prev (tgt[hwid := on_uv])))"

definition power_regu :: "nat \<Rightarrow> bool \<Rightarrow> u32 list \<Rightarrow> nat \<Rightarrow> ('w, nat) pact" where
  "power_regu fuel on hw_seq h =
     bind_res (arr_get hw_seq h) (\<lambda>e.
     let ext = e AND 0xFF in
     bind_res (pmic_get_regu_hw_id_num ext) (\<lambda>hw_id_num.
     bind_res (pmic_get_id_info ext) (\<lambda>i.
     bind_res (get_st (\<lambda>s. regu_list s ! i)) (\<lambda>r.
     bind_res (if on then
         bind_res (power_targets r hw_seq h [0..<hw_id_num] ext None (replicate PMIC_MAX_HW_ID_NUM 0)) (\<lambda>tgt.
         if tgt ! 0 \<noteq> 0
         then csi_pmic_regulator_set_voltage fuel \<lparr>rv_regu_ext_id = ucast ext, target_uv = tgt\<rparr>
         else ret ())
       else ret ()) (\<lambda>_.
     bind_res (arr_get (sub_id r) (unat (drop_bit 8 e AND 0xFF))) (\<lambda>base.
     bind_res (csi_pmic_regulator_ctrl (ucast ext) on) (\<lambda>_.
     ret hw_id_num)))))))"

fun power_loop :: "nat \<Rightarrow> nat \<Rightarrow> bool \<Rightarrow> u32 list \<Rightarrow> nat \<Rightarrow> nat \<Rightarrow> ('w, unit) pact" where
  "power_loop 0 fuel on hw_seq num h = (if h < num then hang else ret ())"
| "power_loop (Suc n) fuel on hw_seq num h =
     (if h < num
      then bind_res (power_regu fuel on hw_seq h) (\<lambda>k. power_loop n fuel on hw_seq num (h + k))
      else ret ())"

text \<open>
  Every turn moves on by at least one rail unless a regulator of the sequence has none, so a turn
  per entry is enough.
\<close>

definition pmic_soft_power_ctrl :: "nat \<Rightarrow> bool \<Rightarrow> ('w, unit) pact" where
  "pmic_soft_power_ctrl fuel on =
     bind_res (get_st (\<lambda>s. hw_seq_of on (take (unat (regu_num s)) (regu_list s)))) (\<lambda>seq.
     let num = length seq in
     if num > HW_SEQ_LEN then undef
     else if num = 0 then ret ()
     else power_loop num fuel on (hw_seq_sort seq @ replicate (HW_SEQ_LEN - num) 0) num 0)"

subsection \<open>Initialisation and power off\<close>

record pmic_config_t =
  cfg_iic_id :: u8
  cfg_addr_mode :: u8
  cfg_speed :: u8
  pmic_dev_list :: "pmic_dev_info_t list"
  regu_id_list :: "csi_regu_id_t list"

text \<open>\<^verbatim>\<open>if (ret) { pmic->pmic_status = e; return ret; }\<close>\<close>

definition or_pmic_status :: "csi_pmic_status_en \<Rightarrow> ('w, unit) pact \<Rightarrow> ('w, unit) pact" where
  "or_pmic_status e m =
     catch_err m (\<lambda>r. case r of
       Inl err \<Rightarrow> bind_res (upd_st (\<lambda>s. s\<lparr>pmic_status := e\<rparr>)) (\<lambda>_. fail err)
     | Inr _ \<Rightarrow> ret ())"

definition csi_pmic_init :: "nat \<Rightarrow> pmic_config_t \<Rightarrow> ('w, unit) pact" where
  "csi_pmic_init fuel config =
     bind_res (or_pmic_status CSI_STATUS_PMIC_IIC_ERR (hw_act (\<lambda>s. iic_init (if_dev s) (cfg_iic_id config)))) (\<lambda>_.
     bind_res (upd_st (\<lambda>s. s\<lparr>pmic_read_reg := True, pmic_write_reg := True\<rparr>)) (\<lambda>_.
     bind_res (or_pmic_status CSI_STATUS_PMIC_IIC_CONFIG_ERR
       (csi_pmic_if_config (cfg_addr_mode config) (cfg_speed config))) (\<lambda>_.
     bind_res (or_pmic_status CSI_STATUS_PMIC_DEV_REG_ERR (pmic_register_device (pmic_dev_list config))) (\<lambda>_.
     bind_res (or_pmic_status CSI_STATUS_PMIC_REGU_REG_ERR (pmic_register_regu (regu_id_list config))) (\<lambda>_.
     bind_res (or_pmic_status CSI_STATUS_PMIC_SOFT_POWER_CTRL_ERR (pmic_soft_power_ctrl fuel True)) (\<lambda>_.
     upd_st (\<lambda>s. s\<lparr>pmic_status := CSI_STATUS_PMIC_OK\<rparr>)))))))"

definition csi_pmic_uninit :: "('w, unit) pact" where
  "csi_pmic_uninit =
     bind_res (hw_act (\<lambda>s w. (Ok (), iic_uninit (if_dev s) w))) (\<lambda>_.
     upd_st (\<lambda>s. s\<lparr>pmic_read_reg := False, pmic_write_reg := False\<rparr>))"

definition power_off_dev :: "nat \<Rightarrow> ('w, unit) pact" where
  "power_off_dev i =
     bind_res (dev_ops i) (\<lambda>ops.
     bind_res (case op_uninit ops of None \<Rightarrow> ret () | Some f \<Rightarrow> or_status i CSI_STATUS_PMIC_DEV_UNINIT_FAILD (f i)) (\<lambda>_.
     bind_res (misread_ctrl_info i) (\<lambda>c.
     bind_res (as_err CSI_ERROR (pmic_parent_ctrl c False)) (\<lambda>_.
     upd_dev i (\<lambda>d. d\<lparr>dev_status := CSI_STATUS_PMIC_DEV_NOT_INIT\<rparr>)))))"

definition csi_pmic_soft_power_off :: "nat \<Rightarrow> ('w, unit) pact" where
  "csi_pmic_soft_power_off fuel =
     bind_res (or_pmic_status CSI_STATUS_PMIC_SOFT_POWER_CTRL_ERR (pmic_soft_power_ctrl fuel False)) (\<lambda>_.
     bind_res (get_st dev_num) (\<lambda>n.
     bind_res (for_each [0..<unat n] power_off_dev) (\<lambda>_.
     upd_st (\<lambda>s. s\<lparr>pmic_status := CSI_STATUS_PMIC_NOT_INIT\<rparr>))))"

subsection \<open>The sort is a stable sort\<close>

text \<open>
  A step at \<open>l\<close> exchanges neighbours of different keys: the entries stay the same, and so does
  the order of the entries of any one key.
\<close>

lemma bubble_step_split:
  assumes "l + 1 < length xs"
  obtains us x y vs where "xs = us @ x # y # vs" and "length us = l"
    and "bubble_step l xs = us @ (if seq_key x > seq_key y then y # x # vs else x # y # vs)"
proof -
  have eq: "xs = take l xs @ xs ! l # xs ! (l + 1) # drop (l + 2) xs"
    using assms by (metis Cons_nth_drop_Suc Suc_eq_plus1 add_2_eq_Suc' add_lessD1 append_take_drop_id)
  define us x y vs where "us = take l xs" and "x = xs ! l" and "y = xs ! (l + 1)" and "vs = drop (l + 2) xs"
  have split: "xs = us @ x # y # vs" and len: "length us = l"
    using eq assms by (simp_all add: us_def x_def y_def vs_def)
  have "bubble_step l xs = us @ (if seq_key x > seq_key y then y # x # vs else x # y # vs)"
    unfolding split using len by (simp add: bubble_step_def nth_append list_update_append)
  with split len show ?thesis by (rule that)
qed

lemma bubble_step_length [simp]: "length (bubble_step l xs) = length xs"
  by (simp add: bubble_step_def)

lemma bubble_step_mset: "l + 1 < length xs \<Longrightarrow> mset (bubble_step l xs) = mset xs"
  by (erule bubble_step_split) (auto simp: add_mset_commute)

lemma bubble_step_stable:
  "l + 1 < length xs \<Longrightarrow> filter (\<lambda>x. seq_key x = k) (bubble_step l xs) = filter (\<lambda>x. seq_key x = k) xs"
  by (erule bubble_step_split) auto

text \<open>
  After the steps \<open>0 .. m - 1\<close> the greatest of the first \<open>m + 1\<close> keys is at \<open>m\<close>, these positions
  hold what they held before in some order, and the others are untouched.
\<close>

lemma bubble_steps:
  assumes "m < length xs" and "ys = fold bubble_step [0..<m] xs"
  shows "length ys = length xs" and "mset ys = mset xs"
    and "filter (\<lambda>x. seq_key x = k) ys = filter (\<lambda>x. seq_key x = k) xs"
    and "\<forall>i > m. i < length xs \<longrightarrow> ys ! i = xs ! i"
    and "\<forall>i \<le> m. \<exists>j \<le> m. ys ! i = xs ! j"
    and "\<forall>i \<le> m. seq_key (ys ! i) \<le> seq_key (ys ! m)"
proof -
  have "length ys = length xs \<and> mset ys = mset xs
      \<and> filter (\<lambda>x. seq_key x = k) ys = filter (\<lambda>x. seq_key x = k) xs
      \<and> (\<forall>i > m. i < length xs \<longrightarrow> ys ! i = xs ! i) \<and> (\<forall>i \<le> m. \<exists>j \<le> m. ys ! i = xs ! j)
      \<and> (\<forall>i \<le> m. seq_key (ys ! i) \<le> seq_key (ys ! m))"
    using assms
  proof (induction m arbitrary: ys)
    case 0
    then show ?case by simp
  next
    case (Suc m)
    define zs where "zs = fold bubble_step [0..<m] xs"
    have z: "length zs = length xs" "mset zs = mset xs"
      "filter (\<lambda>x. seq_key x = k) zs = filter (\<lambda>x. seq_key x = k) xs"
      "\<forall>i > m. i < length xs \<longrightarrow> zs ! i = xs ! i" "\<forall>i \<le> m. \<exists>j \<le> m. zs ! i = xs ! j"
      "\<forall>i \<le> m. seq_key (zs ! i) \<le> seq_key (zs ! m)"
      using Suc.IH [OF _ zs_def] Suc.prems(1) by auto
    have ys: "ys = bubble_step m zs" using Suc.prems(2) by (simp add: zs_def)
    have at: "ys ! i = (if seq_key (zs ! m) > seq_key (zs ! Suc m) \<and> i = m then zs ! Suc m
        else if seq_key (zs ! m) > seq_key (zs ! Suc m) \<and> i = Suc m then zs ! m else zs ! i)"
      if "i < length xs" for i
      using that Suc.prems(1) z(1) by (simp add: ys bubble_step_def nth_list_update)
    have "\<exists>j \<le> Suc m. ys ! i = xs ! j" if "i \<le> Suc m" for i
    proof -
      have "\<exists>j \<le> Suc m. zs ! i' = xs ! j" if "i' \<le> Suc m" for i'
        using that z(4,5) Suc.prems(1) by (metis le_Suc_eq lessI order_refl)
      then show ?thesis using that Suc.prems(1) at [of i] by auto
    qed
    moreover have "seq_key (ys ! i) \<le> seq_key (ys ! Suc m)" if "i \<le> Suc m" for i
      using that z(6) Suc.prems(1) at [of i] at [of "Suc m"]
      by (cases "i = Suc m"; cases "i = m") (auto simp: not_less le_Suc_eq intro: order_trans [of _ "seq_key (zs ! m)"])
    moreover have "\<forall>i > Suc m. i < length xs \<longrightarrow> ys ! i = xs ! i" using z(4) at by auto
    ultimately show ?case
      using z(1-3) Suc.prems(1) by (simp add: ys bubble_step_mset bubble_step_stable)
  qed
  then show "length ys = length xs" "mset ys = mset xs"
    "filter (\<lambda>x. seq_key x = k) ys = filter (\<lambda>x. seq_key x = k) xs"
    "\<forall>i > m. i < length xs \<longrightarrow> ys ! i = xs ! i" "\<forall>i \<le> m. \<exists>j \<le> m. ys ! i = xs ! j"
    "\<forall>i \<le> m. seq_key (ys ! i) \<le> seq_key (ys ! m)"
    by blast+
qed

text \<open>\<open>k\<close> passes put the \<open>k\<close> greatest entries in place.\<close>

definition settled :: "nat \<Rightarrow> u32 list \<Rightarrow> bool" where
  "settled k xs \<longleftrightarrow> (\<forall>i j. i < j \<longrightarrow> j < length xs \<longrightarrow> length xs - k \<le> j \<longrightarrow> seq_key (xs ! i) \<le> seq_key (xs ! j))"

lemma bubble_pass_settles:
  assumes "settled k xs" and "k < length xs"
  shows "settled (Suc k) (bubble_pass (length xs) k xs)"
proof -
  define ys where "ys = fold bubble_step [0..<length xs - k - 1] xs"
  have m: "length xs - k - 1 < length xs" using assms(2) by simp
  note b = bubble_steps [OF m ys_def]
  have "seq_key (ys ! i) \<le> seq_key (ys ! j)"
    if ij: "i < j" "j < length xs" "length xs - Suc k \<le> j" for i j
  proof (cases "j = length xs - k - 1")
    case True
    then show ?thesis using b(6) ij(1) by simp
  next
    case False
    then have j: "length xs - k \<le> j" "ys ! j = xs ! j" using ij b(4) by auto
    obtain i' where "i' < j" "ys ! i = xs ! i'"
    proof (cases "i \<le> length xs - k - 1")
      case True
      then obtain i' where "i' \<le> length xs - k - 1" "ys ! i = xs ! i'" using b(5) by blast
      then show ?thesis using j(1) False ij by (intro that) auto
    next
      case False
      then show ?thesis using b(4) ij by (intro that [of i]) auto
    qed
    then show ?thesis using assms(1) j ij(2) by (simp add: settled_def)
  qed
  then show ?thesis unfolding settled_def bubble_pass_def ys_def [symmetric] using b(1) by auto
qed

lemma bubble_passes:
  assumes "ys = fold (bubble_pass (length xs)) [0..<k] xs" and "k < length xs"
  shows "length ys = length xs \<and> mset ys = mset xs
    \<and> filter (\<lambda>x. seq_key x = c) ys = filter (\<lambda>x. seq_key x = c) xs \<and> settled k ys"
  using assms
proof (induction k arbitrary: ys)
  case 0
  then show ?case by (simp add: settled_def)
next
  case (Suc k)
  define zs where "zs = fold (bubble_pass (length xs)) [0..<k] xs"
  have z: "length zs = length xs" "mset zs = mset xs"
    "filter (\<lambda>x. seq_key x = c) zs = filter (\<lambda>x. seq_key x = c) xs" "settled k zs"
    using Suc.IH [OF zs_def] Suc.prems(2) by auto
  have ys: "ys = bubble_pass (length zs) k zs" using Suc.prems(1) z(1) by (simp add: zs_def)
  have m: "length zs - k - 1 < length zs" using Suc.prems(2) z(1) by simp
  show ?case
    using bubble_steps(1,2) [OF m refl] bubble_steps(3) [OF m refl, of c] bubble_pass_settles [of k zs] z Suc.prems(2)
    by (simp add: ys bubble_pass_def)
qed

lemma settled_sorted: "settled (length xs - 1) xs \<Longrightarrow> sorted (map seq_key xs)"
  by (auto simp: settled_def sorted_iff_nth_mono_less)

text \<open>
  C16: the sequence in which rails are switched is the stable sort of the table of rails by their
  order: the rails with the lowest order come first, and rails of equal order keep the order they
  have in the configuration.
\<close>

theorem hw_seq_sort_is_stable_sort: "hw_seq_sort xs = sort_key seq_key xs"
proof (cases "xs = []")
  case True
  then show ?thesis by (simp add: hw_seq_sort_def)
next
  case False
  then have "length xs - 1 < length xs" by simp
  note p = bubble_passes [OF hw_seq_sort_def this]
  have "sort_key seq_key xs = hw_seq_sort xs"
  proof (rule properties_for_sort_key)
    show "sorted (map seq_key (hw_seq_sort xs))" using p [of 0] settled_sorted by simp
  qed (use p in \<open>simp_all add: eq_commute\<close>)
  then show ?thesis by simp
qed

end
