(* ===== verification/Pmic_Invariant.thy ===== *)
theory Pmic_Invariant
  imports Pmic_Power Pmic_Dual
begin

text \<open>
  What the operations of the PMIC subsystem leave alone. The locale \<open>pmic_frame\<close> lists the parts of
  the state the drivers and \<^verbatim>\<open>pmic.c\<close> write once the subsystem is set up; every operation keeps a
  predicate that does not depend on them. Its interpretation on \<open>pmic_ok\<close> gives the well-formedness
  invariant of the subsystem over any sequence of calls, initialisation included.
\<close>

text \<open>The device search of the watchdog calls leaves the state alone.\<close>

lemma wdt_dev_Ok: "wdt_dev e s = (Ok (w, k), t) \<Longrightarrow> t = s \<and> (\<exists>d. wdt_ops s = Some d \<and> drv_wdt_ops d = Some w)"
  by (auto simp: wdt_dev_def find_dev_def act_defs split: option.splits)

lemma wdt_dev_state: "snd (wdt_dev e s) = s"
  by (auto simp: wdt_dev_def find_dev_def act_defs split: option.splits)

subsection \<open>The frame of the operations\<close>

text \<open>
  A device entry is only ever replaced by one with the same driver, wiring and bus addresses, and
  no operation sets a slew rate to zero.
\<close>

definition dev_like :: "csi_pmic_dev_t \<Rightarrow> csi_pmic_dev_t \<Rightarrow> bool" where
  "dev_like d e \<longleftrightarrow> drv_data e = drv_data d \<and> addr1 (dev_info e) = addr1 (dev_info d) \<and> addr2 (dev_info e) = addr2 (dev_info d)
     \<and> err_io_info (dev_info e) = err_io_info (dev_info d) \<and> lpm_io_info (dev_info e) = lpm_io_info (dev_info d)
     \<and> (slew_rate (dev_info e) = slew_rate (dev_info d) \<or> slew_rate (dev_info e) \<noteq> 0)"

locale pmic_frame =
  fixes P :: "'w csi_pmic_t \<Rightarrow> bool"
  assumes hw_law: "P s \<Longrightarrow> P (s\<lparr>hw := w\<rparr>)"
    and powerup_law: "P s \<Longrightarrow> P (s\<lparr>powerupflag := v\<rparr>)"
    and status_law: "P s \<Longrightarrow> P (s\<lparr>pmic_status := st\<rparr>)"
    and dev_law: "P s \<Longrightarrow> k < length (pmic_devs s) \<Longrightarrow> dev_like (pmic_devs s ! k) d \<Longrightarrow>
      P (s\<lparr>pmic_devs := (pmic_devs s)[k := d]\<rparr>)"
    and benable_law: "P s \<Longrightarrow> P (snd (set_benable j i b s))"
begin

lemma frame_hw: "keeps P (hw_act f)"
  by (rule keeps_hw_act) (rule hw_law)

lemma frame_read: "keeps P (call_read_reg a r)"
  by (rule keeps_read_reg) (rule hw_law)

lemma frame_write: "keeps P (call_write_reg a r v)"
  by (rule keeps_write_reg) (rule hw_law)

lemma frame_upd_dev: "(\<And>d. dev_like d (f d)) \<Longrightarrow> keeps P (upd_dev k f)"
  by (rule keeps_upd_dev) (simp add: dev_law)

lemma frame_dev_status: "keeps P (upd_dev k (\<lambda>d. d\<lparr>dev_status := x\<rparr>))"
  by (rule frame_upd_dev) (simp add: dev_like_def)

lemma frame_dev_info:
  "keeps P (upd_dev_info k (\<lambda>i. i\<lparr>flag := f i\<rparr>))" "keeps P (upd_dev_info k (\<lambda>i. i\<lparr>wdt_len := n\<rparr>))"
  "v \<noteq> 0 \<Longrightarrow> keeps P (upd_dev_info k (\<lambda>i. i\<lparr>slew_rate := v\<rparr>))"
  unfolding upd_dev_info_def by (rule frame_upd_dev; simp add: dev_like_def)+

lemma frame_benable: "keeps P (set_benable j i b)"
  by (rule keepsI) (rule benable_law)

lemma frame_powerup: "keeps P (upd_st (\<lambda>s. s\<lparr>powerupflag := v\<rparr>))"
  by (rule keeps_upd) (rule powerup_law)

lemma frame_status: "keeps P (upd_st (\<lambda>s. s\<lparr>pmic_status := st\<rparr>))"
  by (rule keeps_upd) (rule status_law)

lemmas frame_basic =
  keeps_basic keeps_bind keeps_catch keeps_as_err keeps_if keeps_for_each keeps_option
  keeps_get_dev keeps_dev_drv keeps_get_id_info keeps_find_dev keeps_get_regu_info keeps_regu_hw_id_num keeps_dev_addr
  frame_hw frame_read frame_write frame_dev_status frame_dev_info frame_benable frame_powerup frame_status

subsubsection \<open>Drivers\<close>

lemma frame_da9063_regs: "keeps P (da9063_get_reg k r)" "keeps P (da9063_set_reg k r v)"
  unfolding da9063_get_reg_def da9063_set_reg_def by (intro frame_basic)+

lemma frame_da9063:
  "keeps P (da9063_regu_power_ctrl k r b)" "keeps P (da9063_get_voltage k r)" "keeps P (da9063_set_voltage k r uv)"
  "keeps P (da9063_gpio_ctrl k g v)" "keeps P (da9063_select_buck_mode k r md)" "keeps P (da9063_regu_read_faults k)"
  "keeps P (da9063_regu_get_temperature k)" "keeps P (da9063_get_powerup_flag k)" "keeps P (da9063_uninit k)"
  unfolding da9063_regu_power_ctrl_def da9063_get_voltage_def da9063_set_voltage_def da9063_gpio_ctrl_def
    da9063_select_buck_mode_def da9063_regu_read_faults_def da9063_regu_get_temperature_def
    da9063_get_powerup_flag_def da9063_uninit_def
  by (intro frame_basic)+

lemma frame_da9063_init: "keeps P (da9063_init k)"
  unfolding da9063_init_def da9063_get_powerflag_def da9063_clear_fault_log_def da9063_get_bootmode_def da9063_gpio_init_def
  by (intro frame_basic frame_da9063_regs) simp

lemma frame_da9063_wdt:
  "keeps P (da9063_wdt_set_timer_len k n)" "keeps P (da9063_wdt_start k)" "keeps P (da9063_wdt_stop k)"
  "keeps P (da9063_wdt_feed k)" "keeps P (da9063_wdt_repower k)"
  unfolding da9063_wdt_set_timer_len_def da9063_wdt_start_def da9063_wdt_stop_def da9063_wdt_feed_def
    da9063_wdt_repower_def da9063_wdt_start_len_def da9063_wdt_update_timer_def
  by (intro frame_basic)+

lemma frame_da9121:
  "keeps P (da9121_regu_power_ctrl k r b)" "keeps P (da9121_get_voltage k r)" "keeps P (da9121_set_voltage k r uv)"
  "keeps P (da9121_init k)" "keeps P (da9121_uninit k)"
  unfolding da9121_regu_power_ctrl_def da9121_get_voltage_def da9121_set_voltage_def da9121_init_def da9121_uninit_def
  by (intro frame_basic; simp)+

lemma frame_slg51000:
  "keeps P (slg51000_regu_power_ctrl k r b)" "keeps P (slg51000_get_voltage k r)" "keeps P (slg51000_set_voltage k r uv)"
  "keeps P (slg51000_init k)" "keeps P (slg51000_uninit k)"
  unfolding slg51000_regu_power_ctrl_def slg51000_get_voltage_def slg51000_set_voltage_def slg51000_init_def
    slg51000_uninit_def
  by (auto intro!: frame_basic)

lemmas frame_drivers = frame_da9063_regs frame_da9063 frame_da9063_init frame_da9063_wdt frame_da9121 frame_slg51000

text \<open>A call through the table of a driver.\<close>

lemma frame_ops:
  "gpio_output (drv_ops d) = Some f1 \<Longrightarrow> keeps P (f1 k r v)"
  "set_voltage (drv_ops d) = Some f2 \<Longrightarrow> keeps P (f2 k r v)"
  "get_voltage (drv_ops d) = Some f3 \<Longrightarrow> keeps P (f3 k r)"
  "set_reg (drv_ops d) = Some f4 \<Longrightarrow> keeps P (f4 k r v)"
  "get_reg (drv_ops d) = Some f5 \<Longrightarrow> keeps P (f5 k r)"
  "get_powerup (drv_ops d) = Some f6 \<Longrightarrow> keeps P (f6 k)"
  "regu_power_ctrl (drv_ops d) = Some f7 \<Longrightarrow> keeps P (f7 k r v)"
  "get_temperature (drv_ops d) = Some f8 \<Longrightarrow> keeps P (f8 k)"
  "read_faults (drv_ops d) = Some f9 \<Longrightarrow> keeps P (f9 k)"
  "mode_select (drv_ops d) = Some f10 \<Longrightarrow> keeps P (f10 k r md)"
  "read_id (drv_ops d) = Some f11 \<Longrightarrow> keeps P (f11 k)"
  "set_log_level (drv_ops d) = Some f12 \<Longrightarrow> keeps P (f12 k lv)"
  "op_init (drv_ops d) = Some f13 \<Longrightarrow> keeps P (f13 k)"
  "op_uninit (drv_ops d) = Some f14 \<Longrightarrow> keeps P (f14 k)"
  by (cases d; auto simp: da9063_ops_def da9121_ops_def slg51000_ops_def null_ops_def intro: frame_drivers)+

lemma frame_wdt_ops:
  assumes "drv_wdt_ops d = Some w"
  shows "keeps P (w_set_timer_len w k n)" "keeps P (w_start w k)" "keeps P (w_stop w k)" "keeps P (w_feed w k)"
    "keeps P (w_repower w k)"
  using assms by (cases d; auto simp: da9063_wdt_ops_def intro: frame_drivers)+

subsubsection \<open>Operations of \<^verbatim>\<open>pmic.c\<close>\<close>

lemma frame_with_ops: "(\<And>d. keeps P (f (drv_ops d))) \<Longrightarrow> keeps P (bind_res (dev_ops k) f)"
proof -
  assume f: "\<And>d. keeps P (f (drv_ops d))"
  have "bind_res (dev_ops k) f = bind_res (dev_drv k) (\<lambda>d. f (drv_ops d))"
    by (rule ext) (simp add: dev_ops_def bind_res_def ret_def split: prod.splits res.splits)
  then show ?thesis using f by (simp add: keeps_bind keeps_dev_drv)
qed

lemma frame_with_wdt:
  assumes "\<And>d w k. drv_wdt_ops d = Some w \<Longrightarrow> keeps P (f (w, k))"
  shows "keeps P (bind_res (wdt_dev e) f)"
proof (rule keepsI)
  fix s assume "P s"
  obtain r where r: "wdt_dev e s = (r, s)" using wdt_dev_state [of e s] by (metis prod.collapse)
  show "P (snd (bind_res (wdt_dev e) f s))"
  proof (cases r)
    case (Ok x)
    then obtain w k d where "r = Ok (w, k)" "drv_wdt_ops d = Some w"
      using wdt_dev_Ok [of e s] r by (metis prod.collapse)
    then show ?thesis using keepsD [OF assms \<open>P s\<close>] r by (simp add: bind_res_def)
  qed (simp_all add: bind_res_def r \<open>P s\<close>)
qed

lemmas frame_rules = frame_with_ops frame_with_wdt frame_basic frame_drivers

lemma frame_coupling: "keeps P (get_min_and_max_vol_by_coupled_info i cur cs)"
  unfolding get_min_and_max_vol_by_coupled_info_def by (auto intro!: frame_basic split: option.splits prod.splits)

lemma frame_balanced: "keeps P (csi_pmic_get_voltage_balanced r i t u cur)"
  unfolding csi_pmic_get_voltage_balanced_def Let_def by (auto intro!: frame_basic frame_coupling)

lemma frame_sv_prepare: "keeps P (sv_prepare r tgt is st)"
  by (induction "is" arbitrary: st)
    (auto simp: Let_def intro!: frame_rules frame_ops(3) simp del: push_bit_of_1 split: option.splits)

text \<open>A call through an entry of the table that is not checked for NULL first.\<close>

lemma frame_deref: "(\<And>a. x = Some a \<Longrightarrow> keeps P (f a)) \<Longrightarrow> keeps P (bind_res (deref x) f)"
  by (cases x) (auto simp: keeps_def act_defs)

lemma frame_sv_body: "keeps P (sv_body r tgt cf i st)"
  unfolding sv_body_def
  by (intro frame_deref frame_rules frame_balanced) (erule frame_ops)+

lemma frame_sv_loop: "keeps P (sv_loop fuel r tgt cf n st)"
proof -
  have pass: "keeps P (sv_pass r tgt cf is st)" for "is" st
    by (induction "is" arbitrary: st) (auto intro!: frame_basic frame_sv_body)
  show ?thesis by (induction fuel arbitrary: st) (auto intro!: frame_basic pass)
qed

lemma frame_set_voltage: "keeps P (csi_pmic_regulator_set_voltage fuel p)"
  unfolding csi_pmic_regulator_set_voltage_def Let_def by (intro frame_basic frame_sv_prepare frame_sv_loop)

lemma frame_get_voltage: "keeps P (csi_pmic_regulator_get_voltage p)"
proof -
  have "keeps P (gv_loop r is uvs)" for r "is" uvs
    by (induction "is" arbitrary: uvs) (auto simp: Let_def intro!: frame_rules frame_ops(3))
  then show ?thesis unfolding csi_pmic_regulator_get_voltage_def by (intro frame_basic)
qed

lemma frame_ctrl: "keeps P (csi_pmic_regulator_ctrl ext on)"
proof -
  have "keeps P (ctrl_loop j on is)" for j "is"
    by (induction "is") (auto intro!: frame_rules; erule frame_ops)+
  then show ?thesis unfolding csi_pmic_regulator_ctrl_def by (intro frame_basic)
qed

lemma frame_mode_select: "keeps P (csi_pmic_mode_select ext mode)"
proof -
  have "keeps P (mode_loop r mode is)" for r "is"
    by (induction "is") (auto simp: Let_def intro!: frame_rules; erule frame_ops)+
  then show ?thesis unfolding csi_pmic_mode_select_def by (intro frame_basic)
qed

lemma frame_is_enable: "keeps P (csi_pmic_regulator_is_enable ext)"
  unfolding csi_pmic_regulator_is_enable_def by (intro frame_basic)

lemma frame_read_faults: "keeps P (csi_pmic_read_faults pid)"
  unfolding csi_pmic_read_faults_def by (intro frame_rules) (erule frame_ops)

lemma frame_temperature: "keeps P csi_pmic_read_temperature"
proof -
  have "keeps P (temp_loop is m)" for "is" m
    by (induction "is" arbitrary: m) (auto intro!: frame_rules; erule frame_ops)+
  then show ?thesis unfolding csi_pmic_read_temperature_def by (intro frame_basic)
qed

lemma frame_powerup_flag: "keeps P csi_pmic_get_powerup_flag"
proof -
  have "keeps P (powerup_loop is)" for "is"
    by (induction "is") (auto intro!: frame_rules split: sum.splits; erule frame_ops)+
  then show ?thesis unfolding csi_pmic_get_powerup_flag_def by (intro frame_basic)
qed

lemma frame_regs: "keeps P (csi_pmic_get_reg pid r)" "keeps P (csi_pmic_set_reg pid r v)" "keeps P (csi_pmic_set_log_level pid lv)"
  unfolding csi_pmic_get_reg_def csi_pmic_set_reg_def csi_pmic_set_log_level_def
  by (intro frame_rules; erule frame_ops)+

lemma frame_wdt:
  "keeps P csi_pmic_wdt_start" "keeps P csi_pmic_wdt_stop" "keeps P (csi_pmic_wdt_set_timer n)"
  "keeps P csi_pmic_wdt_is_enable" "keeps P csi_pmic_wdt_feed" "keeps P csi_pmic_repower"
  unfolding csi_pmic_wdt_start_def csi_pmic_wdt_stop_def csi_pmic_wdt_set_timer_def csi_pmic_wdt_is_enable_def
    csi_pmic_wdt_feed_def csi_pmic_repower_def
  by (auto intro!: frame_with_wdt frame_basic frame_wdt_ops)

lemma frame_autoboot: "keeps P csi_pmic_get_autoboot_flag"
  unfolding csi_pmic_get_autoboot_flag_def by (intro frame_basic)

lemma frame_interrupt: "keeps P (gpio_interrupt_handler pins)"
proof -
  have "keeps P (interrupt_loop pins is)" for "is"
    by (induction "is") (auto simp: Let_def one_shl_def intro!: frame_basic)
  then have "keeps P (get_interrupt_pmic_id pins)"
    unfolding get_interrupt_pmic_id_def by (intro frame_basic)
  then show ?thesis
    unfolding gpio_interrupt_handler_def
    by (intro frame_basic) (auto intro!: frame_basic frame_read_faults split: pmic_interrupt_io_type_en.splits)
qed

lemma frame_power_targets: "keeps P (power_targets r hs h js ext prev tgt)"
  by (induction js arbitrary: prev tgt) (auto simp: Let_def intro!: frame_basic)

lemma frame_soft_power: "keeps P (pmic_soft_power_ctrl fuel on)"
proof -
  have "keeps P (power_regu fuel on hs h)" for hs h
    unfolding power_regu_def Let_def
    by (intro frame_basic frame_power_targets frame_set_voltage frame_ctrl)
  then have "keeps P (power_loop n fuel on hs num h)" for n hs num h
    by (induction n arbitrary: h) (auto intro!: frame_basic)
  then show ?thesis unfolding pmic_soft_power_ctrl_def Let_def by (intro frame_basic)
qed

lemma frame_parent_ctrl: "keeps P (pmic_parent_ctrl c on)" "keeps P (pmic_parent_ctrl_init c)"
  unfolding pmic_parent_ctrl_def pmic_parent_ctrl_init_def Let_def
  by (intro frame_deref frame_rules; (erule frame_ops)?)+

lemma frame_or_status: "keeps P m \<Longrightarrow> keeps P (or_status i e m)" "keeps P m \<Longrightarrow> keeps P (or_pmic_status pe m)"
  unfolding or_status_def or_pmic_status_def
  by (auto intro!: frame_basic split: sum.splits)

lemma frame_init_dev: "keeps P (init_dev i)"
  unfolding init_dev_def misread_ctrl_info_def
  by (intro frame_rules frame_or_status frame_parent_ctrl; erule frame_ops)

lemma frame_power_off: "keeps P (csi_pmic_soft_power_off fuel)"
proof -
  have "keeps P (power_off_dev i)" for i
    unfolding power_off_dev_def misread_ctrl_info_def
    by (intro frame_rules frame_or_status frame_parent_ctrl; erule frame_ops)
  then show ?thesis
    unfolding csi_pmic_soft_power_off_def by (intro frame_basic frame_or_status frame_soft_power)
qed

end

subsection \<open>Well-formed states\<close>

text \<open>\<open>drivers_upto n\<close>: well-formed, and the first \<open>n\<close> devices have a driver.\<close>

definition drivers_upto :: "nat \<Rightarrow> 'w csi_pmic_t \<Rightarrow> bool" where
  "drivers_upto n s \<longleftrightarrow> pmic_ok s \<and> (\<forall>k < n. drv_data (pmic_devs s ! k) \<noteq> None)"

lemma drivers_upto_0: "drivers_upto 0 = pmic_ok"
  by (rule ext) (simp add: drivers_upto_def)

lemma pmic_ok_upd [simp]:
  "pmic_ok (s\<lparr>powerupflag := v\<rparr>) = pmic_ok s" "pmic_ok (s\<lparr>pmic_status := st\<rparr>) = pmic_ok s"
  "pmic_ok (s\<lparr>wdt_ops := wd\<rparr>) = pmic_ok s" "pmic_ok (s\<lparr>hw_wdt_pmic_id := i\<rparr>) = pmic_ok s"
  "pmic_ok (s\<lparr>pmic_read_reg := b\<rparr>) = pmic_ok s" "pmic_ok (s\<lparr>pmic_write_reg := b\<rparr>) = pmic_ok s"
  by (simp_all add: pmic_ok_def)

lemma pmic_ok_dev:
  assumes "pmic_ok s" and "k < length (pmic_devs s)" and "drv_data d = drv_data (pmic_devs s ! k) \<or> drv_data d \<noteq> None"
  shows "pmic_ok (s\<lparr>pmic_devs := (pmic_devs s)[k := d]\<rparr>)"
proof -
  have "drv_data ((pmic_devs s)[k := d] ! m) \<noteq> None" if "m < unat (dev_num s)" for m
    using assms that by (cases "m = k") (auto simp: pmic_ok_def)
  then show ?thesis using assms(1) by (simp add: pmic_ok_def)
qed

lemma pmic_ok_benable:
  assumes "pmic_ok s"
  shows "pmic_ok (snd (set_benable j i b s))"
proof (cases "j < length (regu_list s)")
  case True
  define r where "r = (regu_list s ! j)\<lparr>sub_id := (sub_id (regu_list s ! j))[i := (sub_id (regu_list s ! j) ! i)\<lparr>benable := b\<rparr>]\<rparr>"
  have "\<forall>x \<in> set (regu_list s). regu_id_ok x" and "regu_id_ok r"
    using assms True by (simp_all add: pmic_ok_def regu_id_ok_def r_def)
  then have "\<forall>x \<in> set ((regu_list s)[j := r]). regu_id_ok x" by (rule ball_set_update)
  moreover have "snd (set_benable j i b s) = s\<lparr>regu_list := (regu_list s)[j := r]\<rparr>"
    by (simp add: set_benable_def upd_st_def r_def)
  ultimately show ?thesis using assms by (simp add: pmic_ok_def)
qed (use assms in \<open>simp add: set_benable_def upd_st_def pmic_ok_def list_update_beyond\<close>)

interpretation up: pmic_frame "drivers_upto n" for n
proof
  fix s :: "'w csi_pmic_t" and j i b
  show "drivers_upto n s \<Longrightarrow> drivers_upto n (snd (set_benable j i b s))"
    using pmic_ok_benable [of s j i b] by (simp add: drivers_upto_def set_benable_def upd_st_def)
qed (simp_all add: drivers_upto_def nth_list_update pmic_ok_dev dev_like_def)

interpretation ok: pmic_frame pmic_ok
  using up.pmic_frame_axioms [of 0] by (simp add: drivers_upto_0)

subsection \<open>Registration\<close>

lemma reg_dev_loop_keeps: "keeps (drivers_upto n) (reg_dev_loop is infos irq)"
proof (induction "is" arbitrary: irq)
  case (Cons i "is")
  have wdt: "keeps (drivers_upto n) (upd_st (\<lambda>s. s\<lparr>wdt_ops := Some d, hw_wdt_pmic_id := w\<rparr>))" for d w
    by (rule keeps_upd) (simp add: drivers_upto_def)
  have upd: "keeps (drivers_upto n) (upd_dev i (\<lambda>v. v\<lparr>drv_data := Some d, dev_info := info\<rparr>))" for d info
    by (rule keeps_upd_dev) (simp add: drivers_upto_def nth_list_update pmic_ok_dev)
  show ?case
    unfolding reg_dev_loop.simps Let_def one_shl_def light_pin_irq_cfg_def
    by (intro up.frame_basic up.frame_parent_ctrl wdt upd Cons.IH)
qed (simp add: keeps_basic)

text \<open>\<open>leads P m Q\<close>: when \<open>m\<close> returns \<open>CSI_OK\<close> from a state with \<open>P\<close>, the new state has \<open>Q\<close>.\<close>

definition leads :: "('s \<Rightarrow> bool) \<Rightarrow> ('s, 'a) act \<Rightarrow> ('s \<Rightarrow> bool) \<Rightarrow> bool" where
  "leads P m Q \<longleftrightarrow> (\<forall>s a t. P s \<longrightarrow> m s = (Ok a, t) \<longrightarrow> Q t)"

lemma leads_keep: "keeps P m \<Longrightarrow> (\<And>a. leads P (f a) Q) \<Longrightarrow> leads P (bind_res m f) Q"
  unfolding leads_def bind_res_Ok by (metis keepsD_eq)

lemma leads_seq: "leads P m R \<Longrightarrow> (\<And>a. leads R (f a) Q) \<Longrightarrow> leads P (bind_res m f) Q"
  unfolding leads_def bind_res_Ok by metis

lemma leads_fail: "leads P (fail e) Q"
  by (simp add: leads_def fail_def)

text \<open>A completed first loop has given every device of the list its driver.\<close>

lemma reg_dev_loop_drivers:
  assumes "n \<le> m"
  shows "leads (drivers_upto n :: 'w csi_pmic_t \<Rightarrow> bool) (reg_dev_loop [n..<m] infos irq) (drivers_upto m)"
  using assms
proof (induction "m - n" arbitrary: n irq)
  case 0
  then show ?case by (simp add: leads_def ret_def)
next
  case (Suc x)
  have cons: "[n..<m] = n # [Suc n..<m]" using Suc.hyps(2) by (simp add: upt_conv_Cons)
  have wdt: "keeps (drivers_upto n) (upd_st (\<lambda>s. s\<lparr>wdt_ops := Some d, hw_wdt_pmic_id := w\<rparr>))" for d w
    by (rule keeps_upd) (simp add: drivers_upto_def)
  have upd: "leads (drivers_upto n) (upd_dev n (\<lambda>v. v\<lparr>drv_data := Some d, dev_info := info\<rparr>)) (drivers_upto (Suc n))"
    for d info
    by (auto simp: leads_def upd_dev_def drivers_upto_def less_Suc_eq pmic_ok_dev split: if_splits)
  have rest: "leads (drivers_upto (Suc n) :: 'w csi_pmic_t \<Rightarrow> bool) (reg_dev_loop [Suc n..<m] infos q) (drivers_upto m)" for q
    using Suc.hyps by (intro Suc.hyps(1)) auto
  show ?case
  proof (cases "pmic_dev_drv_found (device_name (infos ! n)) (version_name (infos ! n))")
    case None
    then show ?thesis by (simp add: cons leads_fail Let_def)
  next
    case (Some d)
    show ?thesis
      unfolding cons reg_dev_loop.simps Let_def Some option.case light_pin_irq_cfg_def one_shl_def
      by (intro leads_keep leads_seq [OF upd rest] up.frame_basic up.frame_parent_ctrl wdt)
  qed
qed

text \<open>\<open>brings R m P\<close>: whatever \<open>m\<close> comes back with from a state with \<open>R\<close>, the new state has \<open>P\<close>.\<close>

definition brings :: "('s \<Rightarrow> bool) \<Rightarrow> ('s, 'a) act \<Rightarrow> ('s \<Rightarrow> bool) \<Rightarrow> bool" where
  "brings R m P \<longleftrightarrow> (\<forall>s. R s \<longrightarrow> P (snd (m s)))"

lemma brings_bind:
  assumes "brings R m P" and "leads R m S" and "\<And>a. brings S (f a) P"
  shows "brings R (bind_res m f) P"
  unfolding brings_def
proof (intro allI impI)
  fix s assume "R s"
  obtain r t where m: "m s = (r, t)" by fastforce
  show "P (snd (bind_res m f s))"
  proof (cases r)
    case (Ok a)
    then have "S t" using assms(2) m \<open>R s\<close> by (simp add: leads_def)
    then show ?thesis using assms(3) Ok m by (simp add: brings_def bind_res_def)
  qed (use assms(1) m \<open>R s\<close> in \<open>auto simp: brings_def bind_res_def dest: spec [of _ s]\<close>)
qed

lemma brings_keeps: "keeps P m \<longleftrightarrow> brings P m P"
  by (simp add: keeps_def brings_def)

lemma keeps_leads: "keeps P m \<Longrightarrow> leads P m P"
  by (auto simp: leads_def dest: keepsD_eq)

lemma keeps_brings: "keeps P m \<Longrightarrow> (\<And>s. P s \<Longrightarrow> Q s) \<Longrightarrow> brings P m Q"
  by (simp add: keeps_def brings_def)

lemma register_device_keeps: "keeps pmic_ok (pmic_register_device infos)"
proof -
  define n where "n = length infos"
  have weak: "drivers_upto n s \<Longrightarrow> pmic_ok s" for s :: "'w csi_pmic_t"
    by (simp add: drivers_upto_def)
  have loop: "keeps pmic_ok (reg_dev_loop [0..<n] infos False)"
    "leads pmic_ok (reg_dev_loop [0..<n] infos False) (drivers_upto n)"
    using reg_dev_loop_keeps [of 0] reg_dev_loop_drivers [of 0 n] by (simp_all add: drivers_upto_0)
  have inits: "keeps (drivers_upto n) (for_each [0..<n] init_dev)"
    by (intro up.frame_basic up.frame_init_dev)
  have num: "brings (drivers_upto n) (upd_st (\<lambda>s. s\<lparr>dev_num := of_nat n\<rparr>)) pmic_ok"
    "leads (drivers_upto n) (upd_st (\<lambda>s. s\<lparr>dev_num := of_nat n\<rparr>)) pmic_ok" if "n \<le> CONFIG_MAX_PMIC_NUM"
    using that
    by (auto simp: brings_def leads_def upd_st_def drivers_upto_def pmic_ok_def CONFIG_MAX_PMIC_NUM_def unat_of_nat)
  have fin: "keeps pmic_ok (if p then as_err CSI_ERROR (hw_act (\<lambda>s. gpio_attach_callback (pmic_csi_gpio s))) else ret ())"
    for p by (intro ok.frame_basic)
  show ?thesis
  proof (cases "n \<le> CONFIG_MAX_PMIC_NUM")
    case True
    have "brings pmic_ok (bind_res (reg_dev_loop [0..<n] infos False) (\<lambda>p.
        bind_res (for_each [0..<n] init_dev) (\<lambda>_. bind_res (upd_st (\<lambda>s. s\<lparr>dev_num := of_nat n\<rparr>)) (\<lambda>_.
        if p then as_err CSI_ERROR (hw_act (\<lambda>s. gpio_attach_callback (pmic_csi_gpio s))) else ret ())))) pmic_ok"
      by (intro brings_bind [OF keeps_brings [OF loop(1)] loop(2)] brings_bind [OF keeps_brings [OF inits weak] keeps_leads [OF inits]]
          brings_bind [OF num] fin [unfolded brings_keeps] True)
    then show ?thesis
      unfolding pmic_register_device_def by (intro keeps_if keeps_basic) (simp add: brings_keeps n_def)
  qed (simp add: pmic_register_device_def n_def keeps_basic)
qed

lemma register_regu_keeps:
  assumes "\<forall>r \<in> set rs. regu_id_ok r"
  shows "keeps pmic_ok (pmic_register_regu rs)"
proof -
  have "keeps pmic_ok (upd_st (\<lambda>s. s\<lparr>regu_num := of_nat (length rs), regu_list := rs\<rparr>))"
    if "length rs \<le> CONFIG_MAX_REGU_EXT_NUM"
    by (rule keeps_upd) (use that assms in \<open>simp add: pmic_ok_def CONFIG_MAX_REGU_EXT_NUM_def unat_of_nat\<close>)
  then show ?thesis
    unfolding pmic_register_regu_def reg_regu_hw_def by (intro ok.frame_basic) auto
qed

lemma init_keeps:
  assumes "\<forall>r \<in> set (regu_id_list config). regu_id_ok r"
  shows "keeps pmic_ok (csi_pmic_init fuel config)"
proof -
  have "keeps pmic_ok (upd_st (\<lambda>s. s\<lparr>pmic_read_reg := True, pmic_write_reg := True\<rparr>))"
    by (rule keeps_upd) simp
  then show ?thesis
    unfolding csi_pmic_init_def csi_pmic_if_config_def
    by (intro ok.frame_basic ok.frame_or_status register_device_keeps register_regu_keeps ok.frame_soft_power assms)
qed

subsection \<open>Any sequence of calls\<close>

text \<open>The functions of \<^verbatim>\<open>pmic.h\<close> and the interrupt handler; what a call returns is dropped.\<close>

datatype pmic_call =
    Init nat pmic_config_t | Uninit | Soft_Power_Off nat
  | Set_Voltage nat regu_voltage_param_t | Get_Voltage regu_voltage_param_t | Regulator_Ctrl u8 bool | Is_Enable u8
  | Mode_Select u8 pmic_buck_mode
  | Read_Faults u8 | Read_Temperature | Set_Log_Level u8 u8 | Get_Reg u8 u32 | Set_Reg u8 u32 u32 | Get_Powerup
  | Wdt_Start | Wdt_Stop | Wdt_Set_Timer u32 | Wdt_Is_Enable | Wdt_Feed | Get_Autoboot | Repower | Interrupt u32

definition drop_val :: "('s, 'a) act \<Rightarrow> ('s, unit) act" where
  "drop_val m = bind_res m (\<lambda>_. ret ())"

fun run_call :: "pmic_call \<Rightarrow> ('w, unit) pact" where
  "run_call (Init fuel c) = csi_pmic_init fuel c"
| "run_call Uninit = csi_pmic_uninit"
| "run_call (Soft_Power_Off fuel) = csi_pmic_soft_power_off fuel"
| "run_call (Set_Voltage fuel p) = csi_pmic_regulator_set_voltage fuel p"
| "run_call (Get_Voltage p) = drop_val (csi_pmic_regulator_get_voltage p)"
| "run_call (Regulator_Ctrl e on) = csi_pmic_regulator_ctrl e on"
| "run_call (Is_Enable e) = drop_val (csi_pmic_regulator_is_enable e)"
| "run_call (Mode_Select e m) = csi_pmic_mode_select e m"
| "run_call (Read_Faults i) = csi_pmic_read_faults i"
| "run_call Read_Temperature = drop_val csi_pmic_read_temperature"
| "run_call (Set_Log_Level i l) = csi_pmic_set_log_level i l"
| "run_call (Get_Reg i r) = drop_val (csi_pmic_get_reg i r)"
| "run_call (Set_Reg i r v) = csi_pmic_set_reg i r v"
| "run_call Get_Powerup = drop_val csi_pmic_get_powerup_flag"
| "run_call Wdt_Start = csi_pmic_wdt_start"
| "run_call Wdt_Stop = csi_pmic_wdt_stop"
| "run_call (Wdt_Set_Timer n) = csi_pmic_wdt_set_timer n"
| "run_call Wdt_Is_Enable = drop_val csi_pmic_wdt_is_enable"
| "run_call Wdt_Feed = csi_pmic_wdt_feed"
| "run_call Get_Autoboot = drop_val csi_pmic_get_autoboot_flag"
| "run_call Repower = csi_pmic_repower"
| "run_call (Interrupt pins) = gpio_interrupt_handler pins"

text \<open>The tables of a configuration have the sizes of the C arrays.\<close>

fun call_ok :: "pmic_call \<Rightarrow> bool" where
  "call_ok (Init fuel c) = (\<forall>r \<in> set (regu_id_list c). regu_id_ok r)"
| "call_ok _ = True"

fun run_calls :: "pmic_call list \<Rightarrow> 'w csi_pmic_t \<Rightarrow> 'w csi_pmic_t" where
  "run_calls [] s = s"
| "run_calls (c # cs) s = run_calls cs (snd (run_call c s))"

lemma uninit_keeps: "keeps pmic_ok csi_pmic_uninit"
  unfolding csi_pmic_uninit_def by (intro ok.frame_basic keeps_upd) simp

lemma run_call_keeps: "call_ok c \<Longrightarrow> keeps pmic_ok (run_call c)"
  by (cases c)
    (auto simp: drop_val_def intro!: init_keeps uninit_keeps ok.frame_power_off ok.frame_set_voltage ok.frame_get_voltage
      ok.frame_ctrl ok.frame_is_enable ok.frame_mode_select ok.frame_read_faults ok.frame_temperature ok.frame_regs
      ok.frame_powerup_flag ok.frame_wdt ok.frame_autoboot ok.frame_interrupt ok.frame_basic(1-8))


definition sample_config :: pmic_config_t where
  "sample_config =
     \<lparr>cfg_iic_id = 0, cfg_addr_mode = 0, cfg_speed = 1,
      pmic_dev_list = [(dev_info (sample_dev None 0x58 0x59))\<lparr>device_name := ''dialog,da9063'', version_name := ''v1''\<rparr>],
      regu_id_list = regu_list sample_dual\<rparr>"


end
