(* ===== verification/Pmic_Safety.thy ===== *)
theory Pmic_Safety
  imports Pmic_Invariant
begin

text \<open>
  The operations of an initialised PMIC subsystem never run into undefined behaviour: no
  NULL pointer is called or read, no table is indexed outside its bounds, nothing is divided by zero
  or shifted by more than its width. \<open>runs P m V\<close> carries the proof along the structure of an
  action: from a state with \<open>P\<close> the action is defined and keeps \<open>P\<close>, and what it
  returns satisfies \<open>V\<close>.
\<close>

definition runs :: "('s \<Rightarrow> bool) \<Rightarrow> ('s, 'a) act \<Rightarrow> ('a \<Rightarrow> bool) \<Rightarrow> bool" where
  "runs P m V \<longleftrightarrow> (\<forall>s. P s \<longrightarrow> fst (m s) \<noteq> Ub \<and> P (snd (m s)) \<and> (\<forall>a. fst (m s) = Ok a \<longrightarrow> V a))"

lemma runsI:
  "keeps P m \<Longrightarrow> (\<And>s. P s \<Longrightarrow> fst (m s) \<noteq> Ub) \<Longrightarrow> (\<And>s a. P s \<Longrightarrow> fst (m s) = Ok a \<Longrightarrow> V a) \<Longrightarrow> runs P m V"
  by (simp add: runs_def keeps_def)

lemma runsD: "runs P m V \<Longrightarrow> P s \<Longrightarrow> fst (m s) \<noteq> Ub \<and> P (snd (m s))"
  by (simp add: runs_def)

lemma runs_ret: "V a \<Longrightarrow> runs P (ret a) V"
  by (simp add: runs_def ret_def)

lemma runs_basic: "runs P (fail e) V" "runs P hang V"
  by (simp_all add: runs_def fail_def hang_def)

lemma runs_get: "(\<And>s. P s \<Longrightarrow> V (g s)) \<Longrightarrow> runs P (get_st g) V"
  by (simp add: runs_def get_st_def)

lemma runs_bind:
  assumes "runs P m V" and "\<And>a. V a \<Longrightarrow> runs P (f a) U"
  shows "runs P (bind_res m f) U"
  unfolding runs_def
proof (intro allI impI)
  fix s assume "P s"
  obtain r t where m: "m s = (r, t)" by fastforce
  with assms(1) \<open>P s\<close> have "r \<noteq> Ub" "P t" "\<And>a. r = Ok a \<Longrightarrow> V a" by (auto simp: runs_def dest: spec [of _ s])
  then show "fst (bind_res m f s) \<noteq> Ub \<and> P (snd (bind_res m f s)) \<and> (\<forall>a. fst (bind_res m f s) = Ok a \<longrightarrow> U a)"
    using assms(2) by (cases r) (auto simp: m bind_res_def runs_def)
qed

lemma runs_catch:
  assumes "runs P m V" and "\<And>e. runs P (f (Inl e)) U" and "\<And>a. V a \<Longrightarrow> runs P (f (Inr a)) U"
  shows "runs P (catch_err m f) U"
  unfolding runs_def
proof (intro allI impI)
  fix s assume "P s"
  obtain r t where m: "m s = (r, t)" by fastforce
  with assms(1) \<open>P s\<close> have "r \<noteq> Ub" "P t" "\<And>a. r = Ok a \<Longrightarrow> V a" by (auto simp: runs_def dest: spec [of _ s])
  then show "fst (catch_err m f s) \<noteq> Ub \<and> P (snd (catch_err m f s)) \<and> (\<forall>a. fst (catch_err m f s) = Ok a \<longrightarrow> U a)"
    using assms(2,3) by (cases r) (auto simp: m catch_err_def runs_def)
qed

lemma runs_as_err: "runs P m V \<Longrightarrow> runs P (as_err e m) V"
  unfolding runs_def as_err_def by (auto split: prod.splits res.splits dest: spec)

lemma runs_if: "(c \<Longrightarrow> runs P m V) \<Longrightarrow> (\<not> c \<Longrightarrow> runs P n V) \<Longrightarrow> runs P (if c then m else n) V"
  by simp

lemma runs_option:
  "(x = None \<Longrightarrow> runs P m V) \<Longrightarrow> (\<And>a. x = Some a \<Longrightarrow> runs P (f a) V) \<Longrightarrow>
     runs P (case x of None \<Rightarrow> m | Some a \<Rightarrow> f a) V"
  by (cases x) auto

lemma runs_for_each: "(\<And>i. i \<in> set is \<Longrightarrow> runs P (f i) (\<lambda>_. True)) \<Longrightarrow> runs P (for_each is f) (\<lambda>_. True)"
  by (induction "is") (auto intro: runs_ret runs_bind)

lemma runs_weak: "runs P m V \<Longrightarrow> (\<And>a. V a \<Longrightarrow> U a) \<Longrightarrow> runs P m U"
  by (simp add: runs_def)

lemma runs_any: "runs P m V \<Longrightarrow> runs P m (\<lambda>_. True)"
  by (rule runs_weak) auto

lemma runs_step: "runs P m (\<lambda>_. True) \<Longrightarrow> (\<And>a. runs P (f a) U) \<Longrightarrow> runs P (bind_res m f) U"
  by (rule runs_bind)

lemmas runs_rules = runs_as_err runs_if runs_option runs_basic runs_for_each

subsection \<open>States in which the operations are defined\<close>

text \<open>
  What the board configuration has to provide: coupled rails exist, and a parent GPIO is
  one of the 40 a byte-wide shift can reach.
\<close>

definition regu_wired :: "csi_regu_id_t \<Rightarrow> bool" where
  "regu_wired r \<longleftrightarrow> regu_id_ok r \<and> (\<forall>c \<in> set (coupling_list r). id0 c = id1 c \<or> max_spread c = 0 \<and> min_spread c = 0
         \<or> unat (id0 c) < PMIC_MAX_HW_ID_NUM \<and> unat (id1 c) < PMIC_MAX_HW_ID_NUM)
     \<and> (\<forall>h \<in> set (sub_id r). pa_io_hw_id (parent_hw_info h) < 40)"

text \<open>An initialised handle with \<open>n\<close> devices and \<open>m\<close> regulators.\<close>

definition pmic_ready :: "u8 \<Rightarrow> nat \<Rightarrow> 'w csi_pmic_t \<Rightarrow> bool" where
  "pmic_ready n m s \<longleftrightarrow> pmic_ok s \<and> pmic_read_reg s \<and> pmic_write_reg s \<and> dev_num s = n \<and> length (regu_list s) = m
     \<and> (\<forall>k < unat n. slew_rate (dev_info (pmic_devs s ! k)) \<noteq> 0) \<and> (\<forall>r \<in> set (regu_list s). regu_wired r)
     \<and> wdt_ops s \<in> {None, Some DA9063}"

lemma regu_wired_benable:
  assumes "regu_wired r"
  shows "regu_wired (r\<lparr>sub_id := (sub_id r)[i := (sub_id r ! i)\<lparr>benable := b\<rparr>]\<rparr>)"
proof (cases "i < length (sub_id r)")
  case True
  then have "pa_io_hw_id (parent_hw_info ((sub_id r ! i)\<lparr>benable := b\<rparr>)) < 40"
    using assms by (simp add: regu_wired_def)
  with assms have "\<forall>h \<in> set ((sub_id r)[i := (sub_id r ! i)\<lparr>benable := b\<rparr>]). pa_io_hw_id (parent_hw_info h) < 40"
    by (intro ball_set_update) (simp_all add: regu_wired_def)
  then show ?thesis using assms by (simp add: regu_wired_def regu_id_ok_def)
qed (use assms in \<open>simp add: list_update_beyond\<close>)

interpretation ready: pmic_frame "pmic_ready n m" for n m
proof
  fix s :: "'w csi_pmic_t" and j i b
  assume p: "pmic_ready n m s"
  have "\<forall>r \<in> set (regu_list (snd (set_benable j i b s))). regu_wired r"
  proof (cases "j < length (regu_list s)")
    case True
    then have "regu_wired (regu_list s ! j)" using p by (simp add: pmic_ready_def)
    from regu_wired_benable [OF this] p show ?thesis
      unfolding set_benable_def upd_st_def snd_conv
      by simp (rule ball_set_update, simp_all add: pmic_ready_def)
  qed (use p in \<open>simp add: set_benable_def upd_st_def list_update_beyond pmic_ready_def\<close>)
  then show "pmic_ready n m (snd (set_benable j i b s))"
    using p pmic_ok_benable [of s j i b] by (simp add: pmic_ready_def set_benable_def upd_st_def)
next
  fix s :: "'w csi_pmic_t" and k d
  assume p: "pmic_ready n m s" and k: "k < length (pmic_devs s)" "dev_like (pmic_devs s ! k) d"
  then have "slew_rate (dev_info ((pmic_devs s)[k := d] ! q)) \<noteq> 0" if "q < unat n" for q
    using that by (cases "q = k") (auto simp: pmic_ready_def dev_like_def)
  then show "pmic_ready n m (s\<lparr>pmic_devs := (pmic_devs s)[k := d]\<rparr>)"
    using p k by (simp add: pmic_ready_def pmic_ok_dev dev_like_def)
qed (simp_all add: pmic_ready_def)

subsection \<open>Drivers\<close>

lemma runs_find_dev: "runs (pmic_ready n m) (find_dev pid) (\<lambda>k. k < unat n)"
  by (auto intro!: runsI keeps_find_dev simp: find_dev_def pmic_ready_def find_dev_bound split: option.splits)

lemma runs_get_dev: "k < unat n \<Longrightarrow> runs (pmic_ready n m) (get_dev k) (\<lambda>d. slew_rate (dev_info d) \<noteq> 0)"
  by (auto intro!: runsI keeps_get_dev simp: act_defs pmic_ready_def pmic_ok_def)

lemma runs_dev_drv:
  assumes "k < unat n"
  shows "runs (pmic_ready n m) (dev_drv k) (\<lambda>_. True)"
proof (rule runsI [OF keeps_dev_drv])
  fix s :: "'w csi_pmic_t" assume "pmic_ready n m s"
  with assms have "k < length (pmic_devs s)" and "drv_data (pmic_devs s ! k) \<noteq> None"
    by (auto simp: pmic_ready_def pmic_ok_def)
  then show "fst (dev_drv k s) \<noteq> Ub" by (auto simp: act_defs)
qed simp

lemma runs_dev_addr:
  assumes "k < unat n"
  shows "runs (pmic_ready n m) (dev_addr1 k) (\<lambda>_. True)" and "runs (pmic_ready n m) (dev_addr2 k) (\<lambda>_. True)"
  unfolding dev_addr1_def dev_addr2_def by (intro runs_bind [OF runs_get_dev [OF assms]] runs_ret TrueI)+

text \<open>The tables of the drivers have no voltage register without a step.\<close>

lemma regu_table_step: "g \<in> set (drv_regu_info d) \<Longrightarrow> vreg g = 0 \<or> step_uv g \<noteq> 0"
  by (cases d) (auto simp: da9063_regulator_info_def da9121_regulator_info_def slg51000_regulator_info_def
      DA_9063_REG_DVC_def DA_9063_REG_LDO_def DA_9063_REG_GPIO_def SLG51000_LDO_def)

lemma runs_regu_info:
  assumes "k < unat n"
  shows "runs (pmic_ready n m) (pmic_get_regu_info k r) (\<lambda>g. vreg g = 0 \<or> step_uv g \<noteq> 0)"
  unfolding pmic_get_regu_info_def
  by (intro runs_bind [OF runs_dev_drv [OF assms]])
    (auto intro!: runs_ret runs_basic regu_table_step dest: find_regu_in split: option.splits)

lemma runs_read: "runs (pmic_ready n m) (call_read_reg a r) (\<lambda>_. True)"
  by (intro runsI ready.frame_read)
    (auto simp: call_read_reg_def iic_read_reg_def bus_send_def bus_receive_def Let_def act_defs pmic_ready_def
      split: prod.splits)

lemma runs_write: "runs (pmic_ready n m) (call_write_reg a r v) (\<lambda>_. True)"
  by (intro runsI ready.frame_write)
    (auto simp: call_write_reg_def iic_write_reg_def bus_send_def Let_def act_defs pmic_ready_def split: prod.splits)

lemma runs_upd_dev:
  "k < unat n \<Longrightarrow> (\<And>d. dev_like d (f d)) \<Longrightarrow> runs (pmic_ready n m) (upd_dev k f) (\<lambda>_. True)"
  by (intro runsI ready.frame_upd_dev) (auto simp: upd_dev_def pmic_ready_def pmic_ok_def)

lemma runs_upd_flag:
  "k < unat n \<Longrightarrow> runs (pmic_ready n m) (upd_dev_info k (\<lambda>i. i\<lparr>flag := f i\<rparr>)) (\<lambda>_. True)"
  "k < unat n \<Longrightarrow> runs (pmic_ready n m) (upd_dev_info k (\<lambda>i. i\<lparr>wdt_len := w\<rparr>)) (\<lambda>_. True)"
  unfolding upd_dev_info_def by (intro runs_upd_dev; simp add: dev_like_def)+

text \<open>Calls whose result the rest of a function relies on.\<close>

lemmas runs_with_find_dev = runs_bind [OF runs_find_dev]
lemmas runs_with_dev = runs_bind [OF runs_get_dev]
lemmas runs_with_regu = runs_bind [OF runs_regu_info]

lemmas runs_driver_rules =
  runs_with_find_dev runs_with_dev runs_with_regu runs_step runs_rules runs_dev_addr runs_read runs_write TrueI

lemma runs_da9063:
  assumes "k < unat n"
  shows "runs (pmic_ready n m) (da9063_get_reg k r) (\<lambda>_. True)"
    and "runs (pmic_ready n m) (da9063_set_reg k r v) (\<lambda>_. True)"
    and "runs (pmic_ready n m) (da9063_regu_power_ctrl k r b) (\<lambda>_. True)"
    and "runs (pmic_ready n m) (da9063_get_voltage k r) (\<lambda>_. True)"
    and "runs (pmic_ready n m) (da9063_set_voltage k r uv) (\<lambda>_. True)"
    and "runs (pmic_ready n m) (da9063_select_buck_mode k r md) (\<lambda>_. True)"
    and "runs (pmic_ready n m) (da9063_regu_get_temperature k) (\<lambda>_. True)"
    and "runs (pmic_ready n m) (da9063_get_powerup_flag k) (\<lambda>_. True)"
    and "g < 40 \<Longrightarrow> runs (pmic_ready n m) (da9063_gpio_ctrl k g v) (\<lambda>_. True)"
    and "runs (pmic_ready n m) (da9063_regu_read_faults k) (\<lambda>_. True)"
proof -
  note r = runs_driver_rules assms
  show "runs (pmic_ready n m) (da9063_get_reg k r) (\<lambda>_. True)"
    unfolding da9063_get_reg_def by (intro r)
  show "runs (pmic_ready n m) (da9063_set_reg k r v) (\<lambda>_. True)"
    unfolding da9063_set_reg_def by (intro r)
  show "runs (pmic_ready n m) (da9063_regu_power_ctrl k r b) (\<lambda>_. True)"
    unfolding da9063_regu_power_ctrl_def by (intro r)
  show "runs (pmic_ready n m) (da9063_get_voltage k r) (\<lambda>_. True)"
    unfolding da9063_get_voltage_def by (intro r runs_ret)
  show "runs (pmic_ready n m) (da9063_set_voltage k r uv) (\<lambda>_. True)"
    unfolding da9063_set_voltage_def by (intro r) simp
  show "runs (pmic_ready n m) (da9063_select_buck_mode k r md) (\<lambda>_. True)"
    unfolding da9063_select_buck_mode_def by (intro r)
  show "runs (pmic_ready n m) (da9063_regu_get_temperature k) (\<lambda>_. True)"
    unfolding da9063_regu_get_temperature_def by (intro r runs_ret)
  show "runs (pmic_ready n m) (da9063_get_powerup_flag k) (\<lambda>_. True)"
    unfolding da9063_get_powerup_flag_def by (intro runs_get TrueI)
  show "runs (pmic_ready n m) (da9063_gpio_ctrl k g v) (\<lambda>_. True)" if "g < 40"
  proof -
    have "\<not> 32 \<le> g - 8" if "\<not> g \<le> 7" using \<open>g < 40\<close> that by unat_arith
    then show ?thesis unfolding da9063_gpio_ctrl_def by (intro r) simp
  qed
  show "runs (pmic_ready n m) (da9063_regu_read_faults k) (\<lambda>_. True)"
    unfolding da9063_regu_read_faults_def by (intro r runs_upd_dev runs_ret) (simp add: dev_like_def)
qed

lemma runs_da9063_wdt:
  assumes "k < unat n"
  shows "runs (pmic_ready n m) (da9063_wdt_set_timer_len k t) (\<lambda>_. True)"
    and "runs (pmic_ready n m) (da9063_wdt_start k) (\<lambda>_. True)"
    and "runs (pmic_ready n m) (da9063_wdt_stop k) (\<lambda>_. True)"
    and "runs (pmic_ready n m) (da9063_wdt_feed k) (\<lambda>_. True)"
    and "runs (pmic_ready n m) (da9063_wdt_repower k) (\<lambda>_. True)"
  unfolding da9063_wdt_set_timer_len_def da9063_wdt_start_def da9063_wdt_stop_def da9063_wdt_feed_def
    da9063_wdt_repower_def da9063_wdt_start_len_def da9063_wdt_update_timer_def
  by (intro runs_driver_rules assms)+

lemma runs_da9121_slg51000:
  assumes "k < unat n"
  shows "runs (pmic_ready n m) (da9121_regu_power_ctrl k r b) (\<lambda>_. True)"
    and "runs (pmic_ready n m) (da9121_get_voltage k r) (\<lambda>_. True)"
    and "runs (pmic_ready n m) (da9121_set_voltage k r uv) (\<lambda>_. True)"
    and "runs (pmic_ready n m) (slg51000_regu_power_ctrl k r b) (\<lambda>_. True)"
    and "runs (pmic_ready n m) (slg51000_get_voltage k r) (\<lambda>_. True)"
    and "runs (pmic_ready n m) (slg51000_set_voltage k r uv) (\<lambda>_. True)"
proof -
  note r = runs_driver_rules runs_ret assms
  show "runs (pmic_ready n m) (da9121_regu_power_ctrl k r b) (\<lambda>_. True)"
    unfolding da9121_regu_power_ctrl_def by (intro r)
  show "runs (pmic_ready n m) (da9121_get_voltage k r) (\<lambda>_. True)"
    unfolding da9121_get_voltage_def by (intro r)
  show "runs (pmic_ready n m) (da9121_set_voltage k r uv) (\<lambda>_. True)"
    unfolding da9121_set_voltage_def by (intro r) simp
  show "runs (pmic_ready n m) (slg51000_regu_power_ctrl k r b) (\<lambda>_. True)"
    unfolding slg51000_regu_power_ctrl_def by (intro r)
  show "runs (pmic_ready n m) (slg51000_get_voltage k r) (\<lambda>_. True)"
    unfolding slg51000_get_voltage_def by (intro r)
  show "runs (pmic_ready n m) (slg51000_set_voltage k r uv) (\<lambda>_. True)"
    unfolding slg51000_set_voltage_def by (intro r) simp
qed

text \<open>Calls through the table of a driver; the voltage entries are never NULL.\<close>

lemma runs_ops:
  assumes "k < unat n"
  shows "gpio_output (drv_ops d) = Some f1 \<Longrightarrow> r < 40 \<Longrightarrow> runs (pmic_ready n m) (f1 k r v) (\<lambda>_. True)"
    and "set_voltage (drv_ops d) = Some f2 \<Longrightarrow> runs (pmic_ready n m) (f2 k r v) (\<lambda>_. True)"
    and "get_voltage (drv_ops d) = Some f3 \<Longrightarrow> runs (pmic_ready n m) (f3 k r) (\<lambda>_. True)"
    and "set_reg (drv_ops d) = Some f4 \<Longrightarrow> runs (pmic_ready n m) (f4 k r v) (\<lambda>_. True)"
    and "get_reg (drv_ops d) = Some f5 \<Longrightarrow> runs (pmic_ready n m) (f5 k r) (\<lambda>_. True)"
    and "get_powerup (drv_ops d) = Some f6 \<Longrightarrow> runs (pmic_ready n m) (f6 k) (\<lambda>_. True)"
    and "regu_power_ctrl (drv_ops d) = Some f7 \<Longrightarrow> runs (pmic_ready n m) (f7 k r v) (\<lambda>_. True)"
    and "get_temperature (drv_ops d) = Some f8 \<Longrightarrow> runs (pmic_ready n m) (f8 k) (\<lambda>_. True)"
    and "read_faults (drv_ops d) = Some f9 \<Longrightarrow> runs (pmic_ready n m) (f9 k) (\<lambda>_. True)"
    and "mode_select (drv_ops d) = Some f10 \<Longrightarrow> runs (pmic_ready n m) (f10 k r md) (\<lambda>_. True)"
    and "set_log_level (drv_ops d) = Some f12 \<Longrightarrow> runs (pmic_ready n m) (f12 k lv) (\<lambda>_. True)"
  by (cases d; auto simp: da9063_ops_def da9121_ops_def slg51000_ops_def null_ops_def
      intro: runs_da9063 [OF assms] runs_da9121_slg51000 [OF assms])+

lemma runs_drv_voltage:
  assumes "k < unat n"
  shows "runs (pmic_ready n m) (drv_get_voltage d k r) (\<lambda>_. True)" and "runs (pmic_ready n m) (drv_set_voltage d k r uv) (\<lambda>_. True)"
  by (cases d; auto intro: runs_da9063 [OF assms] runs_da9121_slg51000 [OF assms])+

lemma runs_deref_voltage:
  "runs P (f (drv_get_voltage d)) U \<Longrightarrow> runs P (bind_res (deref (get_voltage (drv_ops d))) f) U"
  "runs P (h (drv_set_voltage d)) U \<Longrightarrow> runs P (bind_res (deref (set_voltage (drv_ops d))) h) U"
  by (simp_all add: runs_def act_defs)

lemma runs_with_ops:
  "k < unat n \<Longrightarrow> (\<And>d. runs (pmic_ready n m) (f (drv_ops d)) U) \<Longrightarrow> runs (pmic_ready n m) (bind_res (dev_ops k) f) U"
proof -
  assume k: "k < unat n" and f: "\<And>d. runs (pmic_ready n m) (f (drv_ops d)) U"
  have "bind_res (dev_ops k) f = bind_res (dev_drv k) (\<lambda>d. f (drv_ops d))"
    by (rule ext) (simp add: dev_ops_def bind_res_def ret_def split: prod.splits res.splits)
  then show ?thesis using f by (simp add: runs_step runs_dev_drv k)
qed

lemma runs_with_wdt:
  "(\<And>k. k < unat n \<Longrightarrow> runs (pmic_ready n m) (f (da9063_wdt_ops, k)) U) \<Longrightarrow>
     runs (pmic_ready n m) (bind_res (wdt_dev e) f) U"
proof -
  assume f: "\<And>k. k < unat n \<Longrightarrow> runs (pmic_ready n m) (f (da9063_wdt_ops, k)) U"
  have "runs (pmic_ready n m) (wdt_dev e) (\<lambda>(w, k). w = da9063_wdt_ops \<and> k < unat n)"
  proof (rule runsI)
    show "keeps (pmic_ready n m) (wdt_dev e)" unfolding wdt_dev_def by (intro ready.frame_basic)
  qed (auto simp: wdt_dev_def find_dev_def act_defs pmic_ready_def find_dev_bound split: option.splits)
  then show ?thesis by (rule runs_bind) (use f in auto)
qed

subsection \<open>Regulators\<close>

lemma runs_get_id: "runs (pmic_ready n m) (pmic_get_id_info ext) (\<lambda>j. j < m)"
  by (auto intro!: runsI keeps_get_id_info simp: pmic_get_id_info_def find_Some_iff pmic_ready_def pmic_ok_def split: option.splits)

lemmas runs_with_id = runs_bind [OF runs_as_err [OF runs_get_id]]

lemma runs_regu_id: "j < m \<Longrightarrow> runs (pmic_ready n m) (get_st (\<lambda>s. regu_list s ! j)) regu_wired"
  by (rule runs_get) (simp add: pmic_ready_def)

lemmas runs_with_regu_id = runs_bind [OF runs_regu_id]

lemma wired_lengths:
  assumes "regu_wired r"
  shows "length (sub_id r) = 3" and "i < 3 \<Longrightarrow> pa_io_hw_id (parent_hw_info (sub_id r ! i)) < 40"
  using assms by (auto simp: regu_wired_def regu_id_ok_def PMIC_MAX_HW_ID_NUM_def)

lemma runs_balanced:
  assumes "regu_wired r" and "length cur = 3" and "i < 3"
  shows "runs P (csi_pmic_get_voltage_balanced r i t u cur) (\<lambda>_. True)"
proof -
  have bounds: "coupling_bounds i cur c \<noteq> None" if "c \<in> set (coupling_list r)" "is_id_coupling i c" for c
    using that assms by (auto simp: coupling_bounds_def is_id_coupling_def regu_wired_def Let_def PMIC_MAX_HW_ID_NUM_def)
  have "coupled_range i cur cs acc \<noteq> None" if "set cs \<subseteq> set (coupling_list r)" for cs acc
    using that
  proof (induction cs arbitrary: acc)
    case (Cons c cs)
    then show ?case using bounds [of c] by (cases acc) (auto split: option.splits)
  qed simp
  then obtain mn mx ng where "coupled_range i cur (coupling_list r) (0, 0xffffffff, True) = Some (mn, mx, ng)"
    by (metis option.exhaust prod_cases3 subset_refl)
  then have "runs P (get_min_and_max_vol_by_coupled_info i cur (coupling_list r)) (\<lambda>_. True)"
    by (simp add: get_min_and_max_vol_by_coupled_info_def runs_basic runs_ret)
  then show ?thesis
    unfolding csi_pmic_get_voltage_balanced_def Let_def
    by (rule runs_bind) (use assms(2,3) in \<open>auto simp: runs_def act_defs split: prod.splits\<close>)
qed

text \<open>A rail marked in \<^verbatim>\<open>need_set_flag\<close> has its device and its regulator.\<close>

definition sv_ok :: "u8 \<Rightarrow> sv_state \<Rightarrow> bool" where
  "sv_ok n st \<longleftrightarrow> length (sv_dev st) = 3 \<and> length (sv_regu st) = 3 \<and> length (sv_current st) = 3
     \<and> (\<forall>i < 3. bit (sv_need_set_flag st) i \<longrightarrow> sv_regu st ! i \<noteq> None \<and> (\<exists>k < unat n. sv_dev st ! i = Some k))"

lemma sv_ok_current: "sv_ok n st \<Longrightarrow> sv_ok n (st\<lparr>sv_current := (sv_current st)[i := v]\<rparr>)"
  by (simp add: sv_ok_def)

lemma sv_ok_done: "sv_ok n st \<Longrightarrow> sv_ok n (st\<lparr>sv_need_set := c, sv_need_set_flag := sv_need_set_flag st AND NOT x\<rparr>)"
  by (simp add: sv_ok_def bit_and_iff)

lemma sv_ok_prepared:
  assumes "sv_ok n st" and "k < unat n" and "i < 3"
  shows "sv_ok n (st\<lparr>sv_dev := (sv_dev st)[i := Some k], sv_regu := (sv_regu st)[i := Some g], sv_current := (sv_current st)[i := v]\<rparr>)"
    and "sv_ok n (st\<lparr>sv_dev := (sv_dev st)[i := Some k], sv_regu := (sv_regu st)[i := Some g], sv_current := (sv_current st)[i := v],
      sv_need_set_flag := sv_need_set_flag st OR push_bit i 1, sv_need_set := c\<rparr>)"
  using assms by (auto simp: sv_ok_def nth_list_update bit_simps)

lemma runs_sv_prepare:
  assumes "set is \<subseteq> {..<3}" and "sv_ok n st"
  shows "runs (pmic_ready n m :: 'w csi_pmic_t \<Rightarrow> bool) (sv_prepare r tgt is st) (sv_ok n)"
  using assms
proof (induction "is" arbitrary: st)
  case (Cons i "is")
  have rest: "runs (pmic_ready n m :: 'w csi_pmic_t \<Rightarrow> bool) (sv_prepare r tgt is st') (sv_ok n)" if "sv_ok n st'" for st'
    using Cons that by simp
  show ?case
    using Cons.prems
    by (auto simp: Let_def simp del: push_bit_of_1
        intro!: runs_with_find_dev runs_with_ops runs_with_regu runs_bind [OF runs_drv_voltage(1)] runs_basic rest sv_ok_prepared)
qed (simp add: runs_ret)

lemma runs_sv_body:
  assumes "regu_wired r" and "i < 3" and "sv_ok n st"
  shows "runs (pmic_ready n m) (sv_body r tgt cf i st) (sv_ok n)"
proof (cases "bit (sv_need_set_flag st) i")
  case True
  then obtain g k where gk: "sv_regu st ! i = Some g" "sv_dev st ! i = Some k" "k < unat n"
    using assms(2,3) by (auto simp: sv_ok_def)
  have deref: "bind_res (deref (Some a)) f = f a" for a and f :: "_ \<Rightarrow> ('w, sv_state) pact"
    by (rule ext) (simp add: act_defs)
  have bal: "runs (pmic_ready n m) (csi_pmic_get_voltage_balanced r i t u (sv_current st)) (\<lambda>_. True)" for t u
    using assms by (intro runs_balanced) (simp_all add: sv_ok_def)
  have step: "runs (pmic_ready n m) (bind_res (dev_ops k) (\<lambda>ops. bind_res (deref (set_voltage ops)) (\<lambda>setv.
      bind_res (setv k h v) (\<lambda>_. bind_res (get_dev k) (\<lambda>d. if slew_rate (dev_info d) = 0 then undef
        else bind_res (deref (get_voltage ops)) (\<lambda>getv. bind_res (getv k h) (\<lambda>v'.
          ret (st\<lparr>sv_current := (sv_current st)[i := v']\<rparr>)))))))) (sv_ok n)" for h v
    by (rule runs_with_ops [OF gk(3)])
      (intro runs_deref_voltage runs_with_dev runs_step runs_if runs_drv_voltage gk(3) runs_ret sv_ok_current assms(3), simp)
  show ?thesis
    unfolding sv_body_def gk(1,2) deref
    by (intro runs_if runs_ret sv_ok_done assms(3) runs_step [OF _ step] bal TrueI)
qed (use assms in \<open>simp add: sv_body_def runs_ret\<close>)

lemma runs_sv_loop:
  assumes "regu_wired r" and "n' \<le> 3" and "sv_ok n st"
  shows "runs (pmic_ready n m) (sv_loop fuel r tgt cf n' st) (\<lambda>_. True)"
proof -
  have pass: "runs (pmic_ready n m) (sv_pass r tgt cf is st) (sv_ok n)" if "set is \<subseteq> {..<3}" "sv_ok n st" for "is" st
    using that by (induction "is" arbitrary: st) (auto intro!: runs_ret runs_bind [OF runs_sv_body] assms(1))
  show ?thesis
    using assms(3)
    by (induction fuel arbitrary: st) (use assms(2) in \<open>auto intro!: runs_ret runs_basic runs_bind [OF pass]\<close>)
qed

subsection \<open>Operations of \<^verbatim>\<open>pmic.c\<close>\<close>

lemma runs_set_voltage: "runs (pmic_ready n m) (csi_pmic_regulator_set_voltage fuel p) (\<lambda>_. True)"
proof -
  have init: "sv_ok n sv_init" by (simp add: sv_ok_def sv_init_def PMIC_MAX_HW_ID_NUM_def)
  have "runs (pmic_ready n m) (bind_res (sv_prepare r tgt [0..<length (sub_id r)] sv_init) (\<lambda>st.
      sv_loop fuel r tgt cf (length (filter hw_valid (sub_id r))) st)) (\<lambda>_. True)" if "regu_wired r" for r tgt cf
  proof (rule runs_bind [OF runs_sv_prepare [OF _ init]])
    show "set [0..<length (sub_id r)] \<subseteq> {..<3}" using wired_lengths(1) [OF that] by auto
    have "length (filter hw_valid (sub_id r)) \<le> 3" using wired_lengths(1) [OF that] length_filter_le [of hw_valid "sub_id r"] by simp
    then show "runs (pmic_ready n m) (sv_loop fuel r tgt cf (length (filter hw_valid (sub_id r))) st) (\<lambda>_. True)"
      if "sv_ok n st" for st using that \<open>regu_wired r\<close> by (intro runs_sv_loop)
  qed
  then show ?thesis
    unfolding csi_pmic_regulator_set_voltage_def Let_def by (intro runs_with_id runs_with_regu_id)
qed

lemma runs_get_voltage: "runs (pmic_ready n m) (csi_pmic_regulator_get_voltage p) (\<lambda>_. True)"
proof -
  have "runs (pmic_ready n m) (gv_loop r is uvs) (\<lambda>_. True)" for r "is" uvs
    by (induction "is" arbitrary: uvs)
      (auto simp: Let_def intro!: runs_ret runs_with_find_dev runs_with_ops runs_bind [OF runs_drv_voltage(1)])
  then show ?thesis
    unfolding csi_pmic_regulator_get_voltage_def by (intro runs_with_id runs_with_regu_id runs_step runs_ret TrueI)
qed

lemma runs_set_benable: "runs (pmic_ready n m) (set_benable j i b) (\<lambda>_. True)"
  by (intro runsI ready.frame_benable) (simp_all add: set_benable_def upd_st_def)

lemma runs_hw_info:
  "j < m \<Longrightarrow> i < 3 \<Longrightarrow> runs (pmic_ready n m) (get_st (\<lambda>s. sub_id (regu_list s ! j) ! i)) (\<lambda>h. pa_io_hw_id (parent_hw_info h) < 40)"
  by (rule runs_get) (simp add: pmic_ready_def wired_lengths)

lemma runs_parent_dev: "runs (pmic_ready n m) (get_st (\<lambda>s. csi_pmic_get_dev_by_pmic_id s pid)) (\<lambda>p. \<forall>k. p = Some k \<longrightarrow> k < unat n)"
  by (rule runs_get) (auto simp: pmic_ready_def find_dev_bound)

lemma runs_ctrl_loop:
  assumes "j < m"
  shows "set is \<subseteq> {..<3} \<Longrightarrow> runs (pmic_ready n m :: 'w csi_pmic_t \<Rightarrow> bool) (ctrl_loop j on is) (\<lambda>_. True)"
proof (induction "is")
  case (Cons i "is")
  then have IH: "runs (pmic_ready n m :: 'w csi_pmic_t \<Rightarrow> bool) (ctrl_loop j on is) (\<lambda>_. True)" and "i < 3" by auto
  have io: "pa < 40 \<Longrightarrow> (ucast pa :: u32) < 40" for pa :: u8
    by transfer (simp add: take_bit_eq_mod)
  note r = runs_with_find_dev runs_with_ops runs_option runs_basic runs_bind [OF runs_parent_dev] runs_set_benable runs_if runs_ret TrueI IH
  show ?case
    unfolding ctrl_loop.simps
    by (intro runs_bind [OF runs_hw_info [OF assms \<open>i < 3\<close>]] r runs_step runs_ops io) auto
qed (simp add: runs_ret)

lemma runs_ctrl: "runs (pmic_ready n m) (csi_pmic_regulator_ctrl ext on) (\<lambda>_. True)"
proof -
  have "runs (pmic_ready n m) (get_st (\<lambda>s. length (sub_id (regu_list s ! j)))) (\<lambda>l. l = 3)" if "j < m" for j
    by (rule runs_get) (use that in \<open>simp add: pmic_ready_def wired_lengths\<close>)
  then show ?thesis
    unfolding csi_pmic_regulator_ctrl_def
    by (intro runs_with_id runs_bind [of _ "get_st _" "\<lambda>l. l = 3"]) (auto intro!: runs_ctrl_loop)
qed

lemma runs_is_enable: "runs (pmic_ready n m) (csi_pmic_regulator_is_enable ext) (\<lambda>_. True)"
  unfolding csi_pmic_regulator_is_enable_def by (intro runs_with_id runs_step runs_get runs_ret TrueI)

lemma runs_mode_select: "runs (pmic_ready n m) (csi_pmic_mode_select ext mode) (\<lambda>_. True)"
proof -
  have "runs (pmic_ready n m) (mode_loop r mode is) (\<lambda>_. True)" for r "is"
  proof (induction "is")
    case (Cons i "is")
    show ?case
      unfolding mode_loop.simps Let_def
      by (intro runs_if runs_with_find_dev runs_with_ops runs_option runs_basic runs_step runs_ops Cons.IH)
  qed (simp add: runs_ret)
  then show ?thesis unfolding csi_pmic_mode_select_def by (intro runs_with_id runs_with_regu_id)
qed

lemma runs_read_faults: "runs (pmic_ready n m) (csi_pmic_read_faults pid) (\<lambda>_. True)"
  unfolding csi_pmic_read_faults_def
  by (intro runs_with_find_dev runs_with_ops runs_option runs_basic runs_as_err runs_ops)

lemma runs_regs:
  "runs (pmic_ready n m) (csi_pmic_get_reg pid r) (\<lambda>_. True)" "runs (pmic_ready n m) (csi_pmic_set_reg pid r v) (\<lambda>_. True)"
  "runs (pmic_ready n m) (csi_pmic_set_log_level pid lv) (\<lambda>_. True)"
proof -
  note r = runs_with_find_dev runs_with_ops runs_option runs_basic runs_as_err
  show "runs (pmic_ready n m) (csi_pmic_get_reg pid r) (\<lambda>_. True)"
    unfolding csi_pmic_get_reg_def by (intro r runs_ops(5))
  show "runs (pmic_ready n m) (csi_pmic_set_reg pid r v) (\<lambda>_. True)"
    unfolding csi_pmic_set_reg_def by (intro r runs_ops(4))
  show "runs (pmic_ready n m) (csi_pmic_set_log_level pid lv) (\<lambda>_. True)"
    unfolding csi_pmic_set_log_level_def by (intro r runs_ops(11))
qed

text \<open>Loops over the registered devices.\<close>

lemma runs_dev_num: "runs (pmic_ready n m) (get_st dev_num) (\<lambda>x. x = n)"
  by (rule runs_get) (simp add: pmic_ready_def)

lemma runs_temp_loop: "set is \<subseteq> {..<unat n} \<Longrightarrow> runs (pmic_ready n m) (temp_loop is t) (\<lambda>_. True)"
proof (induction "is" arbitrary: t)
  case (Cons i "is")
  show ?case
    unfolding temp_loop.simps
    by (intro runs_with_ops runs_option runs_step runs_ops Cons.IH) (use Cons.prems in auto)
qed (simp add: runs_ret)

lemma runs_temperature: "runs (pmic_ready n m) csi_pmic_read_temperature (\<lambda>_. True)"
  unfolding csi_pmic_read_temperature_def by (intro runs_bind [OF runs_dev_num]) (auto intro!: runs_temp_loop)

lemma runs_powerup_loop: "set is \<subseteq> {..<unat n} \<Longrightarrow> runs (pmic_ready n m) (powerup_loop is) (\<lambda>_. True)"
proof (induction "is")
  case (Cons i "is")
  then have i: "i < unat n" "set is \<subseteq> {..<unat n}" by auto
  show ?case
    unfolding powerup_loop.simps
    by (intro runs_with_ops runs_option Cons.IH runs_catch [OF runs_ops(6)] i) (simp_all add: Cons.IH i runs_ret)
qed (simp add: runs_basic)

lemma runs_powerup_flag: "runs (pmic_ready n m) csi_pmic_get_powerup_flag (\<lambda>_. True)"
  unfolding csi_pmic_get_powerup_flag_def by (intro runs_bind [OF runs_dev_num]) (auto intro!: runs_powerup_loop)

lemma runs_wdt_ops:
  assumes "k < unat n"
  shows "runs (pmic_ready n m) (w_set_timer_len da9063_wdt_ops k t) (\<lambda>_. True)"
    and "runs (pmic_ready n m) (w_start da9063_wdt_ops k) (\<lambda>_. True)"
    and "runs (pmic_ready n m) (w_stop da9063_wdt_ops k) (\<lambda>_. True)"
    and "runs (pmic_ready n m) (w_feed da9063_wdt_ops k) (\<lambda>_. True)"
    and "runs (pmic_ready n m) (w_repower da9063_wdt_ops k) (\<lambda>_. True)"
  by (simp_all add: da9063_wdt_ops_def runs_da9063_wdt [OF assms])

lemma runs_wdt:
  "runs (pmic_ready n m) csi_pmic_wdt_start (\<lambda>_. True)" "runs (pmic_ready n m) csi_pmic_wdt_stop (\<lambda>_. True)"
  "runs (pmic_ready n m) (csi_pmic_wdt_set_timer t) (\<lambda>_. True)" "runs (pmic_ready n m) csi_pmic_wdt_is_enable (\<lambda>_. True)"
  "runs (pmic_ready n m) csi_pmic_wdt_feed (\<lambda>_. True)" "runs (pmic_ready n m) csi_pmic_repower (\<lambda>_. True)"
proof -
  note r = runs_with_wdt runs_with_dev runs_step runs_as_err runs_if runs_wdt_ops runs_upd_flag runs_ret runs_basic TrueI
  show "runs (pmic_ready n m) csi_pmic_wdt_start (\<lambda>_. True)"
    unfolding csi_pmic_wdt_start_def by (rule runs_with_wdt, unfold prod.case, intro r)
  show "runs (pmic_ready n m) csi_pmic_wdt_stop (\<lambda>_. True)"
    unfolding csi_pmic_wdt_stop_def by (rule runs_with_wdt, unfold prod.case, intro r)
  show "runs (pmic_ready n m) (csi_pmic_wdt_set_timer t) (\<lambda>_. True)"
    unfolding csi_pmic_wdt_set_timer_def by (rule runs_with_wdt, unfold prod.case, intro r)
  show "runs (pmic_ready n m) csi_pmic_wdt_is_enable (\<lambda>_. True)"
    unfolding csi_pmic_wdt_is_enable_def by (rule runs_with_wdt, unfold prod.case, intro r)
  show "runs (pmic_ready n m) csi_pmic_wdt_feed (\<lambda>_. True)"
    unfolding csi_pmic_wdt_feed_def by (rule runs_with_wdt, unfold prod.case, intro r)
  show "runs (pmic_ready n m) csi_pmic_repower (\<lambda>_. True)"
    unfolding csi_pmic_repower_def by (rule runs_with_wdt, unfold prod.case, intro r)
qed

lemma runs_autoboot: "runs (pmic_ready n m) csi_pmic_get_autoboot_flag (\<lambda>_. True)"
  unfolding csi_pmic_get_autoboot_flag_def
  by (intro runs_with_find_dev runs_with_dev runs_step runs_get runs_if runs_ret TrueI)

text \<open>The calls an initialised subsystem serves.\<close>

fun running_call :: "pmic_call \<Rightarrow> bool" where
  "running_call (Init fuel c) = False"
| "running_call Uninit = False"
| "running_call (Soft_Power_Off fuel) = False"
| "running_call (Interrupt pins) = False"
| "running_call _ = True"

lemma runs_drop: "runs P m V \<Longrightarrow> runs P (drop_val m) (\<lambda>_. True)"
  unfolding drop_val_def by (rule runs_bind) (simp_all add: runs_ret)

lemma running_call_runs: "running_call c \<Longrightarrow> runs (pmic_ready n m) (run_call c) (\<lambda>_. True)"
  by (cases c)
    (auto intro: runs_drop runs_set_voltage runs_get_voltage runs_ctrl runs_is_enable runs_mode_select runs_read_faults
      runs_temperature runs_regs runs_powerup_flag runs_wdt runs_autoboot)

lemma running_calls_ready:
  "pmic_ready n m s \<Longrightarrow> \<forall>c \<in> set cs. running_call c \<Longrightarrow> pmic_ready n m (run_calls cs s)"
  by (induction cs arbitrary: s) (auto dest: runsD [OF running_call_runs])



end
