(* ===== verification/Pmic_Behaviour.thy ===== *)
theory Pmic_Behaviour
  imports Pmic_Invariant
begin

text \<open>
  Behaviour of the device operations of \<^verbatim>\<open>pmic.c\<close>: the watchdog flag follows the watchdog calls, and the
  search for the device that raised a pin interrupt.
\<close>

subsection \<open>The watchdog flag\<close>

text \<open>The parts of the handle no watchdog operation changes.\<close>

definition same_handle :: "'w csi_pmic_t \<Rightarrow> 'w csi_pmic_t \<Rightarrow> bool" where
  "same_handle s t \<longleftrightarrow> wdt_ops t = wdt_ops s \<and> hw_wdt_pmic_id t = hw_wdt_pmic_id s \<and> dev_num t = dev_num s
     \<and> length (pmic_devs t) = length (pmic_devs s)"

interpretation handle: pmic_frame "same_handle s" for s
  by unfold_locales (simp_all add: same_handle_def set_benable_def upd_st_def)

lemma wdt_dev_same:
  assumes "wdt_dev e s = (Ok (w, k), u)" and "same_handle s t"
  shows "wdt_dev e' t = (Ok (w, k), t)" and "k = unat (hw_wdt_pmic_id s)" and "k < unat (dev_num s)"
  using assms
  by (auto simp: wdt_dev_def find_dev_def act_defs same_handle_def csi_pmic_get_dev_by_pmic_id_def
      simp del: of_nat_unat split: option.splits if_splits)

lemma wdt_is_enable_at:
  assumes "wdt_dev e s = (Ok (w, k), u)" and "same_handle s t" and "k < length (pmic_devs t)"
  shows "csi_pmic_wdt_is_enable t = (Ok (if flag (dev_info (pmic_devs t ! k)) AND PMIC_DEV_ENABLE_WDT \<noteq> 0 then 1 else 0), t)"
  using wdt_dev_same(1) [OF assms(1,2), of CSI_UNSUPPORTED] assms(3)
  by (simp add: csi_pmic_wdt_is_enable_def bind_res_step act_defs)

text \<open>A watchdog call that succeeds is a driver call followed by an update of the flag.\<close>

lemma wdt_call_flag:
  fixes f :: "'w csi_wdt_ops_t \<Rightarrow> nat \<Rightarrow> ('w, unit) pact"
  assumes "bind_res (wdt_dev e) (\<lambda>(w, k). bind_res (as_err CSI_ERROR (f w k)) (\<lambda>_. upd_dev_info k (\<lambda>i. i\<lparr>flag := g (flag i)\<rparr>))) s = (Ok (), t)"
    and "\<And>d w k. drv_wdt_ops d = Some w \<Longrightarrow> keeps (same_handle s) (f w k)"
  shows "\<exists>x. csi_pmic_wdt_is_enable t = (Ok (if g x AND PMIC_DEV_ENABLE_WDT \<noteq> 0 then 1 else 0), t)"
proof -
  from assms(1) obtain w k u t1 where wdt: "wdt_dev e s = (Ok (w, k), u)" and f: "f w k s = (Ok (), t1)"
    and t: "upd_dev_info k (\<lambda>i. i\<lparr>flag := g (flag i)\<rparr>) t1 = (Ok (), t)"
    using wdt_dev_state [of e s] by (auto simp: bind_res_Ok as_err_Ok)
  have refl: "same_handle s s" by (simp add: same_handle_def)
  obtain d where "drv_wdt_ops d = Some w" using wdt_dev_Ok [OF wdt] by blast
  from keepsD_eq [OF assms(2) [OF this] refl f] have t1: "same_handle s t1" .
  have k: "k < length (pmic_devs t1)" using t by (auto simp: upd_dev_info_def upd_dev_def split: if_splits)
  have teq: "t = t1\<lparr>pmic_devs := (pmic_devs t1)[k := (pmic_devs t1 ! k)\<lparr>dev_info := (dev_info (pmic_devs t1 ! k))\<lparr>flag := g (flag (dev_info (pmic_devs t1 ! k)))\<rparr>\<rparr>]\<rparr>"
    using t k by (simp add: upd_dev_info_def upd_dev_def)
  have "same_handle s t" "k < length (pmic_devs t)" using t1 k by (simp_all add: teq same_handle_def)
  from wdt_is_enable_at [OF wdt this] k show ?thesis by (auto simp: teq)
qed

text \<open>
  C29: \<^verbatim>\<open>csi_pmic_wdt_is_enable\<close> reports the watchdog as running after every successful
  \<^verbatim>\<open>csi_pmic_wdt_start\<close> and as stopped after every successful \<^verbatim>\<open>csi_pmic_wdt_stop\<close>; while it is stopped,
  \<^verbatim>\<open>csi_pmic_wdt_set_timer\<close> succeeds and only stores the period: the hardware is not touched until the
  next start.
\<close>

theorem wdt_flag_follows_calls:
  assumes "pmic_ok s"
  shows "(csi_pmic_wdt_start s = (Ok (), t) \<longrightarrow> csi_pmic_wdt_is_enable t = (Ok 1, t))
    \<and> (csi_pmic_wdt_stop s = (Ok (), t) \<longrightarrow> csi_pmic_wdt_is_enable t = (Ok 0, t))
    \<and> (csi_pmic_wdt_is_enable s = (Ok 0, s) \<longrightarrow> (\<exists>u. csi_pmic_wdt_set_timer len s = (Ok (), u) \<and> hw u = hw s
          \<and> wdt_len (dev_info (pmic_devs u ! unat (hw_wdt_pmic_id s))) = len))"
proof (intro conjI impI)
  assume "csi_pmic_wdt_start s = (Ok (), t)"
  from wdt_call_flag [OF this [unfolded csi_pmic_wdt_start_def]] handle.frame_wdt_ops(2)
  obtain x where x: "csi_pmic_wdt_is_enable t = (Ok (if (x OR PMIC_DEV_ENABLE_WDT) AND PMIC_DEV_ENABLE_WDT \<noteq> 0 then 1 else 0), t)"
    by blast
  have "bit ((x OR PMIC_DEV_ENABLE_WDT) AND PMIC_DEV_ENABLE_WDT) 0" by (simp add: PMIC_DEV_ENABLE_WDT_def bit_simps)
  then have "(x OR PMIC_DEV_ENABLE_WDT) AND PMIC_DEV_ENABLE_WDT \<noteq> 0" by (metis bit_0_eq bot_apply bot_bool_def)
  with x show "csi_pmic_wdt_is_enable t = (Ok 1, t)" by simp
next
  assume "csi_pmic_wdt_stop s = (Ok (), t)"
  from wdt_call_flag [OF this [unfolded csi_pmic_wdt_stop_def]] handle.frame_wdt_ops(3)
  obtain x where x: "csi_pmic_wdt_is_enable t = (Ok (if (x AND NOT PMIC_DEV_ENABLE_WDT) AND PMIC_DEV_ENABLE_WDT \<noteq> 0 then 1 else 0), t)"
    by blast
  have "(x AND NOT PMIC_DEV_ENABLE_WDT) AND PMIC_DEV_ENABLE_WDT = 0" by (simp add: and.assoc)
  with x show "csi_pmic_wdt_is_enable t = (Ok 0, t)" by simp
next
  assume e: "csi_pmic_wdt_is_enable s = (Ok 0, s)"
  then obtain w k where wdt: "wdt_dev CSI_UNSUPPORTED s = (Ok (w, k), s)"
    unfolding csi_pmic_wdt_is_enable_def bind_res_Ok using wdt_dev_state [of CSI_UNSUPPORTED s] by fastforce
  have refl: "same_handle s s" by (simp add: same_handle_def)
  note k = wdt_dev_same [OF wdt refl]
  have len: "k < length (pmic_devs s)" using k(3) assms by (simp add: pmic_ok_def)
  have "flag (dev_info (pmic_devs s ! k)) AND PMIC_DEV_ENABLE_WDT = 0"
    using wdt_is_enable_at [OF wdt refl len] e by (auto split: if_splits)
  then show "\<exists>u. csi_pmic_wdt_set_timer len s = (Ok (), u) \<and> hw u = hw s
      \<and> wdt_len (dev_info (pmic_devs u ! unat (hw_wdt_pmic_id s))) = len" for len
    using k(1) [of CSI_ERROR] k(2) len
    by (simp add: csi_pmic_wdt_set_timer_def bind_res_step upd_dev_info_def upd_dev_def act_defs)
qed

theorem wdt_flag_follows_calls_witness:
  "\<exists>t. csi_pmic_wdt_stop sample_da9063 = (Ok (), t) \<and> csi_pmic_wdt_is_enable t = (Ok 0, t)"
proof -
  have ok: "pmic_ok sample_da9063"
    by (simp add: sample_da9063_def sample_pmic_def pmic_ok_def sample_dev_def CONFIG_MAX_PMIC_NUM_def)
  have wdt: "wdt_dev CSI_UNSUPPORTED sample_da9063 = (Ok (da9063_wdt_ops, 0), sample_da9063)"
    by (simp add: wdt_dev_def find_dev_def csi_pmic_get_dev_by_pmic_id_def act_defs sample_da9063_def sample_pmic_def)
  have "ok_post (da9063_wdt_stop 0) (\<lambda>_ t. \<exists>w. t = sample_da9063\<lparr>hw := w\<rparr>) sample_da9063"
    by (rule ok_da9063_wdt_stop [OF sample_da9063_ready]) auto
  then obtain w where "da9063_wdt_stop 0 sample_da9063 = (Ok (), sample_da9063\<lparr>hw := w\<rparr>)"
    by (auto simp: ok_post_def)
  moreover have "0 < length (pmic_devs sample_da9063)" by (simp add: sample_da9063_def sample_pmic_def)
  ultimately obtain t where t: "csi_pmic_wdt_stop sample_da9063 = (Ok (), t)"
    by (auto simp: csi_pmic_wdt_stop_def wdt da9063_wdt_ops_def upd_dev_info_def upd_dev_def act_defs)
  with wdt_flag_follows_calls [OF ok, of t 30] show ?thesis by blast
qed

subsection \<open>The device behind a pin interrupt\<close>

lemma pin_hit_bit: "0 < p \<Longrightarrow> \<not> pin_hit (push_bit p 1) pins"
proof -
  assume "0 < p"
  then have "push_bit p 1 AND bool_val b = 0" for b
    by (intro bit_word_eqI) (auto simp: bool_val_def bit_simps)
  then show ?thesis by (simp add: pin_hit_def)
qed

lemma interrupt_loop_none:
  assumes "\<forall>k \<in> set is. k < length (pmic_devs s)
      \<and> 0 < unat (io_pin (err_io_info (dev_info (pmic_devs s ! k)))) \<and> unat (io_pin (err_io_info (dev_info (pmic_devs s ! k)))) < 32
      \<and> 0 < unat (io_pin (lpm_io_info (dev_info (pmic_devs s ! k)))) \<and> unat (io_pin (lpm_io_info (dev_info (pmic_devs s ! k)))) < 32"
  shows "interrupt_loop pins is s = (Ok None, s)"
  using assms
proof (induction "is")
  case (Cons k "is")
  have "one_shl p s = (Ok (push_bit (unat p) 1), s)" if "unat p < 32" for p
    using that by (simp add: one_shl_def ret_def)
  then show ?case
    using Cons pin_hit_bit by (simp add: Let_def get_dev_def arr_get_def bind_res_def ret_def)
qed (simp add: ret_def)


definition sample_pin_dev :: csi_pmic_dev_t where
  "sample_pin_dev = (sample_dev (Some DA9063) 0x58 0x59)\<lparr>dev_info := (dev_info (sample_dev None 0x58 0x59))\<lparr>
     flag := PMIC_DEV_ENABLE_ERR_IO, err_io_info := \<lparr>io_gpio_port = 0, io_pin = 3, trigger_mode = 1\<rparr>,
     lpm_io_info := \<lparr>io_gpio_port = 0, io_pin = 4, trigger_mode = 1\<rparr>\<rparr>\<rparr>"


subsection \<open>A parent without GPIO operation\<close>

text \<open>
  When the parent device of the first rail of a regulator has no GPIO operation, \<^verbatim>\<open>csi_pmic_regulator_ctrl\<close>
  returns \<open>CSI_OK\<close> after switching that rail only: the parent pin is not driven, the new state of the rail is not
  recorded and the other rails are not switched.
\<close>

theorem ctrl_parent_without_gpio:
  assumes "pmic_get_id_info (ucast ext) s = (Ok j, s)" and "sub_id (regu_list s ! j) = h # hs" and "hw_valid h"
    and "csi_pmic_get_dev_by_pmic_id s (pmic_id h) = Some k" and "k < length (pmic_devs s)" and "drv_data (pmic_devs s ! k) = Some d"
    and "regu_power_ctrl (drv_ops d) = Some ctrl" and "ctrl k (ucast (hw_id h)) (bool_val on) s = (Ok (), s\<lparr>hw := w\<rparr>)"
    and "pa_pmic_id (parent_hw_info h) \<noteq> PMIC_ID_INVALID" and "csi_pmic_get_dev_by_pmic_id s (pa_pmic_id (parent_hw_info h)) = Some p"
    and "p < length (pmic_devs s)" and "drv_data (pmic_devs s ! p) = Some dp" and "dp \<noteq> DA9063"
  shows "csi_pmic_regulator_ctrl ext on s = (Ok (), s\<lparr>hw := w\<rparr>)"
proof -
  have "gpio_output (drv_ops dp) = (None :: (nat \<Rightarrow> u32 \<Rightarrow> u32 \<Rightarrow> ('a, unit) pact) option)"
    using assms(13) by (cases dp) (simp_all add: da9121_ops_def slg51000_ops_def null_ops_def)
  moreover have "csi_pmic_get_dev_by_pmic_id (s\<lparr>hw := w\<rparr>) q = csi_pmic_get_dev_by_pmic_id s q" for q
    by (simp add: csi_pmic_get_dev_by_pmic_id_def)
  moreover have "[0..<length (sub_id (regu_list s ! j))] = 0 # [1..<Suc (length hs)]"
    using assms(2) by (simp add: upt_conv_Cons del: upt_Suc)
  ultimately show ?thesis
    using assms(1-12)
    by (simp add: csi_pmic_regulator_ctrl_def as_err_def bind_res_def get_st_def find_dev_def dev_ops_def dev_drv_def get_dev_def
        arr_get_def deref_def ret_def del: upt_Suc)
qed

definition sample_parent :: "sample_hw csi_pmic_t" where
  "sample_parent = sample_pmic [sample_dev (Some DA9063) 0x58 0x59, sample_dev (Some DA9121) 0x68 0]
     [\<lparr>regu_ext_id = 4, coupling_list = sample_coupling,
       sub_id = [(sample_hw_info 0 0)\<lparr>parent_hw_info := \<lparr>pa_pmic_id = 1, pa_io_hw_id = 4, pa_activate_status = 0\<rparr>\<rparr>,
                 sample_hw_info 0 1, sample_hw_info 0xff 0]\<rparr>] (\<lambda>_. False)"

theorem ctrl_parent_without_gpio_witness:
  "\<exists>w. csi_pmic_regulator_ctrl 4 True sample_parent = (Ok (), sample_parent\<lparr>hw := w\<rparr>)"
proof -
  have bus: "bus_ready (\<lambda>_. False) fst sample_parent" by (simp add: sample_parent_def sample_pmic_bus)
  obtain w1 where w1: "call_read_reg 0x58 0x21 sample_parent = (Ok (ucast (fst (hw sample_parent) 0x58 0x21)), sample_parent\<lparr>hw := w1\<rparr>)"
    using call_read_reg_ready [OF bus, where a = "0x58" and off = "0x21"] by (auto simp: reg_addressed_def)
  obtain w2 where w2: "call_write_reg 0x58 0x21 (ucast (fst (hw sample_parent) 0x58 0x21) OR 1) (sample_parent\<lparr>hw := w1\<rparr>) = (Ok (), sample_parent\<lparr>hw := w2\<rparr>)"
    using call_write_reg_ready [where wide = "\<lambda>_. False" and regs = fst and s = "sample_parent\<lparr>hw := w1\<rparr>" and a = "0x58" and off = "0x21"
        and val = "ucast (fst (hw sample_parent) 0x58 0x21) OR 1"] bus by (auto simp: reg_addressed_def)
  have at: "dev_at sample_parent 0 DA9063 0x58"
    by (simp add: sample_parent_def sample_pmic_dev_at) (simp add: sample_dev_def)
  have run: "da9063_regu_power_ctrl 0 0 1 sample_parent = (Ok (), sample_parent\<lparr>hw := w2\<rparr>)"
    using w1 w2 sample_dual_find(1)
    by (simp add: da9063_regu_power_ctrl_def dev_at_simps(1) [OF at] bind_res_def dev_at_simps(3) [OF at] DA_9063_REG_DVC_def)
  have "csi_pmic_regulator_ctrl 4 True sample_parent = (Ok (), sample_parent\<lparr>hw := w2\<rparr>)"
  proof (rule ctrl_parent_without_gpio)
    show "pmic_get_id_info (ucast (4 :: u8)) sample_parent = (Ok 0, sample_parent)"
      by (simp add: pmic_get_id_info_def sample_parent_def sample_pmic_def)
    show "sub_id (regu_list sample_parent ! 0) =
      (sample_hw_info 0 0)\<lparr>parent_hw_info := \<lparr>pa_pmic_id = 1, pa_io_hw_id = 4, pa_activate_status = 0\<rparr>\<rparr> # [sample_hw_info 0 1, sample_hw_info 0xff 0]"
      by (simp add: sample_parent_def sample_pmic_def)
    show "regu_power_ctrl (drv_ops DA9063) = Some da9063_regu_power_ctrl" by (simp add: da9063_ops_def)
    show "da9063_regu_power_ctrl 0 (ucast (hw_id ((sample_hw_info 0 0)\<lparr>parent_hw_info := \<lparr>pa_pmic_id = 1, pa_io_hw_id = 4, pa_activate_status = 0\<rparr>\<rparr>)))
        (bool_val True) sample_parent = (Ok (), sample_parent\<lparr>hw := w2\<rparr>)"
      using run by (simp add: sample_hw_info_def bool_val_def)
    show "csi_pmic_get_dev_by_pmic_id sample_parent (pa_pmic_id (parent_hw_info ((sample_hw_info 0 0)\<lparr>parent_hw_info :=
        \<lparr>pa_pmic_id = 1, pa_io_hw_id = 4, pa_activate_status = 0\<rparr>\<rparr>))) = Some 1"
      by (simp add: csi_pmic_get_dev_by_pmic_id_def sample_parent_def sample_pmic_def)
    show "DA9121 \<noteq> DA9063" by simp
  qed (simp_all add: sample_parent_def sample_pmic_def sample_hw_info_def sample_dev_def hw_valid_def PMIC_ID_INVALID_def
      csi_pmic_get_dev_by_pmic_id_def)
  then show ?thesis by blast
qed

end
