(* ===== verification/Regmap.thy ===== *)
theory Regmap
  imports Aon_Base
begin

text \<open>
  The map of register holes of \<^verbatim>\<open>csi/chips/thead/light_aon/devices.c\<close>: for each peripheral the register
  dump covers, the ranges of offsets that must not be read. \<^verbatim>\<open>init_regmap\<close> fills it, \<^verbatim>\<open>reg_need_check\<close> and
  \<^verbatim>\<open>reg_is_inrange\<close> of \<^verbatim>\<open>aon_misc.c\<close> query it. Of \<^verbatim>\<open>csi_dev_tag_t\<close> the tags of the tables of \<^verbatim>\<open>devices.c\<close> are kept.
\<close>

datatype csi_dev_tag_t =
    DEV_WJ_EMMC_TAG | DEV_WJ_SDIO_TAG | DEV_WJ_APIIC_TAG | DEV_DW_IIC_TAG | DEV_WJ_AUDIIC_TAG
  | DEV_WJ_SPI_TAG | DEV_WJ_QSPI_TAG | DEV_WJ_VDEC_TAG | DEV_WJ_G2D_TAG | DEV_WJ_DSP_TAG
  | DEV_WJ_DDR_TAG | DEV_WJ_GPU_TAG | DEV_WJ_DMAC_TAG | DEV_DW_UART_TAG | DEV_DW_TIMER_TAG | DEV_DW_WDT_TAG
  | DEV_DW_GPIO_TAG | DEV_WJ_RTC_TAG | DEV_WJ_MBOX_TAG | DEV_MR_PVT_TAG

text \<open>\<^verbatim>\<open>reg_count\<close> is the length of \<open>range_list\<close>, which holds at most 50 ranges.\<close>

record csi_perip_reg_t =
  reg_base :: u32
  dev_tag :: csi_dev_tag_t
  idx :: u8
  range_list :: "(u16 \<times> u16) list"

definition perip_reg :: "u32 \<Rightarrow> csi_dev_tag_t \<Rightarrow> u8 \<Rightarrow> csi_perip_reg_t" where
  "perip_reg b t i = \<lparr>reg_base = b, dev_tag = t, idx = i, range_list = []\<rparr>"

text \<open>The initialised array; its terminating zero entry is the end of the list.\<close>

definition g_soc_reg_init :: "csi_perip_reg_t list" where
  "g_soc_reg_init =
     [perip_reg 0xB7080000 DEV_WJ_EMMC_TAG 0, perip_reg 0xB7090000 DEV_WJ_SDIO_TAG 0, perip_reg 0xB70A0000 DEV_WJ_SDIO_TAG 0,
      perip_reg 0xB7F20000 DEV_WJ_APIIC_TAG 0, perip_reg 0xB7F24000 DEV_WJ_APIIC_TAG 1, perip_reg 0xBC00C000 DEV_WJ_APIIC_TAG 2,
      perip_reg 0xBC014000 DEV_WJ_APIIC_TAG 3, perip_reg 0xB7F28000 DEV_WJ_APIIC_TAG 4, perip_reg 0xB7F2C000 DEV_WJ_APIIC_TAG 5,
      perip_reg 0xB7F20000 DEV_WJ_APIIC_TAG 0, perip_reg 0xB7F24000 DEV_WJ_APIIC_TAG 1, perip_reg 0xFFF4C000 DEV_DW_IIC_TAG 2,
      perip_reg 0xCB01A000 DEV_WJ_AUDIIC_TAG 0, perip_reg 0xCB01B000 DEV_WJ_AUDIIC_TAG 1, perip_reg 0xCB01A000 DEV_WJ_AUDIIC_TAG 0,
      perip_reg 0xCB01B000 DEV_WJ_AUDIIC_TAG 1, perip_reg 0xB700C000 DEV_WJ_SPI_TAG 0, perip_reg 0xF8000000 DEV_WJ_QSPI_TAG 1,
      perip_reg 0xBCC00000 DEV_WJ_VDEC_TAG 0, perip_reg 0xBCC80000 DEV_WJ_G2D_TAG 0, perip_reg 0xBF048000 DEV_WJ_DSP_TAG 0,
      perip_reg 0xBF050000 DEV_WJ_DSP_TAG 1, perip_reg 0xFF000000 DEV_WJ_DDR_TAG 0, perip_reg 0xBF400000 DEV_WJ_GPU_TAG 0,
      perip_reg 0xBFC00000 DEV_WJ_DMAC_TAG 0, perip_reg 0xC8000000 DEV_WJ_DMAC_TAG 1]"

definition add_reg_range :: "csi_dev_tag_t \<Rightarrow> u8 \<Rightarrow> u16 \<Rightarrow> u16 \<Rightarrow> (csi_perip_reg_t list, unit) act" where
  "add_reg_range tag ix start_addr end_addr tab =
     (case List.find (\<lambda>i. dev_tag (tab ! i) = tag \<and> idx (tab ! i) = ix) [0..<length tab] of
        None \<Rightarrow> (Err CSI_UNSUPPORTED, tab)
      | Some i \<Rightarrow>
          if reg_base (tab ! i) = 0 then (Err CSI_UNSUPPORTED, tab)
          else if length (range_list (tab ! i)) < 50
          then (Ok (), tab[i := (tab ! i)\<lparr>range_list := range_list (tab ! i) @ [(start_addr, end_addr)]\<rparr>])
          else (Ub, tab))"

text \<open>The calls of \<^verbatim>\<open>init_regmap\<close>, whose results are ignored.\<close>

definition regmap_ranges :: "(csi_dev_tag_t \<times> u8 \<times> u16 \<times> u16) list" where
  "regmap_ranges =
     [(DEV_WJ_EMMC_TAG, 0, 0x70, 0x70), (DEV_WJ_EMMC_TAG, 0, 0x80, 0x540), (DEV_WJ_SDIO_TAG, 0, 0x70, 0x70),
      (DEV_WJ_SDIO_TAG, 0, 0x74, 0x300), (DEV_WJ_SDIO_TAG, 0, 0x314, 0x314), (DEV_WJ_SDIO_TAG, 0, 0x334, 0x500),
      (DEV_WJ_SDIO_TAG, 0, 0x508, 0x540), (DEV_WJ_SDIO_TAG, 1, 0x70, 0x70), (DEV_WJ_SDIO_TAG, 1, 0x74, 0x300),
      (DEV_WJ_SDIO_TAG, 1, 0x314, 0x314), (DEV_WJ_SDIO_TAG, 1, 0x334, 0x500), (DEV_WJ_SDIO_TAG, 1, 0x508, 0x540),
      (DEV_WJ_SDIO_TAG, 1, 0x508, 0x540), (DEV_DW_IIC_TAG, 0, 0x10, 0x10), (DEV_DW_IIC_TAG, 1, 0x10, 0x10),
      (DEV_DW_IIC_TAG, 2, 0x10, 0x10), (DEV_DW_IIC_TAG, 3, 0x10, 0x10), (DEV_DW_IIC_TAG, 4, 0x10, 0x10),
      (DEV_DW_IIC_TAG, 5, 0x10, 0x10), (DEV_WJ_SPI_TAG, 0, 0x60, 0xf0), (DEV_WJ_QSPI_TAG, 1, 0x60, 0xf0),
      (DEV_WJ_VDEC_TAG, 0, 0x5000, 0x6000), (DEV_WJ_G2D_TAG, 0, 0x200, 0x400), (DEV_WJ_DDR_TAG, 0, 0x8, 0xc),
      (DEV_WJ_DDR_TAG, 0, 0x1c, 0x1c), (DEV_WJ_DDR_TAG, 0, 0x28, 0x28), (DEV_WJ_DDR_TAG, 0, 0x3c, 0x4c),
      (DEV_WJ_DDR_TAG, 0, 0x58, 0x5c), (DEV_WJ_DDR_TAG, 0, 0x6c, 0xcc), (DEV_WJ_DDR_TAG, 0, 0xfc, 0xfc),
      (DEV_WJ_DDR_TAG, 0, 0x124, 0x12c), (DEV_WJ_DDR_TAG, 0, 0x13c, 0x17c), (DEV_WJ_DDR_TAG, 0, 0x19c, 0x19c),
      (DEV_WJ_DDR_TAG, 0, 0x1ac, 0x1ac), (DEV_WJ_DDR_TAG, 0, 0x1b8, 0x1b8), (DEV_WJ_DDR_TAG, 0, 0x1c8, 0x1fc),
      (DEV_WJ_DDR_TAG, 0, 0x220, 0x220), (DEV_WJ_DDR_TAG, 0, 0x230, 0x23c), (DEV_WJ_DDR_TAG, 0, 0x248, 0x24c),
      (DEV_WJ_DDR_TAG, 0, 0x258, 0x258), (DEV_WJ_DDR_TAG, 0, 0x260, 0x260), (DEV_WJ_DDR_TAG, 0, 0x268, 0x268),
      (DEV_WJ_DDR_TAG, 0, 0x278, 0x29c), (DEV_WJ_DDR_TAG, 0, 0x314, 0x31c), (DEV_WJ_DDR_TAG, 0, 0x32c, 0x368),
      (DEV_WJ_DDR_TAG, 0, 0x374, 0x3e8), (DEV_WJ_DMAC_TAG, 0, 0x38, 0x3c), (DEV_WJ_DMAC_TAG, 0, 0x64, 0xfc),
      (DEV_WJ_DMAC_TAG, 0, 0x144, 0x14c), (DEV_WJ_DMAC_TAG, 0, 0x194, 0x1fc), (DEV_WJ_DMAC_TAG, 0, 0x244, 0x24c),
      (DEV_WJ_DMAC_TAG, 0, 0x294, 0x2fc), (DEV_WJ_DMAC_TAG, 0, 0x344, 0x34c), (DEV_WJ_DMAC_TAG, 0, 0x394, 0x3fc),
      (DEV_WJ_DMAC_TAG, 0, 0x444, 0x44c), (DEV_WJ_DMAC_TAG, 0, 0x494, 0x4fc), (DEV_WJ_DMAC_TAG, 1, 0x38, 0x3c),
      (DEV_WJ_DMAC_TAG, 1, 0x64, 0xfc), (DEV_WJ_DMAC_TAG, 1, 0x144, 0x14c), (DEV_WJ_DMAC_TAG, 1, 0x194, 0x1fc),
      (DEV_WJ_DMAC_TAG, 1, 0x244, 0x24c), (DEV_WJ_DMAC_TAG, 1, 0x294, 0x2fc), (DEV_WJ_DMAC_TAG, 1, 0x344, 0x34c),
      (DEV_WJ_DMAC_TAG, 1, 0x394, 0x3fc), (DEV_WJ_DMAC_TAG, 1, 0x444, 0x44c), (DEV_WJ_DMAC_TAG, 1, 0x494, 0x4fc),
      (DEV_WJ_DMAC_TAG, 1, 0x544, 0x54c), (DEV_WJ_DMAC_TAG, 1, 0x594, 0x5fc), (DEV_WJ_DMAC_TAG, 1, 0x644, 0x64c),
      (DEV_WJ_DMAC_TAG, 1, 0x694, 0x6fc), (DEV_WJ_DMAC_TAG, 1, 0x744, 0x74c), (DEV_WJ_DMAC_TAG, 1, 0x794, 0x7fc),
      (DEV_WJ_DMAC_TAG, 1, 0x844, 0x84c), (DEV_WJ_DMAC_TAG, 1, 0x894, 0x8fc), (DEV_WJ_DMAC_TAG, 1, 0x944, 0x94c),
      (DEV_WJ_DMAC_TAG, 1, 0x994, 0x9fc), (DEV_WJ_DMAC_TAG, 1, 0xa44, 0xa4c), (DEV_WJ_DMAC_TAG, 1, 0xa94, 0xafc),
      (DEV_WJ_DMAC_TAG, 1, 0xb44, 0xb4c), (DEV_WJ_DMAC_TAG, 1, 0xb94, 0xbfc), (DEV_WJ_DMAC_TAG, 1, 0xc44, 0xc4c),
      (DEV_WJ_DMAC_TAG, 1, 0xc94, 0xcfc), (DEV_WJ_DMAC_TAG, 1, 0xd44, 0xd4c), (DEV_WJ_DMAC_TAG, 1, 0xd94, 0xdfc),
      (DEV_WJ_DMAC_TAG, 1, 0xe44, 0xe4c), (DEV_WJ_DMAC_TAG, 1, 0xe94, 0xefc), (DEV_WJ_DMAC_TAG, 1, 0xf44, 0xf4c),
      (DEV_WJ_DMAC_TAG, 1, 0xf94, 0xffc)]"

definition init_regmap :: "(csi_perip_reg_t list, unit) act" where
  "init_regmap =
     for_each regmap_ranges (\<lambda>(t, i, a, b). catch_err (add_reg_range t i a b) (\<lambda>_. ret ()))"

text \<open>\<open>None\<close> is the result \<^verbatim>\<open>false\<close>; \<open>Some info\<close> is \<^verbatim>\<open>true\<close> with the entry copied out.\<close>

definition reg_need_check :: "csi_perip_reg_t list \<Rightarrow> u32 \<Rightarrow> csi_perip_reg_t option" where
  "reg_need_check tab addr = List.find (\<lambda>e. reg_base e = addr) tab"

definition reg_is_inrange :: "u32 \<Rightarrow> csi_perip_reg_t \<Rightarrow> bool" where
  "reg_is_inrange addr info \<longleftrightarrow>
     (\<exists>(s, e) \<in> set (range_list info). reg_base info + ucast s \<le> addr \<and> addr \<le> reg_base info + ucast e)"

subsection \<open>What the initialisation records\<close>

definition reg_key :: "csi_perip_reg_t \<Rightarrow> csi_dev_tag_t \<times> u8" where
  "reg_key e = (dev_tag e, idx e)"

lemma reg_key_range_list [simp]: "reg_key (e\<lparr>range_list := r\<rparr>) = reg_key e"
  by (simp add: reg_key_def)

text \<open>The calls with a given tag and index, and the entry of a table they reach: the first one.\<close>

definition ranges_for :: "(csi_dev_tag_t \<times> u8 \<times> u16 \<times> u16) list \<Rightarrow> csi_dev_tag_t \<times> u8 \<Rightarrow> (u16 \<times> u16) list" where
  "ranges_for xs key = map (\<lambda>(_, _, a, b). (a, b)) (filter (\<lambda>(t, i, _, _). (t, i) = key) xs)"

definition first_at :: "csi_perip_reg_t list \<Rightarrow> nat \<Rightarrow> bool" where
  "first_at tab j \<longleftrightarrow> (\<forall>l < j. reg_key (tab ! l) \<noteq> reg_key (tab ! j))"

lemma add_reg_range_find:
  "List.find (\<lambda>i. dev_tag (tab ! i) = t \<and> idx (tab ! i) = x) [0..<length tab] = Some j \<longleftrightarrow>
     j < length tab \<and> reg_key (tab ! j) = (t, x) \<and> first_at tab j"
  by (auto simp: find_Some_iff reg_key_def first_at_def)

lemma add_reg_range_result:
  assumes "\<forall>e \<in> set tab. reg_base e \<noteq> 0 \<and> length (range_list e) + length (ranges_for [(t, x, a, b)] (reg_key e)) \<le> 50"
  shows "\<exists>tab'. catch_err (add_reg_range t x a b) (\<lambda>_. ret ()) tab = (Ok (), tab') \<and> length tab' = length tab
    \<and> (\<forall>j < length tab. tab' ! j = (tab ! j)\<lparr>range_list := range_list (tab ! j) @
          (if first_at tab j then ranges_for [(t, x, a, b)] (reg_key (tab ! j)) else [])\<rparr>)"
proof (cases "List.find (\<lambda>i. dev_tag (tab ! i) = t \<and> idx (tab ! i) = x) [0..<length tab]")
  case None
  then have "reg_key (tab ! j) \<noteq> (t, x)" if "j < length tab" for j
    using that by (auto simp: find_None_iff reg_key_def)
  then have "ranges_for [(t, x, a, b)] (reg_key (tab ! j)) = []" if "j < length tab" for j
    using that by (fastforce simp: ranges_for_def)
  then show ?thesis using None by (auto simp: add_reg_range_def act_defs)
next
  case (Some k)
  then have k: "k < length tab" "reg_key (tab ! k) = (t, x)" "first_at tab k"
    using add_reg_range_find [of tab t x k] by auto
  have "reg_base (tab ! k) \<noteq> 0" "length (range_list (tab ! k)) < 50"
    using assms k(1,2) by (auto simp: ranges_for_def dest!: bspec [OF _ nth_mem [OF k(1)]])
  moreover have "(if first_at tab j then ranges_for [(t, x, a, b)] (reg_key (tab ! j)) else []) = (if j = k then [(a, b)] else [])" for j
  proof (cases "j = k")
    case False
    then have "\<not> (first_at tab j \<and> reg_key (tab ! j) = (t, x))"
      using k by (metis first_at_def linorder_neqE_nat)
    then show ?thesis using False by (auto simp: ranges_for_def)
  qed (use k(2,3) in \<open>simp add: ranges_for_def\<close>)
  ultimately show ?thesis
    using Some k(1) by (simp add: add_reg_range_def act_defs nth_list_update)
qed

lemma regmap_adds:
  assumes "\<forall>e \<in> set tab. reg_base e \<noteq> 0 \<and> length (range_list e) + length (ranges_for xs (reg_key e)) \<le> 50"
  shows "\<exists>tab'. for_each xs (\<lambda>(t, i, a, b). catch_err (add_reg_range t i a b) (\<lambda>_. ret ())) tab = (Ok (), tab')
    \<and> length tab' = length tab
    \<and> (\<forall>j < length tab. tab' ! j = (tab ! j)\<lparr>range_list := range_list (tab ! j) @
          (if first_at tab j then ranges_for xs (reg_key (tab ! j)) else [])\<rparr>)"
  using assms
proof (induction xs arbitrary: tab)
  case Nil
  then show ?case by (simp add: ret_def ranges_for_def)
next
  case (Cons y xs)
  obtain t x a b where y: "y = (t, x, a, b)" by (metis prod_cases4)
  have split: "ranges_for (y # xs) key = ranges_for [y] key @ ranges_for xs key" for key
    by (simp add: ranges_for_def)
  obtain tab1 where t1: "catch_err (add_reg_range t x a b) (\<lambda>_. ret ()) tab = (Ok (), tab1)" "length tab1 = length tab"
    "\<And>j. j < length tab \<Longrightarrow> tab1 ! j = (tab ! j)\<lparr>range_list := range_list (tab ! j) @
          (if first_at tab j then ranges_for [y] (reg_key (tab ! j)) else [])\<rparr>"
  proof -
    have "length (range_list e) + length (ranges_for [(t, x, a, b)] (reg_key e)) \<le> 50" if "e \<in> set tab" for e
    proof -
      have "length (range_list e) + length (ranges_for (y # xs) (reg_key e)) \<le> 50" using Cons.prems that by blast
      then show ?thesis using split [of "reg_key e"] by (simp add: y)
    qed
    with Cons.prems have "\<forall>e \<in> set tab. reg_base e \<noteq> 0 \<and> length (range_list e) + length (ranges_for [(t, x, a, b)] (reg_key e)) \<le> 50"
      by blast
    from add_reg_range_result [OF this] that show ?thesis unfolding y by blast
  qed
  have key: "reg_key (tab1 ! j) = reg_key (tab ! j)" if "j < length tab" for j
    using that t1(3) by (simp add: reg_key_def)
  then have first: "first_at tab1 j = first_at tab j" if "j < length tab" for j
    using that by (simp add: first_at_def)
  have "\<forall>e \<in> set tab1. reg_base e \<noteq> 0 \<and> length (range_list e) + length (ranges_for xs (reg_key e)) \<le> 50"
  proof
    fix e assume "e \<in> set tab1"
    then obtain j where j: "j < length tab" "e = tab1 ! j" using t1(2) by (metis in_set_conv_nth)
    have "reg_base (tab ! j) \<noteq> 0 \<and> length (range_list (tab ! j)) + length (ranges_for (y # xs) (reg_key (tab ! j))) \<le> 50"
      using Cons.prems nth_mem [OF j(1)] by blast
    then show "reg_base e \<noteq> 0 \<and> length (range_list e) + length (ranges_for xs (reg_key e)) \<le> 50"
      using t1(3) [OF j(1)] key [OF j(1)] unfolding j(2) split length_append by auto
  qed
  from Cons.IH [OF this] t1 show ?case
    by (auto simp: y bind_res_def key first split [unfolded y])
qed

definition regmap_table :: "csi_perip_reg_t list" where
  "regmap_table = map (\<lambda>j. (g_soc_reg_init ! j)\<lparr>range_list :=
     (if first_at g_soc_reg_init j then ranges_for regmap_ranges (reg_key (g_soc_reg_init ! j)) else [])\<rparr>) [0..<length g_soc_reg_init]"

lemma ranges_for_bound: "length (ranges_for regmap_ranges key) \<le> 50"
  by (cases key; cases "fst key") (auto simp: ranges_for_def regmap_ranges_def)

lemma init_regmap_table: "init_regmap g_soc_reg_init = (Ok (), regmap_table)"
proof -
  have base: "\<forall>e \<in> set g_soc_reg_init. reg_base e \<noteq> 0 \<and> range_list e = []"
    by (simp add: g_soc_reg_init_def perip_reg_def)
  then have "\<forall>e \<in> set g_soc_reg_init. reg_base e \<noteq> 0 \<and> length (range_list e) + length (ranges_for regmap_ranges (reg_key e)) \<le> 50"
    using ranges_for_bound by simp
  from regmap_adds [OF this] obtain tab where tab: "init_regmap g_soc_reg_init = (Ok (), tab)" "length tab = length g_soc_reg_init"
    "\<forall>j < length g_soc_reg_init. tab ! j = (g_soc_reg_init ! j)\<lparr>range_list := range_list (g_soc_reg_init ! j) @
          (if first_at g_soc_reg_init j then ranges_for regmap_ranges (reg_key (g_soc_reg_init ! j)) else [])\<rparr>"
    unfolding init_regmap_def by blast
  have "tab = regmap_table"
    using tab(2,3) base by (intro nth_equalityI) (simp_all add: regmap_table_def)
  with tab(1) show ?thesis by simp
qed

text \<open>
  C34: \<^verbatim>\<open>init_regmap\<close> succeeds, never exceeds the 50 ranges of an entry, and gives every entry exactly the ranges
  registered under its tag and index when it is the first entry with them, in the order of the calls; all other
  entries stay without ranges.
\<close>

theorem init_regmap_records_ranges:
  "init_regmap g_soc_reg_init = (Ok (), map (\<lambda>j. (g_soc_reg_init ! j)\<lparr>range_list :=
     (if first_at g_soc_reg_init j then ranges_for regmap_ranges (reg_key (g_soc_reg_init ! j)) else [])\<rparr>) [0..<length g_soc_reg_init])"
  using init_regmap_table by (simp add: regmap_table_def)

lemma regmap_entries:
  "reg_need_check regmap_table 0xB7080000 = Some ((g_soc_reg_init ! 0)\<lparr>range_list := [(0x70, 0x70), (0x80, 0x540)]\<rparr>)"
  "reg_need_check regmap_table 0xB70A0000 = Some (g_soc_reg_init ! 2)"
  "reg_need_check regmap_table 0xB7F20000 = Some (g_soc_reg_init ! 3)"
  by code_simp+

text \<open>
  The holes of the second SDIO controller and of the application processor's I2C controllers are not
  recorded, since the table numbers both SDIO controllers 0 and tags the I2C controllers differently: the register
  dump reads offset 0x70 of SDIO1 and the data register of I2C0, which it is meant to leave out as it does for eMMC.
\<close>

theorem regmap_missing_holes:
  "case init_regmap g_soc_reg_init of
     (Ok u, tab) \<Rightarrow> map_option (reg_is_inrange 0xB7080070) (reg_need_check tab 0xB7080000) = Some True
       \<and> map_option (reg_is_inrange 0xB70A0070) (reg_need_check tab 0xB70A0000) = Some False
       \<and> map_option (reg_is_inrange 0xB7F20010) (reg_need_check tab 0xB7F20000) = Some False
   | _ \<Rightarrow> False"
  by (simp add: init_regmap_table regmap_entries) (simp add: reg_is_inrange_def g_soc_reg_init_def perip_reg_def)

end
