(* ===== verification/Chip_Regs.thy ===== *)
theory Chip_Regs
  imports Aon_Base
begin

text \<open>
  Register addresses, bits and constants of the chip layer, from the headers under
  \<^verbatim>\<open>csi/chips/thead/light_aon/include\<close>. Bit offsets and counts are natural numbers.
\<close>

named_theorems reg_defs "register addresses and bits"

subsection \<open>\<^verbatim>\<open>power.h\<close>\<close>

definition MAX_C910_CORE_NUM :: nat where [reg_defs]: "MAX_C910_CORE_NUM = 4"
definition CHIP_LP_MODE_OFFSET :: nat where [reg_defs]: "CHIP_LP_MODE_OFFSET = 16"
definition CHIP_LP_MODE_MASK :: u32 where [reg_defs]: "CHIP_LP_MODE_MASK = 0xffff0000"
definition CHIP_LP_NONE :: u32 where [reg_defs]: "CHIP_LP_NONE = 1"
definition CHIP_LP_STANDBY :: u32 where [reg_defs]: "CHIP_LP_STANDBY = 2"
definition CHIP_LP_HW_VAD :: u32 where [reg_defs]: "CHIP_LP_HW_VAD = 4"
definition CHIP_LP_MODE_DDR_FLAG_OFFSET :: nat where [reg_defs]: "CHIP_LP_MODE_DDR_FLAG_OFFSET = 0"
definition CHIP_LP_MODE_DDR_FLAG_MASK :: u32 where [reg_defs]: "CHIP_LP_MODE_DDR_FLAG_MASK = 1"
definition CHIP_LP_MODE_IOPMP_FLAG_OFFSET :: nat where [reg_defs]: "CHIP_LP_MODE_IOPMP_FLAG_OFFSET = 1"
definition CHIP_LP_MODE_IOPMP_FLAG_MASK :: u32 where [reg_defs]: "CHIP_LP_MODE_IOPMP_FLAG_MASK = 2"
definition CPU_LP_MODE_MSK :: u32 where [reg_defs]: "CPU_LP_MODE_MSK = 3"
definition SYS_PD_SW_EN_MSK :: u32 where [reg_defs]: "SYS_PD_SW_EN_MSK = 3"
definition AON_C910_CORE0_DBG_MASK :: u32 where [reg_defs]: "AON_C910_CORE0_DBG_MASK = 1"
definition AON_C910_CORE1_DBG_MASK :: u32 where [reg_defs]: "AON_C910_CORE1_DBG_MASK = 2"
definition AON_C910_CORE2_DBG_MASK :: u32 where [reg_defs]: "AON_C910_CORE2_DBG_MASK = 4"
definition AON_C910_CORE3_DBG_MASK :: u32 where [reg_defs]: "AON_C910_CORE3_DBG_MASK = 8"
definition SW_AUDIO_RST_n :: u32 where [reg_defs]: "SW_AUDIO_RST_n = 0x20"
definition SW_AON_VDEC_RST_n :: u32 where [reg_defs]: "SW_AON_VDEC_RST_n = 1"
definition SW_AON_NPUSYS_RST_n :: u32 where [reg_defs]: "SW_AON_NPUSYS_RST_n = 1"
definition SW_AON_VENC_RST_n :: u32 where [reg_defs]: "SW_AON_VENC_RST_n = 1"
definition SW_AON_APSYS_RST_n :: u32 where [reg_defs]: "SW_AON_APSYS_RST_n = 1"
definition SW_AON_GPU_RST_n :: u32 where [reg_defs]: "SW_AON_GPU_RST_n = 1"
definition SW_AON_DSP0_RST_n :: u32 where [reg_defs]: "SW_AON_DSP0_RST_n = 1"
definition SW_AON_DSP1_RST_n :: u32 where [reg_defs]: "SW_AON_DSP1_RST_n = 1"
definition SW_AP_SW_IMG_NNA_RST_n :: u32 where [reg_defs]: "SW_AP_SW_IMG_NNA_RST_n = 1"
definition AON_AON_ISOLATION_EN :: u32 where [reg_defs]: "AON_AON_ISOLATION_EN = 1"
definition AON_C910_ISOLATION_EN :: u32 where [reg_defs]: "AON_C910_ISOLATION_EN = 2"
definition AON_USB3_ISOLATION_EN :: u32 where [reg_defs]: "AON_USB3_ISOLATION_EN = 8"
definition AON_C910_CPU_L2CACHE_FLUSH_REQ :: u32 where [reg_defs]: "AON_C910_CPU_L2CACHE_FLUSH_REQ = 1"
definition AON_C910_CPU_L2CACHE_FLUSH_DONE :: u32 where [reg_defs]: "AON_C910_CPU_L2CACHE_FLUSH_DONE = 2"
definition AON_C910_CPU_NO_OP :: u32 where [reg_defs]: "AON_C910_CPU_NO_OP = 4"
definition AON_C910_CORE0_MEM_DSLP :: u32 where [reg_defs]: "AON_C910_CORE0_MEM_DSLP = 1"
definition AON_C910_CORE0_MEM_SLP :: u32 where [reg_defs]: "AON_C910_CORE0_MEM_SLP = 2"
definition AON_C910_CORE0_MEM_SD :: u32 where [reg_defs]: "AON_C910_CORE0_MEM_SD = 4"
definition AON_C910_CORE1_MEM_DSLP :: u32 where [reg_defs]: "AON_C910_CORE1_MEM_DSLP = 0x10"
definition AON_C910_CORE1_MEM_SLP :: u32 where [reg_defs]: "AON_C910_CORE1_MEM_SLP = 0x20"
definition AON_C910_CORE1_MEM_SD :: u32 where [reg_defs]: "AON_C910_CORE1_MEM_SD = 0x40"
definition AON_C910_CORE2_MEM_DSLP :: u32 where [reg_defs]: "AON_C910_CORE2_MEM_DSLP = 0x100"
definition AON_C910_CORE2_MEM_SLP :: u32 where [reg_defs]: "AON_C910_CORE2_MEM_SLP = 0x200"
definition AON_C910_CORE2_MEM_SD :: u32 where [reg_defs]: "AON_C910_CORE2_MEM_SD = 0x400"
definition AON_C910_CORE3_MEM_DSLP :: u32 where [reg_defs]: "AON_C910_CORE3_MEM_DSLP = 0x1000"
definition AON_C910_CORE3_MEM_SLP :: u32 where [reg_defs]: "AON_C910_CORE3_MEM_SLP = 0x2000"
definition AON_C910_CORE3_MEM_SD :: u32 where [reg_defs]: "AON_C910_CORE3_MEM_SD = 0x4000"
definition AON_C910_CPU_MEM_DSLP :: u32 where [reg_defs]: "AON_C910_CPU_MEM_DSLP = 0x10000"
definition AON_C910_CPU_MEM_SLP :: u32 where [reg_defs]: "AON_C910_CPU_MEM_SLP = 0x20000"
definition AON_C910_CPU_MEM_SD :: u32 where [reg_defs]: "AON_C910_CPU_MEM_SD = 0x40000"
definition AON_SRAM_AXI_AXI_SRAM_DSLP :: u32 where [reg_defs]: "AON_SRAM_AXI_AXI_SRAM_DSLP = 0x100000"
definition AON_SRAM_AXI_AXI_SRAM_SLP :: u32 where [reg_defs]: "AON_SRAM_AXI_AXI_SRAM_SLP = 0x200000"
definition AON_SRAM_AXI_AXI_SRAM_SD :: u32 where [reg_defs]: "AON_SRAM_AXI_AXI_SRAM_SD = 0x400000"
definition AON_AONSYS_CLK_SWITCH_0_SWITCH_SEL :: u32 where [reg_defs]: "AON_AONSYS_CLK_SWITCH_0_SWITCH_SEL = 0x10"
definition AON_AONSYS_CLK_CDE_SYNC :: u32 where [reg_defs]: "AON_AONSYS_CLK_CDE_SYNC = 8"
definition AON_APSYS_CLK_EN :: u32 where [reg_defs]: "AON_APSYS_CLK_EN = 1"
definition AON_AONSYS_CLK_CDE_RATIO_OFF :: nat where [reg_defs]: "AON_AONSYS_CLK_CDE_RATIO_OFF = 1"
definition AON_AONSYS_CLK_CDE_RATIO_MSK :: u32 where [reg_defs]: "AON_AONSYS_CLK_CDE_RATIO_MSK = 7"
definition INDICATOR_0_MAGIC_NUM :: u32 where [reg_defs]: "INDICATOR_0_MAGIC_NUM = 0x5a5a5a5a"
definition INDICATOR_1_MAGIC_NUM :: u32 where [reg_defs]: "INDICATOR_1_MAGIC_NUM = 0x12345678"
definition INDICATOR_2_MAGIC_NUM :: u32 where [reg_defs]: "INDICATOR_2_MAGIC_NUM = 0x32fde438"
definition INDICATOR_3_MAGIC_NUM :: u32 where [reg_defs]: "INDICATOR_3_MAGIC_NUM = 0x8ab4c52c"
definition AON_RC_READY :: u32 where [reg_defs]: "AON_RC_READY = 1"
definition AON_RC_EN :: u32 where [reg_defs]: "AON_RC_EN = 1"
definition AON_AUDIO_PLL_RST :: u32 where [reg_defs]: "AON_AUDIO_PLL_RST = 0x20000000"
definition AON_SYS_PLL_RST :: u32 where [reg_defs]: "AON_SYS_PLL_RST = 0x20000000"
definition PAD_AONSYS_OSC_CLK_IO_EN :: u32 where [reg_defs]: "PAD_AONSYS_OSC_CLK_IO_EN = 0x100"
definition AON_IRQ_NUM_STAR :: nat where [reg_defs]: "AON_IRQ_NUM_STAR = 0"
definition MAX_AON_IRQ_NUM :: nat where [reg_defs]: "MAX_AON_IRQ_NUM = 29"
definition AON_CLKGEN_SYS_PLL_LOCK :: u32 where [reg_defs]: "AON_CLKGEN_SYS_PLL_LOCK = 2"
definition AON_CLKGEN_AUDIO_PLL_LOCK :: u32 where [reg_defs]: "AON_CLKGEN_AUDIO_PLL_LOCK = 1"
definition AON_CLKGEN_C906_CCLK_DIV_0_DIV_EN :: u32 where [reg_defs]: "AON_CLKGEN_C906_CCLK_DIV_0_DIV_EN = 0x10"
definition AON_CLKGEN_C906_CCLK_DIV_1_DIV_EN :: u32 where [reg_defs]: "AON_CLKGEN_C906_CCLK_DIV_1_DIV_EN = 0x1000"
definition AON_CLKGEN_AUDIO_SUBSYS_ACLK_AP2CP_EN :: u32 where [reg_defs]: "AON_CLKGEN_AUDIO_SUBSYS_ACLK_AP2CP_EN = 2"
definition AON_CLKGEN_AUDIO_SUBSYS_ACLK_CP2AP_EN :: u32 where [reg_defs]: "AON_CLKGEN_AUDIO_SUBSYS_ACLK_CP2AP_EN = 1"
definition AON_CLKGEN_AUDIO_ACLK_DIV_0_DIV_EN :: u32 where [reg_defs]: "AON_CLKGEN_AUDIO_ACLK_DIV_0_DIV_EN = 0x10"
definition AON_CLKGEN_AUDIO_ACLK_DIV_1_DIV_EN :: u32 where [reg_defs]: "AON_CLKGEN_AUDIO_ACLK_DIV_1_DIV_EN = 0x1000"
definition AON_CLKGEN_AUDIO_SUBSYS_ACK_DIV_1_DIV_EN :: u32 where [reg_defs]: "AON_CLKGEN_AUDIO_SUBSYS_ACK_DIV_1_DIV_EN = 0x1000"
definition AON_CLKGEN_AUDIO_C906_CCLK_SWITCH_SEL :: u32 where [reg_defs]: "AON_CLKGEN_AUDIO_C906_CCLK_SWITCH_SEL = 0x2000"
definition AON_CLKGEN_AUDIO_SUBSYS_ACLK_SWITCH_SEL :: u32 where [reg_defs]: "AON_CLKGEN_AUDIO_SUBSYS_ACLK_SWITCH_SEL = 0x2000"
definition AON_CLKGEN_SHARE_SRAM_CLK_SWITCH_SEL :: u32 where [reg_defs]: "AON_CLKGEN_SHARE_SRAM_CLK_SWITCH_SEL = 0x2000"
definition AON_CLKGEN_SRAM_AXI_CORE_CLK_EN :: u32 where [reg_defs]: "AON_CLKGEN_SRAM_AXI_CORE_CLK_EN = 2"
definition AON_CLKGEN_SRAM_AXI_ACLK_4_EN :: u32 where [reg_defs]: "AON_CLKGEN_SRAM_AXI_ACLK_4_EN = 4"
definition AON_CLKGEN_PVTC_PCLK_EN :: u32 where [reg_defs]: "AON_CLKGEN_PVTC_PCLK_EN = 8"
definition AON_CLKGEN_AOPAD_PCLK_EN :: u32 where [reg_defs]: "AON_CLKGEN_AOPAD_PCLK_EN = 0x10"
definition AON_CLKGEN_AOTIMER_PCLK_EN :: u32 where [reg_defs]: "AON_CLKGEN_AOTIMER_PCLK_EN = 0x400"
definition AON_CLKGEN_AOTIMER_CCLK_EN :: u32 where [reg_defs]: "AON_CLKGEN_AOTIMER_CCLK_EN = 0x800"
definition AON_CLKGEN_AOWDT_PCLK_EN :: u32 where [reg_defs]: "AON_CLKGEN_AOWDT_PCLK_EN = 0x2000"
definition AON_CLKGEN_DSPSYS_ACLK_S_EN :: u32 where [reg_defs]: "AON_CLKGEN_DSPSYS_ACLK_S_EN = 0x4000"
definition AON_CLKGEN_ADC_PCLK_EN :: u32 where [reg_defs]: "AON_CLKGEN_ADC_PCLK_EN = 0x8000"
definition AON_CLKGEN_AUDGPIO_PCLK_EN :: u32 where [reg_defs]: "AON_CLKGEN_AUDGPIO_PCLK_EN = 0x10000"
definition AON_CLKGEN_AUDGPIO_DBCLK_EN :: u32 where [reg_defs]: "AON_CLKGEN_AUDGPIO_DBCLK_EN = 0x20000"
definition AON_CLKGEN_AOI2C_IC_CLK_EN :: u32 where [reg_defs]: "AON_CLKGEN_AOI2C_IC_CLK_EN = 0x40000"
definition AON_CLKGEN_AOI2C_PCLK_EN :: u32 where [reg_defs]: "AON_CLKGEN_AOI2C_PCLK_EN = 0x80000"
definition AON_CLKGEN_AOUART_SCLK_EN :: u32 where [reg_defs]: "AON_CLKGEN_AOUART_SCLK_EN = 0x100000"
definition AON_CLKGEN_AOUART_PCLK_EN :: u32 where [reg_defs]: "AON_CLKGEN_AOUART_PCLK_EN = 0x200000"
definition AON_RSTGEN_SW_SRAM_AXI_ARST_n_0 :: u32 where [reg_defs]: "AON_RSTGEN_SW_SRAM_AXI_ARST_n_0 = 1"
definition AON_RSTGEN_SW_SRAM_AXI_ARST_n_1 :: u32 where [reg_defs]: "AON_RSTGEN_SW_SRAM_AXI_ARST_n_1 = 2"
definition AON_RSTGEN_SW_SRAM_AXI_ARST_n_2 :: u32 where [reg_defs]: "AON_RSTGEN_SW_SRAM_AXI_ARST_n_2 = 4"
definition AON_RSTGEN_SW_SRAM_AXI_ARST_n_3 :: u32 where [reg_defs]: "AON_RSTGEN_SW_SRAM_AXI_ARST_n_3 = 8"
definition AON_RSTGEN_SW_SRAM_AXI_ARST_n_4 :: u32 where [reg_defs]: "AON_RSTGEN_SW_SRAM_AXI_ARST_n_4 = 0x10"
definition AON_RSTGEN_SW_SRAM_AXI_CORE_RST_n :: u32 where [reg_defs]: "AON_RSTGEN_SW_SRAM_AXI_CORE_RST_n = 0x40"
definition AON_RSTGEN_SW_PVTC_PRST_n :: u32 where [reg_defs]: "AON_RSTGEN_SW_PVTC_PRST_n = 1"
definition AON_PMU_LP_MODE_MSK :: u32 where [reg_defs]: "AON_PMU_LP_MODE_MSK = 7"
definition AON_PMU_LP_REQ :: u32 where [reg_defs]: "AON_PMU_LP_REQ = 2"
definition MAX_TRY_TIME_IDLE :: nat where [reg_defs]: "MAX_TRY_TIME_IDLE = 10000"
definition POWER_DOWN_DONE :: u32 where [reg_defs]: "POWER_DOWN_DONE = 0"
definition POWER_ON_DONE :: u32 where [reg_defs]: "POWER_ON_DONE = 3"
definition PD_SW_ACK_MSK :: u32 where [reg_defs]: "PD_SW_ACK_MSK = 3"
definition LIGHT_AON_PM_PW_MODE_OFF :: u32 where [reg_defs]: "LIGHT_AON_PM_PW_MODE_OFF = 0"
definition LIGHT_AON_PM_PW_MODE_ON :: u32 where [reg_defs]: "LIGHT_AON_PM_PW_MODE_ON = 3"
definition LIGHT_AON_AUDIO_PD :: u32 where [reg_defs]: "LIGHT_AON_AUDIO_PD = 0"
definition LIGHT_AON_VDEC_PD :: u32 where [reg_defs]: "LIGHT_AON_VDEC_PD = 1"
definition LIGHT_AON_NPU_PD :: u32 where [reg_defs]: "LIGHT_AON_NPU_PD = 2"
definition LIGHT_AON_VENC_PD :: u32 where [reg_defs]: "LIGHT_AON_VENC_PD = 3"
definition LIGHT_AON_GPU_PD :: u32 where [reg_defs]: "LIGHT_AON_GPU_PD = 4"
definition LIGHT_AON_DSP0_PD :: u32 where [reg_defs]: "LIGHT_AON_DSP0_PD = 5"
definition LIGHT_AON_DSP1_PD :: u32 where [reg_defs]: "LIGHT_AON_DSP1_PD = 6"
definition LIGHT_IOPMP_DEFAULT_ATTR :: u32 where [reg_defs]: "LIGHT_IOPMP_DEFAULT_ATTR = 0xffffffff"
definition IOPMP_VENC :: nat where [reg_defs]: "IOPMP_VENC = 0"
definition IOPMP_VDEC :: nat where [reg_defs]: "IOPMP_VDEC = 1"
definition IOPMP_NPU :: nat where [reg_defs]: "IOPMP_NPU = 2"
definition IOPMP_GPU :: nat where [reg_defs]: "IOPMP_GPU = 3"
definition IOPMP_DSP0 :: nat where [reg_defs]: "IOPMP_DSP0 = 4"
definition IOPMP_DSP1 :: nat where [reg_defs]: "IOPMP_DSP1 = 5"
definition IOPMP_AUDIO :: nat where [reg_defs]: "IOPMP_AUDIO = 6"
definition IOPMP_AUDIO0 :: nat where [reg_defs]: "IOPMP_AUDIO0 = 7"
definition IOPMP_AUDIO1 :: nat where [reg_defs]: "IOPMP_AUDIO1 = 8"
definition APSYS_CLKGEN_NPU_CCLK_TEECFG :: u32 where [reg_defs]: "APSYS_CLKGEN_NPU_CCLK_TEECFG = 0xff0111c8"
definition NPU_CORE_CLK_EN :: u32 where [reg_defs]: "NPU_CORE_CLK_EN = 0x10"
definition AON_WAKEUP_BY_GPIO :: u32 where [reg_defs]: "AON_WAKEUP_BY_GPIO = 1"
definition AON_WAKEUP_BY_RTC :: u32 where [reg_defs]: "AON_WAKEUP_BY_RTC = 2"

subsection \<open>\<^verbatim>\<open>aonsys_reg_define.h\<close>\<close>

definition REG_AON_CPU_LP_MODE :: u32 where [reg_defs]: "REG_AON_CPU_LP_MODE = 0xfff48000"
definition REG_AON_CHIP_LP_MODE :: u32 where [reg_defs]: "REG_AON_CHIP_LP_MODE = 0xfff48004"
definition REG_AON_STR_INDICATOR_0 :: u32 where [reg_defs]: "REG_AON_STR_INDICATOR_0 = 0xfff48020"
definition REG_AON_STR_INDICATOR_1 :: u32 where [reg_defs]: "REG_AON_STR_INDICATOR_1 = 0xfff48024"
definition REG_AON_STR_INDICATOR_2 :: u32 where [reg_defs]: "REG_AON_STR_INDICATOR_2 = 0xfff48028"
definition REG_AON_STR_INDICATOR_3 :: u32 where [reg_defs]: "REG_AON_STR_INDICATOR_3 = 0xfff4802c"
definition REG_AON_RC_EN :: u32 where [reg_defs]: "REG_AON_RC_EN = 0xfff48070"
definition REG_AON_RC_READY :: u32 where [reg_defs]: "REG_AON_RC_READY = 0xfff4807c"
definition REG_AON_ISO_CFG :: u32 where [reg_defs]: "REG_AON_ISO_CFG = 0xfff48080"
definition REG_AON_PD_REQ :: u32 where [reg_defs]: "REG_AON_PD_REQ = 0xfff48110"
definition REG_AON_PD_ISO_EN_SET :: u32 where [reg_defs]: "REG_AON_PD_ISO_EN_SET = 0xfff48114"
definition REG_AON_PD_ISO_EN_CLR :: u32 where [reg_defs]: "REG_AON_PD_ISO_EN_CLR = 0xfff48118"
definition REG_AON_PD_SW_EN_SET :: u32 where [reg_defs]: "REG_AON_PD_SW_EN_SET = 0xfff4811c"
definition REG_AON_PD_SW_EN_CLR :: u32 where [reg_defs]: "REG_AON_PD_SW_EN_CLR = 0xfff48120"
definition REG_AON_PD_SW_ACK :: u32 where [reg_defs]: "REG_AON_PD_SW_ACK = 0xfff48124"
definition REG_AON_PD_SW_CNT_EN :: u32 where [reg_defs]: "REG_AON_PD_SW_CNT_EN = 0xfff48128"
definition REG_AON_MEM_LP_MODE :: u32 where [reg_defs]: "REG_AON_MEM_LP_MODE = 0xfff48210"
definition REG_AON_C910_DBG_MASK :: u32 where [reg_defs]: "REG_AON_C910_DBG_MASK = 0xfff48214"
definition REG_AON_C910_L2CACHE :: u32 where [reg_defs]: "REG_AON_C910_L2CACHE = 0xfff48218"

subsection \<open>\<^verbatim>\<open>aonsys_rstget_reg_define.h\<close>\<close>

definition REG_AON_PVTC_RST_CFG :: u32 where [reg_defs]: "REG_AON_PVTC_RST_CFG = 0xfff44020"
definition REG_AON_APSYS_RST_CFG :: u32 where [reg_defs]: "REG_AON_APSYS_RST_CFG = 0xfff44030"
definition REG_AON_NPUSYS_RST_CFG :: u32 where [reg_defs]: "REG_AON_NPUSYS_RST_CFG = 0xfff44034"
definition REG_AON_DDRSYS_RST_CFG :: u32 where [reg_defs]: "REG_AON_DDRSYS_RST_CFG = 0xfff44038"
definition REG_AON_AUDIO_RST_CFG :: u32 where [reg_defs]: "REG_AON_AUDIO_RST_CFG = 0xfff4403c"
definition REG_AON_DSP0_RST_CFG :: u32 where [reg_defs]: "REG_AON_DSP0_RST_CFG = 0xfff44054"
definition REG_AON_DSP1_RST_CFG :: u32 where [reg_defs]: "REG_AON_DSP1_RST_CFG = 0xfff44058"
definition REG_AON_GPU_RST_CFG :: u32 where [reg_defs]: "REG_AON_GPU_RST_CFG = 0xfff4405c"
definition REG_AON_VDEC_RST_CFG :: u32 where [reg_defs]: "REG_AON_VDEC_RST_CFG = 0xfff44060"
definition REG_AON_VENC_RST_CFG :: u32 where [reg_defs]: "REG_AON_VENC_RST_CFG = 0xfff44064"
definition REG_AON_SRAM_AXI_RST_CFG :: u32 where [reg_defs]: "REG_AON_SRAM_AXI_RST_CFG = 0xfff451f4"

subsection \<open>\<^verbatim>\<open>aonsys_clkgen_reg_define.h\<close>\<close>

definition REG_AON_AUDIO_PLL_CFG1 :: u32 where [reg_defs]: "REG_AON_AUDIO_PLL_CFG1 = 0xfff46004"
definition REG_AON_SYS_PLL_CFG1 :: u32 where [reg_defs]: "REG_AON_SYS_PLL_CFG1 = 0xfff46014"
definition REG_AON_AONSYS_PLL_STS :: u32 where [reg_defs]: "REG_AON_AONSYS_PLL_STS = 0xfff46090"
definition REG_AON_AONSYS_CLK_CFG :: u32 where [reg_defs]: "REG_AON_AONSYS_CLK_CFG = 0xfff46100"
definition REG_AON_SHARE_SRAM_CLK_CFG :: u32 where [reg_defs]: "REG_AON_SHARE_SRAM_CLK_CFG = 0xfff46104"
definition REG_AON_AUDIO_SUBSYS_ACLK_CFG :: u32 where [reg_defs]: "REG_AON_AUDIO_SUBSYS_ACLK_CFG = 0xfff46108"
definition REG_AON_AUDIO_C906_CCLK_CFG :: u32 where [reg_defs]: "REG_AON_AUDIO_C906_CCLK_CFG = 0xfff46110"
definition REG_AON_AUDIO_CLK_GATE :: u32 where [reg_defs]: "REG_AON_AUDIO_CLK_GATE = 0xfff46114"
definition REG_AON_AONSYS_CLK_GATE :: u32 where [reg_defs]: "REG_AON_AONSYS_CLK_GATE = 0xfff46120"
definition REG_AON_APSYS_CLK_GATE :: u32 where [reg_defs]: "REG_AON_APSYS_CLK_GATE = 0xfff46130"
definition REG_AON_DSP0_CLK_GATE :: u32 where [reg_defs]: "REG_AON_DSP0_CLK_GATE = 0xfff46134"
definition REG_AON_DSP1_CLK_GATE :: u32 where [reg_defs]: "REG_AON_DSP1_CLK_GATE = 0xfff46138"
definition REG_AON_GPU_CLK_GATE :: u32 where [reg_defs]: "REG_AON_GPU_CLK_GATE = 0xfff4613c"
definition REG_AON_VDEC_CLK_GATE :: u32 where [reg_defs]: "REG_AON_VDEC_CLK_GATE = 0xfff46140"
definition REG_AON_VENC_CLK_GATE :: u32 where [reg_defs]: "REG_AON_VENC_CLK_GATE = 0xfff46144"
definition REG_AP_C910_CORE_CLK_TEECFG :: u32 where [reg_defs]: "REG_AP_C910_CORE_CLK_TEECFG = 0xff011104"
definition AUDIO_SUBSYS_ACLK_CP2AP_EN :: u32 where [reg_defs]: "AUDIO_SUBSYS_ACLK_CP2AP_EN = 1"
definition AUDIO_SUBSYS_ACLK_AP2CP_EN :: u32 where [reg_defs]: "AUDIO_SUBSYS_ACLK_AP2CP_EN = 2"
definition VDEC_SUBSYS_VDEC_CLK_EN :: u32 where [reg_defs]: "VDEC_SUBSYS_VDEC_CLK_EN = 1"
definition VDEC_SUBSYS_VENC_CLK_EN :: u32 where [reg_defs]: "VDEC_SUBSYS_VENC_CLK_EN = 1"
definition VDEC_SUBSYS_GPU_CLK_EN :: u32 where [reg_defs]: "VDEC_SUBSYS_GPU_CLK_EN = 1"
definition VDEC_SUBSYS_DSP0_CLK_EN :: u32 where [reg_defs]: "VDEC_SUBSYS_DSP0_CLK_EN = 1"
definition VDEC_SUBSYS_DSP1_CLK_EN :: u32 where [reg_defs]: "VDEC_SUBSYS_DSP1_CLK_EN = 1"
definition C910_CORE0_CLK_EN :: u32 where [reg_defs]: "C910_CORE0_CLK_EN = 0x20"
definition C910_CORE1_CLK_EN :: u32 where [reg_defs]: "C910_CORE1_CLK_EN = 0x2000"
definition C910_CORE2_CLK_EN :: u32 where [reg_defs]: "C910_CORE2_CLK_EN = 0x200000"
definition C910_CORE3_CLK_EN :: u32 where [reg_defs]: "C910_CORE3_CLK_EN = 0x20000000"

subsection \<open>\<^verbatim>\<open>apsys_clkgen_reg_define.h\<close>\<close>

definition REG_AP_PERI_CLK_CFG :: u32 where [reg_defs]: "REG_AP_PERI_CLK_CFG = 0xbf010204"
definition I2C0_CLK_EN :: u32 where [reg_defs]: "I2C0_CLK_EN = 0x20"
definition I2C1_CLK_EN :: u32 where [reg_defs]: "I2C1_CLK_EN = 0x10"
definition I2C2_CLK_EN :: u32 where [reg_defs]: "I2C2_CLK_EN = 8"
definition I2C3_CLK_EN :: u32 where [reg_defs]: "I2C3_CLK_EN = 4"
definition I2C4_CLK_EN :: u32 where [reg_defs]: "I2C4_CLK_EN = 2"
definition I2C5_CLK_EN :: u32 where [reg_defs]: "I2C5_CLK_EN = 1"
definition PWM_CLK_EN :: u32 where [reg_defs]: "PWM_CLK_EN = 0x40000"

subsection \<open>\<^verbatim>\<open>apsys_rstget_reg_define.h\<close>\<close>

definition REG_AP_C910_SWRST :: u32 where [reg_defs]: "REG_AP_C910_SWRST = 0xbf014004"
definition REG_AP_IMG_NNA_TEESWRST :: u32 where [reg_defs]: "REG_AP_IMG_NNA_TEESWRST = 0xff0151b0"

subsection \<open>\<^verbatim>\<open>vpsys_sysreg_define.h\<close>\<close>

definition REG_VP_VPSYS_CK_CFG :: u32 where [reg_defs]: "REG_VP_VPSYS_CK_CFG = 0xbcc30020"
definition VPSYS_G2D_CLK_EN :: u32 where [reg_defs]: "VPSYS_G2D_CLK_EN = 8"
definition VPSYS_FCE_CLK_EN :: u32 where [reg_defs]: "VPSYS_FCE_CLK_EN = 4"

subsection \<open>\<^verbatim>\<open>miscsys_sys_define.h\<close>\<close>

definition REG_MISCSYS_SDIO0_CLK_CTRL :: u32 where [reg_defs]: "REG_MISCSYS_SDIO0_CLK_CTRL = 0xbc02c10c"
definition REG_MISCSYS_SDIO1_CLK_CTRL :: u32 where [reg_defs]: "REG_MISCSYS_SDIO1_CLK_CTRL = 0xbc02c110"
definition SDIO_CLK_EN :: u32 where [reg_defs]: "SDIO_CLK_EN = 1"

subsection \<open>\<^verbatim>\<open>visys_sysreg_define.h\<close>\<close>

definition REG_VI_VISYS_CLK_GATE_EN_0 :: u32 where [reg_defs]: "REG_VI_VISYS_CLK_GATE_EN_0 = 0xb40400a0"
definition REG_VI_VISYS_CLK_GATE_EN_1 :: u32 where [reg_defs]: "REG_VI_VISYS_CLK_GATE_EN_1 = 0xb40400a4"
definition VISYS_CLKCTRL_ISP_RY_HCLK_EN :: u32 where [reg_defs]: "VISYS_CLKCTRL_ISP_RY_HCLK_EN = 0x1000"
definition VISYS_CLKCTRL_ISP1_CLK_EN :: u32 where [reg_defs]: "VISYS_CLKCTRL_ISP1_CLK_EN = 0x40000000"
definition VISYS_CLKCTRL_ISP0_CLK_EN :: u32 where [reg_defs]: "VISYS_CLKCTRL_ISP0_CLK_EN = 0x80000000"

subsection \<open>\<^verbatim>\<open>padctrl_aonsys_reg_define.h\<close>\<close>

definition REG_AONSYS_PAD_CFG_001 :: u32 where [reg_defs]: "REG_AONSYS_PAD_CFG_001 = 0xfff4a000"

subsection \<open>\<^verbatim>\<open>aon_pmu_reg_define.h\<close>\<close>

definition AON_PMU_PMU_CFG :: u32 where [reg_defs]: "AON_PMU_PMU_CFG = 0xfff42000"
definition AON_PMU_GPIO_INT_STS :: u32 where [reg_defs]: "AON_PMU_GPIO_INT_STS = 0xfff42030"
definition AON_PMU_INTC_INT_STS_L :: u32 where [reg_defs]: "AON_PMU_INTC_INT_STS_L = 0xfff42034"
definition AON_PMU_INTC_INT_STS_H :: u32 where [reg_defs]: "AON_PMU_INTC_INT_STS_H = 0xfff42038"

subsection \<open>\<^verbatim>\<open>sys_clk.h\<close>\<close>

definition REG_AUDIO_PLL_CFG0 :: u32 where [reg_defs]: "REG_AUDIO_PLL_CFG0 = 0xfff46000"
definition REG_AUDIO_PLL_CFG1 :: u32 where [reg_defs]: "REG_AUDIO_PLL_CFG1 = 0xfff46004"
definition REG_SYS_PLL_CFG0 :: u32 where [reg_defs]: "REG_SYS_PLL_CFG0 = 0xfff46010"
definition REG_SYS_PLL_CFG1 :: u32 where [reg_defs]: "REG_SYS_PLL_CFG1 = 0xfff46014"
definition REG_AONSYS_PLL_STS :: u32 where [reg_defs]: "REG_AONSYS_PLL_STS = 0xfff46090"
definition REG_AONSYS_CLK_CFG :: u32 where [reg_defs]: "REG_AONSYS_CLK_CFG = 0xfff46100"
definition REG_SHARE_SRAM_CLK_CFG :: u32 where [reg_defs]: "REG_SHARE_SRAM_CLK_CFG = 0xfff46104"
definition REG_AOI2C_CLK_CFG :: u32 where [reg_defs]: "REG_AOI2C_CLK_CFG = 0xfff4611c"
definition REG_AONSYS_CLK_GATE :: u32 where [reg_defs]: "REG_AONSYS_CLK_GATE = 0xfff46120"
definition REG_APSYS_CLK_GATE :: u32 where [reg_defs]: "REG_APSYS_CLK_GATE = 0xfff46130"
definition AON_REFDIV_SHIFT :: nat where [reg_defs]: "AON_REFDIV_SHIFT = 0"
definition AON_FBDIV_SHIFT :: nat where [reg_defs]: "AON_FBDIV_SHIFT = 8"
definition AON_POSTDIV1_SHIFT :: nat where [reg_defs]: "AON_POSTDIV1_SHIFT = 20"
definition AON_POSTDIV2_SHIFT :: nat where [reg_defs]: "AON_POSTDIV2_SHIFT = 24"
definition AON_PLL_BYPASS_MASK :: u32 where [reg_defs]: "AON_PLL_BYPASS_MASK = 0x40000000"
definition AON_DACPD_MASK :: u32 where [reg_defs]: "AON_DACPD_MASK = 0x2000000"
definition AON_DSMPD_MASK :: u32 where [reg_defs]: "AON_DSMPD_MASK = 0x1000000"
definition AON_FRAC_MASK :: u32 where [reg_defs]: "AON_FRAC_MASK = 0xffffff"
definition AON_FRAC_SHIFT :: nat where [reg_defs]: "AON_FRAC_SHIFT = 0"
definition APSYS_CLK_EN :: u32 where [reg_defs]: "APSYS_CLK_EN = 1"
definition AON_PLL_RST_MASK :: u32 where [reg_defs]: "AON_PLL_RST_MASK = 0x20000000"
definition AONSYS_CLK_DIV_EN_MASK :: u32 where [reg_defs]: "AONSYS_CLK_DIV_EN_MASK = 0x800"
definition AONSYS_CLK_SWITCH_TO_RC_MASK :: u32 where [reg_defs]: "AONSYS_CLK_SWITCH_TO_RC_MASK = 0x20"
definition AONSYS_CLK_SWITCH_TO_PLL_MASK :: u32 where [reg_defs]: "AONSYS_CLK_SWITCH_TO_PLL_MASK = 0x10"
definition AONSYS_CLK_CDE_SYNC :: u32 where [reg_defs]: "AONSYS_CLK_CDE_SYNC = 8"
definition AONSYS_CLK_CDE_RATIO_MASK :: u32 where [reg_defs]: "AONSYS_CLK_CDE_RATIO_MASK = 7"
definition AONSYS_CLK_DIV_NUM_SHIFT :: nat where [reg_defs]: "AONSYS_CLK_DIV_NUM_SHIFT = 8"
definition AONSYS_CLK_DIV_NUM_MASK :: u32 where [reg_defs]: "AONSYS_CLK_DIV_NUM_MASK = 7"
definition SHARE_SRAM_CLK_SWITCH_SEL :: u32 where [reg_defs]: "SHARE_SRAM_CLK_SWITCH_SEL = 0x2000"
definition SHARE_SRAM_CLK_DIV0_DIV_EN :: u32 where [reg_defs]: "SHARE_SRAM_CLK_DIV0_DIV_EN = 0x10"
definition SHARE_SRAM_CLK_DIV1_DIV_NUM_SHIFT :: nat where [reg_defs]: "SHARE_SRAM_CLK_DIV1_DIV_NUM_SHIFT = 8"
definition SHARE_SRAM_CLK_DIV0_DIV_NUM_SHIFT :: nat where [reg_defs]: "SHARE_SRAM_CLK_DIV0_DIV_NUM_SHIFT = 0"
definition SHARE_SRAM_CLK_DIV_NUM_MASK :: u32 where [reg_defs]: "SHARE_SRAM_CLK_DIV_NUM_MASK = 0xf"
definition AOI2C_IC_CLK_MUX_SEL :: u32 where [reg_defs]: "AOI2C_IC_CLK_MUX_SEL = 1"
definition AON_RTC_PCLK_EN :: u32 where [reg_defs]: "AON_RTC_PCLK_EN = 1"
definition AON_SRAM_AXI_CORE_CLK_EN :: u32 where [reg_defs]: "AON_SRAM_AXI_CORE_CLK_EN = 2"
definition AON_SRAM_AXI_ACLK_4_EN :: u32 where [reg_defs]: "AON_SRAM_AXI_ACLK_4_EN = 4"
definition AON_PVTC_PCLK_EN :: u32 where [reg_defs]: "AON_PVTC_PCLK_EN = 8"
definition AON_AOPAD_PCLK_EN :: u32 where [reg_defs]: "AON_AOPAD_PCLK_EN = 0x10"
definition AON_AOGPIO_PCLK_EN :: u32 where [reg_defs]: "AON_AOGPIO_PCLK_EN = 0x100"
definition AON_AOGPIO_DBCLK_EN :: u32 where [reg_defs]: "AON_AOGPIO_DBCLK_EN = 0x200"
definition AON_AOTIMER_PCLK_EN :: u32 where [reg_defs]: "AON_AOTIMER_PCLK_EN = 0x400"
definition AON_AOTIMER_CCLK_EN :: u32 where [reg_defs]: "AON_AOTIMER_CCLK_EN = 0x800"
definition AON_AOWDT_PCLK_EN :: u32 where [reg_defs]: "AON_AOWDT_PCLK_EN = 0x2000"
definition AON_DSPSYS_ACLK_S_EN :: u32 where [reg_defs]: "AON_DSPSYS_ACLK_S_EN = 0x4000"
definition AON_ADC_PCLK_EN :: u32 where [reg_defs]: "AON_ADC_PCLK_EN = 0x8000"
definition AON_AUDGPIO_PCLK_EN :: u32 where [reg_defs]: "AON_AUDGPIO_PCLK_EN = 0x10000"
definition AON_AUDGPIO_DBCLK_EN :: u32 where [reg_defs]: "AON_AUDGPIO_DBCLK_EN = 0x20000"
definition AON_AOI2C_IC_CLK_EN :: u32 where [reg_defs]: "AON_AOI2C_IC_CLK_EN = 0x40000"
definition AON_AOI2C_PCLK_EN :: u32 where [reg_defs]: "AON_AOI2C_PCLK_EN = 0x80000"
definition AON_AOUART_SCLK_EN :: u32 where [reg_defs]: "AON_AOUART_SCLK_EN = 0x100000"
definition AON_AOUART_PCLK_EN :: u32 where [reg_defs]: "AON_AOUART_PCLK_EN = 0x200000"
definition SYS_PLL_LOCKED :: u32 where [reg_defs]: "SYS_PLL_LOCKED = 2"
definition AUDIO_PLL_LOCKED :: u32 where [reg_defs]: "AUDIO_PLL_LOCKED = 1"
definition LOCK_TIMEOUT_US :: nat where [reg_defs]: "LOCK_TIMEOUT_US = 30"

subsection \<open>\<^verbatim>\<open>soc.h\<close>\<close>

definition AONSYS_WDT_RESET_EN :: u32 where [reg_defs]: "AONSYS_WDT_RESET_EN = 0xfff44140"
definition AONSYS_WDT_RESET_CLR :: u32 where [reg_defs]: "AONSYS_WDT_RESET_CLR = 0xfff44104"
definition AONSYS_WDT_RESET_ST :: u32 where [reg_defs]: "AONSYS_WDT_RESET_ST = 0xfff44124"

subsection \<open>\<^verbatim>\<open>wdt.c\<close>\<close>

definition REG_SYS_RST_CFG :: u32 where [reg_defs]: "REG_SYS_RST_CFG = 0xfff44010"
definition REG_RST_REQ_EN_0 :: u32 where [reg_defs]: "REG_RST_REQ_EN_0 = 0xfff44140"
definition SW_SYS_RST_REQ :: u32 where [reg_defs]: "SW_SYS_RST_REQ = 1"
definition SW_GLB_RST_EN :: u32 where [reg_defs]: "SW_GLB_RST_EN = 1"
definition AUD_WDT_RST_EN :: u32 where [reg_defs]: "AUD_WDT_RST_EN = 0x20"
definition AP_WDT0_RST_EN :: u32 where [reg_defs]: "AP_WDT0_RST_EN = 0x100"
definition AP_WDT1_RST_EN :: u32 where [reg_defs]: "AP_WDT1_RST_EN = 0x200"

end
