(* ===== verification/C_String.thy ===== *)
theory C_String
  imports Aon_Base
begin

text \<open>
  The string functions of the C library the firmware uses, on lists of bytes; \<open>cstr\<close> is the part of a byte
  array before its first NUL.
\<close>

definition cstr :: "u8 list \<Rightarrow> u8 list" where
  "cstr bs = takeWhile (\<lambda>b. b \<noteq> 0) bs"

definition str_bytes :: "string \<Rightarrow> u8 list" where
  "str_bytes = map of_char"

text \<open>\<^verbatim>\<open>strncpy\<close> writes exactly \<open>n\<close> bytes: the string, cut off or padded with NULs.\<close>

definition strncpy :: "u8 list \<Rightarrow> nat \<Rightarrow> u8 list" where
  "strncpy src n = take n (cstr src @ replicate n 0)"

definition strncmp_eq :: "u8 list \<Rightarrow> u8 list \<Rightarrow> nat \<Rightarrow> bool" where
  "strncmp_eq a b n \<longleftrightarrow> cstr (take n a) = cstr (take n b)"

text \<open>Bytes stored over the beginning of an array.\<close>

definition put_prefix :: "'a list \<Rightarrow> 'a list \<Rightarrow> 'a list" where
  "put_prefix new old = new @ drop (length new) old"

lemma length_strncpy [simp]: "length (strncpy src n) = n"
  by (simp add: strncpy_def)

lemma length_cstr_prefix: "length (cstr (put_prefix xs (c # replicate n 0))) \<le> max 1 (length xs)"
proof (cases xs)
  case (Cons x ys)
  have "length (takeWhile (\<lambda>b. b \<noteq> 0) (xs @ drop (length xs) (c # replicate n 0))) \<le> length xs"
    using Cons by (cases "\<exists>b \<in> set xs. b = 0") (auto simp: takeWhile_append takeWhile_replicate intro: le_trans [OF length_takeWhile_le])
  then show ?thesis by (simp add: cstr_def put_prefix_def)
qed (simp add: cstr_def put_prefix_def)

end
