(* ===== verification/Chip_Base.thy ===== *)
theory Chip_Base
  imports Chip_Regs C_String Rpc_Msg
begin

text \<open>
  The state of the chip layer (\<^verbatim>\<open>csi/chips/thead/light_aon\<close>) and its access to memory mapped registers.
  The hardware and the peripheral drivers are the functions of \<open>soc_if\<close> over a hardware state \<open>'e\<close>: a read of a
  register returns a value and may change the hardware, which is what polling loops wait for. The volatile
  accesses made so far are kept in \<open>trace\<close>: they are the observable behaviour of the chip functions. Delays
  and log messages of levels that are not compiled in have no effect on the modelled state.
\<close>

subsection \<open>Hardware and drivers\<close>

record 'e soc_if =
  reg_read :: "u32 \<Rightarrow> 'e \<Rightarrow> u32 \<times> 'e"
  reg_write :: "u32 \<Rightarrow> u32 \<Rightarrow> 'e \<Rightarrow> 'e"
  irq_is_enabled :: "nat \<Rightarrow> 'e \<Rightarrow> bool"
  irq_enable :: "nat \<Rightarrow> 'e \<Rightarrow> 'e"
  irq_disable :: "nat \<Rightarrow> 'e \<Rightarrow> 'e"
  rtc_intr_clr :: "'e \<Rightarrow> 'e"
  gpio_intr_clr :: "'e \<Rightarrow> 'e"
  lpddr4_lp3_enter :: "u32 \<Rightarrow> 'e \<Rightarrow> 'e"
  lpddr4_lp3_exit :: "u32 \<Rightarrow> 'e \<Rightarrow> 'e"
  wait_for_interrupt :: "'e \<Rightarrow> 'e"
  mbox_init :: "('e, unit) act"
  mbox_attach :: "('e, unit) act"
  mbox_receive :: "nat \<Rightarrow> nat \<Rightarrow> 'e \<Rightarrow> u8 list \<times> 'e"
  mbox_send :: "u8 list \<Rightarrow> nat \<Rightarrow> 'e \<Rightarrow> int option \<times> 'e"
  timer_init :: "('e, unit) act"
  timer_attach :: "('e, unit) act"
  timer_start :: "u32 \<Rightarrow> ('e, unit) act"
  timer_stop :: "'e \<Rightarrow> 'e"
  wdt_init :: "u8 \<Rightarrow> ('e, unit) act"
  wdt_intr_clear :: "u8 \<Rightarrow> 'e \<Rightarrow> 'e"
  wdt_is_timeout :: "u8 \<Rightarrow> 'e \<Rightarrow> bool \<times> 'e"
  pvt_init :: "nat \<Rightarrow> ('e, unit) act"
  pvt_rising_alarm :: "nat \<Rightarrow> u32 \<Rightarrow> u32 \<Rightarrow> ('e, unit) act"
  pvt_falling_alarm :: "nat \<Rightarrow> u32 \<Rightarrow> u32 \<Rightarrow> ('e, unit) act"
  pvt_attach :: "('e, unit) act"
  pvt_ts_num :: "'e \<Rightarrow> nat"
  pvt_read_ts :: "nat \<Rightarrow> 'e \<Rightarrow> 'e"

datatype access = Rd u32 u32 | Wr u32 u32

text \<open>The static variables of \<^verbatim>\<open>power.c\<close> and \<^verbatim>\<open>sys_clk.c\<close>.\<close>

record 'e chip_t =
  soc :: "'e soc_if"
  env :: 'e
  trace :: "access list"
  g_chip_wakeup_flag :: u32
  enabled_irq_num :: "nat list"
  g_system_clock :: u32
  g_share_srame_clock :: u32
  g_sram_clk_div0_num :: u32
  g_sram_clk_div1_num :: u32
  g_aoi2c_ic_clk :: u32
  g_aonsys_clk_src_pll_div :: u32

type_synonym ('e, 'z, 'a) cact = "(('e, 'z) chip_t_scheme, 'a) act"

text \<open>Calls into the drivers.\<close>

definition on_soc :: "('e soc_if \<Rightarrow> ('e, 'a) act) \<Rightarrow> ('e, 'z, 'a) cact" where
  "on_soc f s = (let (r, e) = f (soc s) (env s) in (r, s\<lparr>env := e\<rparr>))"

definition soc_do :: "('e soc_if \<Rightarrow> 'e \<Rightarrow> 'e) \<Rightarrow> ('e, 'z, unit) cact" where
  "soc_do f s = (Ok (), s\<lparr>env := f (soc s) (env s)\<rparr>)"

definition soc_call :: "('e soc_if \<Rightarrow> 'e \<Rightarrow> 'a \<times> 'e) \<Rightarrow> ('e, 'z, 'a) cact" where
  "soc_call f s = (let (r, e) = f (soc s) (env s) in (Ok r, s\<lparr>env := e\<rparr>))"

text \<open>A call that may never return, which is the result \<open>None\<close>.\<close>

definition soc_wait :: "('e soc_if \<Rightarrow> 'e \<Rightarrow> 'a option \<times> 'e) \<Rightarrow> ('e, 'z, 'a) cact" where
  "soc_wait f s = (let (r, e) = f (soc s) (env s) in (case r of None \<Rightarrow> Hang | Some v \<Rightarrow> Ok v, s\<lparr>env := e\<rparr>))"

declare on_soc_def [act_defs] soc_do_def [act_defs] soc_call_def [act_defs] soc_wait_def [act_defs]

subsection \<open>Register accesses\<close>

definition CHIP_REG_GET :: "u32 \<Rightarrow> ('e, 'z, u32) cact" where
  "CHIP_REG_GET reg s =
     (let (v, e) = reg_read (soc s) reg (env s) in (Ok v, s\<lparr>env := e, trace := trace s @ [Rd reg v]\<rparr>))"

definition CHIP_REG_SET :: "u32 \<Rightarrow> u32 \<Rightarrow> ('e, 'z, unit) cact" where
  "CHIP_REG_SET val reg s =
     (Ok (), s\<lparr>env := reg_write (soc s) reg val (env s), trace := trace s @ [Wr reg val]\<rparr>)"

text \<open>\<^verbatim>\<open>data = CHIP_REG_GET(reg); data = f(data); CHIP_REG_SET(data, reg);\<close>\<close>

definition reg_modify :: "(u32 \<Rightarrow> u32) \<Rightarrow> u32 \<Rightarrow> ('e, 'z, unit) cact" where
  "reg_modify f reg = bind_res (CHIP_REG_GET reg) (\<lambda>data. CHIP_REG_SET (f data) reg)"

abbreviation set_bits :: "u32 \<Rightarrow> u32 \<Rightarrow> ('e, 'z, unit) cact" where
  "set_bits msk reg \<equiv> reg_modify (\<lambda>data. data OR msk) reg"

abbreviation clr_bits :: "u32 \<Rightarrow> u32 \<Rightarrow> ('e, 'z, unit) cact" where
  "clr_bits msk reg \<equiv> reg_modify (\<lambda>data. data AND NOT msk) reg"

text \<open>
  \<^verbatim>\<open>do data = CHIP_REG_GET(reg); while (!p(data));\<close> with fuel: the result is the value that ended the loop.
\<close>

fun poll :: "nat \<Rightarrow> u32 \<Rightarrow> (u32 \<Rightarrow> bool) \<Rightarrow> ('e, 'z, u32) cact" where
  "poll 0 reg p = hang"
| "poll (Suc fuel) reg p = bind_res (CHIP_REG_GET reg) (\<lambda>data. if p data then ret data else poll fuel reg p)"

abbreviation seq :: "('s, 'a) act \<Rightarrow> ('s, 'b) act \<Rightarrow> ('s, 'b) act" where
  "seq m n \<equiv> bind_res m (\<lambda>_. n)"

definition seqs :: "('s, unit) act list \<Rightarrow> ('s, unit) act" where
  "seqs ms = foldr (\<lambda>m n. bind_res m (\<lambda>_. n)) ms (ret ())"

text \<open>The result code is not looked at.\<close>

definition ignore :: "('s, 'a) act \<Rightarrow> ('s, unit) act" where
  "ignore m = catch_err m (\<lambda>_. ret ())"

lemma bind_assoc: "bind_res (bind_res m f) g = bind_res m (\<lambda>a. bind_res (f a) g)"
  by (rule ext) (simp add: bind_res_def split: prod.splits res.splits)

lemma keeps_ignore: "keeps P m \<Longrightarrow> keeps P (ignore m)"
  unfolding ignore_def by (intro keeps_rules)

lemma keeps_seqs: "(\<And>m. m \<in> set ms \<Longrightarrow> keeps P m) \<Longrightarrow> keeps P (seqs ms)"
  by (induction ms) (auto simp: seqs_def intro!: keeps_rules)

subsection \<open>What an action does to the registers\<close>

text \<open>
  \<open>emits m P\<close>: the action returns, changes nothing of the state but the hardware, and \<open>P\<close> holds of the accesses
  it makes and its result.
\<close>

definition emits :: "('e, 'z, 'a) cact \<Rightarrow> (access list \<Rightarrow> 'a \<Rightarrow> bool) \<Rightarrow> bool" where
  "emits m P \<longleftrightarrow> (\<forall>s. \<exists>a e tr. m s = (Ok a, s\<lparr>env := e, trace := trace s @ tr\<rparr>) \<and> P tr a)"

lemma emitsE:
  assumes "emits m P"
  obtains a e tr where "m s = (Ok a, s\<lparr>env := e, trace := trace s @ tr\<rparr>)" and "P tr a"
  using assms unfolding emits_def by blast

lemma emits_mono: "emits m P \<Longrightarrow> (\<And>tr a. P tr a \<Longrightarrow> Q tr a) \<Longrightarrow> emits m Q"
  unfolding emits_def by metis

lemma emits_bind:
  assumes "emits m P" and "\<And>a. emits (f a) (Q a)"
  shows "emits (bind_res m f) (\<lambda>tr b. \<exists>t1 t2 a. tr = t1 @ t2 \<and> P t1 a \<and> Q a t2 b)"
  unfolding emits_def
proof
  fix s :: "('a, 'b) chip_t_scheme"
  obtain a e1 t1 where m: "m s = (Ok a, s\<lparr>env := e1, trace := trace s @ t1\<rparr>)" "P t1 a"
    using assms(1) by (rule emitsE)
  obtain b e2 t2 where f: "f a (s\<lparr>env := e1, trace := trace s @ t1\<rparr>)
      = (Ok b, s\<lparr>env := e1, trace := trace s @ t1\<rparr>\<lparr>env := e2, trace := trace (s\<lparr>env := e1, trace := trace s @ t1\<rparr>) @ t2\<rparr>)" "Q a t2 b"
    using assms(2) [of a] by (rule emitsE)
  have "bind_res m f s = (Ok b, s\<lparr>env := e2, trace := trace s @ (t1 @ t2)\<rparr>)"
    using m(1) f(1) by (simp add: bind_res_def)
  with m(2) f(2) show "\<exists>b e tr. bind_res m f s = (Ok b, s\<lparr>env := e, trace := trace s @ tr\<rparr>)
      \<and> (\<exists>t1 t2 a. tr = t1 @ t2 \<and> P t1 a \<and> Q a t2 b)" by blast
qed

lemma emits_then:
  fixes m :: "('e, 'z, 'a) cact"
  assumes "emits m P" and "\<And>t1 a. P t1 a \<Longrightarrow> emits (f a) (\<lambda>t2. Q (t1 @ t2))"
  shows "emits (bind_res m f) Q"
  unfolding emits_def
proof
  fix s :: "('e, 'z) chip_t_scheme"
  obtain a e1 t1 where m: "m s = (Ok a, s\<lparr>env := e1, trace := trace s @ t1\<rparr>)" "P t1 a"
    using assms(1) by (rule emitsE)
  obtain b e2 t2 where "f a (s\<lparr>env := e1, trace := trace s @ t1\<rparr>)
      = (Ok b, s\<lparr>env := e1, trace := trace s @ t1\<rparr>\<lparr>env := e2, trace := trace (s\<lparr>env := e1, trace := trace s @ t1\<rparr>) @ t2\<rparr>)" "Q (t1 @ t2) b"
    using assms(2) [OF m(2)] by (rule emitsE)
  with m(1) show "\<exists>b e tr. bind_res m f s = (Ok b, s\<lparr>env := e, trace := trace s @ tr\<rparr>) \<and> Q tr b"
    by (intro exI [of _ b] exI [of _ e2] exI [of _ "t1 @ t2"]) (simp add: bind_res_def)
qed

lemma emits_ret:
  assumes "P [] a"
  shows "emits (ret a) P"
  unfolding emits_def
proof
  fix s
  show "\<exists>b e tr. ret a s = (Ok b, s\<lparr>env := e, trace := trace s @ tr\<rparr>) \<and> P tr b"
    using assms by (intro exI [of _ a] exI [of _ "env s"] exI [of _ "[]"]) (simp add: ret_def)
qed

lemma emits_get: "(\<And>v. P [Rd reg v] v) \<Longrightarrow> emits (CHIP_REG_GET reg) P"
  unfolding emits_def CHIP_REG_GET_def by (auto split: prod.splits)

lemma emits_read: "(\<And>v. emits (f v) (\<lambda>tr. Q (Rd reg v # tr))) \<Longrightarrow> emits (bind_res (CHIP_REG_GET reg) f) Q"
  by (rule emits_then [OF emits_get [where P = "\<lambda>tr v. tr = [Rd reg v]"]]) auto

lemma emits_set: "P [Wr reg v] () \<Longrightarrow> emits (CHIP_REG_SET v reg) P"
  unfolding emits_def CHIP_REG_SET_def by auto

lemma emits_modify: "(\<And>v. P [Rd reg v, Wr reg (f v)] ()) \<Longrightarrow> emits (reg_modify f reg) P"
  unfolding reg_modify_def
  by (rule emits_mono [OF emits_bind [OF emits_get [where P = "\<lambda>tr v. tr = [Rd reg v]"] emits_set [where P = "\<lambda>tr _. tr = [Wr reg _]"]]]) auto

lemma emits_seq:
  assumes "emits m (\<lambda>tr _. P tr)" and "emits n (\<lambda>tr _. Q tr)" and "\<And>t1 t2. P t1 \<Longrightarrow> Q t2 \<Longrightarrow> R (t1 @ t2)"
  shows "emits (seq m n) (\<lambda>tr _. R tr)"
  by (rule emits_mono [OF emits_bind [OF assms(1) assms(2)]]) (use assms(3) in auto)

subsection \<open>Bits an action may change\<close>

text \<open>
  Along a trace, \<open>last_val\<close> is the value of the last access to each register. A trace stays \<open>within\<close> the bits \<open>M\<close>
  when every write changes only bits of \<open>M\<close> compared to the last access of the same register; a register that is written
  without having been accessed before must be all of \<open>M\<close>.
\<close>

fun last_val :: "(u32 \<rightharpoonup> u32) \<Rightarrow> access list \<Rightarrow> u32 \<rightharpoonup> u32" where
  "last_val l [] = l"
| "last_val l (Rd a v # tr) = last_val (l(a \<mapsto> v)) tr"
| "last_val l (Wr a v # tr) = last_val (l(a \<mapsto> v)) tr"

fun within :: "(u32 \<Rightarrow> u32) \<Rightarrow> (u32 \<rightharpoonup> u32) \<Rightarrow> access list \<Rightarrow> bool" where
  "within M l [] \<longleftrightarrow> True"
| "within M l (Rd a v # tr) \<longleftrightarrow> within M (l(a \<mapsto> v)) tr"
| "within M l (Wr a v # tr) \<longleftrightarrow>
     (case l a of Some d \<Rightarrow> (v XOR d) AND NOT (M a) = 0 | None \<Rightarrow> NOT (M a) = 0) \<and> within M (l(a \<mapsto> v)) tr"

lemma within_append [simp]: "within M l (t1 @ t2) \<longleftrightarrow> within M l t1 \<and> within M (last_val l t1) t2"
proof (induction t1 arbitrary: l)
  case (Cons x t1)
  then show ?case by (cases x) (simp_all del: fun_upd_apply)
qed simp

abbreviation changes :: "(u32 \<Rightarrow> u32) \<Rightarrow> ('e, 'z) chip_t_scheme \<Rightarrow> bool" where
  "changes M s \<equiv> within M Map.empty (trace s)"

named_theorems changes_rules "register accesses stay within the given bits"

lemma last_val_snoc [simp]: "last_val l (tr @ [Rd a v]) = (last_val l tr)(a \<mapsto> v)" "last_val l (tr @ [Wr a v]) = (last_val l tr)(a \<mapsto> v)"
proof -
  have "last_val l (tr @ tr') = last_val (last_val l tr) tr'" for l tr'
  proof (induction tr arbitrary: l)
    case (Cons x tr)
    then show ?case by (cases x) (simp_all del: fun_upd_apply)
  qed simp
  then show "last_val l (tr @ [Rd a v]) = (last_val l tr)(a \<mapsto> v)" "last_val l (tr @ [Wr a v]) = (last_val l tr)(a \<mapsto> v)"
    by simp_all
qed

lemma changes_get [changes_rules]: "keeps (changes M) (CHIP_REG_GET reg)"
  by (simp add: keeps_def CHIP_REG_GET_def split: prod.splits)

lemma changes_set [changes_rules]: "NOT (M reg) = 0 \<Longrightarrow> keeps (changes M) (CHIP_REG_SET v reg)"
  by (simp add: keeps_def CHIP_REG_SET_def split: option.splits)

lemma changes_modify [changes_rules]:
  "(\<And>v. (f v XOR v) AND NOT (M reg) = 0) \<Longrightarrow> keeps (changes M) (reg_modify f reg)"
  by (simp add: keeps_def reg_modify_def act_defs CHIP_REG_GET_def CHIP_REG_SET_def split: prod.splits)

subsection \<open>Plain registers\<close>

text \<open>
  Documented behaviour of a register that is neither a status nor a set or clear register: it reads as what was
  written last. \<open>R\<close> tells which registers are plain, \<open>regs\<close> gives their contents in a hardware state.
\<close>

definition reg_file :: "'e soc_if \<Rightarrow> (u32 \<Rightarrow> bool) \<Rightarrow> ('e \<Rightarrow> u32 \<Rightarrow> u32) \<Rightarrow> bool" where
  "reg_file c R regs \<longleftrightarrow>
     (\<forall>e a. regs (snd (reg_read c a e)) = regs e \<and> (R a \<longrightarrow> fst (reg_read c a e) = regs e a))
     \<and> (\<forall>e a v. regs (reg_write c a v e) = (if R a then (regs e)(a := v) else regs e))"

text \<open>
  \<open>updates R regs m f\<close>: on such hardware the action returns, the contents of the plain registers are \<open>f\<close> of what they
  were, and nothing of the state but the hardware changes.
\<close>

definition only_hw :: "('e, 'z) chip_t_scheme \<Rightarrow> ('e, 'z) chip_t_scheme \<Rightarrow> bool" where
  "only_hw s t \<longleftrightarrow> t = s\<lparr>env := env t, trace := trace t\<rparr>"

definition updates :: "(u32 \<Rightarrow> bool) \<Rightarrow> ('e \<Rightarrow> u32 \<Rightarrow> u32) \<Rightarrow> ('e, 'z, 'a) cact \<Rightarrow> ((u32 \<Rightarrow> u32) \<Rightarrow> (u32 \<Rightarrow> u32)) \<Rightarrow> bool" where
  "updates R regs m f \<longleftrightarrow> (\<forall>s. reg_file (soc s) R regs \<longrightarrow>
     ok_post m (\<lambda>_ t. only_hw s t \<and> regs (env t) = f (regs (env s))) s)"

lemma only_hw_simps [simp]: "only_hw s s" "only_hw s (s\<lparr>env := e, trace := tr\<rparr>)" "only_hw s (s\<lparr>env := e\<rparr>)"
  by (simp_all add: only_hw_def)

lemma only_hw_soc: "only_hw s t \<Longrightarrow> soc t = soc s"
  unfolding only_hw_def by (drule arg_cong [of _ _ soc]) simp

lemma only_hw_trans: "only_hw s t \<Longrightarrow> only_hw t u \<Longrightarrow> only_hw s u"
proof -
  assume s: "only_hw s t" and t: "only_hw t u"
  have "u = t\<lparr>env := env u, trace := trace u\<rparr>" using t by (simp add: only_hw_def)
  also have "\<dots> = s\<lparr>env := env t, trace := trace t\<rparr>\<lparr>env := env u, trace := trace u\<rparr>"
    using s by (simp add: only_hw_def)
  finally show "only_hw s u" by (simp add: only_hw_def)
qed

lemma updates_bind:
  fixes m :: "('e, 'z, 'a) cact"
  assumes "updates R regs m f" and "\<And>a. updates R regs (n a) g"
  shows "updates R regs (bind_res m n) (g \<circ> f)"
  unfolding updates_def
proof (intro allI impI ok_bind)
  fix s :: "('e, 'z) chip_t_scheme"
  assume rf: "reg_file (soc s) R regs"
  have "ok_post m (\<lambda>_ t. only_hw s t \<and> regs (env t) = f (regs (env s))) s"
    using assms(1) rf by (simp add: updates_def)
  then show "ok_post m (\<lambda>a. ok_post (n a) (\<lambda>_ u. only_hw s u \<and> regs (env u) = (g \<circ> f) (regs (env s)))) s"
  proof (rule ok_mono)
    fix a t
    assume t: "only_hw s t \<and> regs (env t) = f (regs (env s))"
    then have "soc t = soc s" using only_hw_soc by blast
    then have "reg_file (soc t) R regs" using rf by simp
    then have "ok_post (n a) (\<lambda>_ u. only_hw t u \<and> regs (env u) = g (regs (env t))) t"
      using assms(2) by (simp add: updates_def)
    then show "ok_post (n a) (\<lambda>_ u. only_hw s u \<and> regs (env u) = (g \<circ> f) (regs (env s))) t"
      by (rule ok_mono) (use t in \<open>auto intro: only_hw_trans\<close>)
  qed
qed

definition upd_reg :: "(u32 \<Rightarrow> bool) \<Rightarrow> u32 \<Rightarrow> (u32 \<Rightarrow> u32) \<Rightarrow> (u32 \<Rightarrow> u32) \<Rightarrow> u32 \<Rightarrow> u32" where
  "upd_reg R a f r = (if R a then r(a := f (r a)) else r)"

lemma updates_ret: "updates R regs (ret a) id"
  by (simp add: updates_def ok_post_def ret_def)

lemma updates_get: "updates R regs (CHIP_REG_GET a) id"
  by (simp add: updates_def ok_post_def CHIP_REG_GET_def reg_file_def split: prod.splits) (metis snd_conv)

lemma updates_set: "updates R regs (CHIP_REG_SET v a) (upd_reg R a (\<lambda>_. v))"
  by (simp add: updates_def ok_post_def CHIP_REG_SET_def reg_file_def upd_reg_def)

lemma updates_modify: "updates R regs (reg_modify f a) (upd_reg R a f)"
  unfolding updates_def
proof (intro allI impI)
  fix s
  assume rf: "reg_file (soc s) R regs"
  obtain v e where "reg_read (soc s) a (env s) = (v, e)" by fastforce
  moreover from this have "regs e = regs (env s)" "R a \<Longrightarrow> v = regs (env s) a"
    using rf unfolding reg_file_def by (metis snd_conv, metis fst_conv)
  ultimately show "ok_post (reg_modify f a) (\<lambda>_ t. only_hw s t \<and> regs (env t) = upd_reg R a f (regs (env s))) s"
    using rf by (simp add: ok_post_def reg_modify_def CHIP_REG_GET_def CHIP_REG_SET_def bind_res_def reg_file_def upd_reg_def)
qed

lemma get_plain:
  assumes "reg_file (soc s) R regs" and "R a"
  shows "\<exists>e tr. bind_res (CHIP_REG_GET a) f s = f (regs (env s) a) (s\<lparr>env := e, trace := tr\<rparr>) \<and> regs e = regs (env s)"
proof -
  obtain v e where "reg_read (soc s) a (env s) = (v, e)" by fastforce
  moreover from this have "v = regs (env s) a" "regs e = regs (env s)" using assms unfolding reg_file_def by (metis fst_conv, metis snd_conv)
  ultimately show ?thesis by (intro exI [of _ e] exI [of _ "trace s @ [Rd a v]"]) (simp add: bind_res_def CHIP_REG_GET_def)
qed

lemma modify_plain:
  fixes s :: "('e, 'z) chip_t_scheme"
  assumes "reg_file (soc s) R regs" and "R a"
  obtains e tr where "reg_modify f a s = (Ok (), s\<lparr>env := e, trace := tr\<rparr>)" and "regs e = (regs (env s))(a := f (regs (env s) a))"
proof -
  have "ok_post (reg_modify f a) (\<lambda>_ t. only_hw s t \<and> regs (env t) = upd_reg R a f (regs (env s))) s"
    using updates_modify assms(1) unfolding updates_def by blast
  then obtain t where "reg_modify f a s = (Ok (), t)" "t = s\<lparr>env := env t, trace := trace t\<rparr>" "regs (env t) = upd_reg R a f (regs (env s))"
    by (auto simp: ok_post_def only_hw_def)
  with assms(2) show thesis using that [where e = "env t" and tr = "trace t"] by (simp add: upd_reg_def)
qed

text \<open>
  \<open>computes R regs m v f\<close>: moreover the result is \<open>v\<close> of what the plain registers held. The rules give the effect of a driver
  function from the effects of its register accesses.
\<close>

definition computes ::
  "(u32 \<Rightarrow> bool) \<Rightarrow> ('e \<Rightarrow> u32 \<Rightarrow> u32) \<Rightarrow> ('e, 'z, 'a) cact \<Rightarrow> ((u32 \<Rightarrow> u32) \<Rightarrow> 'a) \<Rightarrow> ((u32 \<Rightarrow> u32) \<Rightarrow> (u32 \<Rightarrow> u32)) \<Rightarrow> bool" where
  "computes R regs m v f \<longleftrightarrow> (\<forall>s. reg_file (soc s) R regs \<longrightarrow>
     ok_post m (\<lambda>a t. only_hw s t \<and> a = v (regs (env s)) \<and> regs (env t) = f (regs (env s))) s)"

named_theorems computes_rules "what register accesses return and leave behind"

lemma computes_bind [computes_rules]:
  fixes m :: "('e, 'z, 'a) cact"
  assumes "computes R regs m v f" and "\<And>a. computes R regs (n a) (w a) (g a)"
  shows "computes R regs (bind_res m n) (\<lambda>r. w (v r) (f r)) (\<lambda>r. g (v r) (f r))"
  unfolding computes_def
proof (intro allI impI ok_bind)
  fix s :: "('e, 'z) chip_t_scheme"
  assume rf: "reg_file (soc s) R regs"
  have "ok_post m (\<lambda>a t. only_hw s t \<and> a = v (regs (env s)) \<and> regs (env t) = f (regs (env s))) s"
    using assms(1) rf by (simp add: computes_def)
  then show "ok_post m (\<lambda>a. ok_post (n a) (\<lambda>b u. only_hw s u \<and> b = w (v (regs (env s))) (f (regs (env s)))
      \<and> regs (env u) = g (v (regs (env s))) (f (regs (env s))))) s"
  proof (rule ok_mono)
    fix a t
    assume t: "only_hw s t \<and> a = v (regs (env s)) \<and> regs (env t) = f (regs (env s))"
    then have "reg_file (soc t) R regs" using only_hw_soc rf by metis
    then have "ok_post (n a) (\<lambda>b u. only_hw t u \<and> b = w a (regs (env t)) \<and> regs (env u) = g a (regs (env t))) t"
      using assms(2) by (simp add: computes_def)
    then show "ok_post (n a) (\<lambda>b u. only_hw s u \<and> b = w (v (regs (env s))) (f (regs (env s)))
      \<and> regs (env u) = g (v (regs (env s))) (f (regs (env s)))) t"
      by (rule ok_mono) (use t in \<open>auto intro: only_hw_trans\<close>)
  qed
qed

lemma computes_cong: "computes R regs m v f \<Longrightarrow> v = v' \<Longrightarrow> f = f' \<Longrightarrow> computes R regs m v' f'"
  by simp

lemma computes_ret [computes_rules]: "computes R regs (ret a) (\<lambda>_. a) id"
  by (simp add: computes_def ok_post_def ret_def)

lemma computes_get [computes_rules]: "R a \<Longrightarrow> computes R regs (CHIP_REG_GET a) (\<lambda>r. r a) id"
  by (simp add: computes_def ok_post_def CHIP_REG_GET_def reg_file_def split: prod.splits) (metis fst_conv snd_conv)

lemma computes_set [computes_rules]: "R a \<Longrightarrow> computes R regs (CHIP_REG_SET v a) (\<lambda>_. ()) (\<lambda>r. r(a := v))"
  by (simp add: computes_def ok_post_def CHIP_REG_SET_def reg_file_def)

text \<open>A write to a register that is not plain, such as one that triggers something, leaves the plain ones alone.\<close>

lemma computes_set_other [computes_rules]: "\<not> R a \<Longrightarrow> computes R regs (CHIP_REG_SET v a) (\<lambda>_. ()) id"
  by (simp add: computes_def ok_post_def CHIP_REG_SET_def reg_file_def)

lemma computes_modify [computes_rules]: "R a \<Longrightarrow> computes R regs (reg_modify f a) (\<lambda>_. ()) (\<lambda>r. r(a := f (r a)))"
  unfolding reg_modify_def by (rule computes_cong [OF computes_bind [OF computes_get computes_set]]) auto

lemma computes_seqs [computes_rules]:
  "computes R regs (seqs []) (\<lambda>_. ()) id"
  "computes R regs m (\<lambda>_. ()) f \<Longrightarrow> computes R regs (seqs ms) (\<lambda>_. ()) g \<Longrightarrow> computes R regs (seqs (m # ms)) (\<lambda>_. ()) (\<lambda>r. g (f r))"
  using computes_bind [of R regs m "\<lambda>_. ()" f "\<lambda>_. seqs ms" "\<lambda>_ _. ()" "\<lambda>_. g"]
  by (simp_all add: seqs_def computes_ret)

lemma computesE:
  fixes s :: "('e, 'z) chip_t_scheme"
  assumes "computes R regs m v f" and "reg_file (soc s) R regs"
  obtains t where "m s = (Ok (v (regs (env s))), t)" and "only_hw s t" and "regs (env t) = f (regs (env s))"
  using assms unfolding computes_def ok_post_def by blast

subsection \<open>A concrete state\<close>

text \<open>
  Drivers that succeed and registers that hold what was written to them, used to evaluate the functions on concrete
  inputs. They stand for no code of the repository.
\<close>

definition sample_soc :: "(u32 \<Rightarrow> u32) soc_if" where
  "sample_soc =
     \<lparr>reg_read = (\<lambda>a e. (e a, e)), reg_write = (\<lambda>a v e. e(a := v)), irq_is_enabled = (\<lambda>_ _. False), irq_enable = (\<lambda>_. id),
      irq_disable = (\<lambda>_. id), rtc_intr_clr = id, gpio_intr_clr = id, lpddr4_lp3_enter = (\<lambda>_. id), lpddr4_lp3_exit = (\<lambda>_. id),
      wait_for_interrupt = id, mbox_init = ret (), mbox_attach = ret (), mbox_receive = (\<lambda>ch n e. ([], e)),
      mbox_send = (\<lambda>bs n e. (Some 0, e)), timer_init = ret (), timer_attach = ret (),
      timer_start = (\<lambda>_. ret ()), timer_stop = id, wdt_init = (\<lambda>_. ret ()), wdt_intr_clear = (\<lambda>_. id),
      wdt_is_timeout = (\<lambda>_ e. (False, e)), pvt_init = (\<lambda>_. ret ()), pvt_rising_alarm = (\<lambda>_ _ _. ret ()),
      pvt_falling_alarm = (\<lambda>_ _ _. ret ()), pvt_attach = ret (), pvt_ts_num = (\<lambda>_. 1), pvt_read_ts = (\<lambda>_. id)\<rparr>"

definition sample_chip :: "(u32 \<Rightarrow> u32) chip_t" where
  "sample_chip =
     \<lparr>soc = sample_soc, env = (\<lambda>_. 0), trace = [], g_chip_wakeup_flag = 0, enabled_irq_num = replicate 32 0, g_system_clock = 0,
      g_share_srame_clock = 0, g_sram_clk_div0_num = 0, g_sram_clk_div1_num = 0, g_aoi2c_ic_clk = 0, g_aonsys_clk_src_pll_div = 0\<rparr>"

lemma sample_reg_file: "reg_file sample_soc (\<lambda>_. True) id"
  by (simp add: reg_file_def sample_soc_def)

end
