(* ===== verification/Chip_Reset.thy ===== *)
theory Chip_Reset
  imports Chip_Base
begin

text \<open>
  Software resets (\<^verbatim>\<open>csi/chips/thead/light_aon/sysrst.c\<close>). A reset is active while its bit is 0.
\<close>

subsection \<open>Processor cores\<close>

text \<open>C leaves a shift by 32 or more places undefined.\<close>

definition c910_reset :: "u16 \<Rightarrow> ('e, 'z, unit) cact" where
  "c910_reset cpu =
     (if unat cpu + 1 \<ge> 32 then undef else clr_bits (push_bit (unat cpu + 1) 1) REG_AP_C910_SWRST)"

definition c910_reset_release :: "u16 \<Rightarrow> ('e, 'z, unit) cact" where
  "c910_reset_release cpu =
     (if unat cpu + 1 \<ge> 32 then undef else set_bits (push_bit (unat cpu + 1) 1) REG_AP_C910_SWRST)"

subsection \<open>Subsystems\<close>

definition audio_reset :: "('e, 'z, unit) cact" where
  "audio_reset = clr_bits SW_AUDIO_RST_n REG_AON_AUDIO_RST_CFG"

definition audio_reset_release :: "('e, 'z, unit) cact" where
  "audio_reset_release = set_bits SW_AUDIO_RST_n REG_AON_AUDIO_RST_CFG"

definition audio_reset_all :: "('e, 'z, unit) cact" where
  "audio_reset_all = clr_bits 0x3F REG_AON_AUDIO_RST_CFG"

definition audio_reset_release_0 :: "('e, 'z, unit) cact" where
  "audio_reset_release_0 = set_bits 0x37 REG_AON_AUDIO_RST_CFG"

definition audio_reset_release_1 :: "('e, 'z, unit) cact" where
  "audio_reset_release_1 = set_bits 0x08 REG_AON_AUDIO_RST_CFG"

definition vdec_reset :: "('e, 'z, unit) cact" where
  "vdec_reset = clr_bits SW_AON_VDEC_RST_n REG_AON_VDEC_RST_CFG"

definition vdec_reset_release :: "('e, 'z, unit) cact" where
  "vdec_reset_release = set_bits SW_AON_VDEC_RST_n REG_AON_VDEC_RST_CFG"

definition npu_reset :: "('e, 'z, unit) cact" where
  "npu_reset =
     bind_res (clr_bits SW_AON_NPUSYS_RST_n REG_AON_NPUSYS_RST_CFG) (\<lambda>_.
     clr_bits SW_AP_SW_IMG_NNA_RST_n REG_AP_IMG_NNA_TEESWRST)"

definition npu_reset_release :: "('e, 'z, unit) cact" where
  "npu_reset_release =
     bind_res (set_bits SW_AON_NPUSYS_RST_n REG_AON_NPUSYS_RST_CFG) (\<lambda>_.
     set_bits SW_AP_SW_IMG_NNA_RST_n REG_AP_IMG_NNA_TEESWRST)"

definition venc_reset :: "('e, 'z, unit) cact" where
  "venc_reset = clr_bits SW_AON_VENC_RST_n REG_AON_VENC_RST_CFG"

definition venc_reset_release :: "('e, 'z, unit) cact" where
  "venc_reset_release = set_bits SW_AON_VENC_RST_n REG_AON_VENC_RST_CFG"

definition gpu_reset :: "('e, 'z, unit) cact" where
  "gpu_reset = clr_bits SW_AON_GPU_RST_n REG_AON_GPU_RST_CFG"

definition gpu_reset_release :: "('e, 'z, unit) cact" where
  "gpu_reset_release = set_bits SW_AON_GPU_RST_n REG_AON_GPU_RST_CFG"

definition dsp0_reset :: "('e, 'z, unit) cact" where
  "dsp0_reset = clr_bits SW_AON_DSP0_RST_n REG_AON_DSP0_RST_CFG"

definition dsp0_reset_release :: "('e, 'z, unit) cact" where
  "dsp0_reset_release = set_bits SW_AON_DSP0_RST_n REG_AON_DSP0_RST_CFG"

definition dsp1_reset :: "('e, 'z, unit) cact" where
  "dsp1_reset = clr_bits SW_AON_DSP1_RST_n REG_AON_DSP1_RST_CFG"

definition dsp1_reset_release :: "('e, 'z, unit) cact" where
  "dsp1_reset_release = set_bits SW_AON_DSP1_RST_n REG_AON_DSP1_RST_CFG"

definition apsys_reset :: "('e, 'z, unit) cact" where
  "apsys_reset = clr_bits SW_AON_APSYS_RST_n REG_AON_APSYS_RST_CFG"

text \<open>The value written to the reset register is the contents of the clock gate register.\<close>

definition apsys_reset_release :: "('e, 'z, unit) cact" where
  "apsys_reset_release =
     bind_res (CHIP_REG_GET REG_AON_APSYS_CLK_GATE) (\<lambda>d.
     let data = d AND NOT AON_APSYS_CLK_EN in
     bind_res (CHIP_REG_SET data REG_AON_APSYS_CLK_GATE) (\<lambda>_.
     CHIP_REG_SET (data OR SW_AON_APSYS_RST_n) REG_AON_APSYS_RST_CFG))"

definition sram_axi_rst_bits :: u32 where
  "sram_axi_rst_bits = AON_RSTGEN_SW_SRAM_AXI_CORE_RST_n OR AON_RSTGEN_SW_SRAM_AXI_ARST_n_4 OR AON_RSTGEN_SW_SRAM_AXI_ARST_n_3
     OR AON_RSTGEN_SW_SRAM_AXI_ARST_n_2 OR AON_RSTGEN_SW_SRAM_AXI_ARST_n_1 OR AON_RSTGEN_SW_SRAM_AXI_ARST_n_0"

definition sram_axi_reset :: "('e, 'z, unit) cact" where
  "sram_axi_reset = clr_bits sram_axi_rst_bits REG_AON_SRAM_AXI_RST_CFG"

definition sram_axi_reset_release :: "('e, 'z, unit) cact" where
  "sram_axi_reset_release = set_bits sram_axi_rst_bits REG_AON_SRAM_AXI_RST_CFG"

definition pvtc_reset :: "('e, 'z, unit) cact" where
  "pvtc_reset = clr_bits AON_RSTGEN_SW_PVTC_PRST_n REG_AON_PVTC_RST_CFG"

definition pvtc_reset_release :: "('e, 'z, unit) cact" where
  "pvtc_reset_release = set_bits AON_RSTGEN_SW_PVTC_PRST_n REG_AON_PVTC_RST_CFG"

lemmas reset_defs = audio_reset_def audio_reset_release_def audio_reset_all_def audio_reset_release_0_def
  audio_reset_release_1_def vdec_reset_def vdec_reset_release_def npu_reset_def npu_reset_release_def venc_reset_def
  venc_reset_release_def gpu_reset_def gpu_reset_release_def dsp0_reset_def dsp0_reset_release_def dsp1_reset_def
  dsp1_reset_release_def

end
