(* ===== verification/Chip_Clk.thy ===== *)
theory Chip_Clk
  imports Chip_Base
begin

text \<open>
  Clock gates of the subsystems and cores (\<^verbatim>\<open>csi/chips/thead/light_aon/sysclk.c\<close>).
\<close>

datatype LIGHT_CLKGATE_NAME =
    MISCSYS_SDIO0 | MISCSYS_SDIO1 | APSYS_I2C0 | APSYS_I2C1 | APSYS_I2C2 | APSYS_I2C3 | APSYS_I2C4 | APSYS_I2C5
  | APSYS_PWM | VPSYS_G2D | VPSYS_FCE | VISYS_ISP0 | VISYS_ISP1 | VISYS_ISP_RY

record clk_gate_t =
  clk_name :: LIGHT_CLKGATE_NAME
  clken_addr :: u32
  en_bit :: u32

definition CLK_GATE :: "LIGHT_CLKGATE_NAME \<Rightarrow> u32 \<Rightarrow> u32 \<Rightarrow> clk_gate_t" where
  "CLK_GATE name ereg ebit = \<lparr>clk_name = name, clken_addr = ereg, en_bit = ebit\<rparr>"

definition clk_gate :: "clk_gate_t list" where
  "clk_gate =
     [CLK_GATE MISCSYS_SDIO0 REG_MISCSYS_SDIO0_CLK_CTRL SDIO_CLK_EN, CLK_GATE MISCSYS_SDIO1 REG_MISCSYS_SDIO1_CLK_CTRL SDIO_CLK_EN,
      CLK_GATE APSYS_I2C0 REG_AP_PERI_CLK_CFG I2C0_CLK_EN, CLK_GATE APSYS_I2C1 REG_AP_PERI_CLK_CFG I2C1_CLK_EN,
      CLK_GATE APSYS_I2C2 REG_AP_PERI_CLK_CFG I2C2_CLK_EN, CLK_GATE APSYS_I2C3 REG_AP_PERI_CLK_CFG I2C3_CLK_EN,
      CLK_GATE APSYS_I2C4 REG_AP_PERI_CLK_CFG I2C4_CLK_EN, CLK_GATE APSYS_I2C5 REG_AP_PERI_CLK_CFG I2C5_CLK_EN,
      CLK_GATE APSYS_PWM REG_AP_PERI_CLK_CFG PWM_CLK_EN, CLK_GATE VPSYS_G2D REG_VP_VPSYS_CK_CFG VPSYS_G2D_CLK_EN,
      CLK_GATE VPSYS_FCE REG_VP_VPSYS_CK_CFG VPSYS_FCE_CLK_EN, CLK_GATE VISYS_ISP0 REG_VI_VISYS_CLK_GATE_EN_1 VISYS_CLKCTRL_ISP0_CLK_EN,
      CLK_GATE VISYS_ISP1 REG_VI_VISYS_CLK_GATE_EN_1 VISYS_CLKCTRL_ISP1_CLK_EN,
      CLK_GATE VISYS_ISP_RY REG_VI_VISYS_CLK_GATE_EN_0 VISYS_CLKCTRL_ISP_RY_HCLK_EN]"

text \<open>\<^verbatim>\<open>if (en) data |= bits; else data &= ~bits;\<close>\<close>

definition gate_bits :: "bool \<Rightarrow> u32 \<Rightarrow> u32 \<Rightarrow> ('e, 'z, unit) cact" where
  "gate_bits en bits reg = reg_modify (\<lambda>data. if en then data OR bits else data AND NOT bits) reg"

definition audio_sys_clk_enable :: "bool \<Rightarrow> ('e, 'z, unit) cact" where
  "audio_sys_clk_enable en = gate_bits en (AUDIO_SUBSYS_ACLK_AP2CP_EN OR AUDIO_SUBSYS_ACLK_CP2AP_EN) REG_AON_AUDIO_CLK_GATE"

definition vdec_sys_clk_enable :: "bool \<Rightarrow> ('e, 'z, unit) cact" where
  "vdec_sys_clk_enable en = gate_bits en VDEC_SUBSYS_VDEC_CLK_EN REG_AON_VDEC_CLK_GATE"

definition venc_sys_clk_enable :: "bool \<Rightarrow> ('e, 'z, unit) cact" where
  "venc_sys_clk_enable en = gate_bits en VDEC_SUBSYS_VENC_CLK_EN REG_AON_VENC_CLK_GATE"

definition gpu_sys_clk_enable :: "bool \<Rightarrow> ('e, 'z, unit) cact" where
  "gpu_sys_clk_enable en = gate_bits en VDEC_SUBSYS_GPU_CLK_EN REG_AON_GPU_CLK_GATE"

definition dsp0_sys_clk_enable :: "bool \<Rightarrow> ('e, 'z, unit) cact" where
  "dsp0_sys_clk_enable en = gate_bits en VDEC_SUBSYS_DSP0_CLK_EN REG_AON_DSP0_CLK_GATE"

definition dsp1_sys_clk_enable :: "bool \<Rightarrow> ('e, 'z, unit) cact" where
  "dsp1_sys_clk_enable en = gate_bits en VDEC_SUBSYS_DSP1_CLK_EN REG_AON_DSP1_CLK_GATE"

definition npu_sys_clk_enable :: "bool \<Rightarrow> ('e, 'z, unit) cact" where
  "npu_sys_clk_enable en = gate_bits en NPU_CORE_CLK_EN APSYS_CLKGEN_NPU_CCLK_TEECFG"

text \<open>The register is read before an invalid core id is detected.\<close>

definition c910_core_clk_bit :: "u16 \<Rightarrow> u32 option" where
  "c910_core_clk_bit cpuid =
     (if cpuid = 0 then Some C910_CORE0_CLK_EN else if cpuid = 1 then Some C910_CORE1_CLK_EN
      else if cpuid = 2 then Some C910_CORE2_CLK_EN else if cpuid = 3 then Some C910_CORE3_CLK_EN else None)"

definition c910_sys_clk_enable :: "bool \<Rightarrow> u16 \<Rightarrow> ('e, 'z, unit) cact" where
  "c910_sys_clk_enable en cpuid =
     bind_res (CHIP_REG_GET REG_AP_C910_CORE_CLK_TEECFG) (\<lambda>data.
     case c910_core_clk_bit cpuid of
       None \<Rightarrow> ret ()
     | Some b \<Rightarrow> CHIP_REG_SET (if en then data OR b else data AND NOT b) REG_AP_C910_CORE_CLK_TEECFG)"

definition ip_clk_is_active :: "LIGHT_CLKGATE_NAME \<Rightarrow> ('e, 'z, bool) cact" where
  "ip_clk_is_active name =
     (case List.find (\<lambda>g. clk_name g = name) clk_gate of
        None \<Rightarrow> ret False
      | Some g \<Rightarrow> bind_res (CHIP_REG_GET (clken_addr g)) (\<lambda>data. ret (data AND en_bit g \<noteq> 0)))"

lemmas clk_defs = gate_bits_def audio_sys_clk_enable_def vdec_sys_clk_enable_def venc_sys_clk_enable_def
  gpu_sys_clk_enable_def dsp0_sys_clk_enable_def dsp1_sys_clk_enable_def npu_sys_clk_enable_def

end
