(* ===== verification/Chip_Power.thy ===== *)
theory Chip_Power
  imports Chip_Reset Chip_Clk
begin

text \<open>
  Power domains and processor cores (\<^verbatim>\<open>csi/chips/thead/light_aon/power.c\<close>), as built without
  \<^verbatim>\<open>CONFIG_HW_PD_MODE\<close>. A domain is powered down by reset, clock gate, isolation and power switch, in this order, and
  powered up in the reverse one.
\<close>

subsection \<open>Enumerations\<close>

datatype POWER_STATE = POWER_ON | POWER_DOWN

datatype LIGHT_SUBSYS_NAME =
    SUBSYS_AUDIO | SUBSYS_VDEC | SUBSYS_NPU | SUBSYS_VENC | SUBSYS_GPU | SUBSYS_DSP0 | SUBSYS_DSP1
  | SUBSYS_C910_CORE0 | SUBSYS_C910_CORE1 | SUBSYS_C910_CORE2 | SUBSYS_C910_CORE3

text \<open>The value of the enumerator.\<close>

fun subsys_num :: "LIGHT_SUBSYS_NAME \<Rightarrow> nat" where
  "subsys_num SUBSYS_AUDIO = 0"
| "subsys_num SUBSYS_VDEC = 1"
| "subsys_num SUBSYS_NPU = 2"
| "subsys_num SUBSYS_VENC = 3"
| "subsys_num SUBSYS_GPU = 4"
| "subsys_num SUBSYS_DSP0 = 5"
| "subsys_num SUBSYS_DSP1 = 6"
| "subsys_num SUBSYS_C910_CORE0 = 7"
| "subsys_num SUBSYS_C910_CORE1 = 8"
| "subsys_num SUBSYS_C910_CORE2 = 9"
| "subsys_num SUBSYS_C910_CORE3 = 10"

definition SYS_PD_SW_EN_OFF :: "LIGHT_SUBSYS_NAME \<Rightarrow> nat" where
  "SYS_PD_SW_EN_OFF md = subsys_num md * 2"

definition SYS_PD_ISO_EN_SET_OFF :: "LIGHT_SUBSYS_NAME \<Rightarrow> u32" where
  "SYS_PD_ISO_EN_SET_OFF md = push_bit (subsys_num md) 1"

definition SYS_PD_ISO_EN_CLR_OFF :: "LIGHT_SUBSYS_NAME \<Rightarrow> u32" where
  "SYS_PD_ISO_EN_CLR_OFF md = push_bit (subsys_num md) 1"

abbreviation pd_sw_bits :: "LIGHT_SUBSYS_NAME \<Rightarrow> u32" where
  "pd_sw_bits subsys \<equiv> push_bit (SYS_PD_SW_EN_OFF subsys) SYS_PD_SW_EN_MSK"

subsection \<open>Access protection\<close>

definition light_iopmp_lists :: "u32 list" where
  "light_iopmp_lists =
     [0xFCC600C0, 0xFCC610C0, 0xFF01C0C0, 0xFF5220C0, 0xFF0580C0, 0xFF0590C0, 0xFFC220C0, 0xCB02E0C0, 0xCB02F0C0]"

definition light_iopmp_config :: "nat \<Rightarrow> ('e, 'z, unit) cact" where
  "light_iopmp_config iopmp_id =
     bind_res (arr_get light_iopmp_lists iopmp_id) (\<lambda>reg. CHIP_REG_SET LIGHT_IOPMP_DEFAULT_ATTR reg)"

definition light_iopmp_get :: "nat \<Rightarrow> ('e, 'z, u32) cact" where
  "light_iopmp_get iopmp_id = bind_res (arr_get light_iopmp_lists iopmp_id) CHIP_REG_GET"

subsection \<open>Isolation and power switches\<close>

text \<open>The register is read back after the write; a shift by 32 or more places is undefined.\<close>

definition cpu_is_inactive :: "u16 \<Rightarrow> ('e, 'z, bool) cact" where
  "cpu_is_inactive cpu =
     bind_res (CHIP_REG_GET REG_AON_CPU_LP_MODE) (\<lambda>data.
     if 2 * unat cpu \<ge> 32 then undef else ret (drop_bit (2 * unat cpu) data AND CPU_LP_MODE_MSK = 0))"

definition subsys_pd_cnt_enable :: "LIGHT_SUBSYS_NAME \<Rightarrow> bool \<Rightarrow> ('e, 'z, unit) cact" where
  "subsys_pd_cnt_enable subsys ena = gate_bits ena (pd_sw_bits subsys) REG_AON_PD_SW_CNT_EN"

definition subsys_powerdown_iso_en_set :: "LIGHT_SUBSYS_NAME \<Rightarrow> ('e, 'z, unit) cact" where
  "subsys_powerdown_iso_en_set subsys =
     bind_res (set_bits (SYS_PD_ISO_EN_SET_OFF subsys) REG_AON_PD_ISO_EN_SET) (\<lambda>_.
     bind_res (CHIP_REG_GET REG_AON_PD_ISO_EN_SET) (\<lambda>_. ret ()))"

definition subsys_powerdown_iso_en_clr :: "LIGHT_SUBSYS_NAME \<Rightarrow> ('e, 'z, unit) cact" where
  "subsys_powerdown_iso_en_clr subsys =
     bind_res (set_bits (SYS_PD_ISO_EN_CLR_OFF subsys) REG_AON_PD_ISO_EN_CLR) (\<lambda>_.
     bind_res (CHIP_REG_GET REG_AON_PD_ISO_EN_CLR) (\<lambda>_. ret ()))"

definition subsys_powerdown_sw_en_set :: "LIGHT_SUBSYS_NAME \<Rightarrow> ('e, 'z, unit) cact" where
  "subsys_powerdown_sw_en_set subsys = set_bits (pd_sw_bits subsys) REG_AON_PD_SW_EN_SET"

definition subsys_powerdown_sw_en_clr :: "LIGHT_SUBSYS_NAME \<Rightarrow> ('e, 'z, unit) cact" where
  "subsys_powerdown_sw_en_clr subsys = set_bits (pd_sw_bits subsys) REG_AON_PD_SW_EN_CLR"

text \<open>\<^verbatim>\<open>while (try_cnt--)\<close>; the counter is -1 behind the loop, which is an error.\<close>

fun pd_verify_loop :: "nat \<Rightarrow> LIGHT_SUBSYS_NAME \<Rightarrow> u32 \<Rightarrow> ('e, 'z, unit) cact" where
  "pd_verify_loop 0 subsys done_state = fail CSI_ERROR"
| "pd_verify_loop (Suc try_cnt) subsys done_state =
     bind_res (CHIP_REG_GET REG_AON_PD_SW_ACK) (\<lambda>data.
     if drop_bit (SYS_PD_SW_EN_OFF subsys) data AND PD_SW_ACK_MSK = done_state then ret ()
     else pd_verify_loop try_cnt subsys done_state)"

definition subsys_pd_verify :: "LIGHT_SUBSYS_NAME \<Rightarrow> POWER_STATE \<Rightarrow> ('e, 'z, unit) cact" where
  "subsys_pd_verify subsys state =
     pd_verify_loop MAX_TRY_TIME_IDLE subsys (case state of POWER_ON \<Rightarrow> POWER_ON_DONE | POWER_DOWN \<Rightarrow> POWER_DOWN_DONE)"

subsection \<open>Is a block powered and clocked?\<close>

definition pd_list :: "(u8 list \<times> LIGHT_SUBSYS_NAME) list" where
  "pd_list =
     [(str_bytes ''VDEC'', SUBSYS_VDEC), (str_bytes ''VENC'', SUBSYS_VENC), (str_bytes ''NPU'', SUBSYS_NPU),
      (str_bytes ''GPU'', SUBSYS_GPU), (str_bytes ''DSP0'', SUBSYS_DSP0), (str_bytes ''DSP1'', SUBSYS_DSP1)]"

definition clk_list :: "(u8 list \<times> LIGHT_CLKGATE_NAME) list" where
  "clk_list =
     [(str_bytes ''SDIO0'', MISCSYS_SDIO0), (str_bytes ''SDIO1'', MISCSYS_SDIO1), (str_bytes ''I2C0'', APSYS_I2C0),
      (str_bytes ''I2C1'', APSYS_I2C1), (str_bytes ''I2C2'', APSYS_I2C2), (str_bytes ''I2C3'', APSYS_I2C3),
      (str_bytes ''I2C4'', APSYS_I2C4), (str_bytes ''PWM'', APSYS_PWM), (str_bytes ''G2D'', VPSYS_G2D),
      (str_bytes ''FCE'', VPSYS_FCE), (str_bytes ''ISP0'', VISYS_ISP0), (str_bytes ''ISP1'', VISYS_ISP1),
      (str_bytes ''ISP_RY'', VISYS_ISP_RY)]"

definition ip_pd_is_active :: "LIGHT_SUBSYS_NAME \<Rightarrow> ('e, 'z, bool) cact" where
  "ip_pd_is_active pd_name =
     bind_res (CHIP_REG_GET REG_AON_PD_SW_ACK) (\<lambda>d.
     ret ((drop_bit (SYS_PD_SW_EN_OFF pd_name) d AND PD_SW_ACK_MSK) AND POWER_ON_DONE \<noteq> 0))"

definition ip_is_active :: "u8 list \<Rightarrow> ('e, 'z, bool) cact" where
  "ip_is_active name =
     (case List.find (\<lambda>(n, _). cstr name = n) clk_list of
        Some (_, c) \<Rightarrow> ip_clk_is_active c
      | None \<Rightarrow>
          (case List.find (\<lambda>(n, _). cstr name = n) pd_list of
             Some (_, p) \<Rightarrow> ip_pd_is_active p
           | None \<Rightarrow> ret True))"

subsection \<open>Processor cores\<close>

definition c910_subsys :: "u16 \<Rightarrow> LIGHT_SUBSYS_NAME option" where
  "c910_subsys cpuid =
     (if cpuid = 0 then Some SUBSYS_C910_CORE0 else if cpuid = 1 then Some SUBSYS_C910_CORE1
      else if cpuid = 2 then Some SUBSYS_C910_CORE2 else if cpuid = 3 then Some SUBSYS_C910_CORE3 else None)"

definition c910_powerup :: "u16 \<Rightarrow> ('e, 'z, unit) cact" where
  "c910_powerup cpuid =
     (case c910_subsys cpuid of
        None \<Rightarrow> ret ()
      | Some subsys \<Rightarrow> seqs
          [c910_reset cpuid, subsys_powerdown_sw_en_clr subsys, ignore (subsys_pd_verify subsys POWER_ON),
           subsys_powerdown_iso_en_clr subsys, c910_sys_clk_enable True cpuid, c910_reset_release cpuid])"

text \<open>\<^verbatim>\<open>while(!cpu_is_inactive(cpuid));\<close>, before the core id is checked.\<close>

fun wait_inactive :: "nat \<Rightarrow> u16 \<Rightarrow> ('e, 'z, unit) cact" where
  "wait_inactive 0 cpuid = hang"
| "wait_inactive (Suc fuel) cpuid =
     bind_res (cpu_is_inactive cpuid) (\<lambda>b. if b then ret () else wait_inactive fuel cpuid)"

definition c910_powerdown :: "nat \<Rightarrow> u16 \<Rightarrow> ('e, 'z, unit) cact" where
  "c910_powerdown fuel cpuid =
     bind_res (wait_inactive fuel cpuid) (\<lambda>_.
     case c910_subsys cpuid of
       None \<Rightarrow> ret ()
     | Some subsys \<Rightarrow> seqs
         [c910_reset cpuid, c910_sys_clk_enable False cpuid, subsys_powerdown_iso_en_set subsys,
          subsys_powerdown_sw_en_set subsys, ignore (subsys_pd_verify subsys POWER_DOWN)])"

text \<open>The core id is an \<^verbatim>\<open>int\<close>, cut off to 16 bits by the calls.\<close>

definition chip_cpu_power_ctrl :: "nat \<Rightarrow> u32 \<Rightarrow> bool \<Rightarrow> ('e, 'z, unit) cact" where
  "chip_cpu_power_ctrl fuel cpu_id on = (if on then c910_powerup (ucast cpu_id) else c910_powerdown fuel (ucast cpu_id))"

subsection \<open>Subsystems\<close>

definition audio_powerdown :: "('e, 'z, unit) cact" where
  "audio_powerdown = seqs
     [audio_reset, audio_sys_clk_enable False, subsys_powerdown_iso_en_set SUBSYS_AUDIO,
      subsys_powerdown_sw_en_set SUBSYS_AUDIO, ignore (subsys_pd_verify SUBSYS_AUDIO POWER_DOWN)]"

definition audio_powerup :: "('e, 'z, unit) cact" where
  "audio_powerup = seqs
     [light_iopmp_config IOPMP_AUDIO, audio_reset_all, subsys_powerdown_sw_en_clr SUBSYS_AUDIO,
      ignore (subsys_pd_verify SUBSYS_AUDIO POWER_ON), subsys_powerdown_iso_en_clr SUBSYS_AUDIO, audio_sys_clk_enable True,
      audio_reset_release_0, light_iopmp_config IOPMP_AUDIO0, light_iopmp_config IOPMP_AUDIO1, audio_reset_release_1]"

definition vdec_powerdown :: "('e, 'z, unit) cact" where
  "vdec_powerdown = seqs
     [vdec_reset, vdec_sys_clk_enable False, subsys_powerdown_iso_en_set SUBSYS_VDEC,
      subsys_powerdown_sw_en_set SUBSYS_VDEC, ignore (subsys_pd_verify SUBSYS_VDEC POWER_DOWN)]"

definition vdec_powerup :: "('e, 'z, unit) cact" where
  "vdec_powerup = seqs
     [vdec_reset, subsys_powerdown_sw_en_clr SUBSYS_VDEC, ignore (subsys_pd_verify SUBSYS_VDEC POWER_ON),
      subsys_powerdown_iso_en_clr SUBSYS_VDEC, vdec_sys_clk_enable True, vdec_reset_release]"

definition npu_powerdown :: "('e, 'z, unit) cact" where
  "npu_powerdown = seqs
     [npu_reset, npu_sys_clk_enable False, subsys_powerdown_iso_en_set SUBSYS_NPU,
      subsys_powerdown_sw_en_set SUBSYS_NPU, ignore (subsys_pd_verify SUBSYS_NPU POWER_DOWN)]"

definition npu_powerup :: "('e, 'z, unit) cact" where
  "npu_powerup = seqs
     [npu_reset, subsys_powerdown_sw_en_clr SUBSYS_NPU, ignore (subsys_pd_verify SUBSYS_NPU POWER_ON),
      subsys_powerdown_iso_en_clr SUBSYS_NPU, npu_sys_clk_enable True, npu_reset_release]"

definition venc_powerdown :: "('e, 'z, unit) cact" where
  "venc_powerdown = seqs
     [venc_reset, venc_sys_clk_enable False, subsys_powerdown_iso_en_set SUBSYS_VENC,
      subsys_powerdown_sw_en_set SUBSYS_VENC, ignore (subsys_pd_verify SUBSYS_VENC POWER_DOWN)]"

definition venc_powerup :: "('e, 'z, unit) cact" where
  "venc_powerup = seqs
     [venc_reset, subsys_powerdown_sw_en_clr SUBSYS_VENC, ignore (subsys_pd_verify SUBSYS_VENC POWER_ON),
      subsys_powerdown_iso_en_clr SUBSYS_VENC, venc_sys_clk_enable True, venc_reset_release]"

definition gpu_powerdown :: "('e, 'z, unit) cact" where
  "gpu_powerdown = seqs
     [subsys_powerdown_iso_en_set SUBSYS_GPU, subsys_powerdown_sw_en_set SUBSYS_GPU,
      ignore (subsys_pd_verify SUBSYS_GPU POWER_DOWN)]"

definition gpu_powerup :: "('e, 'z, unit) cact" where
  "gpu_powerup = seqs
     [subsys_powerdown_sw_en_clr SUBSYS_GPU, ignore (subsys_pd_verify SUBSYS_GPU POWER_ON),
      subsys_powerdown_iso_en_clr SUBSYS_GPU]"

definition dsp0_powerdown :: "('e, 'z, unit) cact" where
  "dsp0_powerdown = seqs
     [dsp0_reset, dsp0_sys_clk_enable False, subsys_powerdown_iso_en_set SUBSYS_DSP0,
      subsys_powerdown_sw_en_set SUBSYS_DSP0, ignore (subsys_pd_verify SUBSYS_DSP0 POWER_DOWN)]"

definition dsp0_powerup :: "('e, 'z, unit) cact" where
  "dsp0_powerup = seqs
     [dsp0_reset, subsys_powerdown_sw_en_clr SUBSYS_DSP0, ignore (subsys_pd_verify SUBSYS_DSP0 POWER_ON),
      subsys_powerdown_iso_en_clr SUBSYS_DSP0, dsp0_sys_clk_enable True, dsp0_reset_release]"

definition dsp1_powerdown :: "('e, 'z, unit) cact" where
  "dsp1_powerdown = seqs
     [dsp1_reset, dsp1_sys_clk_enable False, subsys_powerdown_iso_en_set SUBSYS_DSP1,
      subsys_powerdown_sw_en_set SUBSYS_DSP1, ignore (subsys_pd_verify SUBSYS_DSP1 POWER_DOWN)]"

definition dsp1_powerup :: "('e, 'z, unit) cact" where
  "dsp1_powerup = seqs
     [dsp1_reset, subsys_powerdown_sw_en_clr SUBSYS_DSP1, ignore (subsys_pd_verify SUBSYS_DSP1 POWER_ON),
      subsys_powerdown_iso_en_clr SUBSYS_DSP1, dsp1_sys_clk_enable True, dsp1_reset_release]"

text \<open>The parameters are \<^verbatim>\<open>int\<close>, given by their 32 bits. The result is the return value, 0 or -1.\<close>

definition chip_power_pd_ctrl :: "u32 \<Rightarrow> u32 \<Rightarrow> ('e, 'z, int) cact" where
  "chip_power_pd_ctrl pd mode =
     (let off = (mode = LIGHT_AON_PM_PW_MODE_OFF) in
      if mode \<noteq> LIGHT_AON_PM_PW_MODE_OFF \<and> mode \<noteq> LIGHT_AON_PM_PW_MODE_ON then ret (-1)
      else if pd = LIGHT_AON_AUDIO_PD then bind_res (if off then audio_powerdown else audio_powerup) (\<lambda>_. ret 0)
      else if pd = LIGHT_AON_VDEC_PD then
        bind_res (if off then vdec_powerdown else seqs [vdec_powerup, light_iopmp_config IOPMP_VDEC]) (\<lambda>_. ret 0)
      else if pd = LIGHT_AON_NPU_PD then
        bind_res (if off then npu_powerdown else seqs [npu_powerup, light_iopmp_config IOPMP_NPU]) (\<lambda>_. ret 0)
      else if pd = LIGHT_AON_VENC_PD then
        bind_res (if off then venc_powerdown else seqs [venc_powerup, light_iopmp_config IOPMP_VENC]) (\<lambda>_. ret 0)
      else if pd = LIGHT_AON_GPU_PD then
        bind_res (if off then gpu_powerdown else seqs [gpu_powerup, light_iopmp_config IOPMP_GPU]) (\<lambda>_. ret 0)
      else if pd = LIGHT_AON_DSP0_PD then
        bind_res (if off then dsp0_powerdown else seqs [dsp0_powerup, light_iopmp_config IOPMP_DSP0]) (\<lambda>_. ret 0)
      else if pd = LIGHT_AON_DSP1_PD then
        bind_res (if off then dsp1_powerdown else seqs [dsp1_powerup, light_iopmp_config IOPMP_DSP1]) (\<lambda>_. ret 0)
      else ret (-1))"

definition chip_set_wakeup_flag :: "u32 \<Rightarrow> ('e, 'z, unit) cact" where
  "chip_set_wakeup_flag flag = upd_st (\<lambda>s. s\<lparr>g_chip_wakeup_flag := flag\<rparr>)"

end
