(* ===== verification/Aon_State.thy ===== *)
theory Aon_State
  imports Pmic_Power Pmic_Sample Rpc_Msg Rpc_Queue Regmap Chip_Power
begin

text \<open>
  The state of the always-on firmware (\<^verbatim>\<open>solutions/fm_aon_low_power/src\<close>): it extends the state of the chip layer
  by the PMIC handle, the RPC queue and service table, the watchdog monitor, the reserved memory and the register
  dump. Bytes of RAM the firmware writes through pointers are the map \<open>ram\<close>.
\<close>

subsection \<open>Error codes of the services\<close>

definition AON_ERR_NONE :: u8 where "AON_ERR_NONE = 0"
definition AON_ERR_VERSION :: u8 where "AON_ERR_VERSION = 1"
definition AON_ERR_PARM :: u8 where "AON_ERR_PARM = 3"
definition AON_ERR_NOTFOUND :: u8 where "AON_ERR_NOTFOUND = 7"
definition AON_ERR_IPC :: u8 where "AON_ERR_IPC = 9"
definition AON_ERR_FAIL :: u8 where "AON_ERR_FAIL = 11"

named_theorems aon_err_defs "the error codes"

declare AON_ERR_NONE_def [aon_err_defs] AON_ERR_VERSION_def [aon_err_defs] AON_ERR_PARM_def [aon_err_defs]
  AON_ERR_NOTFOUND_def [aon_err_defs] AON_ERR_IPC_def [aon_err_defs] AON_ERR_FAIL_def [aon_err_defs]

definition AON_RPC_SVC_UNKNOWN :: u8 where "AON_RPC_SVC_UNKNOWN = 0"
definition AON_RPC_SVC_PM :: u8 where "AON_RPC_SVC_PM = 1"
definition AON_RPC_SVC_MISC :: u8 where "AON_RPC_SVC_MISC = 2"
definition AON_RPC_SVC_SYS :: u8 where "AON_RPC_SVC_SYS = 4"
definition AON_RPC_SVC_WDG :: u8 where "AON_RPC_SVC_WDG = 5"
definition AON_RPC_SVC_LPM :: u8 where "AON_RPC_SVC_LPM = 6"

named_theorems aon_svc_defs "the service ids"

declare AON_RPC_SVC_UNKNOWN_def [aon_svc_defs] AON_RPC_SVC_PM_def [aon_svc_defs] AON_RPC_SVC_MISC_def [aon_svc_defs]
  AON_RPC_SVC_SYS_def [aon_svc_defs] AON_RPC_SVC_WDG_def [aon_svc_defs] AON_RPC_SVC_LPM_def [aon_svc_defs]

subsection \<open>Data of the modules\<close>

datatype aont_fsm_t = AON_WDT_MONITOR_IDLE | AON_WDT_MONITOR_RUN | AON_WDT_MONITOR_REPOWER

datatype aon_hw_wdt_en = AON_HW_WDT_USE_PMIC | AON_HW_WDT_USE_HW_WDT | AON_HW_WDT_SOFT_RST | AON_HW_WDT_CRASH_DUMP

text \<open>
  \<open>hw_wdt_type\<close> and \<open>pmic_handle\<close> are the fields of the embedded \<^verbatim>\<open>hw_wdt\<close>; the handle points to the only
  PMIC object \<^verbatim>\<open>g_pmic\<close> or is NULL (\<open>False\<close>). \<^verbatim>\<open>wdt_tmr_out_idx\<close> is never used.
\<close>

record aon_wdt_t =
  is_init :: bool
  hw_wdt_en :: bool
  monitor_state :: aont_fsm_t
  monitor_tmr_len :: u8
  hw_wdt_type :: aon_hw_wdt_en
  pmic_handle :: bool

record mapinfo_t =
  dump_start :: u32
  dump_end :: u32
  info_start :: u32
  info_end :: u32
  dump_flag :: bool

text \<open>The fields of \<^verbatim>\<open>reginfo_t\<close>, each a byte array followed by its value.\<close>

record reginfo_t =
  match_name :: "u8 list"
  rd_name :: "u8 list"
  match_base :: "u8 list"
  rd_base :: u32
  match_size :: "u8 list"
  rd_size :: u32
  match_en :: "u8 list"
  rd_en :: bool

text \<open>The functions registered as RPC services.\<close>

datatype rpc_svc_process = PMIC_DISPATCH | WDG_DISPATCH | MISC_DISPATCH | SYS_DISPATCH | LPM_DISPATCH

record rpc_process_t =
  p_svc :: u8
  p_func :: "rpc_svc_process option"

definition CONFIG_RPC_MAX_MSG_PROCESS :: nat where "CONFIG_RPC_MAX_MSG_PROCESS = 10"

subsection \<open>The state\<close>

record ('w, 'e) aon_t = "'e chip_t" +
  g_pmic :: "'w csi_pmic_t"
  ram :: "u32 \<Rightarrow> u8"
  rx_data :: "u8 list"
  g_rpc_quque :: "aon_rpc_msg_t rpc_queue"
  rpc_init_flag :: bool
  g_rpc_process :: "rpc_process_t list"
  g_aon_wdt :: aon_wdt_t
  last_wdt_stat :: u32
  monitor_index :: u32
  aon_sram_reservemem_addr :: u32
  aon_sram_reservemem_init :: bool
  g_reginfo :: reginfo_t
  g_map :: mapinfo_t
  g_soc_reg :: "csi_perip_reg_t list"

type_synonym ('w, 'e, 'a) aact = "(('w, 'e) aon_t, 'a) act"

text \<open>Calls into the PMIC subsystem on \<^verbatim>\<open>g_pmic\<close>, and updates of the watchdog monitor.\<close>

definition on_pmic :: "('w, 'a) pact \<Rightarrow> ('w, 'e, 'a) aact" where
  "on_pmic m s = (let (r, p) = m (g_pmic s) in (r, s\<lparr>g_pmic := p\<rparr>))"

definition upd_wdt :: "(aon_wdt_t \<Rightarrow> aon_wdt_t) \<Rightarrow> ('w, 'e, unit) aact" where
  "upd_wdt f = upd_st (\<lambda>s. s\<lparr>g_aon_wdt := f (g_aon_wdt s)\<rparr>)"

declare on_pmic_def [act_defs] upd_wdt_def [act_defs]

text \<open>\<open>1\<close> where the call failed, for \<^verbatim>\<open>ret = f(...); if (ret) result = AON_ERR_FAIL;\<close>.\<close>

definition result_of :: "('s, 'a) act \<Rightarrow> ('s, u8) act" where
  "result_of m = catch_err m (\<lambda>r. ret (case r of Inl _ \<Rightarrow> AON_ERR_FAIL | Inr _ \<Rightarrow> AON_ERR_NONE))"

subsection \<open>Memory\<close>

fun ram_write :: "u32 \<Rightarrow> u8 list \<Rightarrow> (u32 \<Rightarrow> u8) \<Rightarrow> u32 \<Rightarrow> u8" where
  "ram_write a [] m = m"
| "ram_write a (b # bs) m = ram_write (a + 1) bs (m(a := b))"

definition ram_bytes :: "(u32 \<Rightarrow> u8) \<Rightarrow> u32 \<Rightarrow> nat \<Rightarrow> u8 list" where
  "ram_bytes m a n = map (\<lambda>i. m (a + of_nat i)) [0..<n]"

definition le32 :: "u8 list \<Rightarrow> u32" where
  "le32 bs = foldr (\<lambda>b v. push_bit 8 v OR ucast b) bs 0"

text \<open>The bytes of a word in memory order.\<close>

definition le_bytes :: "u32 \<Rightarrow> u8 list" where
  "le_bytes v = [ucast v, ucast (drop_bit 8 v), ucast (drop_bit 16 v), ucast (drop_bit 24 v)]"

definition put_ram :: "u32 \<Rightarrow> u8 list \<Rightarrow> ('w, 'e, unit) aact" where
  "put_ram a bs = upd_st (\<lambda>s. s\<lparr>ram := ram_write a bs (ram s)\<rparr>)"

subsection \<open>The service table\<close>

text \<open>
  The loop of \<^verbatim>\<open>aon_rpc_svc_cb_register\<close>: an entry of the same service is replaced; otherwise the first
  free entry, remembered in \<open>valid_index\<close>, is taken.
\<close>

fun register_loop :: "u8 \<Rightarrow> rpc_process_t list \<Rightarrow> nat \<Rightarrow> nat option \<Rightarrow> (nat \<times> bool) option" where
  "register_loop sid [] i valid_index = map_option (\<lambda>k. (k, False)) valid_index"
| "register_loop sid (p # ps) i valid_index =
     (if p_svc p = sid then Some (i, True)
      else register_loop sid ps (i + 1) (if valid_index = None \<and> p_func p = None then Some i else valid_index))"

definition aon_rpc_svc_cb_register :: "u8 \<Rightarrow> rpc_svc_process \<Rightarrow> ('w, 'e, unit) aact" where
  "aon_rpc_svc_cb_register sid f =
     bind_res (get_st rpc_init_flag) (\<lambda>ini.
     if \<not> ini then fail CSI_ERROR
     else
       bind_res (get_st g_rpc_process) (\<lambda>ps.
       case register_loop sid ps 0 None of
         None \<Rightarrow> fail CSI_ERROR
       | Some (i, True) \<Rightarrow> upd_st (\<lambda>s. s\<lparr>g_rpc_process := ps[i := (ps ! i)\<lparr>p_func := Some f\<rparr>]\<rparr>)
       | Some (i, False) \<Rightarrow> upd_st (\<lambda>s. s\<lparr>g_rpc_process := ps[i := \<lparr>p_svc = sid, p_func = Some f\<rparr>]\<rparr>)))"

text \<open>The search of \<^verbatim>\<open>aon_rpc_msg_process\<close>.\<close>

definition find_service :: "rpc_process_t list \<Rightarrow> u8 \<Rightarrow> rpc_svc_process option" where
  "find_service ps sid =
     (case List.find (\<lambda>p. p_svc p = sid \<and> p_func p \<noteq> None) ps of None \<Rightarrow> None | Some p \<Rightarrow> p_func p)"

text \<open>
  No two entries of the table serve the same service, and an unused entry has service id 0.
\<close>

definition table_ok :: "rpc_process_t list \<Rightarrow> bool" where
  "table_ok ps \<longleftrightarrow> length ps = CONFIG_RPC_MAX_MSG_PROCESS
     \<and> (\<forall>i < length ps. \<forall>j < length ps. i \<noteq> j \<longrightarrow> p_func (ps ! i) \<noteq> None \<longrightarrow> p_svc (ps ! i) \<noteq> p_svc (ps ! j))
     \<and> (\<forall>p \<in> set ps. p_func p = None \<longrightarrow> p_svc p = 0) \<and> (\<forall>p \<in> set ps. p_func p \<noteq> None \<longrightarrow> p_svc p \<noteq> 0)"

lemma register_loop_hit:
  "register_loop sid ps i v = Some (k, True) \<Longrightarrow> \<exists>j < length ps. k = i + j \<and> p_svc (ps ! j) = sid"
proof (induction ps arbitrary: i v)
  case (Cons p ps)
  show ?case
  proof (cases "p_svc p = sid")
    case False
    with Cons obtain j where "j < length ps" "k = i + 1 + j" "p_svc (ps ! j) = sid" by fastforce
    then show ?thesis by (intro exI [of _ "Suc j"]) simp
  qed (use Cons.prems in auto)
qed auto

lemma register_loop_free:
  "register_loop sid ps i v = Some (k, False) \<Longrightarrow>
     (\<forall>p \<in> set ps. p_svc p \<noteq> sid) \<and> (v = Some k \<or> (\<exists>j < length ps. k = i + j \<and> p_func (ps ! j) = None))"
proof (induction ps arbitrary: i v)
  case (Cons p ps)
  then have ne: "p_svc p \<noteq> sid" and
    r: "register_loop sid ps (i + 1) (if v = None \<and> p_func p = None then Some i else v) = Some (k, False)"
    by (auto split: if_splits)
  from Cons.IH [OF r] consider "(if v = None \<and> p_func p = None then Some i else v) = Some k"
    | j where "j < length ps" "k = i + 1 + j" "p_func (ps ! j) = None" by blast
  then have "v = Some k \<or> (\<exists>j < length (p # ps). k = i + j \<and> p_func ((p # ps) ! j) = None)"
  proof cases
    case 1
    then show ?thesis by (auto split: if_splits intro: exI [of _ 0])
  next
    case (2 j)
    then show ?thesis by (intro disjI2 exI [of _ "Suc j"]) simp
  qed
  with ne Cons.IH [OF r] show ?case by auto
qed auto

lemma register_loop_none:
  "register_loop sid ps i v = None \<Longrightarrow> v = None \<and> (\<forall>p \<in> set ps. p_svc p \<noteq> sid \<and> p_func p \<noteq> None)"
proof (induction ps arbitrary: i v)
  case (Cons p ps)
  then have ne: "p_svc p \<noteq> sid" and r: "register_loop sid ps (i + 1) (if v = None \<and> p_func p = None then Some i else v) = None"
    by (auto split: if_splits)
  from Cons.IH [OF r] ne show ?case by (auto split: if_splits)
qed simp

lemma table_unique:
  "table_ok ps \<Longrightarrow> i < length ps \<Longrightarrow> j < length ps \<Longrightarrow> p_func (ps ! i) \<noteq> None \<Longrightarrow> p_svc (ps ! i) = p_svc (ps ! j) \<Longrightarrow> i = j"
  unfolding table_ok_def by blast

lemma find_service_iff:
  assumes "table_ok ps"
  shows "find_service ps sid = Some f \<longleftrightarrow> (\<exists>i < length ps. p_svc (ps ! i) = sid \<and> p_func (ps ! i) = Some f)"
proof
  assume "find_service ps sid = Some f"
  then show "\<exists>i < length ps. p_svc (ps ! i) = sid \<and> p_func (ps ! i) = Some f"
    by (auto simp: find_service_def find_Some_iff split: option.splits)
next
  assume "\<exists>i < length ps. p_svc (ps ! i) = sid \<and> p_func (ps ! i) = Some f"
  then obtain i where i: "i < length ps" "p_svc (ps ! i) = sid" "p_func (ps ! i) = Some f" by blast
  then obtain p where p: "List.find (\<lambda>p. p_svc p = sid \<and> p_func p \<noteq> None) ps = Some p"
    by (cases "List.find (\<lambda>p. p_svc p = sid \<and> p_func p \<noteq> None) ps") (force simp: find_None_iff in_set_conv_nth)+
  then obtain j where j: "j < length ps" "p = ps ! j" "p_svc p = sid" "p_func p \<noteq> None" by (auto simp: find_Some_iff)
  with i have "i = j" by (intro table_unique [OF assms]) auto
  with p i j show "find_service ps sid = Some f" by (simp add: find_service_def)
qed

text \<open>
  Registration as an update of a map from services to functions: the table with entry \<open>i\<close>, which served
  \<open>sid\<close> or nothing, replaced.
\<close>

lemma table_update:
  assumes "table_ok ps" and "sid \<noteq> 0" and "i < length ps" and "p_svc q = sid" and "p_func q = Some f"
    and "p_svc (ps ! i) = sid \<or> p_func (ps ! i) = None \<and> (\<forall>p \<in> set ps. p_svc p \<noteq> sid)"
  shows "table_ok (ps[i := q])" and "find_service (ps[i := q]) = (find_service ps)(sid \<mapsto> f)"
proof -
  have other: "p_svc (ps ! j) \<noteq> sid" if "j < length ps" "j \<noteq> i" for j
  proof (cases "p_svc (ps ! i) = sid")
    case True
    then have "p_func (ps ! i) \<noteq> None" using assms(1-3) by (force simp: table_ok_def)
    then show ?thesis using True table_unique [OF assms(1,3) that(1)] that(2) by auto
  next
    case False
    then show ?thesis using assms(6) that by simp
  qed
  have sets: "\<forall>p \<in> set (ps[i := q]). p_func p = None \<longrightarrow> p_svc p = 0" "\<forall>p \<in> set (ps[i := q]). p_func p \<noteq> None \<longrightarrow> p_svc p \<noteq> 0"
    using assms by (rule_tac ball_set_update; simp add: table_ok_def)+
  have "p_svc (ps[i := q] ! a) \<noteq> p_svc (ps[i := q] ! b)"
    if "a < length ps" "b < length ps" "a \<noteq> b" "p_func (ps[i := q] ! a) \<noteq> None" for a b
    using that other [of a] other [of b] assms(3,4) table_unique [OF assms(1) that(1,2)]
    by (cases "a = i"; cases "b = i") auto
  then show ok: "table_ok (ps[i := q])"
    using assms(1) sets unfolding table_ok_def length_list_update by blast
  show "find_service (ps[i := q]) = (find_service ps)(sid \<mapsto> f)"
  proof
    fix x
    have "find_service (ps[i := q]) x = Some g \<longleftrightarrow> ((find_service ps)(sid \<mapsto> f)) x = Some g" for g
    proof (cases "x = sid")
      case True
      then show ?thesis
        using assms(3-5) other by (auto simp: find_service_iff [OF ok] nth_list_update intro: exI [of _ i])
    next
      case False
      have "\<not> (p_svc (ps ! i) = x \<and> p_func (ps ! i) = Some g)" using assms(6) False by auto
      then have "(p_svc (ps[i := q] ! j) = x \<and> p_func (ps[i := q] ! j) = Some g) \<longleftrightarrow> (p_svc (ps ! j) = x \<and> p_func (ps ! j) = Some g)"
        if "j < length ps" for j
        using that assms(3,4) False by (cases "j = i") auto
      then show ?thesis
        using False by (simp add: find_service_iff [OF ok] find_service_iff [OF assms(1)]) blast
    qed
    then show "find_service (ps[i := q]) x = ((find_service ps)(sid \<mapsto> f)) x" by (metis option.exhaust)
  qed
qed

lemma register_ok:
  assumes "table_ok (g_rpc_process s)" and "sid \<noteq> 0" and "aon_rpc_svc_cb_register sid f s = (Ok u, t)"
  shows "rpc_init_flag s \<and> (\<exists>ps. t = s\<lparr>g_rpc_process := ps\<rparr> \<and> table_ok ps \<and> find_service ps = (find_service (g_rpc_process s))(sid \<mapsto> f))"
proof -
  let ?ps = "g_rpc_process s"
  from assms(3) have ini: "rpc_init_flag s" by (auto simp: aon_rpc_svc_cb_register_def act_defs split: if_splits)
  with assms(3) obtain i b where r: "register_loop sid ?ps 0 None = Some (i, b)"
    by (auto simp: aon_rpc_svc_cb_register_def act_defs split: option.splits)
  let ?q = "if b then (?ps ! i)\<lparr>p_func := Some f\<rparr> else \<lparr>p_svc = sid, p_func = Some f\<rparr>"
  have i: "i < length ?ps" "p_svc ?q = sid" "p_func ?q = Some f"
    "p_svc (?ps ! i) = sid \<or> p_func (?ps ! i) = None \<and> (\<forall>p \<in> set ?ps. p_svc p \<noteq> sid)"
    using register_loop_hit [of sid ?ps 0 None i] register_loop_free [of sid ?ps 0 None i] r by (cases b; force)+
  have "t = s\<lparr>g_rpc_process := ?ps[i := ?q]\<rparr>"
    using assms(3) ini r by (cases b) (simp_all add: aon_rpc_svc_cb_register_def act_defs)
  with ini table_update [OF assms(1,2) i] show ?thesis by blast
qed

text \<open>
  C18: registering a service makes the service table answer for it with the given function and
  leaves the answers for all other services unchanged. It fails, without any change, only before the RPC
  initialisation or when all ten entries serve other services.
\<close>

theorem service_registration:
  assumes "table_ok (g_rpc_process s)" and "sid \<noteq> 0"
  shows "case aon_rpc_svc_cb_register sid f s of
      (Ok u, t) \<Rightarrow> rpc_init_flag s \<and> table_ok (g_rpc_process t) \<and> find_service (g_rpc_process t) = (find_service (g_rpc_process s))(sid \<mapsto> f)
    | (Err e, t) \<Rightarrow> t = s \<and> (rpc_init_flag s \<longrightarrow> (\<forall>p \<in> set (g_rpc_process s). p_func p \<noteq> None \<and> p_svc p \<noteq> sid))
    | _ \<Rightarrow> False"
proof (cases "rpc_init_flag s \<and> register_loop sid (g_rpc_process s) 0 None \<noteq> None")
  case False
  then show ?thesis
    using register_loop_none [of sid "g_rpc_process s" 0 None]
    by (cases "rpc_init_flag s"; cases "register_loop sid (g_rpc_process s) 0 None")
      (auto simp: aon_rpc_svc_cb_register_def act_defs)
next
  case True
  then obtain i b where "register_loop sid (g_rpc_process s) 0 None = Some (i, b)" by auto
  with True obtain t where t: "aon_rpc_svc_cb_register sid f s = (Ok (), t)"
    by (cases b) (simp_all add: aon_rpc_svc_cb_register_def act_defs)
  show ?thesis using register_ok [OF assms t] t by auto
qed

subsection \<open>A concrete state\<close>

text \<open>
  A firmware state over the hardware of \<open>sample_soc\<close>, used to evaluate
  the services on concrete inputs. It stands for no code of the repository.
\<close>

definition sample_aon :: "(sample_hw, u32 \<Rightarrow> u32) aon_t" where
  "sample_aon =
     \<lparr>soc = sample_soc, env = (\<lambda>_. 0), trace = [], g_chip_wakeup_flag = 0, enabled_irq_num = replicate 32 0, g_system_clock = 0,
      g_share_srame_clock = 0, g_sram_clk_div0_num = 0, g_sram_clk_div1_num = 0, g_aoi2c_ic_clk = 0, g_aonsys_clk_src_pll_div = 0,
      g_pmic = sample_pmic [sample_dev (Some DA9063) 0x5A 0x5B] [] (\<lambda>_. False), ram = (\<lambda>_. 0), rx_data = replicate AON_RPC_MAX_LEN 0,
      g_rpc_quque = \<lparr>items = replicate QUEUE_SIZE zero_msg, front = 0, rear = 0\<rparr>, rpc_init_flag = True,
      g_rpc_process = replicate CONFIG_RPC_MAX_MSG_PROCESS \<lparr>p_svc = 0, p_func = None\<rparr>,
      g_aon_wdt = \<lparr>is_init = False, hw_wdt_en = False, monitor_state = AON_WDT_MONITOR_IDLE, monitor_tmr_len = 0,
        hw_wdt_type = AON_HW_WDT_USE_PMIC, pmic_handle = False\<rparr>,
      last_wdt_stat = 0, monitor_index = 0, aon_sram_reservemem_addr = 0, aon_sram_reservemem_init = False,
      g_reginfo = \<lparr>match_name = replicate 8 0, rd_name = replicate 20 0, match_base = replicate 4 0, rd_base = 0,
        match_size = replicate 4 0, rd_size = 0, match_en = replicate 7 0, rd_en = False\<rparr>,
      g_map = \<lparr>dump_start = 0, dump_end = 0, info_start = 0, info_end = 0, dump_flag = False\<rparr>,
      g_soc_reg = g_soc_reg_init\<rparr>"

lemma sample_table_ok: "table_ok (g_rpc_process sample_aon)"
  by (simp add: table_ok_def sample_aon_def)

theorem service_registration_witness:
  "case aon_rpc_svc_cb_register AON_RPC_SVC_WDG WDG_DISPATCH sample_aon of
      (Ok u, t) \<Rightarrow> find_service (g_rpc_process t) AON_RPC_SVC_WDG = Some WDG_DISPATCH | _ \<Rightarrow> False"
  using service_registration [OF sample_table_ok, of AON_RPC_SVC_WDG WDG_DISPATCH]
  by (auto simp: aon_svc_defs sample_aon_def CONFIG_RPC_MAX_MSG_PROCESS_def split: prod.splits res.splits)

end
