(* ===== verification/Aon_Misc.thy ===== *)
theory Aon_Misc
  imports Aon_State
begin

text \<open>
  The register dump and the misc service (\<^verbatim>\<open>aon_misc/aon_misc.c\<close>). A crash dump walks a list of
  descriptors the host left in memory and writes, for each peripheral, its registers as hexadecimal text.
\<close>

subsection \<open>Constants\<close>

definition RegDumpLen :: nat where "RegDumpLen = 8"
definition NameDumpLen :: nat where "NameDumpLen = 20"
definition RegWidth :: u32 where "RegWidth = 4"
definition BaseDumpLen :: nat where "BaseDumpLen = 4"
definition SizeDumpLen :: nat where "SizeDumpLen = 4"
definition EnDumpLen :: nat where "EnDumpLen = 7"
definition MaxDumpLen :: nat where "MaxDumpLen = 64"

text \<open>\<^verbatim>\<open>sizeof(reginfo_t)\<close>: 8 + 20, 4 + 4, 4 + 4 and 7 + 1 bytes.\<close>

definition reginfo_size :: nat where "reginfo_size = 52"

subsection \<open>Hexadecimal text\<close>

definition hex_digits :: "u8 list" where
  "hex_digits = str_bytes ''0123456789abcdef''"

text \<open>The first loop stores the digits from the lowest on, the second one reverses the buffer in place.\<close>

fun digit_loop :: "u32 \<Rightarrow> nat \<Rightarrow> u8 list" where
  "digit_loop val 0 = []"
| "digit_loop val (Suc width) = hex_digits ! unat (val mod 16) # digit_loop (val div 16) width"

function reverse_loop :: "nat \<Rightarrow> nat \<Rightarrow> u8 list \<Rightarrow> u8 list" where
  "reverse_loop head tail buf =
     (if head < tail then reverse_loop (head + 1) (tail - 1) (buf[head := buf ! tail, tail := buf ! head]) else buf)"
  by pat_completeness auto
termination by (relation "measure (\<lambda>(h, t, _). t - h)") auto

declare reverse_loop.simps [simp del]

definition dec_to_string :: "u32 \<Rightarrow> nat \<Rightarrow> u8 list" where
  "dec_to_string val width = reverse_loop 0 (width - 1) (digit_loop val width)"

subsection \<open>Writing the dump\<close>

definition rd_init :: "u32 \<Rightarrow> u32 \<Rightarrow> u32 \<Rightarrow> ('w, 'e, unit) aact" where
  "rd_init start_addr cfg_offset sz =
     upd_st (\<lambda>s. s\<lparr>
       g_map := \<lparr>dump_start = start_addr, dump_end = start_addr + sz - cfg_offset,
                 info_start = start_addr + sz - cfg_offset, info_end = start_addr + sz, dump_flag = True\<rparr>,
       g_reginfo := (g_reginfo s)\<lparr>
         match_name := put_prefix (str_bytes ''IP_name'') (match_name (g_reginfo s)),
         match_base := put_prefix (str_bytes ''Addr'') (match_base (g_reginfo s)),
         match_en := put_prefix (str_bytes ''Enable'') (match_en (g_reginfo s)),
         match_size := put_prefix (str_bytes ''Size'') (match_size (g_reginfo s))\<rparr>\<rparr>)"

text \<open>
  The result is the new value of \<^verbatim>\<open>*cur_base\<close>. \<^verbatim>\<open>reg_buffer\<close> has 65 bytes; a string with its newline and
  NUL has to fit.
\<close>

definition rd_reg_write :: "u32 \<Rightarrow> u8 list \<Rightarrow> nat \<Rightarrow> bool \<Rightarrow> ('w, 'e, u32) aact" where
  "rd_reg_write cur_base contents lenth move_ptr =
     bind_res (put_ram cur_base (strncpy (str_bytes '' '') (lenth + 1))) (\<lambda>_.
     let reg_buffer = cstr (put_prefix (strncpy contents lenth) (32 # replicate MaxDumpLen 0)) in
     if lenth > MaxDumpLen + 1 \<or> length reg_buffer + 2 > MaxDumpLen + 1 then undef
     else
       let txt = reg_buffer @ [10] in
       bind_res (put_ram cur_base txt) (\<lambda>_.
       ret (if move_ptr then cur_base + of_nat (length txt) else cur_base)))"

text \<open>The register loop of \<^verbatim>\<open>rd_reg_fillline\<close>; \<open>info\<close> is the entry to check holes with, if any.\<close>

fun fill_regs :: "nat \<Rightarrow> u32 \<Rightarrow> csi_perip_reg_t option \<Rightarrow> u8 list \<Rightarrow> ('w, 'e, u8 list \<times> u32) aact" where
  "fill_regs 0 source_base info line = ret (line, source_base)"
| "fill_regs (Suc n) source_base info line =
     bind_res (if case info of None \<Rightarrow> True | Some i \<Rightarrow> \<not> reg_is_inrange source_base i
               then CHIP_REG_GET source_base else ret 0) (\<lambda>reg_value.
     fill_regs n (source_base + RegWidth) info (line @ dec_to_string reg_value RegDumpLen @ [32]))"

definition rd_reg_fillline :: "u32 \<Rightarrow> u32 \<Rightarrow> nat \<Rightarrow> csi_perip_reg_t option \<Rightarrow> ('w, 'e, u32 \<times> u32) aact" where
  "rd_reg_fillline cur_base source_base num info =
     bind_res (fill_regs num source_base info (dec_to_string source_base RegDumpLen @ str_bytes '': '')) (\<lambda>(line, src).
     let txt = line @ [10] in
     if length txt + 1 > MaxDumpLen then undef
     else bind_res (put_ram cur_base txt) (\<lambda>_. ret (cur_base + of_nat (length txt), src)))"

fun set_mem_lines :: "nat \<Rightarrow> u32 \<Rightarrow> u32 \<Rightarrow> csi_perip_reg_t option \<Rightarrow> ('w, 'e, u32 \<times> u32) aact" where
  "set_mem_lines 0 dest src info = ret (dest, src)"
| "set_mem_lines (Suc n) dest src info =
     bind_res (rd_reg_fillline dest src 4 info) (\<lambda>(dest', src'). set_mem_lines n dest' src' info)"

text \<open>The parameter \<^verbatim>\<open>dest_end\<close> is not used by the code.\<close>

definition rd_set_mem :: "reginfo_t \<Rightarrow> u32 \<Rightarrow> ('w, 'e, u32) aact" where
  "rd_set_mem RegInfo dest_base =
     (let source_base = rd_base RegInfo; source_size = rd_size RegInfo;
          lines = unat (source_size div (4 * RegWidth));
          leftovers = unat ((source_size mod (4 * RegWidth)) div RegWidth)
      in bind_res (rd_reg_write dest_base (rd_name RegInfo) NameDumpLen True) (\<lambda>dest.
         bind_res (ip_is_active (rd_name RegInfo)) (\<lambda>active.
         if \<not> rd_en RegInfo \<or> \<not> active then ret dest
         else
           bind_res (get_st (\<lambda>s. reg_need_check (g_soc_reg s) source_base)) (\<lambda>info.
           bind_res (set_mem_lines lines dest source_base info) (\<lambda>(dest', src).
           if leftovers \<noteq> 0
           then bind_res (rd_reg_fillline dest' src leftovers info) (\<lambda>(dest'', _). ret dest'')
           else ret dest')))))"

text \<open>The descriptor at an address.\<close>

definition read_reginfo :: "(u32 \<Rightarrow> u8) \<Rightarrow> u32 \<Rightarrow> reginfo_t" where
  "read_reginfo m a =
     \<lparr>match_name = ram_bytes m a RegDumpLen, rd_name = ram_bytes m (a + 8) NameDumpLen,
      match_base = ram_bytes m (a + 28) BaseDumpLen, rd_base = le32 (ram_bytes m (a + 32) 4),
      match_size = ram_bytes m (a + 36) SizeDumpLen, rd_size = le32 (ram_bytes m (a + 40) 4),
      match_en = ram_bytes m (a + 44) EnDumpLen, rd_en = m (a + 51) \<noteq> 0\<rparr>"

text \<open>
  The result is the new \<^verbatim>\<open>*CfgAddr\<close>. \<^verbatim>\<open>strncmp\<close> of the name runs over the 8 bytes of the match field into the
  name that follows it.
\<close>

definition rd_read_cfg :: "u32 \<Rightarrow> nat \<Rightarrow> ('w, 'e, u32) aact" where
  "rd_read_cfg CfgAddr offset =
     bind_res (get_st (\<lambda>s. (g_reginfo s, read_reginfo (ram s) CfgAddr))) (\<lambda>(r, g).
     if strncmp_eq (match_name g @ rd_name g) (match_name r @ rd_name r) NameDumpLen
        \<and> strncmp_eq (match_base g) (match_base r) BaseDumpLen
        \<and> strncmp_eq (match_en g) (match_en r) EnDumpLen
        \<and> strncmp_eq (match_size g) (match_size r) SizeDumpLen
     then bind_res (upd_st (\<lambda>s. s\<lparr>g_reginfo := g\<rparr>)) (\<lambda>_. ret (CfgAddr + of_nat offset))
     else fail CSI_ERROR)"

text \<open>The \<^verbatim>\<open>while(1)\<close> loop; the result is \<^verbatim>\<open>dump_ptr\<close> at \<^verbatim>\<open>OUT\<close>.\<close>

fun regdump_loop :: "nat \<Rightarrow> u32 \<Rightarrow> u32 \<Rightarrow> u32 \<Rightarrow> ('w, 'e, u32) aact" where
  "regdump_loop 0 sign_ptr cfg_offset dump_ptr = hang"
| "regdump_loop (Suc fuel) sign_ptr cfg_offset dump_ptr =
     bind_res (get_st g_map) (\<lambda>mp.
     if cfg_offset < info_start mp \<or> cfg_offset > info_end mp then ret dump_ptr
     else
       catch_err (rd_read_cfg cfg_offset reginfo_size) (\<lambda>r. case r of
         Inl _ \<Rightarrow> ret dump_ptr
       | Inr cfg \<Rightarrow>
           bind_res (get_st g_reginfo) (\<lambda>ri.
           bind_res (rd_reg_write sign_ptr (rd_name ri) NameDumpLen False) (\<lambda>_.
           bind_res (rd_set_mem ri dump_ptr) (\<lambda>dump'.
           regdump_loop fuel sign_ptr cfg dump')))))"

definition dump_magic :: "u8 list" where
  "dump_magic = str_bytes ''DumpTrue'' @ str_bytes ''Current Dump IP name:''"

definition dump_end_mark :: "u8 list" where
  "dump_end_mark = str_bytes ''------------- Ends here -------------''"

definition aon_regdump_handler :: "nat \<Rightarrow> ('w, 'e, unit) aact" where
  "aon_regdump_handler fuel =
     bind_res (get_st g_map) (\<lambda>mp.
     if \<not> dump_flag mp then ret ()
     else
       bind_res (rd_reg_write (dump_start mp) dump_magic (length dump_magic) False) (\<lambda>_.
       let sign_ptr = dump_start mp + of_nat (length dump_magic);
           dump_ptr = dump_start mp + of_nat (length dump_magic) + of_nat NameDumpLen + 1
       in bind_res (rd_reg_write dump_ptr [10] 1 True) (\<lambda>dump_ptr.
          bind_res (regdump_loop fuel sign_ptr (info_start mp) dump_ptr) (\<lambda>dump_ptr.
          bind_res (upd_st (\<lambda>s. s\<lparr>g_map := (g_map s)\<lparr>dump_flag := False\<rparr>\<rparr>)) (\<lambda>_.
          bind_res (rd_reg_write dump_ptr (put_prefix dump_end_mark dump_magic) (length dump_end_mark) False) (\<lambda>_.
          ret ()))))))"

subsection \<open>The service\<close>

definition MISC_FUNC_REGDUMP_CFG :: u8 where "MISC_FUNC_REGDUMP_CFG = 3"

definition misc_dispatch :: "(u8 \<Rightarrow> nat \<Rightarrow> u32) \<Rightarrow> aon_rpc_msg_t \<Rightarrow> aon_rpc_msg_t \<Rightarrow> ('w, 'e, aon_rpc_msg_t) aact" where
  "misc_dispatch wide_shl msg tx_msg =
     bind_res
       (if func msg = MISC_FUNC_REGDUMP_CFG then
          bind_res (rd_init (RPC_GET_BE64 wide_shl (data msg) 0) (RPC_GET_BE64 wide_shl (data msg) 16)
            (RPC_GET_BE64 wide_shl (data msg) 8)) (\<lambda>_.
          bind_res (upd_wdt (\<lambda>w. w\<lparr>hw_wdt_type := AON_HW_WDT_CRASH_DUMP\<rparr>)) (\<lambda>_.
          ret AON_ERR_NONE))
        else ret AON_ERR_NOTFOUND) (\<lambda>result.
     ret (ack_head tx_msg 1 (RPC_GET_SVC_ID msg) (func msg) result))"

definition aon_misc_init :: "('w, 'e, unit) aact" where
  "aon_misc_init =
     bind_res (\<lambda>s. let (r, tab) = init_regmap (g_soc_reg s) in (r, s\<lparr>g_soc_reg := tab\<rparr>)) (\<lambda>_.
     aon_rpc_svc_cb_register AON_RPC_SVC_MISC MISC_DISPATCH)"

subsection \<open>The hexadecimal text\<close>

text \<open>The exchange loop reverses the part of the buffer between its two positions.\<close>

lemma reverse_loop_rev:
  "reverse_loop (length us) (length us + length xs - 1) (us @ xs @ vs) = us @ rev xs @ vs"
proof (induction "length xs" arbitrary: us xs vs rule: less_induct)
  case less
  consider "xs = []" | a where "xs = [a]" | a mid b where "xs = a # mid @ [b]"
    by (metis list.exhaust rev_exhaust)
  then show ?case
  proof cases
    case (3 a mid b)
    have "reverse_loop (length us) (length us + length xs - 1) (us @ xs @ vs)
        = reverse_loop (length (us @ [b])) (length (us @ [b]) + length mid - 1) ((us @ [b]) @ mid @ (a # vs))"
      by (subst reverse_loop.simps) (simp add: 3 nth_append list_update_append)
    also have "\<dots> = (us @ [b]) @ rev mid @ (a # vs)" by (rule less) (simp add: 3)
    finally show ?thesis by (simp add: 3)
  qed (subst reverse_loop.simps, auto)+
qed

lemma length_digit_loop [simp]: "length (digit_loop v w) = w"
  by (induction w arbitrary: v) auto

lemma dec_to_string_rev: "0 < width \<Longrightarrow> dec_to_string val width = rev (digit_loop val width)"
  by (use reverse_loop_rev [of "[]" "digit_loop val width" "[]"] in \<open>simp add: dec_to_string_def\<close>)

lemma length_dec_to_string: "0 < width \<Longrightarrow> length (dec_to_string val width) = width"
  by (simp add: dec_to_string_rev)


text \<open>Reading a hexadecimal text back.\<close>

definition hex_val :: "u8 \<Rightarrow> nat" where
  "hex_val c = (if c < 97 then unat c - 48 else unat c - 87)"

definition read_hex :: "u8 list \<Rightarrow> nat" where
  "read_hex = foldl (\<lambda>n c. 16 * n + hex_val c) 0"

lemma hex_digit_val: "n < 16 \<Longrightarrow> hex_val (hex_digits ! n) = n"
proof -
  have "\<forall>n < 16. hex_val (hex_digits ! n) = n" by code_simp
  then show "n < 16 \<Longrightarrow> hex_val (hex_digits ! n) = n" by blast
qed

lemma read_hex_snoc: "read_hex (cs @ [c]) = 16 * read_hex cs + hex_val c"
  by (simp add: read_hex_def)

lemma read_hex_digit_loop: "read_hex (rev (digit_loop val width)) = unat val mod 16 ^ width"
proof (induction width arbitrary: val)
  case (Suc width)
  have "unat (val mod 16) = unat val mod 16" "unat (val div 16) = unat val div 16" by (simp_all add: unat_mod unat_div)
  then show ?case
    using Suc by (simp add: read_hex_snoc hex_digit_val mod_mult2_eq)
qed (simp add: read_hex_def)

text \<open>
  C33: the text of a register value has exactly the requested number of characters, all of them lower case
  hexadecimal digits, and reading it as a hexadecimal number gives the low \<open>4 * width\<close> bits of the value;
  with the width 8 of the dump, the value itself.
\<close>

theorem dec_to_string_round_trip:
  assumes "0 < width"
  shows "length (dec_to_string val width) = width \<and> set (dec_to_string val width) \<subseteq> set hex_digits
    \<and> read_hex (dec_to_string val width) = unat val mod 16 ^ width
    \<and> (width = RegDumpLen \<longrightarrow> read_hex (dec_to_string val width) = unat val)"
proof -
  have "set (digit_loop val width) \<subseteq> set hex_digits"
  proof (induction width arbitrary: val)
    case (Suc width)
    have "unat (val mod 16) < length hex_digits"
      by (simp add: hex_digits_def str_bytes_def unat_mod)
    then show ?case using Suc by simp
  qed simp
  moreover have "unat val mod 16 ^ 8 = unat val" using unsigned_less [of val, where ?'a = nat] by simp
  ultimately show ?thesis
    using assms by (simp add: dec_to_string_rev read_hex_digit_loop RegDumpLen_def)
qed

theorem dec_to_string_round_trip_witness:
  "dec_to_string 0xFFF44140 8 = str_bytes ''fff44140'' \<and> read_hex (str_bytes ''fff44140'') = 0xFFF44140"
proof -
  have "dec_to_string 0xFFF44140 8 = str_bytes ''fff44140''" by code_simp
  moreover have "read_hex (dec_to_string 0xFFF44140 8) = unat (0xFFF44140 :: u32)"
    using dec_to_string_round_trip [where width = 8 and val = "0xFFF44140"] by (simp add: RegDumpLen_def)
  ultimately show ?thesis by simp
qed

subsection \<open>The dump comes to its end\<close>

text \<open>The dump changes the memory, the descriptor it is working on, and the hardware by reading registers.\<close>

definition dump_frame :: "('w, 'e) aon_t \<Rightarrow> ('w, 'e) aon_t \<Rightarrow> bool" where
  "dump_frame s t \<longleftrightarrow> (\<exists>e tr m r. t = s\<lparr>env := e, trace := tr, ram := m, g_reginfo := r\<rparr>)"

lemma dump_frameI: "dump_frame s (s\<lparr>env := e, trace := tr, ram := m, g_reginfo := r\<rparr>)"
  unfolding dump_frame_def by blast

lemma dump_frame_simps [simp]:
  "dump_frame s s" "dump_frame s (s\<lparr>ram := m\<rparr>)" "dump_frame s (s\<lparr>g_reginfo := r\<rparr>)"
  "dump_frame s (s\<lparr>env := e, trace := tr\<rparr>)"
  using dump_frameI [where s = s and e = "env s" and tr = "trace s" and r = "g_reginfo s"]
    dump_frameI [where s = s and e = "env s" and tr = "trace s" and m = "ram s"]
    dump_frameI [where s = s and e = "env s" and tr = "trace s" and m = "ram s" and r = "g_reginfo s"]
    dump_frameI [where s = s and m = "ram s" and r = "g_reginfo s"] by simp_all

lemma dump_frame_trans: "dump_frame s t \<Longrightarrow> dump_frame t u \<Longrightarrow> dump_frame s u"
  using dump_frameI [of s] by (auto simp: dump_frame_def [of s t] dump_frame_def [of t u])

lemma dump_frame_map: "dump_frame s t \<Longrightarrow> g_map t = g_map s"
  by (auto simp: dump_frame_def)

text \<open>\<open>dumps m V\<close>: the action returns a value of \<open>V\<close> and changes nothing else.\<close>

definition dumps :: "('w, 'e, 'a) aact \<Rightarrow> ('a \<Rightarrow> bool) \<Rightarrow> bool" where
  "dumps m V \<longleftrightarrow> (\<forall>s. ok_post m (\<lambda>a t. dump_frame s t \<and> V a) s)"

lemma dumpsD: "dumps m V \<Longrightarrow> ok_post m (\<lambda>a t. dump_frame s t \<and> V a) s"
  by (simp add: dumps_def)

lemma dumps_bind:
  assumes "dumps m V" and "\<And>a. V a \<Longrightarrow> dumps (f a) U"
  shows "dumps (bind_res m f) U"
  unfolding dumps_def
proof (intro allI ok_bind)
  fix s
  show "ok_post m (\<lambda>a. ok_post (f a) (\<lambda>b t. dump_frame s t \<and> U b)) s"
    using dumpsD [OF assms(1), of s]
    by (rule ok_mono) (use dumpsD [OF assms(2)] in \<open>blast intro: ok_mono dump_frame_trans\<close>)
qed

abbreviation returns :: "('w, 'e, 'a) aact \<Rightarrow> bool" where
  "returns m \<equiv> dumps m (\<lambda>_. True)"

named_theorems returns_rules "actions of the dump return"

lemma returns_bind [returns_rules]: "returns m \<Longrightarrow> (\<And>a. returns (f a)) \<Longrightarrow> returns (bind_res m f)"
  by (rule dumps_bind)

lemma returns_basic [returns_rules]:
  "returns (ret a)" "returns (get_st g)" "returns (CHIP_REG_GET reg)" "returns (put_ram b bs)"
  by (simp_all add: dumps_def ok_post_def act_defs put_ram_def CHIP_REG_GET_def split: prod.splits)

lemma returns_if [returns_rules]: "returns m \<Longrightarrow> returns n \<Longrightarrow> returns (if c then m else n)"
  by simp

lemma ip_is_active_returns [returns_rules]: "returns (ip_is_active name)"
  unfolding ip_is_active_def ip_clk_is_active_def ip_pd_is_active_def
  by (auto intro!: returns_rules split: option.splits prod.splits)

lemma rd_reg_write_returns [returns_rules]: "lenth + 2 \<le> MaxDumpLen \<Longrightarrow> returns (rd_reg_write a c lenth mv)"
  using length_cstr_prefix [of "strncpy c lenth" 32 MaxDumpLen]
  unfolding rd_reg_write_def Let_def by (auto simp: MaxDumpLen_def intro!: returns_rules)

lemma fill_regs_returns: "dumps (fill_regs n src info line :: ('w, 'e, _) aact) (\<lambda>x. length (fst x) = length line + 9 * n)"
proof (induction n arbitrary: src line)
  case 0
  then show ?case by (simp add: dumps_def ok_post_def ret_def)
next
  case (Suc n)
  have "dumps (fill_regs n src' info (line @ dec_to_string v RegDumpLen @ [32]) :: ('w, 'e, _) aact) (\<lambda>x. length (fst x) = length line + 9 * Suc n)" for v src'
    using Suc [of src' "line @ dec_to_string v RegDumpLen @ [32]"] by (simp add: length_dec_to_string RegDumpLen_def add.assoc)
  then show ?case unfolding fill_regs.simps by (intro dumps_bind [where V = "\<lambda>_. True"] returns_rules)
qed

lemma rd_reg_fillline_returns [returns_rules]:
  assumes "n \<le> 4"
  shows "returns (rd_reg_fillline a src n info)"
  unfolding rd_reg_fillline_def
proof (rule dumps_bind [OF fill_regs_returns])
  fix x :: "u8 list \<times> u32"
  assume "length (fst x) = length (dec_to_string src RegDumpLen @ str_bytes '': '') + 9 * n"
  then have "length (fst x) \<le> 46" using assms by (simp add: str_bytes_def length_dec_to_string RegDumpLen_def)
  then show "returns (case x of (line, src) \<Rightarrow> let txt = line @ [10] in if length txt + 1 > MaxDumpLen then undef
      else bind_res (put_ram a txt) (\<lambda>_. ret (a + of_nat (length txt), src)))"
    by (cases x) (simp add: MaxDumpLen_def Let_def returns_rules)
qed

lemma set_mem_lines_returns [returns_rules]: "returns (set_mem_lines n dest src info)"
  by (induction n arbitrary: dest src) (auto intro!: returns_rules)

lemma leftovers_bound: "unat ((v mod (4 * RegWidth)) div RegWidth) \<le> 4" for v :: u32
  by (simp add: RegWidth_def unat_div unat_mod)

lemma rd_set_mem_returns [returns_rules]: "returns (rd_set_mem ri dest)"
  unfolding rd_set_mem_def Let_def
  by (intro returns_rules) (auto intro!: returns_rules simp: leftovers_bound NameDumpLen_def MaxDumpLen_def split: prod.splits)

lemma returns_then:
  assumes "dump_frame s t" and "returns m" and "\<And>a u. dump_frame s u \<Longrightarrow> ok_post (f a) (\<lambda>_. dump_frame s) u"
  shows "ok_post (bind_res m f) (\<lambda>_. dump_frame s) t"
  by (rule ok_bind, rule ok_mono [OF dumpsD [OF assms(2), of t]]) (blast intro: assms(3) dump_frame_trans [OF assms(1)])

lemma rd_read_cfg_result:
  "(\<exists>t. rd_read_cfg a n s = (Ok (a + of_nat n), t) \<and> dump_frame s t) \<or> (\<exists>e. rd_read_cfg a n s = (Err e, s))"
  by (auto simp: rd_read_cfg_def act_defs)

text \<open>
  Every turn moves the descriptor pointer on by 52 bytes, and the loop stops behind the end of the descriptors.
\<close>

lemma regdump_loop_returns:
  assumes "unat (info_end (g_map s)) + reginfo_size < 2 ^ 32"
    and "unat (info_end (g_map s)) < unat cfg + reginfo_size * fuel"
    and "dump_frame s t"
  shows "ok_post (regdump_loop (Suc fuel) sign cfg dump) (\<lambda>_. dump_frame s) t"
  using assms(2,3)
proof (induction fuel arbitrary: t cfg dump)
  case 0
  then have "cfg > info_end (g_map t)" by (simp add: word_less_nat_alt dump_frame_map)
  then show ?case using 0 by (simp add: ok_post_def act_defs)
next
  case (Suc fuel)
  note gm = dump_frame_map [OF Suc.prems(2)]
  show ?case
  proof (cases "cfg < info_start (g_map t) \<or> cfg > info_end (g_map t)")
    case True
    then show ?thesis using Suc.prems(2) by (auto simp: ok_post_def act_defs)
  next
    case inside: False
    have next_cfg: "unat (cfg + of_nat reginfo_size) = unat cfg + reginfo_size"
      using inside assms(1) gm by (simp add: reginfo_size_def unat_add_lem [THEN iffD1] word_less_nat_alt)
    consider e where "rd_read_cfg cfg reginfo_size t = (Err e, t)"
      | u where "rd_read_cfg cfg reginfo_size t = (Ok (cfg + of_nat reginfo_size), u)" "dump_frame t u"
      using rd_read_cfg_result by blast
    then show ?thesis
    proof cases
      case 1
      then show ?thesis using inside Suc.prems(2)
        by (subst regdump_loop.simps) (auto simp: ok_post_def act_defs)
    next
      case (2 u)
      have "ok_post (bind_res (get_st g_reginfo) (\<lambda>ri. bind_res (rd_reg_write sign (rd_name ri) NameDumpLen False) (\<lambda>_.
          bind_res (rd_set_mem ri dump) (\<lambda>d. regdump_loop (Suc fuel) sign (cfg + of_nat reginfo_size) d)))) (\<lambda>_. dump_frame s) u"
        by (intro returns_then Suc.IH returns_rules dump_frame_trans [OF Suc.prems(2) 2(2)])
          (use Suc.prems next_cfg in \<open>simp_all add: NameDumpLen_def MaxDumpLen_def\<close>)
      then show ?thesis using inside 2(1)
        by (subst regdump_loop.simps) (simp add: ok_post_def catch_err_def bind_res_def get_st_def del: regdump_loop.simps)
    qed
  qed
qed



end
