(* ===== verification/Chip_Domains.thy ===== *)
theory Chip_Domains
  imports Chip_Power
begin

text \<open>
  What power control of a domain does to the registers: it changes only bits that belong to the domain, and it
  makes its writes in the order the hardware needs, whatever the hardware answers.
\<close>

subsection \<open>Bits of a domain\<close>

lemma seqs_simps [simp]: "seqs [] = ret ()" "seqs (m # ms) = bind_res m (\<lambda>_. seqs ms)"
  by (simp_all add: seqs_def)

lemma masked_or: "m AND NOT M = 0 \<Longrightarrow> ((v OR m) XOR v) AND NOT M = (0 :: u32)"
  by (rule bit_word_eqI) (auto simp: bit_simps dest!: arg_cong [of _ _ "\<lambda>w. bit w _"])

lemma masked_and: "m AND NOT M = 0 \<Longrightarrow> ((v AND NOT m) XOR v) AND NOT M = (0 :: u32)"
  by (rule bit_word_eqI) (auto simp: bit_simps dest!: arg_cong [of _ _ "\<lambda>w. bit w _"])

lemma changes_set_bits: "m AND NOT (M reg) = 0 \<Longrightarrow> keeps (changes M) (set_bits m reg)"
  by (rule changes_modify, rule masked_or)

lemma changes_clr_bits: "m AND NOT (M reg) = 0 \<Longrightarrow> keeps (changes M) (clr_bits m reg)"
  by (rule changes_modify, rule masked_and)

lemma changes_gate_bits: "m AND NOT (M reg) = 0 \<Longrightarrow> keeps (changes M) (gate_bits en m reg)"
  unfolding gate_bits_def by (rule changes_modify) (simp add: masked_or masked_and)

lemma changes_verify: "keeps (changes M) (subsys_pd_verify subsys state)"
proof -
  have "keeps (changes M) (pd_verify_loop n subsys d)" for n d
    by (induction n) (auto intro!: keeps_rules changes_rules)
  then show ?thesis by (simp add: subsys_pd_verify_def)
qed

lemma changes_iopmp: "i < length light_iopmp_lists \<Longrightarrow> NOT (M (light_iopmp_lists ! i)) = 0 \<Longrightarrow> keeps (changes M) (light_iopmp_config i)"
  unfolding light_iopmp_config_def by (simp add: keeps_def act_defs CHIP_REG_SET_def split: option.splits)

text \<open>Bits owned according to a table of registers and masks.\<close>

definition bits_of :: "(u32 \<times> u32) list \<Rightarrow> u32 \<Rightarrow> u32" where
  "bits_of rs reg = foldr (\<lambda>(a, m) r. if a = reg then m OR r else r) rs 0"

text \<open>The registers a domain owns bits of: its isolation and switch bits, its resets, clock gates and protection.\<close>

definition pd_regs :: "u32 \<Rightarrow> (u32 \<times> u32) list" where
  "pd_regs pd =
     (let common = (\<lambda>md. [(REG_AON_PD_ISO_EN_SET, SYS_PD_ISO_EN_SET_OFF md), (REG_AON_PD_ISO_EN_CLR, SYS_PD_ISO_EN_CLR_OFF md),
                         (REG_AON_PD_SW_EN_SET, pd_sw_bits md), (REG_AON_PD_SW_EN_CLR, pd_sw_bits md)])
      in if pd = LIGHT_AON_AUDIO_PD then common SUBSYS_AUDIO @ [(REG_AON_AUDIO_RST_CFG, 0x3F),
           (REG_AON_AUDIO_CLK_GATE, AUDIO_SUBSYS_ACLK_AP2CP_EN OR AUDIO_SUBSYS_ACLK_CP2AP_EN),
           (0xFFC220C0, 0xFFFFFFFF), (0xCB02E0C0, 0xFFFFFFFF), (0xCB02F0C0, 0xFFFFFFFF)]
         else if pd = LIGHT_AON_VDEC_PD then common SUBSYS_VDEC @ [(REG_AON_VDEC_RST_CFG, SW_AON_VDEC_RST_n),
           (REG_AON_VDEC_CLK_GATE, VDEC_SUBSYS_VDEC_CLK_EN), (0xFCC610C0, 0xFFFFFFFF)]
         else if pd = LIGHT_AON_NPU_PD then common SUBSYS_NPU @ [(REG_AON_NPUSYS_RST_CFG, SW_AON_NPUSYS_RST_n),
           (REG_AP_IMG_NNA_TEESWRST, SW_AP_SW_IMG_NNA_RST_n), (APSYS_CLKGEN_NPU_CCLK_TEECFG, NPU_CORE_CLK_EN), (0xFF01C0C0, 0xFFFFFFFF)]
         else if pd = LIGHT_AON_VENC_PD then common SUBSYS_VENC @ [(REG_AON_VENC_RST_CFG, SW_AON_VENC_RST_n),
           (REG_AON_VENC_CLK_GATE, VDEC_SUBSYS_VENC_CLK_EN), (0xFCC600C0, 0xFFFFFFFF)]
         else if pd = LIGHT_AON_GPU_PD then common SUBSYS_GPU @ [(0xFF5220C0, 0xFFFFFFFF)]
         else if pd = LIGHT_AON_DSP0_PD then common SUBSYS_DSP0 @ [(REG_AON_DSP0_RST_CFG, SW_AON_DSP0_RST_n),
           (REG_AON_DSP0_CLK_GATE, VDEC_SUBSYS_DSP0_CLK_EN), (0xFF0580C0, 0xFFFFFFFF)]
         else if pd = LIGHT_AON_DSP1_PD then common SUBSYS_DSP1 @ [(REG_AON_DSP1_RST_CFG, SW_AON_DSP1_RST_n),
           (REG_AON_DSP1_CLK_GATE, VDEC_SUBSYS_DSP1_CLK_EN), (0xFF0590C0, 0xFFFFFFFF)]
         else [])"

lemmas subsys_defs = subsys_powerdown_iso_en_set_def subsys_powerdown_iso_en_clr_def subsys_powerdown_sw_en_set_def
  subsys_powerdown_sw_en_clr_def

lemmas power_defs = audio_powerdown_def audio_powerup_def vdec_powerdown_def vdec_powerup_def npu_powerdown_def npu_powerup_def
  venc_powerdown_def venc_powerup_def gpu_powerdown_def gpu_powerup_def dsp0_powerdown_def dsp0_powerup_def
  dsp1_powerdown_def dsp1_powerup_def

lemmas pd_bit_defs = SYS_PD_ISO_EN_SET_OFF_def SYS_PD_ISO_EN_CLR_OFF_def SYS_PD_SW_EN_OFF_def subsys_num.simps

lemma pd_ctrl_changes: "keeps (changes (bits_of (pd_regs pd))) (chip_power_pd_ctrl pd mode)"
  unfolding chip_power_pd_ctrl_def Let_def power_defs seqs_simps reset_defs clk_defs(2-) subsys_defs
  by (intro keeps_rules keeps_ignore changes_verify changes_set_bits changes_clr_bits changes_gate_bits changes_get changes_iopmp)
    (simp_all add: bits_of_def pd_regs_def reg_defs pd_bit_defs light_iopmp_lists_def Let_def)

text \<open>The same for a processor core.\<close>

definition core_regs :: "u16 \<Rightarrow> (u32 \<times> u32) list" where
  "core_regs cpuid =
     (case c910_subsys cpuid of
        None \<Rightarrow> []
      | Some md \<Rightarrow>
          [(REG_AON_PD_ISO_EN_SET, SYS_PD_ISO_EN_SET_OFF md), (REG_AON_PD_ISO_EN_CLR, SYS_PD_ISO_EN_CLR_OFF md),
           (REG_AON_PD_SW_EN_SET, pd_sw_bits md), (REG_AON_PD_SW_EN_CLR, pd_sw_bits md),
           (REG_AP_C910_SWRST, push_bit (unat cpuid + 1) 1), (REG_AP_C910_CORE_CLK_TEECFG, the (c910_core_clk_bit cpuid))])"

lemma changes_core_clk:
  "c910_core_clk_bit cpu = Some b \<Longrightarrow> b AND NOT (M REG_AP_C910_CORE_CLK_TEECFG) = 0 \<Longrightarrow> keeps (changes M) (c910_sys_clk_enable en cpu)"
  using changes_gate_bits [of b M REG_AP_C910_CORE_CLK_TEECFG en]
  by (simp add: c910_sys_clk_enable_def gate_bits_def reg_modify_def)

lemma changes_wait: "keeps (changes M) (wait_inactive fuel cpu)"
  by (induction fuel) (auto intro!: keeps_rules changes_rules simp: cpu_is_inactive_def)

lemma changes_core_reset:
  "push_bit (unat cpu + 1) 1 AND NOT (M REG_AP_C910_SWRST) = 0 \<Longrightarrow> keeps (changes M) (c910_reset cpu)"
  "push_bit (unat cpu + 1) 1 AND NOT (M REG_AP_C910_SWRST) = 0 \<Longrightarrow> keeps (changes M) (c910_reset_release cpu)"
  unfolding c910_reset_def c910_reset_release_def by (auto intro!: keeps_rules changes_clr_bits changes_set_bits)

lemma c910_cases:
  obtains "c910_subsys cpu = None" | "cpu = 0" | "cpu = 1" | "cpu = 2" | "cpu = 3"
  unfolding c910_subsys_def by metis

lemma core_ctrl_changes: "keeps (changes (bits_of (core_regs (ucast cpu_id)))) (chip_cpu_power_ctrl fuel cpu_id on)"
proof (cases "ucast cpu_id :: u16" rule: c910_cases)
  case 1
  then show ?thesis
    by (auto simp: chip_cpu_power_ctrl_def c910_powerup_def c910_powerdown_def intro!: keeps_rules changes_wait)
qed (auto simp: chip_cpu_power_ctrl_def c910_powerup_def c910_powerdown_def c910_subsys_def subsys_defs
    bits_of_def core_regs_def c910_core_clk_bit_def reg_defs pd_bit_defs
    intro!: keeps_rules changes_wait keeps_ignore changes_verify changes_set_bits changes_get changes_core_clk changes_core_reset)

subsection \<open>Domains do not overlap\<close>

definition tables_disjoint :: "(u32 \<times> u32) list \<Rightarrow> (u32 \<times> u32) list \<Rightarrow> bool" where
  "tables_disjoint rs qs \<longleftrightarrow> list_all (\<lambda>(a, _). bits_of rs a AND bits_of qs a = 0) rs"

lemma bits_of_outside: "reg \<notin> fst ` set rs \<Longrightarrow> bits_of rs reg = 0"
  by (induction rs) (auto simp: bits_of_def)

lemma tables_disjointD: "tables_disjoint rs qs \<Longrightarrow> bits_of rs reg AND bits_of qs reg = 0"
  by (cases "reg \<in> fst ` set rs") (auto simp: tables_disjoint_def list_all_iff bits_of_outside)

definition pd_ids :: "u32 list" where
  "pd_ids = [LIGHT_AON_AUDIO_PD, LIGHT_AON_VDEC_PD, LIGHT_AON_NPU_PD, LIGHT_AON_VENC_PD, LIGHT_AON_GPU_PD, LIGHT_AON_DSP0_PD, LIGHT_AON_DSP1_PD]"

definition owners :: "(u32 \<times> u32) list list" where
  "owners = map pd_regs pd_ids @ map core_regs [0, 1, 2, 3]"

text \<open>The eleven tables are pairwise disjoint.\<close>

lemma owners_sorted: "sorted_wrt tables_disjoint owners"
  by (simp add: owners_def pd_ids_def pd_regs_def core_regs_def c910_subsys_def c910_core_clk_bit_def reg_defs pd_bit_defs
      tables_disjoint_def bits_of_def)

lemma owners_apart:
  assumes "i < length owners" and "j < length owners" and "i \<noteq> j"
  shows "bits_of (owners ! i) reg AND bits_of (owners ! j) reg = 0"
  using assms sorted_wrt_nth_less [OF owners_sorted, of i j] sorted_wrt_nth_less [OF owners_sorted, of j i]
  by (metis tables_disjointD and.commute linorder_neqE_nat)

lemma pd_owner: "pd_regs pd = [] \<or> (\<exists>i < 7. pd = pd_ids ! i \<and> pd_regs pd = owners ! i)"
proof (cases "pd \<in> set pd_ids")
  case True
  then obtain i where "i < length pd_ids" "pd = pd_ids ! i" by (metis in_set_conv_nth)
  moreover have "length pd_ids = 7" by (simp add: pd_ids_def)
  ultimately show ?thesis by (intro disjI2 exI [of _ i]) (simp add: owners_def nth_append)
next
  case False
  then show ?thesis by (simp add: pd_regs_def pd_ids_def)
qed

lemma core_owner: "core_regs cpu = [] \<or> (\<exists>i < 4. cpu = of_nat i \<and> core_regs cpu = owners ! (7 + i))"
proof (cases cpu rule: c910_cases)
  case 1
  then show ?thesis by (simp add: core_regs_def)
qed (rule disjI2, (rule exI [of _ 0] exI [of _ 1] exI [of _ 2] exI [of _ 3], simp add: owners_def nth_append pd_ids_def; fail))+

lemma owned_apart:
  "pd \<noteq> pd' \<Longrightarrow> bits_of (pd_regs pd) reg AND bits_of (pd_regs pd') reg = 0"
  "cpu \<noteq> cpu' \<Longrightarrow> bits_of (core_regs cpu) reg AND bits_of (core_regs cpu') reg = 0"
  "bits_of (pd_regs pd) reg AND bits_of (core_regs cpu) reg = 0"
proof -
  have len: "length owners = 11" by (simp add: owners_def pd_ids_def)
  have nil: "bits_of [] reg = 0" by (simp add: bits_of_def)
  show "pd \<noteq> pd' \<Longrightarrow> bits_of (pd_regs pd) reg AND bits_of (pd_regs pd') reg = 0"
    using pd_owner [of pd] pd_owner [of pd'] by (elim disjE exE conjE) (auto simp: nil len intro: owners_apart)
  show "cpu \<noteq> cpu' \<Longrightarrow> bits_of (core_regs cpu) reg AND bits_of (core_regs cpu') reg = 0"
    using core_owner [of cpu] core_owner [of cpu'] by (elim disjE exE conjE) (auto simp: nil len intro: owners_apart)
  show "bits_of (pd_regs pd) reg AND bits_of (core_regs cpu) reg = 0"
    using pd_owner [of pd] core_owner [of cpu] by (elim disjE exE conjE) (auto simp: nil len intro: owners_apart)
qed

text \<open>
  C6: power control of a domain or a core, whatever the hardware answers, only changes register bits that belong
  to this domain or core, and no bit belongs to two of the seven domains and four cores. An invalid id changes nothing.
\<close>

theorem power_control_isolated:
  fixes s :: "('e, 'z) chip_t_scheme"
  shows "within (bits_of (pd_regs pd)) Map.empty (trace (snd (chip_power_pd_ctrl pd mode (s\<lparr>trace := []\<rparr>))))
    \<and> within (bits_of (core_regs (ucast cpu_id))) Map.empty (trace (snd (chip_cpu_power_ctrl fuel cpu_id on (s\<lparr>trace := []\<rparr>))))
    \<and> (pd \<noteq> pd' \<longrightarrow> bits_of (pd_regs pd) reg AND bits_of (pd_regs pd') reg = 0)
    \<and> (cpu \<noteq> cpu' \<longrightarrow> bits_of (core_regs cpu) reg AND bits_of (core_regs cpu') reg = 0)
    \<and> bits_of (pd_regs pd) reg AND bits_of (core_regs cpu) reg = 0"
  using keepsD [OF pd_ctrl_changes, of pd "s\<lparr>trace := []\<rparr>" mode] keepsD [OF core_ctrl_changes, of cpu_id "s\<lparr>trace := []\<rparr>" fuel on]
  by (intro conjI impI owned_apart) simp_all

theorem power_control_isolated_witness:
  "within (bits_of (pd_regs LIGHT_AON_VDEC_PD)) Map.empty (trace (snd (chip_power_pd_ctrl LIGHT_AON_VDEC_PD LIGHT_AON_PM_PW_MODE_ON (sample_chip\<lparr>trace := []\<rparr>))))
    \<and> LIGHT_AON_VDEC_PD \<noteq> LIGHT_AON_NPU_PD
    \<and> bits_of (pd_regs LIGHT_AON_VDEC_PD) REG_AON_PD_ISO_EN_SET AND bits_of (pd_regs LIGHT_AON_NPU_PD) REG_AON_PD_ISO_EN_SET = 0
    \<and> (0 :: u16) \<noteq> 1 \<and> bits_of (core_regs 0) REG_AON_PD_ISO_EN_SET AND bits_of (core_regs 1) REG_AON_PD_ISO_EN_SET = 0"
proof -
  have ne: "LIGHT_AON_VDEC_PD \<noteq> LIGHT_AON_NPU_PD" by (simp add: reg_defs)
  show ?thesis
    using ne power_control_isolated [where s = sample_chip and pd = LIGHT_AON_VDEC_PD and pd' = LIGHT_AON_NPU_PD
        and reg = REG_AON_PD_ISO_EN_SET and mode = LIGHT_AON_PM_PW_MODE_ON and cpu = 0 and cpu' = 1] by simp
qed

subsection \<open>Order of the register updates\<close>

datatype regop = Set_Bits u32 u32 | Clr_Bits u32 u32 | Put u32 u32

text \<open>
  The writes of a trace are the given updates in the given order: bits set or cleared compared to the last read
  of the register, or a value stored.
\<close>

fun does :: "(u32 \<rightharpoonup> u32) \<Rightarrow> regop list \<Rightarrow> access list \<Rightarrow> bool" where
  "does l ops (Rd a v # tr) \<longleftrightarrow> does (l(a \<mapsto> v)) ops tr"
| "does l (Set_Bits m a # ops) (Wr b w # tr) \<longleftrightarrow> b = a \<and> map_option (\<lambda>v. v OR m) (l a) = Some w \<and> does (l(a := None)) ops tr"
| "does l (Clr_Bits m a # ops) (Wr b w # tr) \<longleftrightarrow> b = a \<and> map_option (\<lambda>v. v AND NOT m) (l a) = Some w \<and> does (l(a := None)) ops tr"
| "does l (Put x a # ops) (Wr b w # tr) \<longleftrightarrow> b = a \<and> w = x \<and> does (l(a := None)) ops tr"
| "does l [] (Wr b w # tr) \<longleftrightarrow> False"
| "does l ops [] \<longleftrightarrow> ops = []"

lemma does_append:
  assumes "does l o1 t1" and "\<And>l. does l o2 t2"
  shows "does l (o1 @ o2) (t1 @ t2)"
  using assms(1) by (induction l o1 t1 rule: does.induct) (auto simp: assms(2) simp del: fun_upd_apply)

abbreviation performs :: "('e, 'z, unit) cact \<Rightarrow> regop list \<Rightarrow> bool" where
  "performs m ops \<equiv> emits m (\<lambda>tr _. \<forall>l. does l ops tr)"

named_theorems performs_rules "updates an action performs"

lemma performs_seq: "performs m o1 \<Longrightarrow> performs n o2 \<Longrightarrow> performs (bind_res m (\<lambda>_. n)) (o1 @ o2)"
  by (rule emits_seq [where P = "\<lambda>tr. \<forall>l. does l o1 tr" and Q = "\<lambda>tr. \<forall>l. does l o2 tr"]) (auto intro: does_append)

lemma performs_get: "(\<And>v. performs (n v) ops) \<Longrightarrow> performs (bind_res (CHIP_REG_GET a) n) ops"
  by (rule emits_mono [OF emits_bind [OF emits_get [where P = "\<lambda>tr v. tr = [Rd a v]"]]]) auto

lemma performs_basic [performs_rules]:
  "performs (ret ()) []" "performs (set_bits m a) [Set_Bits m a]" "performs (clr_bits m a) [Clr_Bits m a]"
  "performs (CHIP_REG_SET v a) [Put v a]"
  by (auto intro!: emits_ret emits_modify emits_set)

lemma performs_verify [performs_rules]: "performs (ignore (subsys_pd_verify subsys state)) []"
proof -
  have catch: "catch_err (bind_res (CHIP_REG_GET a) f) g = bind_res (CHIP_REG_GET a) (\<lambda>v. catch_err (f v) g)" for a and f :: "u32 \<Rightarrow> ('e, 'z, unit) cact" and g :: "_ \<Rightarrow> ('e, 'z, unit) cact"
    by (rule ext) (simp add: catch_err_def bind_res_def CHIP_REG_GET_def split: prod.splits)
  have "performs (ignore (pd_verify_loop n subsys d) :: ('e, 'z, unit) cact) []" for n d
  proof (induction n)
    case 0
    have "ignore (fail CSI_ERROR :: ('e, 'z, unit) cact) = (ret () :: ('e, 'z, unit) cact)" by (rule ext) (simp add: ignore_def act_defs)
    then show ?case using performs_basic(1) by simp
  next
    case (Suc n)
    have "catch_err (ret ()) (\<lambda>_. ret ()) = (ret () :: ('e, 'z, unit) cact)" by (rule ext) (simp add: catch_err_def ret_def)
    then show ?case using Suc unfolding ignore_def pd_verify_loop.simps catch by (intro performs_get) (simp add: performs_basic(1))
  qed
  then show ?thesis by (simp add: subsys_pd_verify_def)
qed

lemma performs_gate [performs_rules]:
  "performs (gate_bits True m a) [Set_Bits m a]" "performs (gate_bits False m a) [Clr_Bits m a]"
  using performs_basic by (simp_all add: gate_bits_def)

lemma bind_arr_get: "i < length xs \<Longrightarrow> bind_res (arr_get xs i) f = f (xs ! i)"
  by (rule ext) (simp add: bind_res_def arr_get_def)

lemma performs_iopmp [performs_rules]:
  "i < length light_iopmp_lists \<Longrightarrow> performs (light_iopmp_config i) [Put LIGHT_IOPMP_DEFAULT_ATTR (light_iopmp_lists ! i)]"
  using performs_basic(4) by (simp add: light_iopmp_config_def bind_arr_get)

lemma performs_iso [performs_rules]:
  "performs (subsys_powerdown_iso_en_set md) [Set_Bits (SYS_PD_ISO_EN_SET_OFF md) REG_AON_PD_ISO_EN_SET]"
  "performs (subsys_powerdown_iso_en_clr md) [Set_Bits (SYS_PD_ISO_EN_CLR_OFF md) REG_AON_PD_ISO_EN_CLR]"
  "performs (subsys_powerdown_sw_en_set md) [Set_Bits (pd_sw_bits md) REG_AON_PD_SW_EN_SET]"
  "performs (subsys_powerdown_sw_en_clr md) [Set_Bits (pd_sw_bits md) REG_AON_PD_SW_EN_CLR]"
  using performs_seq [OF performs_basic(2) performs_get [OF performs_basic(1)]] performs_basic(2)
  by (simp_all add: subsys_defs)

text \<open>The resets, the clock gates, the protection register and the switch of a domain.\<close>

definition pd_resets :: "u32 \<Rightarrow> (u32 \<times> u32) list" where
  "pd_resets pd =
     (if pd = LIGHT_AON_AUDIO_PD then [(SW_AUDIO_RST_n, REG_AON_AUDIO_RST_CFG)]
      else if pd = LIGHT_AON_VDEC_PD then [(SW_AON_VDEC_RST_n, REG_AON_VDEC_RST_CFG)]
      else if pd = LIGHT_AON_NPU_PD then [(SW_AON_NPUSYS_RST_n, REG_AON_NPUSYS_RST_CFG), (SW_AP_SW_IMG_NNA_RST_n, REG_AP_IMG_NNA_TEESWRST)]
      else if pd = LIGHT_AON_VENC_PD then [(SW_AON_VENC_RST_n, REG_AON_VENC_RST_CFG)]
      else if pd = LIGHT_AON_DSP0_PD then [(SW_AON_DSP0_RST_n, REG_AON_DSP0_RST_CFG)]
      else if pd = LIGHT_AON_DSP1_PD then [(SW_AON_DSP1_RST_n, REG_AON_DSP1_RST_CFG)]
      else [])"

definition pd_clocks :: "u32 \<Rightarrow> (u32 \<times> u32) list" where
  "pd_clocks pd =
     (if pd = LIGHT_AON_AUDIO_PD then [(AUDIO_SUBSYS_ACLK_AP2CP_EN OR AUDIO_SUBSYS_ACLK_CP2AP_EN, REG_AON_AUDIO_CLK_GATE)]
      else if pd = LIGHT_AON_VDEC_PD then [(VDEC_SUBSYS_VDEC_CLK_EN, REG_AON_VDEC_CLK_GATE)]
      else if pd = LIGHT_AON_NPU_PD then [(NPU_CORE_CLK_EN, APSYS_CLKGEN_NPU_CCLK_TEECFG)]
      else if pd = LIGHT_AON_VENC_PD then [(VDEC_SUBSYS_VENC_CLK_EN, REG_AON_VENC_CLK_GATE)]
      else if pd = LIGHT_AON_DSP0_PD then [(VDEC_SUBSYS_DSP0_CLK_EN, REG_AON_DSP0_CLK_GATE)]
      else if pd = LIGHT_AON_DSP1_PD then [(VDEC_SUBSYS_DSP1_CLK_EN, REG_AON_DSP1_CLK_GATE)]
      else [])"

definition pd_subsys :: "u32 \<Rightarrow> LIGHT_SUBSYS_NAME" where
  "pd_subsys pd =
     (if pd = LIGHT_AON_AUDIO_PD then SUBSYS_AUDIO else if pd = LIGHT_AON_VDEC_PD then SUBSYS_VDEC
      else if pd = LIGHT_AON_NPU_PD then SUBSYS_NPU else if pd = LIGHT_AON_VENC_PD then SUBSYS_VENC
      else if pd = LIGHT_AON_GPU_PD then SUBSYS_GPU else if pd = LIGHT_AON_DSP0_PD then SUBSYS_DSP0 else SUBSYS_DSP1)"

definition pd_iopmp :: "u32 \<Rightarrow> u32" where
  "pd_iopmp pd =
     (if pd = LIGHT_AON_VDEC_PD then 0xFCC610C0 else if pd = LIGHT_AON_NPU_PD then 0xFF01C0C0
      else if pd = LIGHT_AON_VENC_PD then 0xFCC600C0 else if pd = LIGHT_AON_GPU_PD then 0xFF5220C0
      else if pd = LIGHT_AON_DSP0_PD then 0xFF0580C0 else 0xFF0590C0)"

definition off_ops :: "u32 \<Rightarrow> regop list" where
  "off_ops pd =
     map (\<lambda>(m, a). Clr_Bits m a) (pd_resets pd) @ map (\<lambda>(m, a). Clr_Bits m a) (pd_clocks pd)
     @ [Set_Bits (SYS_PD_ISO_EN_SET_OFF (pd_subsys pd)) REG_AON_PD_ISO_EN_SET, Set_Bits (pd_sw_bits (pd_subsys pd)) REG_AON_PD_SW_EN_SET]"

definition on_ops :: "u32 \<Rightarrow> regop list" where
  "on_ops pd =
     (let md = pd_subsys pd;
          switch_on = [Set_Bits (pd_sw_bits md) REG_AON_PD_SW_EN_CLR, Set_Bits (SYS_PD_ISO_EN_CLR_OFF md) REG_AON_PD_ISO_EN_CLR]
                      @ map (\<lambda>(m, a). Set_Bits m a) (pd_clocks pd)
      in if pd = LIGHT_AON_AUDIO_PD
         then [Put LIGHT_IOPMP_DEFAULT_ATTR 0xFFC220C0, Clr_Bits 0x3F REG_AON_AUDIO_RST_CFG] @ switch_on
              @ [Set_Bits 0x37 REG_AON_AUDIO_RST_CFG, Put LIGHT_IOPMP_DEFAULT_ATTR 0xCB02E0C0,
                 Put LIGHT_IOPMP_DEFAULT_ATTR 0xCB02F0C0, Set_Bits 0x08 REG_AON_AUDIO_RST_CFG]
         else map (\<lambda>(m, a). Clr_Bits m a) (pd_resets pd) @ switch_on @ map (\<lambda>(m, a). Set_Bits m a) (pd_resets pd)
              @ [Put LIGHT_IOPMP_DEFAULT_ATTR (pd_iopmp pd)])"

lemma performs_eq: "performs m ops \<Longrightarrow> ops = ops' \<Longrightarrow> performs m ops'"
  by simp

lemma powerdown_ops:
  "performs audio_powerdown (off_ops LIGHT_AON_AUDIO_PD)" "performs vdec_powerdown (off_ops LIGHT_AON_VDEC_PD)"
  "performs npu_powerdown (off_ops LIGHT_AON_NPU_PD)" "performs venc_powerdown (off_ops LIGHT_AON_VENC_PD)"
  "performs gpu_powerdown (off_ops LIGHT_AON_GPU_PD)" "performs dsp0_powerdown (off_ops LIGHT_AON_DSP0_PD)"
  "performs dsp1_powerdown (off_ops LIGHT_AON_DSP1_PD)"
  unfolding power_defs seqs_simps reset_defs clk_defs(2-)
  by (rule performs_eq, (rule performs_seq performs_rules)+, simp add: off_ops_def pd_resets_def pd_clocks_def pd_subsys_def reg_defs)+

lemma powerup_ops:
  "performs audio_powerup (on_ops LIGHT_AON_AUDIO_PD)"
  "performs (seqs [vdec_powerup, light_iopmp_config IOPMP_VDEC]) (on_ops LIGHT_AON_VDEC_PD)"
  "performs (seqs [npu_powerup, light_iopmp_config IOPMP_NPU]) (on_ops LIGHT_AON_NPU_PD)"
  "performs (seqs [venc_powerup, light_iopmp_config IOPMP_VENC]) (on_ops LIGHT_AON_VENC_PD)"
  "performs (seqs [gpu_powerup, light_iopmp_config IOPMP_GPU]) (on_ops LIGHT_AON_GPU_PD)"
  "performs (seqs [dsp0_powerup, light_iopmp_config IOPMP_DSP0]) (on_ops LIGHT_AON_DSP0_PD)"
  "performs (seqs [dsp1_powerup, light_iopmp_config IOPMP_DSP1]) (on_ops LIGHT_AON_DSP1_PD)"
  unfolding power_defs seqs_simps reset_defs clk_defs(2-)
  by (rule performs_eq, (rule performs_seq performs_rules | simp add: light_iopmp_lists_def reg_defs; fail)+,
      simp add: on_ops_def pd_resets_def pd_clocks_def pd_subsys_def pd_iopmp_def light_iopmp_lists_def reg_defs)+

lemma emits_result: "performs m ops \<Longrightarrow> emits (bind_res m (\<lambda>_. ret r)) (\<lambda>tr x. x = r \<and> (\<forall>l. does l ops tr))"
  by (rule emits_mono [OF emits_bind [OF _ emits_ret [where P = "\<lambda>tr x. tr = [] \<and> x = r"]]]) auto

lemma pd_ids_distinct: "distinct pd_ids" "LIGHT_AON_PM_PW_MODE_OFF \<noteq> LIGHT_AON_PM_PW_MODE_ON"
  by (simp_all add: pd_ids_def reg_defs)

lemma pd_ctrl_off: "pd \<in> set pd_ids \<Longrightarrow> emits (chip_power_pd_ctrl pd LIGHT_AON_PM_PW_MODE_OFF) (\<lambda>tr x. x = 0 \<and> (\<forall>l. does l (off_ops pd) tr))"
  and pd_ctrl_on: "pd \<in> set pd_ids \<Longrightarrow> emits (chip_power_pd_ctrl pd LIGHT_AON_PM_PW_MODE_ON) (\<lambda>tr x. x = 0 \<and> (\<forall>l. does l (on_ops pd) tr))"
  using pd_ids_distinct unfolding pd_ids_def list.set insert_iff empty_iff distinct.simps
  by (elim disjE; simp add: chip_power_pd_ctrl_def Let_def emits_result powerdown_ops powerup_ops del: seqs_simps)+

text \<open>
  C7: powering a domain down always returns 0, and its register updates are: assert the resets, gate the clocks, enable the
  isolation, open the power switch. Powering it up always returns 0: assert the resets, close the switch, release the isolation,
  enable the clocks, release the resets, open the access protection. The order does not depend on what the hardware answers,
  so a switch that does not acknowledge is not noticed. An invalid domain or mode returns -1 without any access.
\<close>

theorem power_domain_sequence:
  fixes s :: "('e, 'z) chip_t_scheme"
  shows "(pd \<in> set pd_ids \<longrightarrow>
      (\<exists>e tr. chip_power_pd_ctrl pd LIGHT_AON_PM_PW_MODE_OFF s = (Ok 0, s\<lparr>env := e, trace := trace s @ tr\<rparr>) \<and> does Map.empty (off_ops pd) tr)
      \<and> (\<exists>e tr. chip_power_pd_ctrl pd LIGHT_AON_PM_PW_MODE_ON s = (Ok 0, s\<lparr>env := e, trace := trace s @ tr\<rparr>) \<and> does Map.empty (on_ops pd) tr))
    \<and> (pd \<notin> set pd_ids \<or> mode \<notin> {LIGHT_AON_PM_PW_MODE_OFF, LIGHT_AON_PM_PW_MODE_ON} \<longrightarrow> chip_power_pd_ctrl pd mode s = (Ok (-1), s))"
proof (intro conjI impI)
  assume pd: "pd \<in> set pd_ids"
  show "\<exists>e tr. chip_power_pd_ctrl pd LIGHT_AON_PM_PW_MODE_OFF s = (Ok 0, s\<lparr>env := e, trace := trace s @ tr\<rparr>) \<and> does Map.empty (off_ops pd) tr"
    by (rule emitsE [OF pd_ctrl_off [OF pd], of s]) blast
  show "\<exists>e tr. chip_power_pd_ctrl pd LIGHT_AON_PM_PW_MODE_ON s = (Ok 0, s\<lparr>env := e, trace := trace s @ tr\<rparr>) \<and> does Map.empty (on_ops pd) tr"
    by (rule emitsE [OF pd_ctrl_on [OF pd], of s]) blast
qed (auto simp: chip_power_pd_ctrl_def Let_def pd_ids_def ret_def)

theorem power_domain_sequence_witness:
  "(\<exists>e tr. chip_power_pd_ctrl LIGHT_AON_NPU_PD LIGHT_AON_PM_PW_MODE_OFF sample_chip = (Ok 0, sample_chip\<lparr>env := e, trace := trace sample_chip @ tr\<rparr>)
      \<and> does Map.empty (off_ops LIGHT_AON_NPU_PD) tr)
    \<and> (\<exists>e tr. chip_power_pd_ctrl LIGHT_AON_NPU_PD LIGHT_AON_PM_PW_MODE_ON sample_chip = (Ok 0, sample_chip\<lparr>env := e, trace := trace sample_chip @ tr\<rparr>)
      \<and> does Map.empty (on_ops LIGHT_AON_NPU_PD) tr)
    \<and> chip_power_pd_ctrl 100 LIGHT_AON_PM_PW_MODE_ON sample_chip = (Ok (-1), sample_chip)"
proof -
  have "LIGHT_AON_NPU_PD \<in> set pd_ids" "100 \<notin> set pd_ids" by (simp_all add: pd_ids_def reg_defs)
  then show ?thesis
    using power_domain_sequence [where s = sample_chip and pd = LIGHT_AON_NPU_PD]
      power_domain_sequence [where s = sample_chip and pd = 100 and mode = LIGHT_AON_PM_PW_MODE_ON] by blast
qed

end
