(* ===== verification/Chip_Sleep.thy ===== *)
theory Chip_Sleep
  imports Chip_Power
begin

text \<open>
  The pieces of system sleep and wake-up (\<^verbatim>\<open>csi/chips/thead/light_aon/power.c\<close>): the low power mode register, debug
  masks, cache flush, memory retention, isolation, clock sources and PLLs, and wake-up interrupts. Loops that wait for
  the hardware take fuel: \<open>Hang\<close> is the loop that is still running after that many turns.
\<close>

subsection \<open>The low power mode register\<close>

datatype SYS_LP_MODE = SYS_LP_NONE | SYS_LP_STANDBY | SYS_LP_HW_VAD

definition chip_lp_mode_get_iopmp_flag :: "('e, 'z, u32) cact" where
  "chip_lp_mode_get_iopmp_flag =
     bind_res (CHIP_REG_GET REG_AON_CHIP_LP_MODE) (\<lambda>d.
     ret (drop_bit CHIP_LP_MODE_IOPMP_FLAG_OFFSET (d AND CHIP_LP_MODE_IOPMP_FLAG_MASK)))"

definition chip_lp_mode_set_iopmp_flag :: "bool \<Rightarrow> ('e, 'z, unit) cact" where
  "chip_lp_mode_set_iopmp_flag enable = gate_bits enable CHIP_LP_MODE_IOPMP_FLAG_MASK REG_AON_CHIP_LP_MODE"

definition chip_lp_mode_get_ddr_flag :: "('e, 'z, u32) cact" where
  "chip_lp_mode_get_ddr_flag =
     bind_res (CHIP_REG_GET REG_AON_CHIP_LP_MODE) (\<lambda>d.
     ret (drop_bit CHIP_LP_MODE_DDR_FLAG_OFFSET (d AND CHIP_LP_MODE_DDR_FLAG_MASK)))"

definition chip_lp_mode_set_ddr_flag :: "bool \<Rightarrow> ('e, 'z, unit) cact" where
  "chip_lp_mode_set_ddr_flag enable = gate_bits enable CHIP_LP_MODE_DDR_FLAG_MASK REG_AON_CHIP_LP_MODE"

definition chip_lp_mode_get_lp_mode :: "('e, 'z, u32) cact" where
  "chip_lp_mode_get_lp_mode =
     bind_res (CHIP_REG_GET REG_AON_CHIP_LP_MODE) (\<lambda>d. ret (drop_bit CHIP_LP_MODE_OFFSET (d AND CHIP_LP_MODE_MASK)))"

definition chip_lp_mode_set_lp_mode :: "SYS_LP_MODE \<Rightarrow> ('e, 'z, unit) cact" where
  "chip_lp_mode_set_lp_mode mode =
     bind_res (CHIP_REG_GET REG_AON_CHIP_LP_MODE) (\<lambda>d.
     let data = d AND CHIP_LP_MODE_MASK AND NOT CHIP_LP_MODE_MASK in
     CHIP_REG_SET
       (case mode of
          SYS_LP_NONE \<Rightarrow> data OR push_bit CHIP_LP_MODE_OFFSET CHIP_LP_NONE
        | SYS_LP_STANDBY \<Rightarrow> data OR push_bit CHIP_LP_MODE_OFFSET CHIP_LP_STANDBY
        | SYS_LP_HW_VAD \<Rightarrow> data OR push_bit CHIP_LP_MODE_OFFSET CHIP_LP_HW_VAD)
       REG_AON_CHIP_LP_MODE)"

definition AON_PMU_LP_MODE_SET :: "u32 \<Rightarrow> u32" where
  "AON_PMU_LP_MODE_SET x = push_bit 3 (x AND AON_PMU_LP_MODE_MSK)"

definition pmu_lowpower_mode_set :: "u32 \<Rightarrow> ('e, 'z, unit) cact" where
  "pmu_lowpower_mode_set mode =
     reg_modify (\<lambda>data. (data AND NOT (AON_PMU_LP_MODE_SET AON_PMU_LP_MODE_MSK)) OR (AON_PMU_LP_MODE_SET mode OR AON_PMU_LP_REQ)) AON_PMU_PMU_CFG"

subsection \<open>Cores: debug masks, level 2 cache, memories\<close>

definition core_dbg_bit :: "u32 \<Rightarrow> u32 option" where
  "core_dbg_bit cpu =
     (if cpu = 0 then Some AON_C910_CORE0_DBG_MASK else if cpu = 1 then Some AON_C910_CORE1_DBG_MASK
      else if cpu = 2 then Some AON_C910_CORE2_DBG_MASK else if cpu = 3 then Some AON_C910_CORE3_DBG_MASK else None)"

text \<open>The register is read before the core id is looked at; an invalid id writes nothing.\<close>

definition c910_dbg_mask :: "u32 \<Rightarrow> ('e, 'z, unit) cact" where
  "c910_dbg_mask cpu =
     bind_res (CHIP_REG_GET REG_AON_C910_DBG_MASK) (\<lambda>data.
     case core_dbg_bit cpu of None \<Rightarrow> ret () | Some b \<Rightarrow> CHIP_REG_SET (data OR b) REG_AON_C910_DBG_MASK)"

definition c910_dbg_unmask :: "u32 \<Rightarrow> ('e, 'z, unit) cact" where
  "c910_dbg_unmask cpu =
     bind_res (CHIP_REG_GET REG_AON_C910_DBG_MASK) (\<lambda>data.
     case core_dbg_bit cpu of None \<Rightarrow> ret () | Some b \<Rightarrow> CHIP_REG_SET (data AND NOT b) REG_AON_C910_DBG_MASK)"

definition c910_l2cache_flush :: "nat \<Rightarrow> ('e, 'z, unit) cact" where
  "c910_l2cache_flush fuel =
     bind_res (set_bits AON_C910_CPU_L2CACHE_FLUSH_REQ REG_AON_C910_L2CACHE) (\<lambda>_.
     bind_res (poll fuel REG_AON_C910_L2CACHE (\<lambda>d. d AND AON_C910_CPU_L2CACHE_FLUSH_DONE \<noteq> 0)) (\<lambda>data.
     bind_res (CHIP_REG_SET (data AND NOT AON_C910_CPU_L2CACHE_FLUSH_REQ) REG_AON_C910_L2CACHE) (\<lambda>_.
     bind_res (poll fuel REG_AON_C910_L2CACHE (\<lambda>d. d AND AON_C910_CPU_NO_OP \<noteq> 0)) (\<lambda>_.
     ret ()))))"

datatype MEM_RET_MODE = MEM_RET_SLP | MEM_RET_DSLP | MEM_RET_SD

definition core_mem_bit :: "u32 \<Rightarrow> MEM_RET_MODE \<Rightarrow> u32 option" where
  "core_mem_bit cpu mode =
     (if cpu = 0 then Some (case mode of MEM_RET_DSLP \<Rightarrow> AON_C910_CORE0_MEM_DSLP | MEM_RET_SLP \<Rightarrow> AON_C910_CORE0_MEM_SLP | MEM_RET_SD \<Rightarrow> AON_C910_CORE0_MEM_SD)
      else if cpu = 1 then Some (case mode of MEM_RET_DSLP \<Rightarrow> AON_C910_CORE1_MEM_DSLP | MEM_RET_SLP \<Rightarrow> AON_C910_CORE1_MEM_SLP | MEM_RET_SD \<Rightarrow> AON_C910_CORE1_MEM_SD)
      else if cpu = 2 then Some (case mode of MEM_RET_DSLP \<Rightarrow> AON_C910_CORE2_MEM_DSLP | MEM_RET_SLP \<Rightarrow> AON_C910_CORE2_MEM_SLP | MEM_RET_SD \<Rightarrow> AON_C910_CORE2_MEM_SD)
      else if cpu = 3 then Some (case mode of MEM_RET_DSLP \<Rightarrow> AON_C910_CORE3_MEM_DSLP | MEM_RET_SLP \<Rightarrow> AON_C910_CORE3_MEM_SLP | MEM_RET_SD \<Rightarrow> AON_C910_CORE3_MEM_SD)
      else None)"

definition c910_mem_rentention_enter :: "u32 \<Rightarrow> MEM_RET_MODE \<Rightarrow> ('e, 'z, unit) cact" where
  "c910_mem_rentention_enter cpu mode =
     bind_res (CHIP_REG_GET REG_AON_MEM_LP_MODE) (\<lambda>data.
     case core_mem_bit cpu mode of None \<Rightarrow> ret () | Some b \<Rightarrow> CHIP_REG_SET (data OR b) REG_AON_MEM_LP_MODE)"

definition c910_mem_rentention_exit :: "u32 \<Rightarrow> MEM_RET_MODE \<Rightarrow> ('e, 'z, unit) cact" where
  "c910_mem_rentention_exit cpu mode =
     bind_res (CHIP_REG_GET REG_AON_MEM_LP_MODE) (\<lambda>data.
     case core_mem_bit cpu mode of None \<Rightarrow> ret () | Some b \<Rightarrow> CHIP_REG_SET (data AND NOT b) REG_AON_MEM_LP_MODE)"

definition aon_mem_retention_enter :: "MEM_RET_MODE \<Rightarrow> ('e, 'z, unit) cact" where
  "aon_mem_retention_enter mode =
     (case mode of
        MEM_RET_SLP \<Rightarrow> set_bits AON_SRAM_AXI_AXI_SRAM_SLP REG_AON_MEM_LP_MODE
      | MEM_RET_DSLP \<Rightarrow> set_bits AON_SRAM_AXI_AXI_SRAM_DSLP REG_AON_MEM_LP_MODE
      | MEM_RET_SD \<Rightarrow> set_bits AON_SRAM_AXI_AXI_SRAM_SD REG_AON_MEM_LP_MODE)"

definition aon_mem_retention_exit :: "MEM_RET_MODE \<Rightarrow> ('e, 'z, unit) cact" where
  "aon_mem_retention_exit mode =
     (case mode of
        MEM_RET_SLP \<Rightarrow> clr_bits AON_SRAM_AXI_AXI_SRAM_SLP REG_AON_MEM_LP_MODE
      | MEM_RET_DSLP \<Rightarrow> clr_bits AON_SRAM_AXI_AXI_SRAM_DSLP REG_AON_MEM_LP_MODE
      | MEM_RET_SD \<Rightarrow> clr_bits AON_SRAM_AXI_AXI_SRAM_SD REG_AON_MEM_LP_MODE)"

definition cpu_top_mem_retention_enter :: "MEM_RET_MODE \<Rightarrow> ('e, 'z, unit) cact" where
  "cpu_top_mem_retention_enter mode =
     (case mode of
        MEM_RET_SLP \<Rightarrow> set_bits AON_C910_CPU_MEM_SLP REG_AON_MEM_LP_MODE
      | MEM_RET_DSLP \<Rightarrow> set_bits AON_C910_CPU_MEM_DSLP REG_AON_MEM_LP_MODE
      | MEM_RET_SD \<Rightarrow> set_bits AON_C910_CPU_MEM_SD REG_AON_MEM_LP_MODE)"

definition cpu_top_mem_retention_exit :: "MEM_RET_MODE \<Rightarrow> ('e, 'z, unit) cact" where
  "cpu_top_mem_retention_exit mode =
     (case mode of
        MEM_RET_SLP \<Rightarrow> clr_bits AON_C910_CPU_MEM_SLP REG_AON_MEM_LP_MODE
      | MEM_RET_DSLP \<Rightarrow> clr_bits AON_C910_CPU_MEM_DSLP REG_AON_MEM_LP_MODE
      | MEM_RET_SD \<Rightarrow> clr_bits AON_C910_CPU_MEM_SD REG_AON_MEM_LP_MODE)"

subsection \<open>Application subsystem, isolation, indicators\<close>

definition ap_power_down :: "('e, 'z, unit) cact" where
  "ap_power_down = seqs [clr_bits SW_AON_APSYS_RST_n REG_AON_APSYS_RST_CFG, clr_bits AON_APSYS_CLK_EN REG_AON_APSYS_CLK_GATE]"

definition ap_power_up :: "('e, 'z, unit) cact" where
  "ap_power_up = seqs [set_bits AON_APSYS_CLK_EN REG_AON_APSYS_CLK_GATE, set_bits SW_AON_APSYS_RST_n REG_AON_APSYS_RST_CFG]"

definition power_isolator_en :: "('e, 'z, unit) cact" where
  "power_isolator_en = set_bits (AON_AON_ISOLATION_EN OR AON_USB3_ISOLATION_EN OR AON_C910_ISOLATION_EN) REG_AON_ISO_CFG"

definition power_isolator_release :: "('e, 'z, unit) cact" where
  "power_isolator_release = clr_bits (AON_AON_ISOLATION_EN OR AON_USB3_ISOLATION_EN OR AON_C910_ISOLATION_EN) REG_AON_ISO_CFG"

definition indicator_magic_num_check :: "('e, 'z, bool) cact" where
  "indicator_magic_num_check =
     bind_res (CHIP_REG_GET REG_AON_STR_INDICATOR_0) (\<lambda>magic_num0.
     bind_res (CHIP_REG_GET REG_AON_STR_INDICATOR_1) (\<lambda>magic_num1.
     bind_res (CHIP_REG_GET REG_AON_STR_INDICATOR_2) (\<lambda>magic_num2.
     bind_res (CHIP_REG_GET REG_AON_STR_INDICATOR_3) (\<lambda>magic_num3.
     ret (magic_num0 = INDICATOR_0_MAGIC_NUM \<and> magic_num1 = INDICATOR_1_MAGIC_NUM
        \<and> magic_num2 = INDICATOR_2_MAGIC_NUM \<and> magic_num3 = INDICATOR_3_MAGIC_NUM)))))"

definition indicator_magic_num_clear :: "('e, 'z, unit) cact" where
  "indicator_magic_num_clear = seqs
     [CHIP_REG_SET 0 REG_AON_STR_INDICATOR_0, CHIP_REG_SET 0 REG_AON_STR_INDICATOR_1,
      CHIP_REG_SET 0 REG_AON_STR_INDICATOR_2, CHIP_REG_SET 0 REG_AON_STR_INDICATOR_3]"

subsection \<open>Clock sources and PLLs\<close>

definition audio_slp_clk_sel :: "bool \<Rightarrow> ('e, 'z, unit) cact" where
  "audio_slp_clk_sel ena =
     (if ena then seqs
        [clr_bits (AON_CLKGEN_C906_CCLK_DIV_0_DIV_EN OR AON_CLKGEN_C906_CCLK_DIV_1_DIV_EN) REG_AON_AUDIO_C906_CCLK_CFG,
         clr_bits AON_CLKGEN_AUDIO_SUBSYS_ACLK_AP2CP_EN REG_AON_AUDIO_CLK_GATE,
         clr_bits (AON_CLKGEN_AUDIO_ACLK_DIV_0_DIV_EN OR AON_CLKGEN_AUDIO_ACLK_DIV_1_DIV_EN) REG_AON_AUDIO_SUBSYS_ACLK_CFG,
         clr_bits AON_CLKGEN_AUDIO_SUBSYS_ACLK_CP2AP_EN REG_AON_AUDIO_CLK_GATE]
      else seqs
        [set_bits AON_CLKGEN_C906_CCLK_DIV_1_DIV_EN REG_AON_AONSYS_CLK_CFG,
         set_bits AON_CLKGEN_AUDIO_SUBSYS_ACK_DIV_1_DIV_EN REG_AON_AUDIO_SUBSYS_ACLK_CFG,
         set_bits AON_CLKGEN_AUDIO_C906_CCLK_SWITCH_SEL REG_AON_AUDIO_C906_CCLK_CFG,
         set_bits AON_CLKGEN_AUDIO_SUBSYS_ACLK_SWITCH_SEL REG_AON_AUDIO_SUBSYS_ACLK_CFG,
         set_bits AON_CLKGEN_SHARE_SRAM_CLK_SWITCH_SEL REG_AON_SHARE_SRAM_CLK_CFG])"

text \<open>\<^verbatim>\<open>while (!(data & AON_RC_READY)) CHIP_REG_GET(REG_AON_RC_READY);\<close>: \<^verbatim>\<open>data\<close> does not change in the loop.\<close>

fun rc_ready_loop :: "nat \<Rightarrow> u32 \<Rightarrow> ('e, 'z, unit) cact" where
  "rc_ready_loop 0 d = (if d AND AON_RC_READY \<noteq> 0 then ret () else hang)"
| "rc_ready_loop (Suc fuel) d =
     (if d AND AON_RC_READY \<noteq> 0 then ret () else bind_res (CHIP_REG_GET REG_AON_RC_READY) (\<lambda>_. rc_ready_loop fuel d))"

definition aonsys_slp_clk_sel :: "nat \<Rightarrow> bool \<Rightarrow> ('e, 'z, unit) cact" where
  "aonsys_slp_clk_sel fuel ena =
     (if ena then seqs
        [set_bits AON_AONSYS_CLK_SWITCH_0_SWITCH_SEL REG_AON_AONSYS_CLK_CFG,
         reg_modify (\<lambda>data. (data AND NOT (push_bit AON_AONSYS_CLK_CDE_RATIO_OFF AON_AONSYS_CLK_CDE_RATIO_MSK)
             OR push_bit AON_AONSYS_CLK_CDE_RATIO_OFF (7 AND AON_AONSYS_CLK_CDE_RATIO_MSK)) AND NOT AON_AONSYS_CLK_CDE_SYNC)
           REG_AON_AONSYS_CLK_CFG,
         set_bits AON_AONSYS_CLK_CDE_SYNC REG_AON_AONSYS_CLK_CFG,
         clr_bits AON_RC_EN REG_AON_RC_EN]
      else seqs
        [clr_bits AON_AONSYS_CLK_SWITCH_0_SWITCH_SEL REG_AON_AONSYS_CLK_CFG,
         set_bits AON_RC_EN REG_AON_RC_EN,
         bind_res (CHIP_REG_GET REG_AON_RC_READY) (rc_ready_loop fuel),
         bind_res (CHIP_REG_GET REG_AON_AONSYS_CLK_CFG) (\<lambda>d.
           let data = d AND NOT (push_bit AON_AONSYS_CLK_CDE_RATIO_OFF AON_AONSYS_CLK_CDE_RATIO_MSK) AND NOT AON_AONSYS_CLK_CDE_SYNC in
           bind_res (CHIP_REG_SET data REG_AON_AONSYS_CLK_CFG) (\<lambda>_.
           CHIP_REG_SET (data OR AON_AONSYS_CLK_CDE_SYNC) REG_AON_AONSYS_CLK_CFG))])"

definition power_sys_pll :: "nat \<Rightarrow> POWER_STATE \<Rightarrow> ('e, 'z, unit) cact" where
  "power_sys_pll fuel state =
     (case state of
        POWER_DOWN \<Rightarrow> set_bits AON_SYS_PLL_RST REG_AON_SYS_PLL_CFG1
      | POWER_ON \<Rightarrow>
          bind_res (clr_bits AON_SYS_PLL_RST REG_AON_SYS_PLL_CFG1) (\<lambda>_.
          bind_res (poll fuel REG_AON_AONSYS_PLL_STS (\<lambda>d. d AND AON_CLKGEN_SYS_PLL_LOCK \<noteq> 0)) (\<lambda>_. ret ())))"

definition power_audio_pll :: "nat \<Rightarrow> POWER_STATE \<Rightarrow> ('e, 'z, unit) cact" where
  "power_audio_pll fuel state =
     (case state of
        POWER_DOWN \<Rightarrow> set_bits AON_AUDIO_PLL_RST REG_AON_AUDIO_PLL_CFG1
      | POWER_ON \<Rightarrow>
          bind_res (clr_bits AON_AUDIO_PLL_RST REG_AON_AUDIO_PLL_CFG1) (\<lambda>_.
          bind_res (poll fuel REG_AON_AONSYS_PLL_STS (\<lambda>d. d AND AON_CLKGEN_AUDIO_PLL_LOCK \<noteq> 0)) (\<lambda>_. ret ())))"

definition power_osc_clk :: "POWER_STATE \<Rightarrow> ('e, 'z, unit) cact" where
  "power_osc_clk state = gate_bits (state \<noteq> POWER_DOWN) PAD_AONSYS_OSC_CLK_IO_EN REG_AONSYS_PAD_CFG_001"

definition periph_clk_bits :: u32 where
  "periph_clk_bits = AON_CLKGEN_AOUART_PCLK_EN OR AON_CLKGEN_AOUART_SCLK_EN OR AON_CLKGEN_AOI2C_PCLK_EN OR AON_CLKGEN_AOI2C_IC_CLK_EN
     OR AON_CLKGEN_AUDGPIO_DBCLK_EN OR AON_CLKGEN_AUDGPIO_PCLK_EN OR AON_CLKGEN_ADC_PCLK_EN OR AON_CLKGEN_DSPSYS_ACLK_S_EN
     OR AON_CLKGEN_AOWDT_PCLK_EN OR AON_CLKGEN_AOTIMER_CCLK_EN OR AON_CLKGEN_AOTIMER_PCLK_EN OR AON_CLKGEN_AOPAD_PCLK_EN
     OR AON_CLKGEN_PVTC_PCLK_EN OR AON_CLKGEN_SRAM_AXI_ACLK_4_EN OR AON_CLKGEN_SRAM_AXI_CORE_CLK_EN"

definition aonsys_periph_clk_disable :: "bool \<Rightarrow> ('e, 'z, unit) cact" where
  "aonsys_periph_clk_disable ena = gate_bits (\<not> ena) periph_clk_bits REG_AON_AONSYS_CLK_GATE"

datatype PLL_SLEEP_MODE = PLL_SLEEP | PLL_NORMAL

definition system_clk_switch :: "nat \<Rightarrow> PLL_SLEEP_MODE \<Rightarrow> SYS_LP_MODE \<Rightarrow> ('e, 'z, unit) cact" where
  "system_clk_switch fuel pll_mode sys_lp_mode =
     (if sys_lp_mode \<noteq> SYS_LP_STANDBY \<and> sys_lp_mode \<noteq> SYS_LP_HW_VAD then ret ()
      else case pll_mode of
        PLL_SLEEP \<Rightarrow> seqs
          [aonsys_periph_clk_disable True, aonsys_slp_clk_sel fuel True, power_sys_pll fuel POWER_DOWN,
           if sys_lp_mode = SYS_LP_HW_VAD then audio_slp_clk_sel True else power_audio_pll fuel POWER_DOWN]
      | PLL_NORMAL \<Rightarrow> seqs
          [if sys_lp_mode = SYS_LP_HW_VAD then audio_slp_clk_sel False else power_audio_pll fuel POWER_ON,
           power_sys_pll fuel POWER_ON, aonsys_slp_clk_sel fuel False, aonsys_periph_clk_disable False])"

subsection \<open>Wake-up interrupts\<close>

definition WJ_RTC_IRQn :: nat where "WJ_RTC_IRQn = 29"
definition DW_GPIO_IRQn :: nat where "DW_GPIO_IRQn = 28"
definition WJ_CPR_IRQn :: nat where "WJ_CPR_IRQn = 30"
definition DW_TIMER0_IRQn :: nat where "DW_TIMER0_IRQn = 33"

definition vic_enabled_irq_detect :: "nat \<Rightarrow> ('e, 'z, bool) cact" where
  "vic_enabled_irq_detect irq = get_st (\<lambda>s. irq_is_enabled (soc s) irq (env s))"

text \<open>The loop of \<^verbatim>\<open>aonsys_wakeup_source_set\<close> over the interrupts \<open>irq, irq + 1, \<dots>\<close>; \<open>n\<close> of them are left.\<close>

fun irq_save_loop :: "nat \<Rightarrow> nat \<Rightarrow> nat \<Rightarrow> ('e, 'z, unit) cact" where
  "irq_save_loop 0 irq j = ret ()"
| "irq_save_loop (Suc n) irq j =
     bind_res (vic_enabled_irq_detect irq) (\<lambda>en.
     if en then
       bind_res (soc_do (\<lambda>c. irq_disable c irq)) (\<lambda>_.
       bind_res (get_st (\<lambda>s. length (enabled_irq_num s))) (\<lambda>len.
       if j \<ge> len then undef
       else
         bind_res (upd_st (\<lambda>s. s\<lparr>enabled_irq_num := (enabled_irq_num s)[j := irq]\<rparr>)) (\<lambda>_.
         irq_save_loop n (irq + 1) (j + 1))))
     else irq_save_loop n (irq + 1) j)"

definition aonsys_wakeup_source_set :: "u32 \<Rightarrow> ('e, 'z, unit) cact" where
  "aonsys_wakeup_source_set wakeup_flag = seqs
     [irq_save_loop (MAX_AON_IRQ_NUM - AON_IRQ_NUM_STAR) (AON_IRQ_NUM_STAR + 16) 0,
      if wakeup_flag AND AON_WAKEUP_BY_RTC \<noteq> 0 then soc_do (\<lambda>c. irq_enable c WJ_RTC_IRQn) else ret (),
      if wakeup_flag AND AON_WAKEUP_BY_GPIO \<noteq> 0 then soc_do (\<lambda>c. irq_enable c DW_GPIO_IRQn) else ret ()]"

fun irq_restore_loop :: "nat list \<Rightarrow> ('e, 'z, unit) cact" where
  "irq_restore_loop [] = ret ()"
| "irq_restore_loop (irq # irqs) =
     (if irq \<noteq> 0 then bind_res (soc_do (\<lambda>c. irq_enable c irq)) (\<lambda>_. irq_restore_loop irqs) else ret ())"

definition aonsys_wakeup_source_clr :: "u32 \<Rightarrow> ('e, 'z, unit) cact" where
  "aonsys_wakeup_source_clr wakeup_flag = seqs
     [if wakeup_flag AND AON_WAKEUP_BY_RTC \<noteq> 0 then soc_do rtc_intr_clr else ret (),
      if wakeup_flag AND AON_WAKEUP_BY_GPIO \<noteq> 0 then soc_do gpio_intr_clr else ret (),
      soc_do (\<lambda>c. irq_disable c WJ_CPR_IRQn), soc_do (\<lambda>c. irq_disable c WJ_RTC_IRQn), soc_do (\<lambda>c. irq_disable c DW_GPIO_IRQn),
      bind_res (get_st enabled_irq_num) irq_restore_loop,
      soc_do (\<lambda>c. irq_disable c DW_TIMER0_IRQn)]"

definition board_resume :: "('e, 'z, unit) cact" where
  "board_resume = ignore (on_soc mbox_init)"

definition board_device_resume :: "('e, 'z, unit) cact" where
  "board_device_resume = board_resume"

subsection \<open>Interrupts over a sleep\<close>

text \<open>
  Documented behaviour of the interrupt controller: \<open>irqs\<close> is the set of enabled interrupts, which clearing pending
  interrupts of a device does not change.
\<close>

definition irq_ctl :: "'e soc_if \<Rightarrow> ('e \<Rightarrow> nat set) \<Rightarrow> bool" where
  "irq_ctl c irqs \<longleftrightarrow>
     (\<forall>e i. irq_is_enabled c i e = (i \<in> irqs e) \<and> irqs (irq_enable c i e) = insert i (irqs e) \<and> irqs (irq_disable c i e) = irqs e - {i}
       \<and> irqs (rtc_intr_clr c e) = irqs e \<and> irqs (gpio_intr_clr c e) = irqs e)"

definition save_irqs :: "nat list \<Rightarrow> nat \<Rightarrow> nat list \<Rightarrow> nat list" where
  "save_irqs old j new = take j old @ new @ drop (j + length new) old"

lemma save_loop_result:
  fixes s :: "('e, 'z) chip_t_scheme"
  assumes "irq_ctl (soc s) irqs" and "j + n \<le> length (enabled_irq_num s)"
  shows "\<exists>e. irq_save_loop n irq j s
      = (Ok (), s\<lparr>env := e, enabled_irq_num := save_irqs (enabled_irq_num s) j (filter (\<lambda>i. i \<in> irqs (env s)) [irq..<irq + n])\<rparr>)
    \<and> irqs e = irqs (env s) - {irq..<irq + n}"
  using assms
proof (induction n arbitrary: irq j s)
  case 0
  show ?case by (intro exI [of _ "env s"]) (simp add: ret_def save_irqs_def)
next
  case (Suc n)
  have split: "[irq..<irq + Suc n] = irq # [Suc irq..<Suc irq + n]" by (simp add: upt_conv_Cons)
  have range: "{irq..<irq + Suc n} = insert irq {Suc irq..<Suc irq + n}" by auto
  show ?case
  proof (cases "irq \<in> irqs (env s)")
    case True
    let ?s = "s\<lparr>env := irq_disable (soc s) irq (env s), enabled_irq_num := (enabled_irq_num s)[j := irq]\<rparr>"
    obtain e where e: "irq_save_loop n (Suc irq) (Suc j) ?s
        = (Ok (), ?s\<lparr>env := e, enabled_irq_num := save_irqs (enabled_irq_num ?s) (Suc j) (filter (\<lambda>i. i \<in> irqs (env ?s)) [Suc irq..<Suc irq + n])\<rparr>)"
      "irqs e = irqs (env ?s) - {Suc irq..<Suc irq + n}"
      using Suc.IH [of ?s "Suc j" "Suc irq"] Suc.prems by auto
    have ir: "irqs (env ?s) = irqs (env s) - {irq}" using Suc.prems(1) by (simp add: irq_ctl_def)
    have flt: "filter (\<lambda>i. i \<in> irqs (env ?s)) [Suc irq..<Suc irq + n] = filter (\<lambda>i. i \<in> irqs (env s)) [Suc irq..<Suc irq + n]"
      unfolding ir by (rule filter_cong) auto
    have j: "j < length (enabled_irq_num s)" using Suc.prems(2) by simp
    have sv: "save_irqs ((enabled_irq_num s)[j := irq]) (Suc j) l = save_irqs (enabled_irq_num s) j (irq # l)" for l
      using j by (simp add: save_irqs_def take_Suc_conv_app_nth drop_update_cancel)
    have "irq_is_enabled (soc s) irq (env s)" using True Suc.prems(1) by (simp add: irq_ctl_def)
    then have st: "irq_save_loop (Suc n) irq j s = irq_save_loop n (Suc irq) (Suc j) ?s"
      using j by (simp add: vic_enabled_irq_detect_def act_defs)
    have "irqs e = irqs (env s) - {irq..<irq + Suc n}" unfolding e(2) ir range by blast
    moreover have "filter (\<lambda>i. i \<in> irqs (env s)) [irq..<irq + Suc n] = irq # filter (\<lambda>i. i \<in> irqs (env s)) [Suc irq..<Suc irq + n]"
      unfolding split using True by simp
    ultimately show ?thesis unfolding st e(1) flt by (intro exI [of _ e]) (simp add: sv del: upt_Suc)
  next
    case False
    obtain e where e: "irq_save_loop n (Suc irq) j s
        = (Ok (), s\<lparr>env := e, enabled_irq_num := save_irqs (enabled_irq_num s) j (filter (\<lambda>i. i \<in> irqs (env s)) [Suc irq..<Suc irq + n])\<rparr>)"
      "irqs e = irqs (env s) - {Suc irq..<Suc irq + n}"
      using Suc.IH [of s j "Suc irq"] Suc.prems by auto
    moreover have "\<not> irq_is_enabled (soc s) irq (env s)" using False Suc.prems(1) by (simp add: irq_ctl_def)
    then have st: "irq_save_loop (Suc n) irq j s = irq_save_loop n (Suc irq) j s"
      by (simp add: vic_enabled_irq_detect_def act_defs)
    moreover have "irqs e = irqs (env s) - {irq..<irq + Suc n}" unfolding e(2) range using False by blast
    moreover have "filter (\<lambda>i. i \<in> irqs (env s)) [irq..<irq + Suc n] = filter (\<lambda>i. i \<in> irqs (env s)) [Suc irq..<Suc irq + n]"
      unfolding split using False by simp
    ultimately show ?thesis unfolding st by (intro exI [of _ e]) (simp del: upt_Suc)
  qed
qed

lemma restore_loop_result:
  fixes s :: "('e, 'z) chip_t_scheme"
  assumes "irq_ctl (soc s) irqs"
  shows "\<exists>e. irq_restore_loop l s = (Ok (), s\<lparr>env := e\<rparr>) \<and> irqs e = irqs (env s) \<union> set (takeWhile (\<lambda>i. i \<noteq> 0) l)"
  using assms
proof (induction l arbitrary: s)
  case Nil
  show ?case by (intro exI [of _ "env s"]) (simp add: ret_def)
next
  case (Cons i l)
  show ?case
  proof (cases "i = 0")
    case False
    let ?s = "s\<lparr>env := irq_enable (soc s) i (env s)\<rparr>"
    obtain e where "irq_restore_loop l ?s = (Ok (), ?s\<lparr>env := e\<rparr>)" "irqs e = irqs (env ?s) \<union> set (takeWhile (\<lambda>i. i \<noteq> 0) l)"
      using Cons.IH [of ?s] Cons.prems by auto
    moreover have "irqs (env ?s) = insert i (irqs (env s))" using Cons.prems by (simp add: irq_ctl_def)
    ultimately show ?thesis using False by (intro exI [of _ e]) (simp add: act_defs)
  qed (intro exI [of _ "env s"], simp add: ret_def)
qed

text \<open>The interrupts that are enabled among those saved over a sleep.\<close>

definition saved_irqs :: "nat set \<Rightarrow> nat list" where
  "saved_irqs E = filter (\<lambda>i. i \<in> E) [AON_IRQ_NUM_STAR + 16..<MAX_AON_IRQ_NUM + 16]"

lemma saved_irqs_eq: "saved_irqs E = filter (\<lambda>i. i \<in> E) [16..<16 + 29]"
  by (simp only: saved_irqs_def reg_defs) simp

lemma set_saved_irqs: "set (saved_irqs E) = E \<inter> {16..<45}"
  unfolding saved_irqs_eq set_filter set_upt by auto

definition wakeup_irqs :: "u32 \<Rightarrow> nat set" where
  "wakeup_irqs flag = (if flag AND AON_WAKEUP_BY_RTC \<noteq> 0 then {WJ_RTC_IRQn} else {})
     \<union> (if flag AND AON_WAKEUP_BY_GPIO \<noteq> 0 then {DW_GPIO_IRQn} else {})"

lemma wakeup_set_result:
  fixes s :: "('e, 'z) chip_t_scheme"
  assumes "irq_ctl (soc s) irqs" and "length (enabled_irq_num s) = 32"
  shows "\<exists>e. aonsys_wakeup_source_set flag s
      = (Ok (), s\<lparr>env := e, enabled_irq_num := saved_irqs (irqs (env s)) @ drop (length (saved_irqs (irqs (env s)))) (enabled_irq_num s)\<rparr>)
    \<and> irqs e = (irqs (env s) - {16..<45}) \<union> wakeup_irqs flag"
proof -
  have 0: "0 + 29 \<le> length (enabled_irq_num s)" using assms(2) by simp
  have r: "{16..<16 + 29} = {16..<45 :: nat}" by simp
  obtain e where e: "irq_save_loop 29 16 0 s = (Ok (), s\<lparr>env := e, enabled_irq_num := save_irqs (enabled_irq_num s) 0 (saved_irqs (irqs (env s)))\<rparr>)"
    "irqs e = irqs (env s) - {16..<45}"
    using save_loop_result [OF assms(1) 0, of 16] unfolding saved_irqs_eq r by blast
  let ?e1 = "if flag AND AON_WAKEUP_BY_RTC \<noteq> 0 then irq_enable (soc s) WJ_RTC_IRQn e else e"
  let ?e2 = "if flag AND AON_WAKEUP_BY_GPIO \<noteq> 0 then irq_enable (soc s) DW_GPIO_IRQn ?e1 else ?e1"
  have "irqs ?e2 = irqs e \<union> wakeup_irqs flag"
    using assms(1) by (auto simp: irq_ctl_def wakeup_irqs_def)
  then show ?thesis
    using e by (intro exI [of _ ?e2]) (simp add: aonsys_wakeup_source_set_def seqs_def save_irqs_def act_defs reg_defs)
qed

lemma wakeup_clr_result:
  fixes s :: "('e, 'z) chip_t_scheme"
  assumes "irq_ctl (soc s) irqs"
  shows "\<exists>e. aonsys_wakeup_source_clr flag s = (Ok (), s\<lparr>env := e\<rparr>)
    \<and> irqs e = (irqs (env s) - {WJ_CPR_IRQn, WJ_RTC_IRQn, DW_GPIO_IRQn}) \<union> set (takeWhile (\<lambda>i. i \<noteq> 0) (enabled_irq_num s)) - {DW_TIMER0_IRQn}"
proof -
  let ?e1 = "if flag AND AON_WAKEUP_BY_RTC \<noteq> 0 then rtc_intr_clr (soc s) (env s) else env s"
  let ?e2 = "if flag AND AON_WAKEUP_BY_GPIO \<noteq> 0 then gpio_intr_clr (soc s) ?e1 else ?e1"
  let ?s = "s\<lparr>env := irq_disable (soc s) DW_GPIO_IRQn (irq_disable (soc s) WJ_RTC_IRQn (irq_disable (soc s) WJ_CPR_IRQn ?e2))\<rparr>"
  obtain e where e: "irq_restore_loop (enabled_irq_num s) ?s = (Ok (), ?s\<lparr>env := e\<rparr>)"
    "irqs e = irqs (env ?s) \<union> set (takeWhile (\<lambda>i. i \<noteq> 0) (enabled_irq_num s))"
    using restore_loop_result [of ?s irqs] assms by auto
  have "irqs (env ?s) = irqs (env s) - {WJ_CPR_IRQn, WJ_RTC_IRQn, DW_GPIO_IRQn}"
    using assms by (auto simp: irq_ctl_def)
  then show ?thesis
    using e assms by (intro exI [of _ "irq_disable (soc s) DW_TIMER0_IRQn e"])
      (auto simp: aonsys_wakeup_source_clr_def seqs_def act_defs irq_ctl_def)
qed

lemma takeWhile_zeros: "set l = {0} \<Longrightarrow> takeWhile (\<lambda>i. i \<noteq> (0 :: nat)) (drop n l) = []"
  using in_set_dropD [of _ n l] by (cases "drop n l") auto

lemma Diff_Int_Un: "A - B \<union> A \<inter> B = A"
  by blast


text \<open>A chip whose hardware state is the set of enabled interrupts; it stands for no code.\<close>

definition sample_irq_chip :: "nat set \<Rightarrow> nat list \<Rightarrow> nat set chip_t" where
  "sample_irq_chip E old =
     \<lparr>soc =
        \<lparr>reg_read = (\<lambda>a e. (0, e)), reg_write = (\<lambda>a v e. e), irq_is_enabled = (\<lambda>i e. i \<in> e), irq_enable = insert,
         irq_disable = (\<lambda>i e. e - {i}), rtc_intr_clr = id, gpio_intr_clr = id, lpddr4_lp3_enter = (\<lambda>_. id), lpddr4_lp3_exit = (\<lambda>_. id),
         wait_for_interrupt = id, mbox_init = ret (), mbox_attach = ret (), mbox_receive = (\<lambda>ch n e. ([], e)),
         mbox_send = (\<lambda>bs n e. (Some 0, e)), timer_init = ret (), timer_attach = ret (),
         timer_start = (\<lambda>_. ret ()), timer_stop = id, wdt_init = (\<lambda>_. ret ()), wdt_intr_clear = (\<lambda>_. id),
         wdt_is_timeout = (\<lambda>_ e. (False, e)), pvt_init = (\<lambda>_. ret ()), pvt_rising_alarm = (\<lambda>_ _ _. ret ()),
         pvt_falling_alarm = (\<lambda>_ _ _. ret ()), pvt_attach = ret (), pvt_ts_num = (\<lambda>_. 1), pvt_read_ts = (\<lambda>_. id)\<rparr>,
      env = E, trace = [], g_chip_wakeup_flag = 0, enabled_irq_num = old, g_system_clock = 0,
      g_share_srame_clock = 0, g_sram_clk_div0_num = 0, g_sram_clk_div1_num = 0, g_aoi2c_ic_clk = 0, g_aonsys_clk_src_pll_div = 0\<rparr>"


subsection \<open>The low power mode and its flags\<close>

fun lp_code :: "SYS_LP_MODE \<Rightarrow> u32" where
  "lp_code SYS_LP_NONE = CHIP_LP_NONE"
| "lp_code SYS_LP_STANDBY = CHIP_LP_STANDBY"
| "lp_code SYS_LP_HW_VAD = CHIP_LP_HW_VAD"

lemma set_lp_mode_eq: "chip_lp_mode_set_lp_mode mode = reg_modify (\<lambda>_. push_bit CHIP_LP_MODE_OFFSET (lp_code mode)) REG_AON_CHIP_LP_MODE"
proof -
  have "d AND M AND NOT M = 0" for d M :: u32 by (simp add: and.assoc)
  then show ?thesis by (cases mode) (simp_all add: chip_lp_mode_set_lp_mode_def reg_modify_def)
qed

text \<open>
  C35: the low power mode reads back as it was set. Setting it, also to no mode at all at the end of a wake-up, clears the two flags that
  share the register: the mask is applied twice, so the flag bits are dropped before they are written back.
\<close>

theorem lp_mode_round_trip:
  fixes s :: "('e, 'z) chip_t_scheme"
  assumes "reg_file (soc s) R regs" and "R REG_AON_CHIP_LP_MODE"
  shows "\<exists>t u v w. chip_lp_mode_set_lp_mode mode s = (Ok (), t) \<and> chip_lp_mode_get_lp_mode t = (Ok (lp_code mode), u)
    \<and> regs (env t) = (regs (env s))(REG_AON_CHIP_LP_MODE := push_bit 16 (lp_code mode))
    \<and> chip_lp_mode_get_ddr_flag t = (Ok 0, v) \<and> chip_lp_mode_get_iopmp_flag t = (Ok 0, w)"
proof -
  have "ok_post (chip_lp_mode_set_lp_mode mode) (\<lambda>_ t. only_hw s t \<and> regs (env t) = upd_reg R REG_AON_CHIP_LP_MODE (\<lambda>_. push_bit CHIP_LP_MODE_OFFSET (lp_code mode)) (regs (env s))) s"
    using updates_modify assms(1) unfolding updates_def set_lp_mode_eq by blast
  then obtain t where t: "chip_lp_mode_set_lp_mode mode s = (Ok (), t)" "soc t = soc s"
    "regs (env t) = (regs (env s))(REG_AON_CHIP_LP_MODE := push_bit 16 (lp_code mode))"
    using assms(2) only_hw_soc by (auto simp: ok_post_def upd_reg_def CHIP_LP_MODE_OFFSET_def)
  have rd: "\<exists>e tr. bind_res (CHIP_REG_GET REG_AON_CHIP_LP_MODE) f t = f (push_bit 16 (lp_code mode)) (t\<lparr>env := e, trace := tr\<rparr>)" for f :: "u32 \<Rightarrow> ('e, 'z, u32) cact"
    using get_plain [of t R regs REG_AON_CHIP_LP_MODE f] assms t(2,3) by auto
  have bits: "drop_bit 16 (push_bit 16 (lp_code mode)) AND drop_bit 16 CHIP_LP_MODE_MASK = lp_code mode"
    "push_bit 16 (lp_code mode) AND CHIP_LP_MODE_DDR_FLAG_MASK = 0" "push_bit 16 (lp_code mode) AND CHIP_LP_MODE_IOPMP_FLAG_MASK = 0"
    by (cases mode; simp add: reg_defs)+
  show ?thesis
    using t rd [of "\<lambda>d. ret (drop_bit CHIP_LP_MODE_OFFSET (d AND CHIP_LP_MODE_MASK))"]
      rd [of "\<lambda>d. ret (drop_bit CHIP_LP_MODE_DDR_FLAG_OFFSET (d AND CHIP_LP_MODE_DDR_FLAG_MASK))"]
      rd [of "\<lambda>d. ret (drop_bit CHIP_LP_MODE_IOPMP_FLAG_OFFSET (d AND CHIP_LP_MODE_IOPMP_FLAG_MASK))"]
    by (auto simp: chip_lp_mode_get_lp_mode_def chip_lp_mode_get_ddr_flag_def chip_lp_mode_get_iopmp_flag_def ret_def bits CHIP_LP_MODE_OFFSET_def)
qed

theorem lp_mode_round_trip_witness:
  "\<exists>t u v w. chip_lp_mode_set_lp_mode SYS_LP_STANDBY (sample_chip\<lparr>env := (\<lambda>_. 3)\<rparr>) = (Ok (), t) \<and> chip_lp_mode_get_lp_mode t = (Ok CHIP_LP_STANDBY, u)
    \<and> env t = ((\<lambda>_. 3)(REG_AON_CHIP_LP_MODE := 0x20000))
    \<and> chip_lp_mode_get_ddr_flag t = (Ok 0, v) \<and> chip_lp_mode_get_iopmp_flag t = (Ok 0, w)"
  using lp_mode_round_trip [where s = "sample_chip\<lparr>env := (\<lambda>_. 3)\<rparr>" and R = "\<lambda>_. True" and regs = id and mode = SYS_LP_STANDBY]
    sample_reg_file by (simp add: sample_chip_def CHIP_LP_STANDBY_def)

subsection \<open>Clock sources over a sleep\<close>

lemma rc_loop_hangs: "d AND AON_RC_READY = 0 \<Longrightarrow> fst (rc_ready_loop fuel d s) = Hang"
  by (induction fuel arbitrary: s) (simp_all add: act_defs CHIP_REG_GET_def split: prod.splits)

lemma rc_loop_passes: "d AND AON_RC_READY \<noteq> 0 \<Longrightarrow> rc_ready_loop fuel d s = (Ok (), s)"
  by (cases fuel) (simp_all add: ret_def)

text \<open>
  C36: after a sleep the clock of the always-on domain only comes back when the RC oscillator reports ready at the very first read:
  the loop that waits for it does not look at what it reads. If the first value has no ready bit, the wake-up never returns, whatever
  the oscillator reports later and however long one waits.
\<close>

theorem rc_oscillator_wait:
  fixes s :: "('e, 'z) chip_t_scheme"
  shows "\<exists>c r v tr. trace (snd (aonsys_slp_clk_sel fuel False s)) = trace s
      @ [Rd REG_AON_AONSYS_CLK_CFG c, Wr REG_AON_AONSYS_CLK_CFG (c AND NOT AON_AONSYS_CLK_SWITCH_0_SWITCH_SEL),
         Rd REG_AON_RC_EN r, Wr REG_AON_RC_EN (r OR AON_RC_EN), Rd REG_AON_RC_READY v] @ tr
    \<and> fst (aonsys_slp_clk_sel fuel False s) = (if v AND AON_RC_READY \<noteq> 0 then Ok () else Hang)"
proof -
  have grow: "\<exists>tr. trace (snd (rc_ready_loop fuel d t)) = trace t @ tr" for d and t :: "('e, 'z) chip_t_scheme"
  proof (induction fuel arbitrary: t)
    case (Suc fuel)
    obtain w e where "reg_read (soc t) REG_AON_RC_READY (env t) = (w, e)" by fastforce
    then show ?case using Suc.IH [of "t\<lparr>env := e, trace := trace t @ [Rd REG_AON_RC_READY w]\<rparr>"]
      by (auto simp: act_defs CHIP_REG_GET_def)
  qed (simp add: act_defs)
  obtain c e1 where 1: "reg_read (soc s) REG_AON_AONSYS_CLK_CFG (env s) = (c, e1)" by fastforce
  define e2 where "e2 = reg_write (soc s) REG_AON_AONSYS_CLK_CFG (c AND NOT AON_AONSYS_CLK_SWITCH_0_SWITCH_SEL) e1"
  obtain r e3 where 2: "reg_read (soc s) REG_AON_RC_EN e2 = (r, e3)" by fastforce
  define e4 where "e4 = reg_write (soc s) REG_AON_RC_EN (r OR AON_RC_EN) e3"
  obtain v e5 where 3: "reg_read (soc s) REG_AON_RC_READY e4 = (v, e5)" by fastforce
  define t where "t = s\<lparr>env := e5, trace := trace s
      @ [Rd REG_AON_AONSYS_CLK_CFG c, Wr REG_AON_AONSYS_CLK_CFG (c AND NOT AON_AONSYS_CLK_SWITCH_0_SWITCH_SEL),
         Rd REG_AON_RC_EN r, Wr REG_AON_RC_EN (r OR AON_RC_EN), Rd REG_AON_RC_READY v]\<rparr>"
  define rest where "rest = (bind_res (CHIP_REG_GET REG_AON_AONSYS_CLK_CFG) (\<lambda>d.
      let data = d AND NOT (push_bit AON_AONSYS_CLK_CDE_RATIO_OFF AON_AONSYS_CLK_CDE_RATIO_MSK) AND NOT AON_AONSYS_CLK_CDE_SYNC in
      bind_res (CHIP_REG_SET data REG_AON_AONSYS_CLK_CFG) (\<lambda>_. CHIP_REG_SET (data OR AON_AONSYS_CLK_CDE_SYNC) REG_AON_AONSYS_CLK_CFG)) :: ('e, 'z, unit) cact)"
  have eq: "aonsys_slp_clk_sel fuel False s = bind_res (rc_ready_loop fuel v) (\<lambda>_. bind_res rest (\<lambda>_. ret ())) t"
    unfolding aonsys_slp_clk_sel_def seqs_def rest_def [symmetric]
    by (simp add: bind_res_def reg_modify_def CHIP_REG_GET_def CHIP_REG_SET_def 1 2 3 e2_def [symmetric] e4_def [symmetric] t_def)
  have tt: "trace t = trace s @ [Rd REG_AON_AONSYS_CLK_CFG c, Wr REG_AON_AONSYS_CLK_CFG (c AND NOT AON_AONSYS_CLK_SWITCH_0_SWITCH_SEL),
         Rd REG_AON_RC_EN r, Wr REG_AON_RC_EN (r OR AON_RC_EN), Rd REG_AON_RC_READY v]" by (simp add: t_def)
  show ?thesis
  proof (cases "v AND AON_RC_READY = 0")
    case True
    obtain u where "rc_ready_loop fuel v t = (Hang, u)" using rc_loop_hangs [OF True, of fuel t] by (cases "rc_ready_loop fuel v t") auto
    then show ?thesis using grow [of v t] True eq tt by (auto simp: bind_res_def)
  next
    case False
    have "\<exists>tr. trace (snd (bind_res rest (\<lambda>_. ret ()) t)) = trace t @ tr \<and> fst (bind_res rest (\<lambda>_. ret ()) t) = Ok ()"
      by (simp add: rest_def Let_def bind_res_def CHIP_REG_GET_def CHIP_REG_SET_def ret_def split: prod.splits)
    then show ?thesis using False eq tt rc_loop_passes [OF False, of fuel t] by (auto simp: bind_res_step)
  qed
qed

end
