(* ===== verification/Sys_Clk.thy ===== *)
theory Sys_Clk
  imports Chip_Base
begin

text \<open>
  Clock sources, dividers, PLLs and gates of the always-on domain (\<^verbatim>\<open>csi/chips/thead/light_aon/sys_clk.c\<close>), as built with
  \<^verbatim>\<open>CONFIG_BOOT_FR_UBOOT\<close> and \<^verbatim>\<open>USE_AOUART\<close>. The static variables are fields of the chip state.
\<close>

subsection \<open>Tables\<close>

datatype aon_clktype = AON_AUDIO_PLL | AON_SYS_PLL | AON_CPU_PLL | AON_CPU_PLL1 | AON_GMAC_PLL | AON_VIDEO_PLL | AON_DDR_PLL
  | AON_DPU_PLL0 | AON_DPU_PLL1 | AON_TEE_PLL | AON_OSC | AON_RTC

text \<open>\<^verbatim>\<open>PLL_MODE_FRAC\<close> is 1 and \<^verbatim>\<open>PLL_MODE_INT\<close> 2; the table also has a 0.\<close>

definition PLL_MODE_FRAC :: u32 where "PLL_MODE_FRAC = 1"
definition PLL_MODE_INT :: u32 where "PLL_MODE_INT = 2"

record aon_pll_rate_table =
  vco_rate :: u32
  rate :: u32
  fout3 :: u32
  refdiv :: u32
  fbdiv :: u32
  frac :: u32
  postdiv1 :: u32
  postdiv2 :: u32
  is_bypass :: u8
  pll_mode :: u32

definition AON_PLL_RATE :: "u32 \<Rightarrow> u32 \<Rightarrow> u32 \<Rightarrow> u32 \<Rightarrow> u32 \<Rightarrow> u32 \<Rightarrow> u32 \<Rightarrow> u32 \<Rightarrow> u8 \<Rightarrow> u32 \<Rightarrow> aon_pll_rate_table" where
  "AON_PLL_RATE vco r fo rf fb fr p k bp m =
     \<lparr>vco_rate = vco, rate = r, fout3 = fo, refdiv = rf, fbdiv = fb, frac = fr, postdiv1 = p, postdiv2 = k, is_bypass = bp, pll_mode = m\<rparr>"

definition fm_aon_audiopll_tbl :: "aon_pll_rate_table list" where
  "fm_aon_audiopll_tbl =
     [AON_PLL_RATE 24000000 24000000 24000000 1 1 1 1 1 1 0,
      AON_PLL_RATE 864000000 288000000 48000000 1 36 0 3 1 0 PLL_MODE_INT,
      AON_PLL_RATE 884736000 294912000 49152000 1 36 14495600 3 1 0 PLL_MODE_FRAC,
      AON_PLL_RATE 2064384000 294912000 49152000 1 86 268500 7 1 0 PLL_MODE_FRAC]"

definition fm_aon_syspll_tbl :: "aon_pll_rate_table list" where
  "fm_aon_syspll_tbl =
     [AON_PLL_RATE 2438553600 135475200 22579200 1 101 10173704 6 3 0 PLL_MODE_FRAC,
      AON_PLL_RATE 2424000000 134667000 22444500 1 101 0 6 3 0 PLL_MODE_INT,
      AON_PLL_RATE 884736000 294912000 49152000 1 36 14495600 3 1 0 PLL_MODE_FRAC]"

record aon_pll_clk =
  clk_type :: aon_clktype
  rate_table :: "aon_pll_rate_table list"
  rate_count :: u8
  lock_bit :: u32

definition fm_aon_audiopll_div :: aon_pll_clk where
  "fm_aon_audiopll_div = \<lparr>clk_type = AON_AUDIO_PLL, rate_table = fm_aon_audiopll_tbl, rate_count = 4, lock_bit = AUDIO_PLL_LOCKED\<rparr>"

definition fm_aon_syspll_div :: aon_pll_clk where
  "fm_aon_syspll_div = \<lparr>clk_type = AON_SYS_PLL, rate_table = fm_aon_syspll_tbl, rate_count = 3, lock_bit = SYS_PLL_LOCKED\<rparr>"

definition aonreg_update_bits :: "u32 \<Rightarrow> u32 \<Rightarrow> u32 \<Rightarrow> ('e, 'z, unit) cact" where
  "aonreg_update_bits reg msk val = reg_modify (\<lambda>data. (data AND NOT msk) OR (val AND msk)) reg"

subsection \<open>Clock gates\<close>

definition soc_rtc_pclk_enable :: "bool \<Rightarrow> ('e, 'z, unit) cact" where
  "soc_rtc_pclk_enable en = aonreg_update_bits REG_AONSYS_CLK_GATE AON_RTC_PCLK_EN (if en then AON_RTC_PCLK_EN else 0)"

definition soc_aogpio_pclk_enable :: "bool \<Rightarrow> ('e, 'z, unit) cact" where
  "soc_aogpio_pclk_enable en = aonreg_update_bits REG_AONSYS_CLK_GATE AON_AOGPIO_PCLK_EN (if en then AON_AOGPIO_PCLK_EN else 0)"

definition soc_gpio4_pclk_enable :: "bool \<Rightarrow> ('e, 'z, unit) cact" where
  "soc_gpio4_pclk_enable en = aonreg_update_bits REG_AONSYS_CLK_GATE AON_AUDGPIO_PCLK_EN (if en then AON_AUDGPIO_PCLK_EN else 0)"

definition soc_aoi2c_pclk_enable :: "bool \<Rightarrow> ('e, 'z, unit) cact" where
  "soc_aoi2c_pclk_enable en = aonreg_update_bits REG_AONSYS_CLK_GATE AON_AOI2C_PCLK_EN (if en then AON_AOI2C_PCLK_EN else 0)"

definition soc_pvtc_pclk_enable :: "bool \<Rightarrow> ('e, 'z, unit) cact" where
  "soc_pvtc_pclk_enable en = aonreg_update_bits REG_AONSYS_CLK_GATE AON_PVTC_PCLK_EN (if en then AON_PVTC_PCLK_EN else 0)"

definition soc_aopad_pclk_enable :: "bool \<Rightarrow> ('e, 'z, unit) cact" where
  "soc_aopad_pclk_enable en = aonreg_update_bits REG_AONSYS_CLK_GATE AON_AOPAD_PCLK_EN (if en then AON_AOPAD_PCLK_EN else 0)"

definition soc_aotimer_pclk_enable :: "bool \<Rightarrow> ('e, 'z, unit) cact" where
  "soc_aotimer_pclk_enable en = aonreg_update_bits REG_AONSYS_CLK_GATE AON_AOTIMER_PCLK_EN (if en then AON_AOTIMER_PCLK_EN else 0)"

definition soc_aowdt_pclk_enable :: "bool \<Rightarrow> ('e, 'z, unit) cact" where
  "soc_aowdt_pclk_enable en = aonreg_update_bits REG_AONSYS_CLK_GATE AON_AOWDT_PCLK_EN (if en then AON_AOWDT_PCLK_EN else 0)"

definition soc_adc_pclk_enable :: "bool \<Rightarrow> ('e, 'z, unit) cact" where
  "soc_adc_pclk_enable en = aonreg_update_bits REG_AONSYS_CLK_GATE AON_ADC_PCLK_EN (if en then AON_ADC_PCLK_EN else 0)"

definition soc_aouart_pclk_enable :: "bool \<Rightarrow> ('e, 'z, unit) cact" where
  "soc_aouart_pclk_enable en = aonreg_update_bits REG_AONSYS_CLK_GATE AON_AOUART_PCLK_EN (if en then AON_AOUART_PCLK_EN else 0)"

definition soc_sram_axi_core_clk_enable :: "bool \<Rightarrow> ('e, 'z, unit) cact" where
  "soc_sram_axi_core_clk_enable en = aonreg_update_bits REG_AONSYS_CLK_GATE AON_SRAM_AXI_CORE_CLK_EN (if en then AON_SRAM_AXI_CORE_CLK_EN else 0)"

definition soc_dspsys_aclk_s_clk_enable :: "bool \<Rightarrow> ('e, 'z, unit) cact" where
  "soc_dspsys_aclk_s_clk_enable en = aonreg_update_bits REG_AONSYS_CLK_GATE AON_DSPSYS_ACLK_S_EN (if en then AON_DSPSYS_ACLK_S_EN else 0)"

definition soc_sram_axi_aclk_4_clk_enable :: "bool \<Rightarrow> ('e, 'z, unit) cact" where
  "soc_sram_axi_aclk_4_clk_enable en = aonreg_update_bits REG_AONSYS_CLK_GATE AON_SRAM_AXI_ACLK_4_EN (if en then AON_SRAM_AXI_ACLK_4_EN else 0)"

definition soc_aogpio_dbclk_enable :: "bool \<Rightarrow> ('e, 'z, unit) cact" where
  "soc_aogpio_dbclk_enable en = aonreg_update_bits REG_AONSYS_CLK_GATE AON_AOGPIO_DBCLK_EN (if en then AON_AOGPIO_DBCLK_EN else 0)"

definition soc_gpio4_dbclk_enable :: "bool \<Rightarrow> ('e, 'z, unit) cact" where
  "soc_gpio4_dbclk_enable en = aonreg_update_bits REG_AONSYS_CLK_GATE AON_AUDGPIO_DBCLK_EN (if en then AON_AUDGPIO_DBCLK_EN else 0)"

definition soc_aotimer_cclk_enable :: "bool \<Rightarrow> ('e, 'z, unit) cact" where
  "soc_aotimer_cclk_enable en = aonreg_update_bits REG_AONSYS_CLK_GATE AON_AOTIMER_CCLK_EN (if en then AON_AOTIMER_CCLK_EN else 0)"

definition soc_rtc_clk_enable :: "bool \<Rightarrow> ('e, 'z, unit) cact" where
  "soc_rtc_clk_enable en = aonreg_update_bits REG_AONSYS_CLK_GATE AON_RTC_PCLK_EN (if en then AON_RTC_PCLK_EN else 0)"

definition soc_aoi2c_ic_clk_enable :: "bool \<Rightarrow> ('e, 'z, unit) cact" where
  "soc_aoi2c_ic_clk_enable en = aonreg_update_bits REG_AONSYS_CLK_GATE AON_AOI2C_IC_CLK_EN (if en then AON_AOI2C_IC_CLK_EN else 0)"

definition soc_aouart_sclk_enable :: "bool \<Rightarrow> ('e, 'z, unit) cact" where
  "soc_aouart_sclk_enable en = aonreg_update_bits REG_AONSYS_CLK_GATE AON_AOUART_SCLK_EN (if en then AON_AOUART_SCLK_EN else 0)"

definition soc_peri_i2s_src_clk_0_enable :: "bool \<Rightarrow> ('e, 'z, unit) cact" where
  "soc_peri_i2s_src_clk_0_enable en = aonreg_update_bits REG_APSYS_CLK_GATE APSYS_CLK_EN (if en then APSYS_CLK_EN else 0)"

definition soc_peri_i2s_src_clk_1_enable :: "bool \<Rightarrow> ('e, 'z, unit) cact" where
  "soc_peri_i2s_src_clk_1_enable en = aonreg_update_bits REG_APSYS_CLK_GATE APSYS_CLK_EN (if en then APSYS_CLK_EN else 0)"

subsection \<open>Frequencies\<close>

definition soc_get_rtc_pclk :: "('e, 'z, u32) cact" where
  "soc_get_rtc_pclk = get_st g_system_clock"

definition soc_get_aogpio_pclk :: "('e, 'z, u32) cact" where
  "soc_get_aogpio_pclk = get_st g_system_clock"

definition soc_get_gpio4_pclk :: "('e, 'z, u32) cact" where
  "soc_get_gpio4_pclk = get_st g_system_clock"

definition soc_get_aoi2c_pclk :: "('e, 'z, u32) cact" where
  "soc_get_aoi2c_pclk = get_st g_system_clock"

definition soc_get_e902_cclk :: "('e, 'z, u32) cact" where
  "soc_get_e902_cclk = get_st g_system_clock"

definition soc_get_aoahb_clk :: "('e, 'z, u32) cact" where
  "soc_get_aoahb_clk = get_st g_system_clock"

definition soc_get_aosram_hclk :: "('e, 'z, u32) cact" where
  "soc_get_aosram_hclk = get_st g_system_clock"

definition soc_get_aoapb_hclk :: "('e, 'z, u32) cact" where
  "soc_get_aoapb_hclk = get_st g_system_clock"

definition soc_get_aopad_pclk :: "('e, 'z, u32) cact" where
  "soc_get_aopad_pclk = get_st g_system_clock"

definition soc_get_aotimer_pclk :: "('e, 'z, u32) cact" where
  "soc_get_aotimer_pclk = get_st g_system_clock"

definition soc_get_adc_pclk :: "('e, 'z, u32) cact" where
  "soc_get_adc_pclk = get_st g_system_clock"

definition soc_get_aouart_pclk :: "('e, 'z, u32) cact" where
  "soc_get_aouart_pclk = get_st g_system_clock"

definition soc_get_pvtc_pclk :: "u32 \<Rightarrow> ('e, 'z, u32) cact" where
  "soc_get_pvtc_pclk idx = get_st g_system_clock"

definition soc_get_wdt_freq :: "u32 \<Rightarrow> ('e, 'z, u32) cact" where
  "soc_get_wdt_freq idx = get_st g_system_clock"

definition soc_get_cur_cpu_freq :: "('e, 'z, u32) cact" where
  "soc_get_cur_cpu_freq = get_st g_system_clock"

definition soc_get_sram_axi_core_clk :: "('e, 'z, u32) cact" where
  "soc_get_sram_axi_core_clk = get_st g_share_srame_clock"

definition soc_get_dspsys_aclk_s_clk :: "('e, 'z, u32) cact" where
  "soc_get_dspsys_aclk_s_clk = get_st g_share_srame_clock"

definition soc_get_aoi2c_ic_clk :: "('e, 'z, u32) cact" where
  "soc_get_aoi2c_ic_clk = get_st g_aoi2c_ic_clk"

definition soc_get_iic_freq :: "u32 \<Rightarrow> ('e, 'z, u32) cact" where
  "soc_get_iic_freq idx = soc_get_aoi2c_ic_clk"

definition soc_get_aotimer_cclk :: u32 where "soc_get_aotimer_cclk = 24000000"
definition soc_get_aouart_sclk :: "u32 \<Rightarrow> u32" where "soc_get_aouart_sclk idx = 24000000"
definition soc_get_sram_axi_aclk_4_clk :: u32 where "soc_get_sram_axi_aclk_4_clk = 0"
definition soc_get_aogpio_dbclk :: u32 where "soc_get_aogpio_dbclk = 32768"
definition soc_get_audgpio_dbclk :: u32 where "soc_get_audgpio_dbclk = 32768"
definition soc_get_gpio4_dbclk :: u32 where "soc_get_gpio4_dbclk = soc_get_audgpio_dbclk"
definition soc_get_rtc_freq :: "u32 \<Rightarrow> u32" where "soc_get_rtc_freq idx = 32768"
definition soc_get_timer_freq :: "u32 \<Rightarrow> u32" where "soc_get_timer_freq idx = soc_get_aotimer_cclk"
definition soc_get_coretim_freq :: u32 where "soc_get_coretim_freq = 3000000"

definition soc_get_uart_freq :: "u32 \<Rightarrow> u32" where
  "soc_get_uart_freq idx = (if idx = 1 then 100000000 else soc_get_aouart_sclk idx)"

subsection \<open>Switches and dividers\<close>

definition share_sram_clk_switch :: "aon_clktype \<Rightarrow> ('e, 'z, unit) cact" where
  "share_sram_clk_switch pll =
     bind_res (CHIP_REG_GET REG_SHARE_SRAM_CLK_CFG) (\<lambda>data.
     case pll of
       AON_AUDIO_PLL \<Rightarrow> CHIP_REG_SET (data OR SHARE_SRAM_CLK_SWITCH_SEL) REG_SHARE_SRAM_CLK_CFG
     | AON_SYS_PLL \<Rightarrow> CHIP_REG_SET (data AND NOT SHARE_SRAM_CLK_SWITCH_SEL) REG_SHARE_SRAM_CLK_CFG
     | _ \<Rightarrow> fail CSI_ERROR)"

definition aoi2c_ic_clk_switch :: "aon_clktype \<Rightarrow> ('e, 'z, unit) cact" where
  "aoi2c_ic_clk_switch clk =
     bind_res (CHIP_REG_GET REG_AOI2C_CLK_CFG) (\<lambda>data.
     case clk of
       AON_AUDIO_PLL \<Rightarrow> CHIP_REG_SET (data AND NOT AOI2C_IC_CLK_MUX_SEL) REG_AOI2C_CLK_CFG
     | AON_OSC \<Rightarrow> CHIP_REG_SET (data OR AOI2C_IC_CLK_MUX_SEL) REG_AOI2C_CLK_CFG
     | _ \<Rightarrow> fail CSI_ERROR)"

text \<open>The enable bit that is toggled is the one of divider 0 for both dividers.\<close>

definition share_sram_clk_div_set :: "u32 \<Rightarrow> u32 \<Rightarrow> ('e, 'z, unit) cact" where
  "share_sram_clk_div_set div_idx div_num =
     bind_res (CHIP_REG_GET REG_SHARE_SRAM_CLK_CFG) (\<lambda>d.
     bind_res
       (if div_idx = 0 then
          bind_res (upd_st (\<lambda>s. s\<lparr>g_sram_clk_div0_num := div_num AND SHARE_SRAM_CLK_DIV_NUM_MASK\<rparr>)) (\<lambda>_.
          ret ((d AND NOT (push_bit SHARE_SRAM_CLK_DIV0_DIV_NUM_SHIFT SHARE_SRAM_CLK_DIV_NUM_MASK))
            OR push_bit SHARE_SRAM_CLK_DIV0_DIV_NUM_SHIFT (div_num AND SHARE_SRAM_CLK_DIV_NUM_MASK)))
        else if div_idx = 1 then
          bind_res (upd_st (\<lambda>s. s\<lparr>g_sram_clk_div1_num := div_num AND SHARE_SRAM_CLK_DIV_NUM_MASK\<rparr>)) (\<lambda>_.
          ret ((d AND NOT (push_bit SHARE_SRAM_CLK_DIV1_DIV_NUM_SHIFT SHARE_SRAM_CLK_DIV_NUM_MASK))
            OR push_bit SHARE_SRAM_CLK_DIV1_DIV_NUM_SHIFT (div_num AND SHARE_SRAM_CLK_DIV_NUM_MASK)))
        else fail CSI_ERROR) (\<lambda>data.
     bind_res (CHIP_REG_SET data REG_SHARE_SRAM_CLK_CFG) (\<lambda>_.
     let data1 = data AND NOT SHARE_SRAM_CLK_DIV0_DIV_EN in
     bind_res (CHIP_REG_SET data1 REG_SHARE_SRAM_CLK_CFG) (\<lambda>_.
     CHIP_REG_SET (data1 OR SHARE_SRAM_CLK_DIV0_DIV_EN) REG_SHARE_SRAM_CLK_CFG))))"

definition sys_clk_switch_to_rc :: "bool \<Rightarrow> ('e, 'z, unit) cact" where
  "sys_clk_switch_to_rc en =
     (if en then set_bits AONSYS_CLK_SWITCH_TO_RC_MASK REG_AONSYS_CLK_CFG else clr_bits AONSYS_CLK_SWITCH_TO_RC_MASK REG_AONSYS_CLK_CFG)"

definition sys_clk_switch_to_pll :: "bool \<Rightarrow> ('e, 'z, unit) cact" where
  "sys_clk_switch_to_pll en =
     (if en then clr_bits AONSYS_CLK_SWITCH_TO_PLL_MASK REG_AONSYS_CLK_CFG else set_bits AONSYS_CLK_SWITCH_TO_PLL_MASK REG_AONSYS_CLK_CFG)"

definition aonsys_clk_pll_src_div_set :: "u32 \<Rightarrow> ('e, 'z, unit) cact" where
  "aonsys_clk_pll_src_div_set div_num =
     bind_res (CHIP_REG_GET REG_AONSYS_CLK_CFG) (\<lambda>d.
     let data = (d AND NOT (push_bit AONSYS_CLK_DIV_NUM_SHIFT AONSYS_CLK_DIV_NUM_MASK))
                OR push_bit AONSYS_CLK_DIV_NUM_SHIFT (div_num AND AONSYS_CLK_DIV_NUM_MASK);
         data1 = data AND NOT AONSYS_CLK_DIV_EN_MASK
     in bind_res (CHIP_REG_SET data REG_AONSYS_CLK_CFG) (\<lambda>_.
        bind_res (CHIP_REG_SET data1 REG_AONSYS_CLK_CFG) (\<lambda>_.
        bind_res (CHIP_REG_SET (data1 OR AONSYS_CLK_DIV_EN_MASK) REG_AONSYS_CLK_CFG) (\<lambda>_.
        upd_st (\<lambda>s. s\<lparr>g_aonsys_clk_src_pll_div := div_num AND AONSYS_CLK_DIV_NUM_MASK\<rparr>)))))"

text \<open>The arguments of the first write are exchanged: the address of the register is written to the address \<open>data\<close>.\<close>

definition aonsys_clk_ratio_set :: "u32 \<Rightarrow> ('e, 'z, unit) cact" where
  "aonsys_clk_ratio_set ratio =
     bind_res (CHIP_REG_GET REG_AONSYS_CLK_CFG) (\<lambda>d.
     let data = (d AND NOT (push_bit AONSYS_CLK_DIV_NUM_SHIFT AONSYS_CLK_CDE_RATIO_MASK))
                OR push_bit AONSYS_CLK_DIV_NUM_SHIFT (ratio AND AONSYS_CLK_CDE_RATIO_MASK);
         data1 = data AND NOT AONSYS_CLK_CDE_SYNC
     in bind_res (CHIP_REG_SET REG_AONSYS_CLK_CFG data) (\<lambda>_.
        bind_res (CHIP_REG_SET data1 REG_AONSYS_CLK_CFG) (\<lambda>_.
        CHIP_REG_SET (data1 OR AONSYS_CLK_CDE_SYNC) REG_AONSYS_CLK_CFG)))"

subsection \<open>PLLs\<close>

text \<open>\<^verbatim>\<open>do { read; delay_cnt++; if (delay_cnt >= LOCK_TIMEOUT_US) ... } while (not locked)\<close>; \<open>n\<close> reads are left.\<close>

fun wait_lock_loop :: "nat \<Rightarrow> u32 \<Rightarrow> ('e, 'z, unit) cact" where
  "wait_lock_loop 0 lock = fail CSI_TIMEOUT"
| "wait_lock_loop (Suc n) lock =
     bind_res (CHIP_REG_GET REG_AONSYS_PLL_STS) (\<lambda>data.
     if n = 0 then fail CSI_TIMEOUT
     else if data AND lock \<noteq> 0 then ret () else wait_lock_loop n lock)"

definition aon_pll_wait_lock :: "aon_pll_clk \<Rightarrow> ('e, 'z, unit) cact" where
  "aon_pll_wait_lock dv = wait_lock_loop LOCK_TIMEOUT_US (lock_bit dv)"

definition pll_cfg_regs :: "aon_clktype \<Rightarrow> (u32 \<times> u32) option" where
  "pll_cfg_regs t =
     (case t of
        AON_AUDIO_PLL \<Rightarrow> Some (REG_AUDIO_PLL_CFG0, REG_AUDIO_PLL_CFG1)
      | AON_SYS_PLL \<Rightarrow> Some (REG_SYS_PLL_CFG0, REG_SYS_PLL_CFG1)
      | _ \<Rightarrow> None)"

definition pll_div_val :: "aon_pll_rate_table \<Rightarrow> u32" where
  "pll_div_val r = push_bit AON_REFDIV_SHIFT (refdiv r) OR push_bit AON_FBDIV_SHIFT (fbdiv r)
     OR push_bit AON_POSTDIV1_SHIFT (postdiv1 r) OR push_bit AON_POSTDIV2_SHIFT (postdiv2 r)"

definition pll_cfg1_val :: "aon_pll_rate_table \<Rightarrow> u32 \<Rightarrow> u32" where
  "pll_cfg1_val r data0 =
     (let data = (data0 AND NOT AON_PLL_BYPASS_MASK AND NOT AON_DACPD_MASK) OR AON_DSMPD_MASK in
      if pll_mode r = PLL_MODE_FRAC
      then ((data AND NOT (push_bit AON_FRAC_SHIFT AON_FRAC_MASK)) OR frac r) AND NOT AON_DSMPD_MASK OR AON_DACPD_MASK
      else data)"

definition clk_aon_pll_set_rate :: "aon_pll_clk \<Rightarrow> nat \<Rightarrow> ('e, 'z, unit) cact" where
  "clk_aon_pll_set_rate dv idx =
     bind_res (arr_get (rate_table dv) idx) (\<lambda>r.
     case pll_cfg_regs (clk_type dv) of
       None \<Rightarrow> fail CSI_ERROR
     | Some (pll_cfg0, pll_cfg1) \<Rightarrow>
         bind_res (set_bits AON_PLL_RST_MASK pll_cfg1) (\<lambda>_.
         bind_res (CHIP_REG_SET (pll_div_val r) pll_cfg0) (\<lambda>_.
         bind_res (reg_modify (pll_cfg1_val r) pll_cfg1) (\<lambda>_.
         bind_res (clr_bits AON_PLL_RST_MASK pll_cfg1) (\<lambda>_.
         aon_pll_wait_lock dv)))))"

subsection \<open>Setting frequencies\<close>

definition soc_set_aoi2c_ic_freq :: "u32 \<Rightarrow> ('e, 'z, unit) cact" where
  "soc_set_aoi2c_ic_freq freq =
     (if freq \<noteq> 49152000 \<and> freq \<noteq> 24000000 then fail CSI_ERROR
      else
        bind_res (ignore (aoi2c_ic_clk_switch (if freq = 49152000 then AON_AUDIO_PLL else AON_OSC))) (\<lambda>_.
        upd_st (\<lambda>s. s\<lparr>g_aoi2c_ic_clk := freq\<rparr>)))"

definition soc_set_share_sram_freq :: "u32 \<Rightarrow> ('e, 'z, unit) cact" where
  "soc_set_share_sram_freq freq =
     bind_res (get_st g_share_srame_clock) (\<lambda>cur.
     if cur = freq then ret ()
     else if freq = 812851200 \<or> freq = 688128000 then
       bind_res (ignore (share_sram_clk_switch (if freq = 812851200 then AON_SYS_PLL else AON_AUDIO_PLL))) (\<lambda>_.
       upd_st (\<lambda>s. s\<lparr>g_share_srame_clock := freq\<rparr>))
     else fail CSI_ERROR)"

definition soc_set_sys_freq :: "u32 \<Rightarrow> ('e, 'z, unit) cact" where
  "soc_set_sys_freq freq =
     (if freq \<noteq> 73728000 \<and> freq \<noteq> 24000000 \<and> freq \<noteq> 26000000 then ret ()
      else
        bind_res (get_st g_system_clock) (\<lambda>cur.
        if cur = freq then ret ()
        else
          bind_res
            (if freq = 73728000 then
               (if cur = 24000000 then sys_clk_switch_to_pll True
                else if cur = 26000000 then seqs [sys_clk_switch_to_pll True, sys_clk_switch_to_rc False]
                else ret ())
             else if freq = 24000000 then
               (if cur = 73728000 then sys_clk_switch_to_pll False
                else if cur = 26000000 then seqs [sys_clk_switch_to_pll False, sys_clk_switch_to_rc False]
                else ret ())
             else sys_clk_switch_to_rc True) (\<lambda>_.
          upd_st (\<lambda>s. s\<lparr>g_system_clock := freq\<rparr>))))"

definition clk_aon_clk_init :: "('e, 'z, unit) cact" where
  "clk_aon_clk_init =
     bind_res (upd_st (\<lambda>s. s\<lparr>g_system_clock := 73728000, g_share_srame_clock := 812851200, g_aoi2c_ic_clk := 49152000\<rparr>)) (\<lambda>_.
     CHIP_REG_SET APSYS_CLK_EN REG_APSYS_CLK_GATE)"

subsection \<open>The source of the system clock\<close>

text \<open>
  Which source the switches of the clock register select: switch 0 takes the PLL when its bit is clear and the output of switch 1
  otherwise, which is the RC oscillator or the crystal. The register agrees with the frequency the software has recorded when
  the switches select it, the RC bit being clear unless the RC oscillator is used.
\<close>

definition sys_clk_ok :: "u32 \<Rightarrow> u32 \<Rightarrow> bool" where
  "sys_clk_ok v f \<longleftrightarrow>
     f = 73728000 \<and> v AND AONSYS_CLK_SWITCH_TO_PLL_MASK = 0 \<and> v AND AONSYS_CLK_SWITCH_TO_RC_MASK = 0
   \<or> f = 24000000 \<and> v AND AONSYS_CLK_SWITCH_TO_PLL_MASK \<noteq> 0 \<and> v AND AONSYS_CLK_SWITCH_TO_RC_MASK = 0
   \<or> f = 26000000 \<and> v AND AONSYS_CLK_SWITCH_TO_PLL_MASK \<noteq> 0 \<and> v AND AONSYS_CLK_SWITCH_TO_RC_MASK \<noteq> 0"

lemma bit_masks:
  fixes v :: u32
  shows "(v OR 2 ^ i) AND 2 ^ i \<noteq> 0 \<longleftrightarrow> i < 32" "(v AND NOT (2 ^ i)) AND 2 ^ i = 0"
    and "i \<noteq> j \<Longrightarrow> (v OR 2 ^ i) AND 2 ^ j = v AND 2 ^ j" "i \<noteq> j \<Longrightarrow> (v AND NOT (2 ^ i)) AND 2 ^ j = v AND 2 ^ j"
proof -
  show "(v OR 2 ^ i) AND 2 ^ i \<noteq> 0 \<longleftrightarrow> i < 32"
    by (auto simp: and_exp_eq_0_iff_not_bit bit_simps)
  show "(v AND NOT (2 ^ i)) AND 2 ^ i = 0"
    by (auto simp: and_exp_eq_0_iff_not_bit bit_simps)
  show "i \<noteq> j \<Longrightarrow> (v OR 2 ^ i) AND 2 ^ j = v AND 2 ^ j" "i \<noteq> j \<Longrightarrow> (v AND NOT (2 ^ i)) AND 2 ^ j = v AND 2 ^ j"
    by (auto intro!: bit_word_eqI simp: bit_simps)
qed

lemmas switch_bits = bit_masks(1) [where i = 4] bit_masks(1) [where i = 5] bit_masks(2) [where i = 4] bit_masks(2) [where i = 5]
  bit_masks(3) [where i = 4 and j = 5] bit_masks(3) [where i = 5 and j = 4] bit_masks(4) [where i = 4 and j = 5] bit_masks(4) [where i = 5 and j = 4]

lemma pll_switch_result:
  fixes s :: "('e, 'z) chip_t_scheme"
  assumes "reg_file (soc s) R regs" and "R REG_AONSYS_CLK_CFG"
  obtains e tr where "sys_clk_switch_to_pll en s = (Ok (), s\<lparr>env := e, trace := tr\<rparr>)"
    and "regs e = (regs (env s))(REG_AONSYS_CLK_CFG := if en then regs (env s) REG_AONSYS_CLK_CFG AND NOT AONSYS_CLK_SWITCH_TO_PLL_MASK
      else regs (env s) REG_AONSYS_CLK_CFG OR AONSYS_CLK_SWITCH_TO_PLL_MASK)"
proof (cases en)
  case True
  show thesis by (rule modify_plain [OF assms, of "\<lambda>data. data AND NOT AONSYS_CLK_SWITCH_TO_PLL_MASK"], rule that)
      (simp_all add: True sys_clk_switch_to_pll_def)
next
  case False
  show thesis by (rule modify_plain [OF assms, of "\<lambda>data. data OR AONSYS_CLK_SWITCH_TO_PLL_MASK"], rule that)
      (simp_all add: False sys_clk_switch_to_pll_def)
qed

lemma rc_switch_result:
  fixes s :: "('e, 'z) chip_t_scheme"
  assumes "reg_file (soc s) R regs" and "R REG_AONSYS_CLK_CFG"
  obtains e tr where "sys_clk_switch_to_rc en s = (Ok (), s\<lparr>env := e, trace := tr\<rparr>)"
    and "regs e = (regs (env s))(REG_AONSYS_CLK_CFG := if en then regs (env s) REG_AONSYS_CLK_CFG OR AONSYS_CLK_SWITCH_TO_RC_MASK
      else regs (env s) REG_AONSYS_CLK_CFG AND NOT AONSYS_CLK_SWITCH_TO_RC_MASK)"
proof (cases en)
  case True
  show thesis by (rule modify_plain [OF assms, of "\<lambda>data. data OR AONSYS_CLK_SWITCH_TO_RC_MASK"], rule that)
      (simp_all add: True sys_clk_switch_to_rc_def)
next
  case False
  show thesis by (rule modify_plain [OF assms, of "\<lambda>data. data AND NOT AONSYS_CLK_SWITCH_TO_RC_MASK"], rule that)
      (simp_all add: False sys_clk_switch_to_rc_def)
qed

text \<open>The register after a change between two of the three frequencies.\<close>

definition switched :: "u32 \<Rightarrow> u32 \<Rightarrow> u32 \<Rightarrow> u32" where
  "switched cur freq v =
     (if freq = cur then v
      else if freq = 73728000 then (if cur = 26000000 then (v AND NOT AONSYS_CLK_SWITCH_TO_PLL_MASK) AND NOT AONSYS_CLK_SWITCH_TO_RC_MASK else v AND NOT AONSYS_CLK_SWITCH_TO_PLL_MASK)
      else if freq = 24000000 then (if cur = 26000000 then (v OR AONSYS_CLK_SWITCH_TO_PLL_MASK) AND NOT AONSYS_CLK_SWITCH_TO_RC_MASK else v OR AONSYS_CLK_SWITCH_TO_PLL_MASK)
      else v OR AONSYS_CLK_SWITCH_TO_RC_MASK)"

lemma set_sys_freq_result:
  fixes s :: "('e, 'z) chip_t_scheme"
  assumes "reg_file (soc s) R regs" and "R REG_AONSYS_CLK_CFG"
    and "freq \<in> {73728000, 24000000, 26000000}" and "g_system_clock s \<in> {73728000, 24000000, 26000000}"
  shows "\<exists>e tr. soc_set_sys_freq freq s = (Ok (), s\<lparr>env := e, trace := tr, g_system_clock := freq\<rparr>)
    \<and> regs e = (regs (env s))(REG_AONSYS_CLK_CFG := switched (g_system_clock s) freq (regs (env s) REG_AONSYS_CLK_CFG))"
proof (cases "g_system_clock s = freq")
  case True
  have "s = s\<lparr>env := env s, trace := trace s, g_system_clock := freq\<rparr>" using True by simp
  with True assms(3) show ?thesis
    by (intro exI [of _ "env s"] exI [of _ "trace s"]) (auto simp: soc_set_sys_freq_def act_defs switched_def)
next
  case ne: False
  obtain e1 tr1 where pt: "sys_clk_switch_to_pll True s = (Ok (), s\<lparr>env := e1, trace := tr1\<rparr>)"
    "regs e1 = (regs (env s))(REG_AONSYS_CLK_CFG := regs (env s) REG_AONSYS_CLK_CFG AND NOT AONSYS_CLK_SWITCH_TO_PLL_MASK)"
    by (rule pll_switch_result [OF assms(1,2), of True]) simp
  obtain e2 tr2 where pf: "sys_clk_switch_to_pll False s = (Ok (), s\<lparr>env := e2, trace := tr2\<rparr>)"
    "regs e2 = (regs (env s))(REG_AONSYS_CLK_CFG := regs (env s) REG_AONSYS_CLK_CFG OR AONSYS_CLK_SWITCH_TO_PLL_MASK)"
    by (rule pll_switch_result [OF assms(1,2), of False]) simp
  obtain e3 tr3 where rt: "sys_clk_switch_to_rc True s = (Ok (), s\<lparr>env := e3, trace := tr3\<rparr>)"
    "regs e3 = (regs (env s))(REG_AONSYS_CLK_CFG := regs (env s) REG_AONSYS_CLK_CFG OR AONSYS_CLK_SWITCH_TO_RC_MASK)"
    by (rule rc_switch_result [OF assms(1,2), of True]) simp
  obtain e4 tr4 where plr: "sys_clk_switch_to_rc False (s\<lparr>env := e1, trace := tr1\<rparr>) = (Ok (), s\<lparr>env := e4, trace := tr4\<rparr>)"
    "regs e4 = (regs e1)(REG_AONSYS_CLK_CFG := regs e1 REG_AONSYS_CLK_CFG AND NOT AONSYS_CLK_SWITCH_TO_RC_MASK)"
    by (rule rc_switch_result [of "s\<lparr>env := e1, trace := tr1\<rparr>" R regs False]) (use assms(1,2) in simp_all)
  obtain e5 tr5 where pfr: "sys_clk_switch_to_rc False (s\<lparr>env := e2, trace := tr2\<rparr>) = (Ok (), s\<lparr>env := e5, trace := tr5\<rparr>)"
    "regs e5 = (regs e2)(REG_AONSYS_CLK_CFG := regs e2 REG_AONSYS_CLK_CFG AND NOT AONSYS_CLK_SWITCH_TO_RC_MASK)"
    by (rule rc_switch_result [of "s\<lparr>env := e2, trace := tr2\<rparr>" R regs False]) (use assms(1,2) in simp_all)
  consider "freq = 73728000" "g_system_clock s = 24000000" | "freq = 73728000" "g_system_clock s = 26000000"
    | "freq = 24000000" "g_system_clock s = 73728000" | "freq = 24000000" "g_system_clock s = 26000000" | "freq = 26000000"
    using assms(3,4) ne by auto
  then show ?thesis
  proof cases
    case 1
    then show ?thesis using pt by (intro exI [of _ e1] exI [of _ tr1]) (simp add: soc_set_sys_freq_def act_defs switched_def seqs_def)
  next
    case 2
    then show ?thesis using pt plr by (intro exI [of _ e4] exI [of _ tr4]) (simp add: soc_set_sys_freq_def act_defs switched_def seqs_def)
  next
    case 3
    then show ?thesis using pf by (intro exI [of _ e2] exI [of _ tr2]) (simp add: soc_set_sys_freq_def act_defs switched_def seqs_def)
  next
    case 4
    then show ?thesis using pf pfr by (intro exI [of _ e5] exI [of _ tr5]) (simp add: soc_set_sys_freq_def act_defs switched_def seqs_def)
  next
    case 5
    then show ?thesis using rt ne by (intro exI [of _ e3] exI [of _ tr3]) (simp add: soc_set_sys_freq_def act_defs switched_def seqs_def)
  qed
qed

lemma switched_ok:
  assumes "sys_clk_ok v cur" and "freq \<in> {73728000, 24000000, 26000000}" and "\<not> (cur = 73728000 \<and> freq = 26000000)"
  shows "sys_clk_ok (switched cur freq v) freq"
  using assms switch_bits [of v, simplified] switch_bits [of "v AND NOT 16", simplified] switch_bits [of "v OR 16", simplified]
  by (auto simp: sys_clk_ok_def switched_def reg_defs)

lemma switched_pll_to_rc:
  assumes "sys_clk_ok v 73728000"
  shows "switched 73728000 26000000 v AND AONSYS_CLK_SWITCH_TO_PLL_MASK = 0"
  using assms switch_bits [of v, simplified] by (auto simp: sys_clk_ok_def switched_def reg_defs)

text \<open>
  C37: on a clock register that holds what is written to it, selecting a system frequency leaves the switches at the source of the
  recorded frequency and changes no other register, for every change but one: from the PLL to the RC oscillator only the second switch
  is set, so that the PLL stays selected while 26 MHz is recorded. Any other frequency is ignored.
\<close>

theorem sys_freq_source:
  fixes s :: "('e, 'z) chip_t_scheme"
  assumes "reg_file (soc s) R regs" and "R REG_AONSYS_CLK_CFG" and "sys_clk_ok (regs (env s) REG_AONSYS_CLK_CFG) (g_system_clock s)"
  shows "\<exists>t. soc_set_sys_freq freq s = (Ok (), t) \<and> (\<forall>a. a \<noteq> REG_AONSYS_CLK_CFG \<longrightarrow> regs (env t) a = regs (env s) a)
    \<and> (if freq \<notin> {73728000, 24000000, 26000000} then t = s
       else if g_system_clock s = 73728000 \<and> freq = 26000000
       then g_system_clock t = 26000000 \<and> regs (env t) REG_AONSYS_CLK_CFG AND AONSYS_CLK_SWITCH_TO_PLL_MASK = 0
       else g_system_clock t = freq \<and> sys_clk_ok (regs (env t) REG_AONSYS_CLK_CFG) freq)"
proof (cases "freq \<in> {73728000, 24000000, 26000000}")
  case True
  have "g_system_clock s \<in> {73728000, 24000000, 26000000}" using assms(3) by (auto simp: sys_clk_ok_def)
  from set_sys_freq_result [OF assms(1,2) True this] obtain e tr
    where st: "soc_set_sys_freq freq s = (Ok (), s\<lparr>env := e, trace := tr, g_system_clock := freq\<rparr>)"
    and r: "regs e = (regs (env s))(REG_AONSYS_CLK_CFG := switched (g_system_clock s) freq (regs (env s) REG_AONSYS_CLK_CFG))" by blast
  show ?thesis
    using True st r assms(3) switched_ok [OF assms(3) True] switched_pll_to_rc
    by (intro exI [of _ "s\<lparr>env := e, trace := tr, g_system_clock := freq\<rparr>"]) auto
next
  case False
  then show ?thesis by (intro exI [of _ s]) (auto simp: soc_set_sys_freq_def ret_def)
qed

theorem sys_freq_source_witness:
  "\<exists>t. soc_set_sys_freq 26000000 (sample_chip\<lparr>g_system_clock := 73728000\<rparr>) = (Ok (), t) \<and> g_system_clock t = 26000000
    \<and> env t REG_AONSYS_CLK_CFG AND AONSYS_CLK_SWITCH_TO_PLL_MASK = 0"
proof -
  have "sys_clk_ok (env (sample_chip\<lparr>g_system_clock := 73728000\<rparr>) REG_AONSYS_CLK_CFG) (g_system_clock (sample_chip\<lparr>g_system_clock := 73728000\<rparr>))"
    "reg_file (soc (sample_chip\<lparr>g_system_clock := 73728000\<rparr>)) (\<lambda>_. True) id"
    using sample_reg_file by (simp_all add: sample_chip_def sys_clk_ok_def)
  then show ?thesis
    using sys_freq_source [where s = "sample_chip\<lparr>g_system_clock := 73728000\<rparr>" and R = "\<lambda>_. True" and regs = id and freq = 26000000]
    by auto
qed

subsection \<open>Waiting for a PLL\<close>

text \<open>The values the status register gives on the first reads, one after the other.\<close>

fun sts_reads :: "nat \<Rightarrow> 'e soc_if \<Rightarrow> 'e \<Rightarrow> u32 list" where
  "sts_reads 0 c e = []"
| "sts_reads (Suc n) c e = (let (v, e') = reg_read c REG_AONSYS_PLL_STS e in v # sts_reads n c e')"

lemma wait_lock_result:
  fixes s :: "('e, 'z) chip_t_scheme"
  shows "fst (wait_lock_loop (Suc n) lock s) = (if list_ex (\<lambda>v. v AND lock \<noteq> 0) (sts_reads n (soc s) (env s)) then Ok () else Err CSI_TIMEOUT)
    \<and> length (trace (snd (wait_lock_loop (Suc n) lock s))) \<le> length (trace s) + Suc n"
proof (induction n arbitrary: s)
  case 0
  then show ?case by (simp add: act_defs CHIP_REG_GET_def split: prod.splits)
next
  case (Suc n)
  obtain v e where r: "reg_read (soc s) REG_AONSYS_PLL_STS (env s) = (v, e)" by fastforce
  let ?t = "s\<lparr>env := e, trace := trace s @ [Rd REG_AONSYS_PLL_STS v]\<rparr>"
  have "wait_lock_loop (Suc (Suc n)) lock s = (if v AND lock \<noteq> 0 then (Ok (), ?t) else wait_lock_loop (Suc n) lock ?t)"
    by (subst wait_lock_loop.simps(2)) (simp add: bind_res_def CHIP_REG_GET_def ret_def r del: wait_lock_loop.simps)
  then show ?case using Suc.IH [of ?t] r by (simp del: wait_lock_loop.simps)
qed

text \<open>
  C38: waiting for a PLL makes at most 30 reads of the status register and always returns. It succeeds exactly when one of the first 29
  reads shows the lock bit; a lock seen by the thirtieth read is still reported as a timeout.
\<close>

theorem pll_wait_bounded:
  fixes s :: "('e, 'z) chip_t_scheme"
  shows "fst (aon_pll_wait_lock dv s) = (if list_ex (\<lambda>v. v AND lock_bit dv \<noteq> 0) (sts_reads 29 (soc s) (env s)) then Ok () else Err CSI_TIMEOUT)
    \<and> length (trace (snd (aon_pll_wait_lock dv s))) \<le> length (trace s) + 30"
  using wait_lock_result [of 29 "lock_bit dv" s] by (simp add: aon_pll_wait_lock_def LOCK_TIMEOUT_US_def)

subsection \<open>The ratio of the system clock\<close>

lemma low_bits:
  "bit (7 :: u32) i \<longleftrightarrow> i < 3" "i < 3 \<Longrightarrow> \<not> bit (0x700 :: u32) i" "i < 3 \<Longrightarrow> \<not> bit (8 :: u32) i"
proof -
  show "bit (7 :: u32) i \<longleftrightarrow> i < 3"
    using bit_mask_iff [of 3 i, where ?'a = u32] by (auto simp: mask_eq_exp_minus_1)
  have "i = 0 \<or> i = 1 \<or> i = 2" if "i < 3" using that by auto
  then show "i < 3 \<Longrightarrow> \<not> bit (0x700 :: u32) i" "i < 3 \<Longrightarrow> \<not> bit (8 :: u32) i" by (auto simp: bit_numeral_rec bit_simps)
qed

lemma ratio_field_kept:
  fixes d :: u32
  shows "(((d AND NOT 0x700) OR push_bit 8 x) AND NOT 8 OR 8) AND 7 = d AND 7"
proof (rule bit_word_eqI)
  fix n :: nat assume n: "n < LENGTH(32)"
  show "bit ((((d AND NOT 0x700) OR push_bit 8 x) AND NOT 8 OR 8) AND 7) n = bit (d AND 7) n"
  proof (cases "n < 3")
    case True
    then have "\<not> 8 \<le> n" by simp
    with True n show ?thesis by (simp only: bit_and_iff bit_or_iff bit_not_iff_eq bit_push_bit_iff low_bits) simp
  qed (simp only: bit_and_iff low_bits, simp)
qed

text \<open>
  Setting the ratio of the system clock writes the address of the clock register to the address the new register value would
  be, an address of the memory the contents of the register choose, and then leaves the ratio field of the clock register as it was: the
  ratio is put in the field of the PLL divider.
\<close>

theorem clk_ratio_set_wild_write:
  fixes s :: "('e, 'z) chip_t_scheme"
  shows "\<exists>d e w x. aonsys_clk_ratio_set ratio s = (Ok (), s\<lparr>env := e, trace := trace s
      @ [Rd REG_AONSYS_CLK_CFG d, Wr ((d AND NOT 0x700) OR push_bit 8 (ratio AND 7)) REG_AONSYS_CLK_CFG,
         Wr REG_AONSYS_CLK_CFG w, Wr REG_AONSYS_CLK_CFG x]\<rparr>)
    \<and> x AND AONSYS_CLK_CDE_RATIO_MASK = d AND AONSYS_CLK_CDE_RATIO_MASK"
proof -
  obtain d e where r: "reg_read (soc s) REG_AONSYS_CLK_CFG (env s) = (d, e)" by fastforce
  let ?data = "(d AND NOT 0x700) OR push_bit 8 (ratio AND 7)"
  have "push_bit AONSYS_CLK_DIV_NUM_SHIFT AONSYS_CLK_CDE_RATIO_MASK = 0x700" "AONSYS_CLK_DIV_NUM_SHIFT = 8" "AONSYS_CLK_CDE_RATIO_MASK = 7"
    "AONSYS_CLK_CDE_SYNC = 8" by (simp_all add: reg_defs)
  then have "aonsys_clk_ratio_set ratio s = (Ok (), s\<lparr>env := reg_write (soc s) REG_AONSYS_CLK_CFG (?data AND NOT 8 OR 8)
        (reg_write (soc s) REG_AONSYS_CLK_CFG (?data AND NOT 8) (reg_write (soc s) ?data REG_AONSYS_CLK_CFG e)),
      trace := trace s @ [Rd REG_AONSYS_CLK_CFG d, Wr ?data REG_AONSYS_CLK_CFG, Wr REG_AONSYS_CLK_CFG (?data AND NOT 8), Wr REG_AONSYS_CLK_CFG (?data AND NOT 8 OR 8)]\<rparr>)"
    by (simp add: aonsys_clk_ratio_set_def Let_def bind_res_def CHIP_REG_GET_def CHIP_REG_SET_def r)
  moreover have "(?data AND NOT 8 OR 8) AND AONSYS_CLK_CDE_RATIO_MASK = d AND AONSYS_CLK_CDE_RATIO_MASK"
    unfolding AONSYS_CLK_CDE_RATIO_MASK_def by (rule ratio_field_kept)
  ultimately show ?thesis by blast
qed

end
