(* ===== verification/Rtc_Alg.thy ===== *)
theory Rtc_Alg
  imports Aon_Base
begin

text \<open>
  The calendar of the real time clock (\<^verbatim>\<open>csi/drivers/rtc/wj/alg/rtc_alg.c\<close> and \<^verbatim>\<open>rtc_alg.h\<close>): dates to seconds since
  1970 and back. \<^verbatim>\<open>int\<close> and the 64-bit \<^verbatim>\<open>time_t\<close> are integers, since no computation leaves their ranges for a year that
  passes \<open>clock_check_tm_ok\<close>; the two \<^verbatim>\<open>int32_t\<close> variables that seconds are stored in are words. \<open>None\<close> is a table
  index outside the table.
\<close>

subsection \<open>Definitions\<close>

record csi_rtc_time_t =
  tm_sec :: int
  tm_min :: int
  tm_hour :: int
  tm_mday :: int
  tm_mon :: int
  tm_year :: int
  tm_wday :: int
  tm_yday :: int

definition c_rem :: "int \<Rightarrow> int \<Rightarrow> int" where
  "c_rem a b = a - b * trunc_div a b"

definition RTC_TIME_BASE_YEAR :: int where "RTC_TIME_BASE_YEAR = 1900"
definition RTC_TIME_MAX_VAL_YEAR :: int where "RTC_TIME_MAX_VAL_YEAR = 199"
definition RTC_TIME_MAX_VAL_MON :: int where "RTC_TIME_MAX_VAL_MON = 11"
definition RTC_TIME_MAX_VAL_HOUR :: int where "RTC_TIME_MAX_VAL_HOUR = 23"
definition RTC_TIME_MAX_VAL_MIN :: int where "RTC_TIME_MAX_VAL_MIN = 59"
definition RTC_TIME_MAX_VAL_SEC :: int where "RTC_TIME_MAX_VAL_SEC = 59"
definition RTC_TIME_MIN_VAL_YEAR :: int where "RTC_TIME_MIN_VAL_YEAR = 70"
definition RTC_TIME_MIN_VAL_DAY :: int where "RTC_TIME_MIN_VAL_DAY = 1"
definition RTC_TIME_TEMP_LEAP_YEAR :: int where "RTC_TIME_TEMP_LEAP_YEAR = 72"
definition RTC_TIME_TEMP_NONLEAP_YEAR :: int where "RTC_TIME_TEMP_NONLEAP_YEAR = 70"
definition WJ_RTC_SEC_PER_MIN :: int where "WJ_RTC_SEC_PER_MIN = 60"
definition WJ_RTC_SEC_PER_HOUR :: int where "WJ_RTC_SEC_PER_HOUR = 3600"
definition WJ_RTC_SEC_PER_DAY :: int where "WJ_RTC_SEC_PER_DAY = 86400"

lemmas rtc_consts = RTC_TIME_BASE_YEAR_def RTC_TIME_MAX_VAL_YEAR_def RTC_TIME_MAX_VAL_MON_def RTC_TIME_MAX_VAL_HOUR_def
  RTC_TIME_MAX_VAL_MIN_def RTC_TIME_MAX_VAL_SEC_def RTC_TIME_MIN_VAL_YEAR_def RTC_TIME_MIN_VAL_DAY_def
  RTC_TIME_TEMP_LEAP_YEAR_def RTC_TIME_TEMP_NONLEAP_YEAR_def WJ_RTC_SEC_PER_MIN_def WJ_RTC_SEC_PER_HOUR_def WJ_RTC_SEC_PER_DAY_def

definition WJ_RTC_IS_LEAPYEAR :: "int \<Rightarrow> bool" where
  "WJ_RTC_IS_LEAPYEAR year \<longleftrightarrow>
     (if c_rem year 400 \<noteq> 0 then if c_rem year 100 \<noteq> 0 then \<not> c_rem year 4 \<noteq> 0 else False else True)"

definition WJ_RTC_CAL_WEEK :: "int \<Rightarrow> int \<Rightarrow> int \<Rightarrow> int" where
  "WJ_RTC_CAL_WEEK year mon day =
     day + 2 * mon + trunc_div (3 * (mon + 1)) 5 + year + trunc_div year 4 - trunc_div year 100 + trunc_div year 400"

definition leap_year :: "int list" where
  "leap_year = [31, 29, 31, 30, 31, 30, 31, 31, 30, 31, 30, 31]"

definition noleap_year :: "int list" where
  "noleap_year = [31, 28, 31, 30, 31, 30, 31, 31, 30, 31, 30, 31]"

definition noleap_daysbeforemonth :: "int list" where
  "noleap_daysbeforemonth = [0, 31, 59, 90, 120, 151, 181, 212, 243, 273, 304, 334, 365]"

definition table_at :: "int list \<Rightarrow> int \<Rightarrow> int option" where
  "table_at t i = (if 0 \<le> i \<and> nat i < length t then Some (t ! nat i) else None)"

definition clock_daysbeforemonth :: "int \<Rightarrow> bool \<Rightarrow> int option" where
  "clock_daysbeforemonth month leapyear =
     map_option (\<lambda>retval. if month \<ge> 2 \<and> leapyear then retval + 1 else retval) (table_at noleap_daysbeforemonth month)"

text \<open>The right shift of a negative number rounds down.\<close>

definition clock_calendar2utc :: "int \<Rightarrow> int \<Rightarrow> int \<Rightarrow> int option" where
  "clock_calendar2utc year month day =
     (let days = (year - (RTC_TIME_BASE_YEAR + RTC_TIME_MIN_VAL_YEAR)) * 365;
          days = days + (year - ((RTC_TIME_BASE_YEAR + RTC_TIME_MIN_VAL_YEAR) - 1)) div 4
      in map_option (\<lambda>before. days + before + (day - RTC_TIME_MIN_VAL_DAY))
           (clock_daysbeforemonth month (WJ_RTC_IS_LEAPYEAR year)))"

text \<open>The loop over the years returns the days into the year, the years since 1970 and \<^verbatim>\<open>leapyear\<close>.\<close>

function year_loop :: "int \<Rightarrow> int \<Rightarrow> int \<times> int \<times> bool" where
  "year_loop days value =
     (let leapyear = WJ_RTC_IS_LEAPYEAR (value + (RTC_TIME_BASE_YEAR + RTC_TIME_MIN_VAL_YEAR));
          tmp = (if leapyear then 366 else 365)
      in if days \<ge> tmp then year_loop (days - tmp) (value + 1) else (days, value, leapyear))"
  by pat_completeness auto
termination
  by (relation "measure (\<lambda>(days, value). nat days)") (auto split: if_splits)

text \<open>The binary search for the month: one call is one turn of the loop between \<open>lo\<close> and \<open>hi\<close>, its result the month.\<close>

function month_loop :: "int \<Rightarrow> bool \<Rightarrow> int \<Rightarrow> int \<Rightarrow> int option" where
  "month_loop days leapyear lo hi =
     (let value = (lo + hi) div 2 in
      case clock_daysbeforemonth (value + 1) leapyear of
        None \<Rightarrow> None
      | Some tmp \<Rightarrow>
          if tmp > days then
            (case clock_daysbeforemonth value leapyear of
               None \<Rightarrow> None
             | Some tmp \<Rightarrow>
                 if tmp > days then if lo < value - 1 then month_loop days leapyear lo (value - 1) else Some lo
                 else Some value)
          else if value + 1 < hi then month_loop days leapyear (value + 1) hi else Some (value + 1))"
  by pat_completeness auto
termination
  by (relation "measure (\<lambda>(days, leapyear, lo, hi). nat (hi - lo))") auto

definition clock_utc2calendar :: "int \<Rightarrow> (int \<times> int \<times> int) option" where
  "clock_utc2calendar days =
     (let value = trunc_div days (4 * 365 + 1);
          days = days - value * (4 * 365 + 1);
          (days, value, leapyear) = year_loop days (4 * value);
          year = RTC_TIME_BASE_YEAR + RTC_TIME_MIN_VAL_YEAR + value
      in Option.bind (month_loop days leapyear 0 11) (\<lambda>value.
         Option.bind (clock_daysbeforemonth value leapyear) (\<lambda>before.
         Some (year, value, days - before + RTC_TIME_MIN_VAL_DAY))))"

definition get_week_by_date :: "csi_rtc_time_t \<Rightarrow> int" where
  "get_week_by_date rtctime =
     (let year = tm_year rtctime + RTC_TIME_BASE_YEAR;
          mon = tm_mon rtctime + 1;
          day = tm_mday rtctime;
          (year, mon) = (if mon = 1 \<or> mon = 2 then (year - 1, mon + 12) else (year, mon))
      in c_rem (WJ_RTC_CAL_WEEK year mon day) 7 + 1)"

text \<open>The first argument of the next two is the variable \<^verbatim>\<open>year_to_secs\<close>.\<close>

definition mktime :: "u32 \<Rightarrow> csi_rtc_time_t \<Rightarrow> int option" where
  "mktime year_to_secs tp =
     map_option (\<lambda>jdn. ((jdn * 24 + tm_hour tp) * 60 + tm_min tp) * 60 + tm_sec tp - sint year_to_secs)
       (clock_calendar2utc (tm_year tp + RTC_TIME_BASE_YEAR) (tm_mon tp) (tm_mday tp))"

definition gmtime_r :: "u32 \<Rightarrow> int \<Rightarrow> csi_rtc_time_t \<Rightarrow> csi_rtc_time_t option" where
  "gmtime_r year_to_secs timer result =
     (let epoch = timer + sint year_to_secs;
          jdn = trunc_div epoch WJ_RTC_SEC_PER_DAY;
          epoch = epoch - WJ_RTC_SEC_PER_DAY * jdn;
          hour = trunc_div epoch WJ_RTC_SEC_PER_HOUR;
          epoch = epoch - WJ_RTC_SEC_PER_HOUR * hour;
          mins = trunc_div epoch WJ_RTC_SEC_PER_MIN;
          epoch = epoch - WJ_RTC_SEC_PER_MIN * mins
      in map_option (\<lambda>(year, month, day).
           let result = result\<lparr>tm_year := year - RTC_TIME_BASE_YEAR, tm_mon := month, tm_mday := day\<rparr>
           in result\<lparr>tm_wday := get_week_by_date result, tm_hour := hour, tm_min := mins, tm_sec := epoch\<rparr>)
         (clock_utc2calendar jdn))"

text \<open>\<open>True\<close> stands for the result 0 and \<open>False\<close> for -1.\<close>

definition clock_check_tm_ok :: "csi_rtc_time_t \<Rightarrow> bool option" where
  "clock_check_tm_ok rtctime =
     (if tm_sec rtctime > RTC_TIME_MAX_VAL_SEC \<or> tm_min rtctime > RTC_TIME_MAX_VAL_MIN
         \<or> tm_hour rtctime > RTC_TIME_MAX_VAL_HOUR \<or> tm_mon rtctime > RTC_TIME_MAX_VAL_MON
         \<or> tm_year rtctime > RTC_TIME_MAX_VAL_YEAR \<or> tm_year rtctime < RTC_TIME_MIN_VAL_YEAR then Some False
      else if tm_mday rtctime < RTC_TIME_MIN_VAL_DAY then Some False
      else map_option (\<lambda>m. \<not> tm_mday rtctime > m)
             (table_at (if WJ_RTC_IS_LEAPYEAR (tm_year rtctime + RTC_TIME_BASE_YEAR) then leap_year else noleap_year) (tm_mon rtctime)))"

text \<open>The result and the new value of \<^verbatim>\<open>year_to_secs\<close>.\<close>

definition clock_update_basetime :: "csi_rtc_time_t \<Rightarrow> (u32 \<times> u32) option" where
  "clock_update_basetime rtctime =
     (let set_date = rtctime\<lparr>tm_wday := 0, tm_yday := 0,
            tm_year := if WJ_RTC_IS_LEAPYEAR (tm_year rtctime + RTC_TIME_BASE_YEAR) then RTC_TIME_TEMP_LEAP_YEAR else RTC_TIME_TEMP_NONLEAP_YEAR\<rparr>
      in Option.bind (mktime 0 set_date) (\<lambda>secs. let total_sec = word_of_int secs :: u32 in
         Option.bind (mktime 0 (set_date\<lparr>tm_year := tm_year rtctime\<rparr>)) (\<lambda>secs.
         Some (total_sec, word_of_int (secs - sint total_sec)))))"

declare year_loop.simps [simp del] month_loop.simps [simp del]

subsection \<open>The calendar\<close>

text \<open>
  The reference: a date is numbered by counting the days of the years since 1970 and of the months before it. The clock
  supports the years up to 2099.
\<close>

definition month_days :: "bool \<Rightarrow> int list" where
  "month_days leap = (if leap then leap_year else noleap_year)"

definition month_start :: "bool \<Rightarrow> int \<Rightarrow> int" where
  "month_start leap m = sum_list (take (nat m) (month_days leap))"

definition year_start :: "int \<Rightarrow> int" where
  "year_start y = (\<Sum>i \<in> {1970..<y}. sum_list (month_days (WJ_RTC_IS_LEAPYEAR i)))"

definition day_number :: "int \<Rightarrow> int \<Rightarrow> int \<Rightarrow> int" where
  "day_number y m d = year_start y + month_start (WJ_RTC_IS_LEAPYEAR y) m + (d - 1)"

definition valid_date :: "int \<Rightarrow> int \<Rightarrow> int \<Rightarrow> bool" where
  "valid_date y m d \<longleftrightarrow> 1970 \<le> y \<and> y \<le> 2099 \<and> 0 \<le> m \<and> m \<le> 11 \<and> 1 \<le> d \<and> d \<le> month_days (WJ_RTC_IS_LEAPYEAR y) ! nat m"

lemmas month_tables = month_days_def leap_year_def noleap_year_def

lemma c_rem_mod [simp]: "0 \<le> a \<Longrightarrow> 0 < b \<Longrightarrow> c_rem a b = a mod b"
  by (simp add: c_rem_def trunc_div_nonneg minus_mult_div_eq_mod)

lemma month_cases:
  fixes m :: int
  assumes "0 \<le> m" and "m \<le> 11"
  shows "m \<in> {0, 1, 2, 3, 4, 5, 6, 7, 8, 9, 10, 11}"
  using assms by simp presburger

lemma leap_iff: "1970 \<le> y \<Longrightarrow> y \<le> 2099 \<Longrightarrow> WJ_RTC_IS_LEAPYEAR y \<longleftrightarrow> y mod 4 = 0"
proof -
  assume y: "1970 \<le> y" "y \<le> 2099"
  then have "y mod 100 = 0 \<Longrightarrow> y = 2000" by presburger
  then show ?thesis using y by (auto simp: WJ_RTC_IS_LEAPYEAR_def)
qed

lemma month_days_sum: "sum_list (month_days l) = (if l then 366 else 365)"
  by (simp add: month_tables)

lemma daysbeforemonth:
  assumes "0 \<le> m" and "m \<le> 12"
  shows "clock_daysbeforemonth m l = Some (month_start l m)"
proof -
  have "m \<in> {0, 1, 2, 3, 4, 5, 6, 7, 8, 9, 10, 11, 12}" using assms by simp presburger
  then show ?thesis
    by (auto simp: clock_daysbeforemonth_def table_at_def noleap_daysbeforemonth_def month_start_def month_tables
      numeral_eq_Suc nat_numeral)
qed

lemma month_start_Suc: "0 \<le> m \<Longrightarrow> m \<le> 11 \<Longrightarrow> month_start l (m + 1) = month_start l m + month_days l ! nat m"
  unfolding month_start_def by (subst nat_add_distrib) (auto simp: take_Suc_conv_app_nth month_tables)

lemma month_start_ends [simp]: "month_start l 0 = 0" "month_start l 12 = sum_list (month_days l)"
  by (simp_all add: month_start_def) (simp add: month_tables)

lemma month_start_table:
  "month_start l 1 = 31" "month_start l 2 = 59 + of_bool l" "month_start l 3 = 90 + of_bool l" "month_start l 4 = 120 + of_bool l"
  "month_start l 5 = 151 + of_bool l" "month_start l 6 = 181 + of_bool l" "month_start l 7 = 212 + of_bool l"
  "month_start l 8 = 243 + of_bool l" "month_start l 9 = 273 + of_bool l" "month_start l 10 = 304 + of_bool l" "month_start l 11 = 334 + of_bool l"
  by (simp_all add: month_start_def month_tables)

lemma month_days_pos: "0 \<le> m \<Longrightarrow> m \<le> 11 \<Longrightarrow> 0 < month_days l ! nat m"
  by (drule (1) month_cases) (auto simp: month_tables)

lemma month_start_mono:
  assumes "0 \<le> m" and "m < m'" and "m' \<le> 12"
  shows "month_start l m < month_start l m'"
  using assms(2,3)
proof (induction m' rule: int_gr_induct)
  case base
  then show ?case using assms(1) by (simp add: month_start_Suc month_days_pos)
next
  case (step i)
  moreover have "0 < month_days l ! nat i" using step assms(1) by (intro month_days_pos) auto
  ultimately show ?case using assms(1) by (simp add: month_start_Suc)
qed

lemma month_start_unique:
  assumes "0 \<le> m" "m \<le> 11" "month_start l m \<le> k" "k < month_start l (m + 1)"
    and "0 \<le> n" "n \<le> 11" "month_start l n \<le> k" "k < month_start l (n + 1)"
  shows "m = n"
proof (rule ccontr)
  assume "m \<noteq> n"
  then consider "m + 1 \<le> n" | "n + 1 \<le> m" by linarith
  then show False
    using month_start_mono [of "m + 1" n l] month_start_mono [of "n + 1" m l] assms by cases (cases "m + 1 = n"; cases "n + 1 = m"; simp)+
qed

lemma month_loop_correct:
  assumes "0 \<le> lo" "lo \<le> hi" "hi \<le> 11" "month_start l lo \<le> k" "k < month_start l (hi + 1)"
  shows "\<exists>m. month_loop k l lo hi = Some m \<and> 0 \<le> m \<and> m \<le> 11 \<and> month_start l m \<le> k \<and> k < month_start l (m + 1)"
  using assms
proof (induction k l lo hi rule: month_loop.induct)
  case (1 k l lo hi)
  define v where "v = (lo + hi) div 2"
  have v: "lo \<le> v" "v \<le> hi" using 1(4) by (auto simp: v_def)
  have dbm: "clock_daysbeforemonth v l = Some (month_start l v)" "clock_daysbeforemonth (v + 1) l = Some (month_start l (v + 1))"
    using v 1(3,5) by (simp_all add: daysbeforemonth)
  have lo_v: "lo < v" if "k < month_start l v" using that v 1(6) by (cases "lo = v") auto
  have v_hi: "v < hi" if "\<not> k < month_start l (v + 1)" using that v 1(7) by (cases "v = hi") auto
  note eq = month_loop.simps [of k l lo hi, folded v_def, unfolded Let_def dbm option.case]
  consider (lower) "k < month_start l v" "lo < v - 1" | (low) "k < month_start l v" "v - 1 = lo"
    | (found) "k < month_start l (v + 1)" "month_start l v \<le> k"
    | (higher) "month_start l (v + 1) \<le> k" "v + 1 < hi" | (high) "month_start l (v + 1) \<le> k" "v + 1 = hi"
    using lo_v v_hi by linarith
  then show ?case
  proof cases
    case lower
    moreover have "k < month_start l (v + 1)" using lower month_start_mono [of v "v + 1" l] v 1(3,5) by simp
    ultimately show ?thesis using 1(1) [OF v_def dbm(2) _ dbm(1)] 1(3,5,6) v eq by simp
  next
    case low
    moreover have "k < month_start l (v + 1)" using low month_start_mono [of v "v + 1" l] v 1(3,5) by simp
    ultimately show ?thesis using 1(3,5,6) v eq by auto
  next
    case higher
    then show ?thesis using 1(2) [OF v_def dbm(2)] 1(3,5,7) v eq by simp
  qed (use 1 v eq in auto)
qed

lemma year_start_step: "1970 \<le> y \<Longrightarrow> year_start (y + 1) = year_start y + sum_list (month_days (WJ_RTC_IS_LEAPYEAR y))"
proof -
  assume "1970 \<le> y"
  then have "{1970..<y + 1} = insert y {1970..<y}" by auto
  then show ?thesis by (simp add: year_start_def)
qed

lemma year_start_eq:
  assumes "1970 \<le> y" and "y \<le> 2100"
  shows "year_start y = (y - 1970) * 365 + (y - 1969) div 4"
  using assms
proof (induction y rule: int_ge_induct)
  case base
  show ?case by (simp add: year_start_def)
next
  case (step i)
  then have "year_start (i + 1) = (i - 1970) * 365 + (i - 1969) div 4 + (if i mod 4 = 0 then 366 else 365)"
    by (simp add: year_start_step month_days_sum leap_iff)
  also have "\<dots> = (i + 1 - 1970) * 365 + (i + 1 - 1969) div 4" by presburger
  finally show ?case .
qed

lemma year_start_mono:
  assumes "1970 \<le> y" and "y < z"
  shows "year_start y + sum_list (month_days (WJ_RTC_IS_LEAPYEAR y)) \<le> year_start z"
  using assms(2)
proof (induction z rule: int_gr_induct)
  case base
  show ?case using assms(1) by (simp add: year_start_step)
next
  case (step i)
  then show ?case using assms(1) by (simp add: year_start_step month_days_sum)
qed

lemma year_loop_correct:
  assumes "0 \<le> k" "0 \<le> v" "1970 + v \<le> 2099" "year_start (1970 + v) + k < year_start 2100"
  shows "\<exists>k' v'. year_loop k v = (k', v', WJ_RTC_IS_LEAPYEAR (1970 + v')) \<and> 0 \<le> v' \<and> 1970 + v' \<le> 2099
    \<and> 0 \<le> k' \<and> k' < sum_list (month_days (WJ_RTC_IS_LEAPYEAR (1970 + v'))) \<and> year_start (1970 + v') + k' = year_start (1970 + v) + k"
  using assms
proof (induction k v rule: year_loop.induct)
  case (1 k v)
  let ?d = "sum_list (month_days (WJ_RTC_IS_LEAPYEAR (1970 + v)))"
  have y: "RTC_TIME_BASE_YEAR + RTC_TIME_MIN_VAL_YEAR = 1970" by (simp add: rtc_consts)
  have eq: "year_loop k v = (if ?d \<le> k then year_loop (k - ?d) (v + 1) else (k, v, WJ_RTC_IS_LEAPYEAR (1970 + v)))"
    by (simp only: year_loop.simps [of k v] Let_def y month_days_sum add.commute [of v])
  show ?case
  proof (cases "?d \<le> k")
    case True
    have step: "year_start (1970 + (v + 1)) = year_start (1970 + v) + ?d" using year_start_step [of "1970 + v"] 1(3) by (simp add: algebra_simps)
    then have "1970 + v \<noteq> 2099" using True 1(5) by auto
    then show ?thesis using 1(1) [OF refl refl] 1(3,4,5) True step eq by (simp add: month_days_sum y add.commute [of v])
  qed (use 1 eq in auto)
qed

lemma year_start_2100: "year_start 2100 = 47482"
  by (simp add: year_start_eq)

lemma utc2calendar_correct:
  assumes "0 \<le> n" and "n < 47482"
  shows "\<exists>y m d. clock_utc2calendar n = Some (y, m, d) \<and> valid_date y m d \<and> day_number y m d = n"
proof -
  define q where "q = n div 1461"
  define k where "k = n - 1461 * q"
  have q: "0 \<le> q" "q \<le> 32" "0 \<le> k" and n: "1461 * q + k = n" using assms by (auto simp: q_def k_def)
  have "year_start (1970 + 4 * q) = 1461 * q" using q by (simp add: year_start_eq)
  with year_loop_correct [of k "4 * q"] q n assms(2) obtain k' v where
    yl: "year_loop k (4 * q) = (k', v, WJ_RTC_IS_LEAPYEAR (1970 + v))" and v: "0 \<le> v" "1970 + v \<le> 2099"
    and k': "0 \<le> k'" "k' < sum_list (month_days (WJ_RTC_IS_LEAPYEAR (1970 + v)))" "year_start (1970 + v) + k' = n"
    by (auto simp: year_start_2100)
  from month_loop_correct [of 0 11 "WJ_RTC_IS_LEAPYEAR (1970 + v)" k'] k' obtain m where
    ml: "month_loop k' (WJ_RTC_IS_LEAPYEAR (1970 + v)) 0 11 = Some m" and m: "0 \<le> m" "m \<le> 11"
    "month_start (WJ_RTC_IS_LEAPYEAR (1970 + v)) m \<le> k'" "k' < month_start (WJ_RTC_IS_LEAPYEAR (1970 + v)) (m + 1)" by auto
  let ?d = "k' - month_start (WJ_RTC_IS_LEAPYEAR (1970 + v)) m + 1"
  have "trunc_div n 1461 = q" "n - q * 1461 = k" using assms n by (simp_all add: trunc_div_nonneg q_def)
  then have "clock_utc2calendar n = Some (1970 + v, m, ?d)"
    using yl ml m(1,2) by (simp add: clock_utc2calendar_def rtc_consts daysbeforemonth)
  moreover have "valid_date (1970 + v) m ?d" using v m by (simp add: valid_date_def month_start_Suc)
  moreover have "day_number (1970 + v) m ?d = n" using k'(3) by (simp add: day_number_def)
  ultimately show ?thesis by blast
qed

lemma valid_date_day:
  assumes "valid_date y m d"
  shows "0 \<le> m" "m \<le> 11" "month_start (WJ_RTC_IS_LEAPYEAR y) m \<le> day_number y m d - year_start y"
    "day_number y m d - year_start y < month_start (WJ_RTC_IS_LEAPYEAR y) (m + 1)"
    "month_start (WJ_RTC_IS_LEAPYEAR y) (m + 1) \<le> sum_list (month_days (WJ_RTC_IS_LEAPYEAR y))" "0 \<le> month_start (WJ_RTC_IS_LEAPYEAR y) m"
proof -
  show "0 \<le> m" "m \<le> 11" using assms by (auto simp: valid_date_def)
  then show "month_start (WJ_RTC_IS_LEAPYEAR y) m \<le> day_number y m d - year_start y"
    "day_number y m d - year_start y < month_start (WJ_RTC_IS_LEAPYEAR y) (m + 1)"
    using assms by (auto simp: valid_date_def day_number_def month_start_Suc)
  show "month_start (WJ_RTC_IS_LEAPYEAR y) (m + 1) \<le> sum_list (month_days (WJ_RTC_IS_LEAPYEAR y))"
    using \<open>0 \<le> m\<close> \<open>m \<le> 11\<close> month_start_mono [of "m + 1" 12 "WJ_RTC_IS_LEAPYEAR y"] by (cases "m = 11") simp_all
  show "0 \<le> month_start (WJ_RTC_IS_LEAPYEAR y) m"
    using \<open>0 \<le> m\<close> \<open>m \<le> 11\<close> month_start_mono [of 0 m "WJ_RTC_IS_LEAPYEAR y"] by (cases "m = 0") simp_all
qed

lemma day_number_range: "valid_date y m d \<Longrightarrow> 0 \<le> day_number y m d \<and> day_number y m d < 47482"
proof -
  assume v: "valid_date y m d"
  then have y: "1970 \<le> y" "y < 2100" by (auto simp: valid_date_def)
  have "0 \<le> year_start y" using y by (simp add: year_start_eq)
  moreover have "year_start y + sum_list (month_days (WJ_RTC_IS_LEAPYEAR y)) \<le> 47482" using year_start_mono [OF y] by (simp add: year_start_2100)
  ultimately show ?thesis using valid_date_day [OF v] by linarith
qed

lemma day_number_inj:
  assumes "valid_date y m d" "valid_date y' m' d'" "day_number y m d = day_number y' m' d'"
  shows "y = y' \<and> m = m' \<and> d = d'"
proof -
  note v = valid_date_day [OF assms(1)] and v' = valid_date_day [OF assms(2)]
  have "1970 \<le> y" "1970 \<le> y'" using assms(1,2) by (auto simp: valid_date_def)
  then have y: "y = y'" using year_start_mono [of y y'] year_start_mono [of y' y] v v' assms(3) by linarith
  moreover have "m = m'"
    using month_start_unique [OF v(1-4) v'(1,2)] v'(3,4) assms(3) y by simp
  ultimately show ?thesis using assms(3) by (simp add: day_number_def)
qed

lemma calendar2utc_correct: "valid_date y m d \<Longrightarrow> clock_calendar2utc y m d = Some (day_number y m d)"
  by (auto simp: valid_date_def clock_calendar2utc_def rtc_consts daysbeforemonth day_number_def year_start_eq)

lemma utc2calendar_inverse: "valid_date y m d \<Longrightarrow> clock_utc2calendar (day_number y m d) = Some (y, m, d)"
  using utc2calendar_correct day_number_range day_number_inj by (metis (no_types, lifting))

subsection \<open>Days of the week and seconds\<close>

text \<open>1 January 1970 was a Thursday. Monday is 1 and Sunday 7.\<close>

definition weekday :: "int \<Rightarrow> int" where
  "weekday n = (n + 3) mod 7 + 1"

lemma cal_week:
  assumes "1969 \<le> y" and "y \<le> 2099" and "0 \<le> m"
  shows "WJ_RTC_CAL_WEEK y m d = d + 2 * m + 3 * (m + 1) div 5 + y + y div 4 - 15"
proof -
  have "y div 100 - y div 400 = 15"
  proof (cases "y < 2000")
    case True
    then have "y div 100 = 19" "y div 400 = 4" using assms(1) by linarith+
    then show ?thesis by simp
  next
    case False
    then have "y div 100 = 20" "y div 400 = 5" using assms(2) by linarith+
    then show ?thesis by simp
  qed
  then show ?thesis using assms by (simp add: WJ_RTC_CAL_WEEK_def trunc_div_nonneg)
qed

lemma week_formula:
  fixes k j d m :: int
  assumes "m \<in> {0, 1, 2, 3, 4, 5, 6, 7, 8, 9, 10, 11}" "j \<in> {0, 1, 2, 3}"
  shows "7 dvd (if m < 2 then d + 2 * (m + 13) + 3 * (m + 14) div 5 + (4 * k + j - 1) + (4 * k + j - 1) div 4 - 15
      else d + 2 * (m + 1) + 3 * (m + 2) div 5 + (4 * k + j) + (4 * k + j) div 4 - 15) -
    ((4 * k + j - 1970) * 365 + (4 * k + j - 1969) div 4 + month_start ((4 * k + j) mod 4 = 0) m + d - 1 + 3)"
proof -
  have "(4 * k + j) div 4 = k" "(4 * k + j - 1) div 4 = (if j = 0 then k - 1 else k)"
    "(4 * k + j - 1969) div 4 = (if j = 0 then k - 493 else k - 492)" "(4 * k + j) mod 4 = j"
    using assms(2) by auto
  note quarter = this
  show ?thesis using assms unfolding quarter by (elim insertE emptyE; hypsubst_thin; simp add: month_start_table)
qed

lemma week_by_date:
  assumes "valid_date (tm_year tm + 1900) (tm_mon tm) (tm_mday tm)"
  shows "get_week_by_date tm = weekday (day_number (tm_year tm + 1900) (tm_mon tm) (tm_mday tm))"
proof -
  define y m d where "y = tm_year tm + 1900" and "m = tm_mon tm" and "d = tm_mday tm"
  have v: "valid_date y m d" using assms by (simp add: y_def m_def d_def)
  then have y: "1970 \<le> y" "y \<le> 2099" and m: "0 \<le> m" "m \<le> 11" and d: "1 \<le> d" by (auto simp: valid_date_def)
  have quarter: "y mod 4 \<in> {0, 1, 2, 3}" by auto
  have day: "day_number y m d = (y - 1970) * 365 + (y - 1969) div 4 + month_start (y mod 4 = 0) m + d - 1"
    using y by (simp add: day_number_def year_start_eq leap_iff)
  have "get_week_by_date tm = c_rem (if m < 2 then WJ_RTC_CAL_WEEK (y - 1) (m + 13) d else WJ_RTC_CAL_WEEK y (m + 1) d) 7 + 1"
    using m by (auto simp: get_week_by_date_def rtc_consts Let_def add.assoc simp flip: y_def m_def d_def)
  also have "\<dots> = (if m < 2 then d + 2 * (m + 13) + 3 * (m + 14) div 5 + (y - 1) + (y - 1) div 4 - 15
      else d + 2 * (m + 1) + 3 * (m + 2) div 5 + y + y div 4 - 15) mod 7 + 1"
    using y m d by (simp add: cal_week ac_simps)
  also have "\<dots> = weekday (day_number y m d)"
    unfolding day weekday_def add_right_cancel mod_eq_dvd_iff
    using week_formula [OF month_cases [OF m] quarter, of d "y div 4"] by (simp only: mult_div_mod_eq)
  finally show ?thesis by (simp add: y_def m_def d_def)
qed

definition valid_tm :: "csi_rtc_time_t \<Rightarrow> bool" where
  "valid_tm tm \<longleftrightarrow> valid_date (tm_year tm + 1900) (tm_mon tm) (tm_mday tm) \<and> 0 \<le> tm_hour tm \<and> tm_hour tm \<le> 23
     \<and> 0 \<le> tm_min tm \<and> tm_min tm \<le> 59 \<and> 0 \<le> tm_sec tm \<and> tm_sec tm \<le> 59"

definition tm_day :: "csi_rtc_time_t \<Rightarrow> int" where
  "tm_day tm = day_number (tm_year tm + 1900) (tm_mon tm) (tm_mday tm)"

definition tm_secs :: "csi_rtc_time_t \<Rightarrow> int" where
  "tm_secs tm = 86400 * tm_day tm + 3600 * tm_hour tm + 60 * tm_min tm + tm_sec tm"

lemma mktime_correct: "valid_tm tm \<Longrightarrow> mktime w tm = Some (tm_secs tm - sint w)"
  by (simp add: valid_tm_def mktime_def rtc_consts calendar2utc_correct tm_secs_def tm_day_def)

lemma gmtime_correct:
  assumes "0 \<le> t + sint w" and "t + sint w < 47482 * 86400"
  shows "\<exists>tm. gmtime_r w t r = Some tm \<and> valid_tm tm \<and> tm_secs tm = t + sint w \<and> tm_wday tm = weekday (tm_day tm)
    \<and> tm_yday tm = tm_yday r"
proof -
  define e where "e = t + sint w"
  have e: "0 \<le> e" "e < 47482 * 86400" using assms by (simp_all add: e_def)
  define n q where "n = e div 86400" and "q = e - 86400 * n"
  define h p where "h = q div 3600" and "p = q - 3600 * h"
  define mi se where "mi = p div 60" and "se = p - 60 * mi"
  have n: "0 \<le> n" "n < 47482" and q: "0 \<le> q" "q < 86400" using e by (auto simp: n_def q_def)
  have h: "0 \<le> h" "h \<le> 23" and p: "0 \<le> p" "p < 3600" using q by (auto simp: h_def p_def)
  have mi: "0 \<le> mi" "mi \<le> 59" and se: "0 \<le> se" "se \<le> 59" using p by (auto simp: mi_def se_def)
  obtain y m d where c: "clock_utc2calendar n = Some (y, m, d)" "valid_date y m d" "day_number y m d = n"
    using utc2calendar_correct [OF n] by blast
  have td: "trunc_div e 86400 = n" "trunc_div q 3600 = h" "trunc_div p 60 = mi"
    using e(1) q(1) p(1) by (simp_all add: trunc_div_nonneg n_def h_def mi_def)
  let ?r = "r\<lparr>tm_year := y - 1900, tm_mon := m, tm_mday := d\<rparr>"
  let ?tm = "?r\<lparr>tm_wday := get_week_by_date ?r, tm_hour := h, tm_min := mi, tm_sec := se\<rparr>"
  have "gmtime_r w t r = Some ?tm"
    by (simp add: gmtime_r_def rtc_consts Let_def td c(1) flip: e_def q_def p_def se_def)
  moreover have "valid_tm ?tm" using c(2) h mi se by (simp add: valid_tm_def)
  moreover have "tm_secs ?tm = e" using c(3) by (simp add: tm_secs_def tm_day_def se_def p_def q_def)
  moreover have "get_week_by_date ?r = weekday n" using week_by_date [of ?r] c(2,3) by simp
  ultimately show ?thesis using c(3) by (auto simp: e_def tm_day_def)
qed

lemma tm_secs_inj:
  assumes "valid_tm a" "valid_tm b" "tm_secs a = tm_secs b"
  shows "tm_day a = tm_day b \<and> b = a\<lparr>tm_wday := tm_wday b, tm_yday := tm_yday b\<rparr>"
proof -
  have day: "tm_day a = tm_day b" using assms unfolding valid_tm_def tm_secs_def by linarith
  have hour: "tm_hour a = tm_hour b" using assms day unfolding valid_tm_def tm_secs_def by linarith
  have mins: "tm_min a = tm_min b" using assms day hour unfolding valid_tm_def tm_secs_def by linarith
  have sec: "tm_sec a = tm_sec b" using assms day hour mins unfolding valid_tm_def tm_secs_def by linarith
  note d = day hour mins sec
  have "tm_year a = tm_year b \<and> tm_mon a = tm_mon b \<and> tm_mday a = tm_mday b"
    using day_number_inj [of "tm_year a + 1900" "tm_mon a" "tm_mday a" "tm_year b + 1900" "tm_mon b" "tm_mday b"] assms(1,2) day
    unfolding valid_tm_def tm_day_def by linarith
  with d show ?thesis by (cases a; cases b) simp
qed

lemma tm_secs_range: "valid_tm tm \<Longrightarrow> 0 \<le> tm_secs tm \<and> tm_secs tm < 47482 * 86400"
  using day_number_range by (fastforce simp: valid_tm_def tm_secs_def tm_day_def)

lemma gmtime_inverse:
  assumes "valid_tm tm"
  shows "gmtime_r w (tm_secs tm - sint w) r = Some (tm\<lparr>tm_wday := weekday (tm_day tm), tm_yday := tm_yday r\<rparr>)"
proof -
  obtain b where b: "gmtime_r w (tm_secs tm - sint w) r = Some b" "valid_tm b" "tm_secs b = tm_secs tm"
    "tm_wday b = weekday (tm_day b)" "tm_yday b = tm_yday r"
    using gmtime_correct [of "tm_secs tm - sint w" w r] tm_secs_range [OF assms] by auto
  with tm_secs_inj [OF assms b(2)] show ?thesis by simp
qed

subsection \<open>The seconds of the year\<close>

text \<open>The seconds that are loaded into the counter: those of the same time in 1972 or in 1970.\<close>

definition base_secs :: "csi_rtc_time_t \<Rightarrow> int" where
  "base_secs tm = tm_secs (tm\<lparr>tm_year := if WJ_RTC_IS_LEAPYEAR (tm_year tm + 1900) then 72 else 70\<rparr>)"

text \<open>The years whose seconds fit into \<^verbatim>\<open>int32_t\<close>.\<close>

definition year_fits :: "int \<Rightarrow> bool" where
  "year_fits y \<longleftrightarrow> y \<le> 2038 \<or> y = 2040"

lemma check_tm_ok: "valid_tm tm \<Longrightarrow> clock_check_tm_ok tm = Some True"
  by (auto simp: clock_check_tm_ok_def valid_tm_def valid_date_def rtc_consts table_at_def month_tables split: if_splits)

lemma base_year_valid:
  assumes "valid_tm tm"
  shows "valid_tm (tm\<lparr>tm_year := if WJ_RTC_IS_LEAPYEAR (tm_year tm + 1900) then 72 else 70\<rparr>)"
proof -
  have "WJ_RTC_IS_LEAPYEAR 1972" "\<not> WJ_RTC_IS_LEAPYEAR 1970" by (simp_all add: leap_iff)
  then show ?thesis using assms by (cases "WJ_RTC_IS_LEAPYEAR (tm_year tm + 1900)") (auto simp: valid_tm_def valid_date_def)
qed

lemma base_secs_range:
  assumes "valid_tm tm"
  shows "0 \<le> base_secs tm" "base_secs tm < 1096 * 86400"
proof -
  let ?b = "tm\<lparr>tm_year := if WJ_RTC_IS_LEAPYEAR (tm_year tm + 1900) then 72 else 70\<rparr>"
  have v: "valid_tm ?b" using base_year_valid [OF assms] .
  show "0 \<le> base_secs tm" using tm_secs_range [OF v] by (simp add: base_secs_def)
  have d: "valid_date (tm_year ?b + 1900) (tm_mon tm) (tm_mday tm)" using v by (simp add: valid_tm_def)
  have y: "tm_year ?b + 1900 = 1970 \<or> tm_year ?b + 1900 = 1972" by simp
  have "tm_day ?b < year_start 1973"
    using valid_date_day [OF d] year_start_mono [of "tm_year ?b + 1900" 1973] y by (auto simp: tm_day_def)
  then have "tm_day ?b < 1096" by (simp add: year_start_eq)
  then show "base_secs tm < 1096 * 86400" using v by (auto simp: base_secs_def tm_secs_def valid_tm_def)
qed

lemma year_secs:
  assumes "valid_tm tm"
  shows "tm_secs tm - base_secs tm = 86400 * (year_start (tm_year tm + 1900) - (if WJ_RTC_IS_LEAPYEAR (tm_year tm + 1900) then 730 else 0))"
proof -
  have "WJ_RTC_IS_LEAPYEAR 1972" "\<not> WJ_RTC_IS_LEAPYEAR 1970" by (simp_all add: leap_iff)
  moreover have "year_start 1972 = 730" "year_start 1970 = 0" by (simp_all add: year_start_eq)
  ultimately show ?thesis by (simp add: base_secs_def tm_secs_def tm_day_def day_number_def)
qed

lemma year_secs_fit:
  assumes "valid_tm tm"
  shows "0 \<le> tm_secs tm - base_secs tm" "tm_secs tm - base_secs tm < 2 ^ 32"
    "tm_secs tm - base_secs tm < 2 ^ 31 \<longleftrightarrow> year_fits (tm_year tm + 1900)"
proof -
  define y where "y = tm_year tm + 1900"
  have y: "1970 \<le> y" "y \<le> 2099" using assms by (auto simp: valid_tm_def valid_date_def y_def)
  have eq: "tm_secs tm - base_secs tm = 86400 * ((y - 1970) * 365 + (y - 1969) div 4 - (if y mod 4 = 0 then 730 else 0))"
    using year_secs [OF assms] y by (simp add: year_start_eq leap_iff flip: y_def)
  have leap: "y mod 4 = 0 \<Longrightarrow> 1972 \<le> y" using y(1) by presburger
  show "0 \<le> tm_secs tm - base_secs tm" "tm_secs tm - base_secs tm < 2 ^ 32"
    unfolding eq using y leap by (auto split: if_splits)
  consider "y \<le> 2038" | "y = 2039" | "y = 2040" | "2041 \<le> y" by linarith
  then show "tm_secs tm - base_secs tm < 2 ^ 31 \<longleftrightarrow> year_fits (tm_year tm + 1900)"
  proof cases
    case 4
    then have "y mod 4 = 0 \<Longrightarrow> 2044 \<le> y" by presburger
    with 4 show ?thesis unfolding eq year_fits_def y_def [symmetric] by (auto split: if_splits)
  qed (auto simp: eq year_fits_def simp flip: y_def)
qed

lemma update_basetime:
  assumes "valid_tm tm"
  shows "clock_update_basetime tm = Some (word_of_int (base_secs tm), word_of_int (tm_secs tm - base_secs tm))"
    and "sint (word_of_int (base_secs tm) :: u32) = base_secs tm"
    and "sint (word_of_int (tm_secs tm - base_secs tm) :: u32)
      = tm_secs tm - base_secs tm - (if year_fits (tm_year tm + 1900) then 0 else 2 ^ 32)"
proof -
  have fit: "sint (word_of_int x :: u32) = x" if "- (2 ^ 31) \<le> x" "x < 2 ^ 31" for x
    using that by (simp add: sint_sbintrunc' signed_take_bit_int_eq_self)
  have wrap: "sint (word_of_int x :: u32) = x - 2 ^ 32" if "2 ^ 31 \<le> x" "x < 2 ^ 32" for x
  proof -
    have "(x + 2147483648) mod 4294967296 = x - 2147483648" using that by (simp add: mod_pos_geq)
    then show ?thesis by (simp add: int_word_sint)
  qed
  show b: "sint (word_of_int (base_secs tm) :: u32) = base_secs tm"
    by (rule fit) (use base_secs_range [OF assms] in auto)
  let ?b = "tm\<lparr>tm_wday := 0, tm_yday := 0, tm_year := if WJ_RTC_IS_LEAPYEAR (tm_year tm + 1900) then 72 else 70\<rparr>"
  have "valid_tm ?b" using base_year_valid [OF assms] by (simp add: valid_tm_def)
  moreover have "valid_tm (?b\<lparr>tm_year := tm_year tm\<rparr>)" using assms by (simp add: valid_tm_def)
  moreover have "tm_secs ?b = base_secs tm" "tm_secs (?b\<lparr>tm_year := tm_year tm\<rparr>) = tm_secs tm"
    by (simp_all add: base_secs_def tm_secs_def tm_day_def)
  ultimately show "clock_update_basetime tm = Some (word_of_int (base_secs tm), word_of_int (tm_secs tm - base_secs tm))"
    using b by (cases "WJ_RTC_IS_LEAPYEAR (tm_year tm + 1900)") (simp_all add: clock_update_basetime_def rtc_consts mktime_correct Let_def)
  show "sint (word_of_int (tm_secs tm - base_secs tm) :: u32)
      = tm_secs tm - base_secs tm - (if year_fits (tm_year tm + 1900) then 0 else 2 ^ 32)"
  proof (cases "year_fits (tm_year tm + 1900)")
    case True
    then show ?thesis using fit [of "tm_secs tm - base_secs tm"] year_secs_fit [OF assms] by auto
  next
    case False
    then show ?thesis using wrap [of "tm_secs tm - base_secs tm"] year_secs_fit [OF assms] by auto
  qed
qed

text \<open>Seconds before 1970 are converted to a year before 1970 and to a day that is not positive.\<close>

lemma month_loop_negative: "k \<le> 0 \<Longrightarrow> month_loop k l 0 11 = Some 0"
  by (simp add: month_loop.simps daysbeforemonth month_start_table)

lemma gmtime_negative:
  assumes "t + sint w < - (1461 * 86400)"
  shows "\<exists>tm. gmtime_r w t r = Some tm \<and> tm_year tm < 70"
proof -
  define e where "e = t + sint w"
  define n where "n = trunc_div e 86400"
  have n: "n = - ((- e) div 86400)" "n \<le> - 1461" using assms by (auto simp: n_def e_def trunc_div_neg)
  define q where "q = trunc_div n 1461"
  have q: "q = - ((- n) div 1461)" "q < 0" using n(2) by (auto simp: q_def trunc_div_neg)
  have k: "n - q * 1461 \<le> 0" using q(1) by auto
  then have "\<exists>l. year_loop (n - q * 1461) (4 * q) = (n - q * 1461, 4 * q, l)"
    by (subst year_loop.simps) (auto simp: Let_def)
  then obtain l where yl: "year_loop (n - q * 1461) (4 * q) = (n - q * 1461, 4 * q, l)" ..
  have "clock_utc2calendar n = Some (1970 + 4 * q, 0, n - q * 1461 + 1)"
    using k by (simp add: clock_utc2calendar_def rtc_consts daysbeforemonth month_loop_negative yl flip: q_def)
  then show ?thesis using q(2) by (simp add: gmtime_r_def rtc_consts Let_def flip: e_def n_def)
qed


definition leap_day_2024 :: csi_rtc_time_t where
  "leap_day_2024 = \<lparr>tm_sec = 15, tm_min = 30, tm_hour = 12, tm_mday = 29, tm_mon = 1, tm_year = 124, tm_wday = 0, tm_yday = 0\<rparr>"

lemma leap_day_2024_simps: "valid_tm leap_day_2024" "tm_day leap_day_2024 = 19782" "tm_secs leap_day_2024 = 1709209815"
  by (simp_all add: valid_tm_def valid_date_def tm_secs_def tm_day_def day_number_def year_start_eq leap_iff leap_day_2024_def
    month_start_table) (simp add: month_tables)


end
