(* ===== verification/Csi_Dev.thy ===== *)
theory Csi_Dev
  imports Chip_Base Regmap
begin

text \<open>
  Device objects, the table of peripherals (\<^verbatim>\<open>g_soc_info\<close> of \<^verbatim>\<open>devices.c\<close>, searched by \<^verbatim>\<open>target_get\<close> of
  \<^verbatim>\<open>csi/drivers/common/target_get.c\<close>) and the table of interrupt handlers (\<^verbatim>\<open>csi/drivers/common/irq.c\<close>). The device
  objects are a store indexed by numbers, since the interrupt table points to objects that drivers change as well.
\<close>

subsection \<open>Device objects\<close>

text \<open>The handlers a device may have; those of drivers that are not modelled are numbered.\<close>

datatype irq_fn =
    Default_Handler | wj_rtc_irq_handler | wj_mbox_irq_handler | dw_timer_irq_handler | dw_wdt_irq_handler | other_handler nat

record csi_dev_t =
  dev_reg_base :: u32
  irq_num :: u8
  dev_idx :: u8
  dev_dev_tag :: csi_dev_tag_t
  irq_handler :: "irq_fn option"

record csi_perip_info_t =
  info_reg_base :: u32
  info_irq_num :: u8
  info_idx :: u8
  info_dev_tag :: csi_dev_tag_t

definition perip_info :: "u32 \<Rightarrow> u8 \<Rightarrow> u8 \<Rightarrow> csi_dev_tag_t \<Rightarrow> csi_perip_info_t" where
  "perip_info b n i t = \<lparr>info_reg_base = b, info_irq_num = n, info_idx = i, info_dev_tag = t\<rparr>"

text \<open>The terminating zero entry is the end of the list.\<close>

definition g_soc_info :: "csi_perip_info_t list" where
  "g_soc_info =
     [perip_info 0xFFF53000 44 0 DEV_DW_UART_TAG, perip_info 0xB7F00000 39 1 DEV_DW_UART_TAG, perip_info 0xFFF4C000 32 0 DEV_DW_IIC_TAG,
      perip_info 0xFFF4D000 33 0 DEV_DW_TIMER_TAG, perip_info 0xFFF4D014 34 1 DEV_DW_TIMER_TAG, perip_info 0xFFF4D028 35 2 DEV_DW_TIMER_TAG,
      perip_info 0xFFF4D03C 36 3 DEV_DW_TIMER_TAG, perip_info 0xBFC30000 45 0 DEV_DW_WDT_TAG, perip_info 0xBFC31000 46 1 DEV_DW_WDT_TAG,
      perip_info 0xCB010000 47 2 DEV_DW_WDT_TAG, perip_info 0xFFF50000 40 3 DEV_DW_WDT_TAG, perip_info 0xFFF41000 28 0 DEV_DW_GPIO_TAG,
      perip_info 0xFFF40000 29 0 DEV_WJ_RTC_TAG, perip_info 0xFFC38000 38 1 DEV_WJ_MBOX_TAG, perip_info 0xFFF4E000 31 0 DEV_MR_PVT_TAG]"

text \<open>\<open>dev\<close> is the object the pointer argument points to, \<open>None\<close> the NULL pointer; the result is the object afterwards.\<close>

definition target_get :: "csi_dev_tag_t \<Rightarrow> u32 \<Rightarrow> csi_dev_t option \<Rightarrow> csi_error_t + csi_dev_t" where
  "target_get tag i dev =
     (case (dev, List.find (\<lambda>info. info_dev_tag info = tag \<and> info_idx info = ucast i) g_soc_info) of
        (Some d, Some info) \<Rightarrow>
          Inr (d\<lparr>dev_reg_base := info_reg_base info, irq_num := info_irq_num info, dev_idx := info_idx info, dev_dev_tag := tag\<rparr>)
      | _ \<Rightarrow> Inl CSI_ERROR)"

subsection \<open>Interrupt handlers\<close>

record 'e dev_t = "'e chip_t" +
  g_irq_nested_level :: u32
  g_irq_table :: "nat option list"
  dev_objs :: "nat \<Rightarrow> csi_dev_t"

type_synonym ('e, 'z, 'a) dact = "(('e, 'z) dev_t_scheme, 'a) act"

definition CONFIG_IRQ_NUM :: nat where "CONFIG_IRQ_NUM = 64"

definition upd_obj :: "nat \<Rightarrow> (csi_dev_t \<Rightarrow> csi_dev_t) \<Rightarrow> ('e, 'z, unit) dact" where
  "upd_obj d f = upd_st (\<lambda>s. s\<lparr>dev_objs := (dev_objs s)(d := f (dev_objs s d))\<rparr>)"

definition irq_entry :: "nat \<Rightarrow> ('e, 'z, nat option) dact" where
  "irq_entry n = bind_res (get_st g_irq_table) (\<lambda>tab. arr_get tab n)"

definition csi_irq_attach :: "nat \<Rightarrow> irq_fn \<Rightarrow> nat \<Rightarrow> ('e, 'z, unit) dact" where
  "csi_irq_attach irq h dev =
     bind_res (upd_obj dev (irq_handler_update (\<lambda>_. Some h))) (\<lambda>_.
     bind_res (irq_entry irq) (\<lambda>_.
     upd_st (\<lambda>s. s\<lparr>g_irq_table := (g_irq_table s)[irq := Some dev]\<rparr>)))"

definition csi_irq_detach :: "nat \<Rightarrow> ('e, 'z, unit) dact" where
  "csi_irq_detach irq =
     bind_res (irq_entry irq) (\<lambda>e.
     case e of None \<Rightarrow> ret () | Some dev \<Rightarrow> upd_obj dev (irq_handler_update (\<lambda>_. Some Default_Handler)))"

definition csi_irq_context :: "('e, 'z, bool) dact" where
  "csi_irq_context = get_st (\<lambda>s. g_irq_nested_level s > 0)"

text \<open>
  The interrupt controller (\<^verbatim>\<open>soc_irq_get_irq_num\<close>, \<^verbatim>\<open>soc_irq_end\<close>) and the effect of calling a handler with a device are
  arguments.
\<close>

definition do_irq ::
  "('e, 'z, nat) dact \<Rightarrow> (nat \<Rightarrow> ('e, 'z, unit) dact) \<Rightarrow> (irq_fn \<Rightarrow> nat option \<Rightarrow> ('e, 'z, unit) dact) \<Rightarrow> ('e, 'z, unit) dact" where
  "do_irq soc_irq_get_irq_num soc_irq_end run = seqs
     [upd_st (\<lambda>s. s\<lparr>g_irq_nested_level := g_irq_nested_level s + 1\<rparr>),
      bind_res soc_irq_get_irq_num (\<lambda>irqn. seqs
        [bind_res (irq_entry irqn) (\<lambda>e.
           case e of None \<Rightarrow> run Default_Handler None
           | Some d \<Rightarrow> bind_res (get_st (\<lambda>s. irq_handler (dev_objs s d))) (\<lambda>h.
               case h of None \<Rightarrow> run Default_Handler None | Some f \<Rightarrow> run f (Some d))),
         upd_st (\<lambda>s. s\<lparr>g_irq_nested_level := g_irq_nested_level s - 1\<rparr>),
         soc_irq_end irqn])]"

lemma target_get_rtc:
  "target_get DEV_WJ_RTC_TAG 0 (Some d) = Inr (d\<lparr>dev_reg_base := 0xFFF40000, irq_num := 29, dev_idx := 0, dev_dev_tag := DEV_WJ_RTC_TAG\<rparr>)"
  by (simp add: target_get_def g_soc_info_def perip_info_def)

lemma attach_then_detach:
  assumes "irq < length (g_irq_table s)"
  shows "\<exists>t. csi_irq_attach irq h d s = (Ok (), t) \<and> g_irq_table t ! irq = Some d \<and> irq_handler (dev_objs t d) = Some h
    \<and> length (g_irq_table t) = length (g_irq_table s)
    \<and> csi_irq_detach irq t = (Ok (), t\<lparr>dev_objs := (dev_objs t)(d := (dev_objs t d)\<lparr>irq_handler := Some Default_Handler\<rparr>)\<rparr>)"
  using assms by (simp add: csi_irq_attach_def csi_irq_detach_def irq_entry_def upd_obj_def act_defs)

end
