(* ===== verification/Rtc.thy ===== *)
theory Rtc
  imports Rtc_Alg Csi_Dev Sys_Clk
begin

text \<open>
  The real time clock driver (\<^verbatim>\<open>csi/drivers/rtc/wj/v2.0\<close>: \<^verbatim>\<open>rtc.c\<close>, \<^verbatim>\<open>wj_rtc_ll.c\<close>, \<^verbatim>\<open>wj_rtc_ll.h\<close>), built with
  \<^verbatim>\<open>CONFIG_RTC_FAMILY_E\<close>. The time is the number of seconds in the load register plus the ticks the counter has made since,
  plus the seconds of the year, which are kept in memory only. The driver has one handle, \<^verbatim>\<open>rtc\<close> of \<^verbatim>\<open>board_init.c\<close>; its
  device object has number 0. Delays have no effect on the modelled state.
\<close>

type_synonym u64 = "64 word"

subsection \<open>State\<close>

text \<open>The callback is code of the client; it is modelled by its effect on the hardware state.\<close>

record 'e rtc_t = "'e dev_t" +
  year_to_secs :: u32
  rtc_callback :: "('e \<Rightarrow> 'e) option"

type_synonym ('e, 'a) ract = "('e rtc_t, 'a) act"

definition rtc :: nat where "rtc = 0"

definition HANDLE_REG_BASE :: "('e, u32) ract" where
  "HANDLE_REG_BASE = get_st (\<lambda>s. dev_reg_base (dev_objs s rtc))"

definition HANDLE_IRQ_NUM :: "('e, nat) ract" where
  "HANDLE_IRQ_NUM = get_st (\<lambda>s. unat (irq_num (dev_objs s rtc)))"

subsection \<open>Registers\<close>

definition WJ_RTC_CCR_INTREN_EN :: u32 where "WJ_RTC_CCR_INTREN_EN = 1"
definition WJ_RTC_CCR_INTRMASK_EN :: u32 where "WJ_RTC_CCR_INTRMASK_EN = 2"
definition WJ_RTC_CCR_COUTEN_EN :: u32 where "WJ_RTC_CCR_COUTEN_EN = 4"
definition WJ_RTC_CCR_WRAPEN_EN :: u32 where "WJ_RTC_CCR_WRAPEN_EN = 8"
definition WJ_RTC_STAT_INTSTA_EN :: u32 where "WJ_RTC_STAT_INTSTA_EN = 1"
definition WJ_RTC_RSTAT_INTRSTA_EN :: u32 where "WJ_RTC_RSTAT_INTRSTA_EN = 1"
definition WJ_RTC_EOI_RDCLEAR_EN :: u32 where "WJ_RTC_EOI_RDCLEAR_EN = 1"

text \<open>The offsets of \<^verbatim>\<open>wj_rtc_regs_t\<close>.\<close>

definition RTC_CCVR_L :: u32 where "RTC_CCVR_L = 0"
definition RTC_CMR_L :: u32 where "RTC_CMR_L = 4"
definition RTC_CLR_L :: u32 where "RTC_CLR_L = 8"
definition RTC_CCR :: u32 where "RTC_CCR = 0xc"
definition RTC_STAT :: u32 where "RTC_STAT = 0x10"
definition RTC_RSTAT :: u32 where "RTC_RSTAT = 0x14"
definition RTC_EOI :: u32 where "RTC_EOI = 0x18"
definition RTC_COMP_VERSION :: u32 where "RTC_COMP_VERSION = 0x1c"
definition RTC_DIV :: u32 where "RTC_DIV = 0x20"

lemmas rtc_offsets = RTC_CCVR_L_def RTC_CMR_L_def RTC_CLR_L_def RTC_CCR_def RTC_DIV_def

text \<open>\<^verbatim>\<open>(reg & bit) ? 1 : 0\<close>\<close>

definition bit_sta :: "u32 \<Rightarrow> u32 \<Rightarrow> ('e, u32) ract" where
  "bit_sta reg b = bind_res (CHIP_REG_GET reg) (\<lambda>v. ret (if v AND b \<noteq> 0 then 1 else 0))"

definition wj_rtc_get_currcount :: "u32 \<Rightarrow> ('e, u32) ract" where
  "wj_rtc_get_currcount rtc_base = CHIP_REG_GET (rtc_base + RTC_CCVR_L)"

definition wj_rtc_get_matchcount :: "u32 \<Rightarrow> ('e, u32) ract" where
  "wj_rtc_get_matchcount rtc_base = CHIP_REG_GET (rtc_base + RTC_CMR_L)"

definition wj_rtc_set_matchcount :: "u32 \<Rightarrow> u32 \<Rightarrow> ('e, unit) ract" where
  "wj_rtc_set_matchcount rtc_base val = CHIP_REG_SET val (rtc_base + RTC_CMR_L)"

definition wj_rtc_get_loadcount :: "u32 \<Rightarrow> ('e, u32) ract" where
  "wj_rtc_get_loadcount rtc_base = CHIP_REG_GET (rtc_base + RTC_CLR_L)"

definition wj_rtc_set_loadcount :: "u32 \<Rightarrow> u32 \<Rightarrow> ('e, unit) ract" where
  "wj_rtc_set_loadcount rtc_base val = CHIP_REG_SET val (rtc_base + RTC_CLR_L)"

definition wj_rtc_get_intr_en_sta :: "u32 \<Rightarrow> ('e, u32) ract" where
  "wj_rtc_get_intr_en_sta rtc_base = bit_sta (rtc_base + RTC_CCR) WJ_RTC_CCR_INTREN_EN"

definition wj_rtc_intr_enable :: "u32 \<Rightarrow> ('e, unit) ract" where
  "wj_rtc_intr_enable rtc_base = set_bits WJ_RTC_CCR_INTREN_EN (rtc_base + RTC_CCR)"

definition wj_rtc_intr_disable :: "u32 \<Rightarrow> ('e, unit) ract" where
  "wj_rtc_intr_disable rtc_base = clr_bits WJ_RTC_CCR_INTREN_EN (rtc_base + RTC_CCR)"

definition wj_rtc_get_mask_sta :: "u32 \<Rightarrow> ('e, u32) ract" where
  "wj_rtc_get_mask_sta rtc_base = bit_sta (rtc_base + RTC_CCR) WJ_RTC_CCR_INTRMASK_EN"

definition wj_rtc_mask_enable :: "u32 \<Rightarrow> ('e, unit) ract" where
  "wj_rtc_mask_enable rtc_base = set_bits WJ_RTC_CCR_INTRMASK_EN (rtc_base + RTC_CCR)"

definition wj_rtc_mask_disable :: "u32 \<Rightarrow> ('e, unit) ract" where
  "wj_rtc_mask_disable rtc_base = clr_bits WJ_RTC_CCR_INTRMASK_EN (rtc_base + RTC_CCR)"

definition wj_rtc_get_counter_sta :: "u32 \<Rightarrow> ('e, u32) ract" where
  "wj_rtc_get_counter_sta rtc_base = bit_sta (rtc_base + RTC_CCR) WJ_RTC_CCR_COUTEN_EN"

definition wj_rtc_counter_enable :: "u32 \<Rightarrow> ('e, unit) ract" where
  "wj_rtc_counter_enable rtc_base = set_bits WJ_RTC_CCR_COUTEN_EN (rtc_base + RTC_CCR)"

definition wj_rtc_counter_disable :: "u32 \<Rightarrow> ('e, unit) ract" where
  "wj_rtc_counter_disable rtc_base = clr_bits WJ_RTC_CCR_COUTEN_EN (rtc_base + RTC_CCR)"

definition wj_rtc_get_wrap_sta :: "u32 \<Rightarrow> ('e, u32) ract" where
  "wj_rtc_get_wrap_sta rtc_base = bit_sta (rtc_base + RTC_CCR) WJ_RTC_CCR_WRAPEN_EN"

definition wj_rtc_wrap_enable :: "u32 \<Rightarrow> ('e, unit) ract" where
  "wj_rtc_wrap_enable rtc_base = set_bits WJ_RTC_CCR_WRAPEN_EN (rtc_base + RTC_CCR)"

definition wj_rtc_wrap_disable :: "u32 \<Rightarrow> ('e, unit) ract" where
  "wj_rtc_wrap_disable rtc_base = clr_bits WJ_RTC_CCR_WRAPEN_EN (rtc_base + RTC_CCR)"

definition wj_rtc_get_intr_sta :: "u32 \<Rightarrow> ('e, u32) ract" where
  "wj_rtc_get_intr_sta rtc_base = bit_sta (rtc_base + RTC_STAT) WJ_RTC_STAT_INTSTA_EN"

definition wj_rtc_get_intr_rsta :: "u32 \<Rightarrow> ('e, u32) ract" where
  "wj_rtc_get_intr_rsta rtc_base = bit_sta (rtc_base + RTC_RSTAT) WJ_RTC_RSTAT_INTRSTA_EN"

definition wj_rtc_clear_intr_sta :: "u32 \<Rightarrow> ('e, u32) ract" where
  "wj_rtc_clear_intr_sta rtc_base = bit_sta (rtc_base + RTC_EOI) WJ_RTC_EOI_RDCLEAR_EN"

definition wj_rtc_get_comp_vers :: "u32 \<Rightarrow> ('e, u32) ract" where
  "wj_rtc_get_comp_vers rtc_base = CHIP_REG_GET (rtc_base + RTC_COMP_VERSION)"

definition wj_rtc_get_divider :: "u32 \<Rightarrow> ('e, u32) ract" where
  "wj_rtc_get_divider rtc_base = CHIP_REG_GET (rtc_base + RTC_DIV)"

definition wj_rtc_reset_register :: "u32 \<Rightarrow> ('e, unit) ract" where
  "wj_rtc_reset_register rtc_base = seqs
     [CHIP_REG_SET 0 (rtc_base + RTC_CMR_L),
      CHIP_REG_SET 0 (rtc_base + RTC_CLR_L),
      CHIP_REG_SET 0 (rtc_base + RTC_CCR),
      CHIP_REG_SET 0 (rtc_base + RTC_DIV)]"

subsection \<open>Counts and times\<close>

definition WJ_RTC_GET_DIVIDER_VALUE :: "u32 \<Rightarrow> ('e, u32) ract" where
  "WJ_RTC_GET_DIVIDER_VALUE rtc_base = bind_res (wj_rtc_get_divider rtc_base) (\<lambda>d. ret (push_bit 1 (d + 1)))"

definition div64 :: "u64 \<Rightarrow> u64 \<Rightarrow> ('e, u64) ract" where
  "div64 a b = (if b = 0 then undef else ret (a div b))"

definition WJ_RTC_CONVERT_CALENDAR2TIME :: "u64 \<Rightarrow> u32 \<Rightarrow> ('e, u64) ract" where
  "WJ_RTC_CONVERT_CALENDAR2TIME val rtc_base =
     bind_res (WJ_RTC_GET_DIVIDER_VALUE rtc_base) (\<lambda>d.
     bind_res (div64 (ucast (soc_get_rtc_freq 0)) (ucast d)) (\<lambda>f.
     div64 (val * f) 1000))"

definition WJ_RTC_CONVERT_TIME2CALENDAR :: "u64 \<Rightarrow> u32 \<Rightarrow> ('e, u64) ract" where
  "WJ_RTC_CONVERT_TIME2CALENDAR val rtc_base =
     bind_res (WJ_RTC_GET_DIVIDER_VALUE rtc_base) (\<lambda>d.
     bind_res (div64 (ucast (soc_get_rtc_freq 0)) (ucast d)) (\<lambda>f.
     div64 (val * 1000) f))"

definition wj_rtc_read_current_count :: "u32 \<Rightarrow> ('e, u32) ract" where
  "wj_rtc_read_current_count rtc_base = wj_rtc_get_currcount rtc_base"

definition wj_rtc_read_load_count :: "u32 \<Rightarrow> ('e, u32) ract" where
  "wj_rtc_read_load_count rtc_base = wj_rtc_get_loadcount rtc_base"

definition wj_rtc_read_match_count :: "u32 \<Rightarrow> ('e, u32) ract" where
  "wj_rtc_read_match_count rtc_base = wj_rtc_get_matchcount rtc_base"

definition wj_rtc_write_load_count :: "u32 \<Rightarrow> u32 \<Rightarrow> ('e, unit) ract" where
  "wj_rtc_write_load_count rtc_base count = wj_rtc_set_loadcount rtc_base count"

definition wj_rtc_write_match_count :: "u32 \<Rightarrow> u32 \<Rightarrow> ('e, unit) ract" where
  "wj_rtc_write_match_count rtc_base count = wj_rtc_set_matchcount rtc_base count"

definition wj_rtc_read_runningtime :: "u32 \<Rightarrow> ('e, u32) ract" where
  "wj_rtc_read_runningtime rtc_base =
     bind_res (wj_rtc_read_current_count rtc_base) (\<lambda>currecount.
     bind_res (wj_rtc_read_load_count rtc_base) (\<lambda>loadcount.
     if currecount > loadcount
     then bind_res (WJ_RTC_CONVERT_TIME2CALENDAR (ucast (currecount - loadcount)) rtc_base) (\<lambda>retime. ret (ucast retime))
     else ret 0))"

definition wj_rtc_read_alarmcount :: "u32 \<Rightarrow> ('e, u32) ract" where
  "wj_rtc_read_alarmcount rtc_base =
     bind_res (wj_rtc_read_match_count rtc_base) (\<lambda>matchcount.
     bind_res (wj_rtc_read_current_count rtc_base) (\<lambda>currecount.
     if matchcount > currecount
     then bind_res (WJ_RTC_CONVERT_TIME2CALENDAR (ucast (matchcount - currecount)) rtc_base) (\<lambda>retime. ret (ucast retime))
     else ret 0))"

text \<open>
  One call is one turn of the loop; \<open>turns\<close> is 10000 less \<^verbatim>\<open>timecount\<close>, so that the loop fails at the 10000th turn even if
  that turn reads the right count.
\<close>

definition WJ_RTC_WAIT_WRITED_10S :: nat where "WJ_RTC_WAIT_WRITED_10S = 10000"

fun loadtime_loop :: "u32 \<Rightarrow> u32 \<Rightarrow> u32 \<Rightarrow> nat \<Rightarrow> ('e, unit) ract" where
  "loadtime_loop rtc_base settime loopcount 0 = fail CSI_ERROR"
| "loadtime_loop rtc_base settime loopcount (Suc turns) =
     bind_res
       (if loopcount + 1 > 10 then seqs
          [wj_rtc_write_load_count rtc_base (settime + 1), wj_rtc_write_load_count rtc_base settime]
        else ret ()) (\<lambda>_.
     bind_res (wj_rtc_read_current_count rtc_base) (\<lambda>currcount.
     if turns = 0 then fail CSI_ERROR
     else if currcount \<noteq> settime then loadtime_loop rtc_base settime (if loopcount + 1 > 10 then 0 else loopcount + 1) turns
     else ret ()))"

definition wj_rtc_write_loadtime :: "u32 \<Rightarrow> u32 \<Rightarrow> ('e, unit) ract" where
  "wj_rtc_write_loadtime rtc_base settime =
     bind_res (wj_rtc_write_load_count rtc_base settime) (\<lambda>_. loadtime_loop rtc_base settime 0 WJ_RTC_WAIT_WRITED_10S)"

definition wj_rtc_write_loadtime_no_wait :: "u32 \<Rightarrow> u32 \<Rightarrow> ('e, unit) ract" where
  "wj_rtc_write_loadtime_no_wait rtc_base settime = wj_rtc_write_load_count rtc_base settime"

definition wj_rtc_write_matchtime :: "u32 \<Rightarrow> u32 \<Rightarrow> ('e, unit) ract" where
  "wj_rtc_write_matchtime rtc_base settime =
     bind_res (WJ_RTC_CONVERT_CALENDAR2TIME (ucast settime) rtc_base) (\<lambda>matchcount.
     bind_res (wj_rtc_read_current_count rtc_base) (\<lambda>c.
     wj_rtc_write_match_count rtc_base (ucast (matchcount + ucast c))))"

subsection \<open>The driver\<close>

definition csi_rtc_intr_clr :: "('e, unit) ract" where
  "csi_rtc_intr_clr =
     bind_res HANDLE_REG_BASE (\<lambda>rtc_base.
     bind_res (wj_rtc_get_intr_sta rtc_base) (\<lambda>sta.
     if sta \<noteq> 0 then bind_res (wj_rtc_clear_intr_sta rtc_base) (\<lambda>_. ret ()) else ret ()))"

definition run_wj_rtc_irq_handler :: "('e, unit) ract" where
  "run_wj_rtc_irq_handler =
     bind_res csi_rtc_intr_clr (\<lambda>_.
     bind_res (get_st rtc_callback) (\<lambda>c.
     case c of None \<Rightarrow> ret () | Some f \<Rightarrow> upd_st (\<lambda>s. s\<lparr>env := f (env s)\<rparr>)))"

definition csi_rtc_init :: "u32 \<Rightarrow> ('e, unit) ract" where
  "csi_rtc_init i =
     bind_res (get_st (\<lambda>s. target_get DEV_WJ_RTC_TAG i (Some (dev_objs s rtc)))) (\<lambda>r.
     case r of
       Inl e \<Rightarrow> fail CSI_ERROR
     | Inr d \<Rightarrow> seqs [upd_obj rtc (\<lambda>_. d), bind_res HANDLE_REG_BASE wj_rtc_reset_register])"

definition csi_rtc_uninit :: "('e, unit) ract" where
  "csi_rtc_uninit = bind_res HANDLE_REG_BASE wj_rtc_reset_register"

text \<open>The common part of setting the time, and the two functions, which differ in how the load register is written.\<close>

definition set_time_with :: "(u32 \<Rightarrow> u32 \<Rightarrow> ('e, unit) ract) \<Rightarrow> csi_rtc_time_t \<Rightarrow> ('e, unit) ract" where
  "set_time_with write_load rtctime =
     bind_res HANDLE_REG_BASE (\<lambda>rtc_base.
     bind_res (deref (clock_check_tm_ok rtctime)) (\<lambda>ok.
     if \<not> ok then fail CSI_ERROR
     else
       bind_res (deref (clock_update_basetime rtctime)) (\<lambda>(load_sec, secs).
       bind_res (upd_st (\<lambda>s. s\<lparr>year_to_secs := secs\<rparr>)) (\<lambda>_.
       if sint load_sec \<le> 0 then fail CSI_ERROR
       else bind_res (write_load rtc_base load_sec) (\<lambda>_. wj_rtc_counter_enable rtc_base)))))"

definition csi_rtc_set_time :: "csi_rtc_time_t \<Rightarrow> ('e, unit) ract" where
  "csi_rtc_set_time rtctime = set_time_with wj_rtc_write_loadtime rtctime"

definition csi_rtc_set_time_no_wait :: "csi_rtc_time_t \<Rightarrow> ('e, unit) ract" where
  "csi_rtc_set_time_no_wait rtctime = set_time_with wj_rtc_write_load_count rtctime"

text \<open>The argument is what the object of the caller holds before.\<close>

definition csi_rtc_get_time :: "csi_rtc_time_t \<Rightarrow> ('e, csi_rtc_time_t) ract" where
  "csi_rtc_get_time rtctime =
     bind_res HANDLE_REG_BASE (\<lambda>rtc_base.
     bind_res (wj_rtc_read_runningtime rtc_base) (\<lambda>r.
     bind_res (wj_rtc_read_load_count rtc_base) (\<lambda>l.
     bind_res (get_st year_to_secs) (\<lambda>secs.
     deref (gmtime_r secs (trunc_div (uint r) 1000 + uint l) rtctime)))))"

definition csi_rtc_get_alarm_remaining_time :: "('e, u32) ract" where
  "csi_rtc_get_alarm_remaining_time =
     bind_res HANDLE_REG_BASE (\<lambda>rtc_base.
     bind_res (wj_rtc_read_alarmcount rtc_base) (\<lambda>ms. ret (ms div 1000)))"

text \<open>
  The days of the year of \<^verbatim>\<open>current_time\<close>, which \<open>gmtime_r\<close> leaves alone, are not used afterwards; \<open>uninit\<close> is what
  the variable held.
\<close>

definition csi_rtc_set_alarm :: "csi_rtc_time_t \<Rightarrow> csi_rtc_time_t \<Rightarrow> ('e \<Rightarrow> 'e) option \<Rightarrow> ('e, unit) ract" where
  "csi_rtc_set_alarm uninit rtctime callback =
     bind_res HANDLE_REG_BASE (\<lambda>rtc_base.
     bind_res (deref (clock_check_tm_ok rtctime)) (\<lambda>ok.
     if \<not> ok then fail CSI_ERROR
     else
       bind_res (upd_st (\<lambda>s. s\<lparr>rtc_callback := callback\<rparr>)) (\<lambda>_.
       bind_res HANDLE_IRQ_NUM (\<lambda>irq.
       bind_res (csi_irq_attach irq wj_rtc_irq_handler rtc) (\<lambda>_.
       bind_res (soc_do (\<lambda>c. irq_enable c irq)) (\<lambda>_.
       bind_res (csi_rtc_get_time uninit) (\<lambda>current_time.
       bind_res (get_st year_to_secs) (\<lambda>secs.
       bind_res (deref (mktime secs rtctime)) (\<lambda>alarm.
       bind_res (deref (mktime secs current_time)) (\<lambda>now.
       bind_res (wj_rtc_write_matchtime rtc_base (word_of_int ((alarm - now) * 1000))) (\<lambda>_.
       wj_rtc_intr_enable rtc_base)))))))))))"

definition csi_rtc_cancel_alarm :: "('e, unit) ract" where
  "csi_rtc_cancel_alarm =
     bind_res HANDLE_REG_BASE (\<lambda>rtc_base.
     bind_res HANDLE_IRQ_NUM (\<lambda>irq. seqs
       [upd_st (\<lambda>s. s\<lparr>rtc_callback := None\<rparr>),
        wj_rtc_intr_disable rtc_base,
        wj_rtc_write_match_count rtc_base 0,
        soc_do (\<lambda>c. irq_disable c irq),
        csi_irq_detach irq]))"

definition csi_rtc_is_running :: "('e, bool) ract" where
  "csi_rtc_is_running =
     bind_res HANDLE_REG_BASE (\<lambda>rtc_base. bind_res (wj_rtc_get_counter_sta rtc_base) (\<lambda>v. ret (v \<noteq> 0)))"

definition csi_rtc_enable_pm :: "('e, unit) ract" where "csi_rtc_enable_pm = fail CSI_UNSUPPORTED"

definition csi_rtc_disable_pm :: "('e, unit) ract" where "csi_rtc_disable_pm = ret ()"

subsection \<open>Setting and reading the time\<close>

text \<open>The registers of the clock that hold what is written to them; the counter is not one of them.\<close>

definition rtc_plain :: "u32 \<Rightarrow> u32 \<Rightarrow> bool" where
  "rtc_plain b a \<longleftrightarrow> a \<in> {b + RTC_CMR_L, b + RTC_CLR_L, b + RTC_CCR, b + RTC_DIV}"

text \<open>The seconds the counter has run for, with a count of \<open>c\<close> and a load register of \<open>l\<close>: it makes 16384 ticks in a second.\<close>

definition elapsed :: "u32 \<Rightarrow> u32 \<Rightarrow> int" where
  "elapsed c l = (if c > l then uint (c - l) div 16384 else 0)"

definition new_year_midnight :: "csi_rtc_time_t \<Rightarrow> bool" where
  "new_year_midnight tm \<longleftrightarrow> tm_mon tm = 0 \<and> tm_mday tm = 1 \<and> tm_hour tm = 0 \<and> tm_min tm = 0 \<and> tm_sec tm = 0
     \<and> \<not> WJ_RTC_IS_LEAPYEAR (tm_year tm + 1900)"

lemma base_secs_zero:
  assumes "valid_tm tm"
  shows "base_secs tm = 0 \<longleftrightarrow> new_year_midnight tm"
proof -
  have d: "month_start l (tm_mon tm) \<ge> 0" "tm_mon tm = 0 \<or> month_start l (tm_mon tm) > 0" for l
    using month_start_mono [of 0 "tm_mon tm" l] assms by (cases "tm_mon tm = 0"; auto simp: valid_tm_def valid_date_def)+
  have y: "year_start 1972 = 730" "year_start 1970 = 0" "\<not> WJ_RTC_IS_LEAPYEAR 1970" by (simp_all add: year_start_eq leap_iff)
  define D where "D = tm_day (tm\<lparr>tm_year := if WJ_RTC_IS_LEAPYEAR (tm_year tm + 1900) then 72 else 70\<rparr>)"
  have D: "D = (if WJ_RTC_IS_LEAPYEAR (tm_year tm + 1900) then 730 + month_start (WJ_RTC_IS_LEAPYEAR 1972) (tm_mon tm)
      else month_start False (tm_mon tm)) + (tm_mday tm - 1)"
    using y by (simp add: D_def tm_day_def day_number_def)
  have f: "0 \<le> tm_hour tm" "0 \<le> tm_min tm" "0 \<le> tm_sec tm" "1 \<le> tm_mday tm"
    using assms by (simp_all add: valid_tm_def valid_date_def)
  have "0 \<le> D" using D f d [of False] d [of "WJ_RTC_IS_LEAPYEAR 1972"] by simp
  moreover have "base_secs tm = 86400 * D + 3600 * tm_hour tm + 60 * tm_min tm + tm_sec tm"
    by (simp add: base_secs_def tm_secs_def D_def)
  ultimately have "base_secs tm = 0 \<longleftrightarrow> D = 0 \<and> tm_hour tm = 0 \<and> tm_min tm = 0 \<and> tm_sec tm = 0" using f by auto
  moreover have "D = 0 \<longleftrightarrow> \<not> WJ_RTC_IS_LEAPYEAR (tm_year tm + 1900) \<and> tm_mon tm = 0 \<and> tm_mday tm = 1"
    using D f(4) d [of False] d [of "WJ_RTC_IS_LEAPYEAR 1972"] by auto
  ultimately show ?thesis unfolding new_year_midnight_def by blast
qed

lemma running_time:
  fixes d :: u32
  shows "trunc_div (uint (ucast (ucast d * 1000 div 16384 :: u64) :: u32)) 1000 = uint d div 16384"
proof -
  have d: "0 \<le> uint d" "uint d < 2 ^ 32" using uint_bounded [of d] by simp_all
  have "uint (ucast d :: u64) = uint d" using d by (simp add: unsigned_ucast_eq take_bit_int_eq_self)
  then have "uint (ucast d * 1000 :: u64) = uint d * 1000"
    using d by (simp add: uint_word_arith_bintrs take_bit_int_eq_self)
  then have "uint (ucast d * 1000 div 16384 :: u64) = uint d * 1000 div 16384" by (simp add: uint_div)
  moreover have "0 \<le> uint d * 1000 div 16384" using d(1) by (simp add: pos_imp_zdiv_nonneg_iff)
  moreover have "uint d * 1000 div 16384 < 2 ^ 32" using d by auto
  ultimately have "uint (ucast (ucast d * 1000 div 16384 :: u64) :: u32) = uint d * 1000 div 16384"
    by (simp add: unsigned_ucast_eq take_bit_int_eq_self)
  also have "\<dots> div 1000 = uint d div 16384" by (simp add: zdiv_zmult2_eq [symmetric])
  finally show ?thesis using d by (simp add: trunc_div_nonneg)
qed

lemma time2calendar:
  fixes t :: "'e rtc_t"
  assumes "reg_file (soc t) (rtc_plain b) regs" and "regs (env t) (b + RTC_DIV) = 0"
  shows "\<exists>e tr. WJ_RTC_CONVERT_TIME2CALENDAR v b t = (Ok (v * 1000 div 16384), t\<lparr>env := e, trace := tr\<rparr>) \<and> regs e = regs (env t)"
proof -
  obtain v' e where rd: "reg_read (soc t) (b + RTC_DIV) (env t) = (v', e)" by fastforce
  moreover have "v' = 0" "regs e = regs (env t)"
    using assms rd unfolding reg_file_def rtc_plain_def by (metis fst_conv insertCI, metis snd_conv)
  ultimately show ?thesis
    by (intro exI [of _ e] exI [of _ "trace t @ [Rd (b + RTC_DIV) v']"])
      (simp add: WJ_RTC_CONVERT_TIME2CALENDAR_def WJ_RTC_GET_DIVIDER_VALUE_def wj_rtc_get_divider_def CHIP_REG_GET_def
        div64_def soc_get_rtc_freq_def bind_res_def ret_def)
qed

lemma set_no_wait:
  fixes s :: "'e rtc_t"
  assumes v: "valid_tm tm" and rf: "reg_file (soc s) (rtc_plain (dev_reg_base (dev_objs s rtc))) regs"
  shows "new_year_midnight tm \<Longrightarrow>
      csi_rtc_set_time_no_wait tm s = (Err CSI_ERROR, s\<lparr>year_to_secs := word_of_int (tm_secs tm - base_secs tm)\<rparr>)"
    and "\<not> new_year_midnight tm \<Longrightarrow>
      \<exists>e tr. csi_rtc_set_time_no_wait tm s
        = (Ok (), s\<lparr>year_to_secs := word_of_int (tm_secs tm - base_secs tm), env := e, trace := tr\<rparr>)
      \<and> regs e (dev_reg_base (dev_objs s rtc) + RTC_CLR_L) = word_of_int (base_secs tm)
      \<and> regs e (dev_reg_base (dev_objs s rtc) + RTC_DIV) = regs (env s) (dev_reg_base (dev_objs s rtc) + RTC_DIV)"
proof -
  let ?b = "dev_reg_base (dev_objs s rtc)" and ?l = "word_of_int (base_secs tm) :: u32"
  let ?y = "word_of_int (tm_secs tm - base_secs tm) :: u32"
  note defs = csi_rtc_set_time_no_wait_def set_time_with_def HANDLE_REG_BASE_def wj_rtc_write_load_count_def wj_rtc_set_loadcount_def
    wj_rtc_counter_enable_def check_tm_ok [OF v] update_basetime [OF v]
  show "csi_rtc_set_time_no_wait tm s = (Err CSI_ERROR, s\<lparr>year_to_secs := ?y\<rparr>)" if "new_year_midnight tm"
    using that base_secs_zero [OF v] by (simp add: defs act_defs)
  assume "\<not> new_year_midnight tm"
  then have pos: "\<not> base_secs tm \<le> 0" using base_secs_zero [OF v] base_secs_range [OF v] by simp
  let ?t = "s\<lparr>year_to_secs := ?y, env := reg_write (soc s) (?b + RTC_CLR_L) ?l (env s), trace := trace s @ [Wr (?b + RTC_CLR_L) ?l]\<rparr>"
  have w: "regs (env ?t) = (regs (env s))(?b + RTC_CLR_L := ?l)" using rf by (simp add: reg_file_def rtc_plain_def)
  obtain e tr where m: "set_bits WJ_RTC_CCR_COUTEN_EN (?b + RTC_CCR) ?t = (Ok (), ?t\<lparr>env := e, trace := tr\<rparr>)"
    "regs e = (regs (env ?t))(?b + RTC_CCR := regs (env ?t) (?b + RTC_CCR) OR WJ_RTC_CCR_COUTEN_EN)"
    by (rule modify_plain [of ?t "rtc_plain ?b" regs "?b + RTC_CCR"]) (use rf in \<open>simp_all add: rtc_plain_def\<close>)
  have "csi_rtc_set_time_no_wait tm s = (Ok (), ?t\<lparr>env := e, trace := tr\<rparr>)"
    using m(1) pos by (simp add: defs act_defs CHIP_REG_SET_def)
  moreover have "regs e (?b + RTC_CLR_L) = ?l" "regs e (?b + RTC_DIV) = regs (env s) (?b + RTC_DIV)"
    using m(2) w by (simp_all add: rtc_offsets)
  ultimately show "\<exists>e tr. csi_rtc_set_time_no_wait tm s = (Ok (), s\<lparr>year_to_secs := ?y, env := e, trace := tr\<rparr>)
      \<and> regs e (?b + RTC_CLR_L) = ?l \<and> regs e (?b + RTC_DIV) = regs (env s) (?b + RTC_DIV)" by auto
qed

lemma read_load_count:
  fixes t :: "'e rtc_t" and f :: "u32 \<Rightarrow> ('e, 'b) ract"
  assumes "reg_file (soc t) (rtc_plain b) regs"
  shows "\<exists>e tr. bind_res (wj_rtc_read_load_count b) f t = f (regs (env t) (b + RTC_CLR_L)) (t\<lparr>env := e, trace := tr\<rparr>)
    \<and> regs e = regs (env t)"
  using get_plain [of t "rtc_plain b" regs "b + RTC_CLR_L" f] assms
  by (auto simp: wj_rtc_read_load_count_def wj_rtc_get_loadcount_def rtc_plain_def)

lemma read_runningtime:
  fixes t :: "'e rtc_t"
  assumes rf: "reg_file (soc t) (rtc_plain b) regs" and d: "regs (env t) (b + RTC_DIV) = 0"
  obtains e tr ms where "wj_rtc_read_runningtime b t = (Ok ms, t\<lparr>env := e, trace := tr\<rparr>)" and "regs e = regs (env t)"
    and "trunc_div (uint ms) 1000 = elapsed (fst (reg_read (soc t) b (env t))) (regs (env t) (b + RTC_CLR_L))"
proof -
  let ?l = "regs (env t) (b + RTC_CLR_L)"
  obtain c e0 where rd: "reg_read (soc t) (b + RTC_CCVR_L) (env t) = (c, e0)" by fastforce
  define t0 where "t0 = t\<lparr>env := e0, trace := trace t @ [Rd (b + RTC_CCVR_L) c]\<rparr>"
  have "regs e0 = regs (env t)" using rf rd unfolding reg_file_def by (metis snd_conv)
  then have t0: "soc t0 = soc t" "regs (env t0) = regs (env t)" by (simp_all add: t0_def)
  define f :: "u32 \<Rightarrow> ('e, u32) ract" where "f = (\<lambda>l. if c > l
      then bind_res (WJ_RTC_CONVERT_TIME2CALENDAR (ucast (c - l)) b) (\<lambda>retime. ret (ucast retime)) else ret 0)"
  obtain e1 tr1 where l: "bind_res (wj_rtc_read_load_count b) f t0 = f ?l (t0\<lparr>env := e1, trace := tr1\<rparr>)" "regs e1 = regs (env t)"
    using read_load_count [of t0 b regs f] rf t0 by auto
  have run: "wj_rtc_read_runningtime b t = f ?l (t0\<lparr>env := e1, trace := tr1\<rparr>)"
    unfolding wj_rtc_read_runningtime_def l(1) [symmetric] unfolding f_def t0_def
    by (rule bind_res_step) (simp add: wj_rtc_read_current_count_def wj_rtc_get_currcount_def CHIP_REG_GET_def rd)
  have c: "c = fst (reg_read (soc t) b (env t))" using rd by (simp add: RTC_CCVR_L_def)
  obtain e2 tr2 where conv: "WJ_RTC_CONVERT_TIME2CALENDAR (ucast (c - ?l)) b (t0\<lparr>env := e1, trace := tr1\<rparr>)
      = (Ok (ucast (c - ?l) * 1000 div 16384), t0\<lparr>env := e2, trace := tr2\<rparr>)" "regs e2 = regs (env t)"
    using time2calendar [of "t0\<lparr>env := e1, trace := tr1\<rparr>" b regs "ucast (c - ?l)"] rf d l(2) t0(1) by auto
  show thesis
  proof (cases "c > ?l")
    case True
    then have "wj_rtc_read_runningtime b t = (Ok (ucast (ucast (c - ?l) * 1000 div 16384 :: u64)), t\<lparr>env := e2, trace := tr2\<rparr>)"
      using run conv(1) by (simp add: f_def t0_def bind_res_def ret_def)
    from this conv(2) show thesis by (rule that) (use True running_time [of "c - ?l"] in \<open>simp add: elapsed_def c\<close>)
  next
    case False
    then have "wj_rtc_read_runningtime b t = (Ok 0, t\<lparr>env := e1, trace := tr1\<rparr>)" using run by (simp add: f_def t0_def ret_def)
    from this l(2) show thesis by (rule that) (use False in \<open>simp add: elapsed_def c trunc_div_def\<close>)
  qed
qed

lemma get_time:
  fixes t :: "'e rtc_t"
  assumes rf: "reg_file (soc t) (rtc_plain b) regs" and b: "dev_reg_base (dev_objs t rtc) = b"
    and d: "regs (env t) (b + RTC_DIV) = 0"
    and g: "gmtime_r (year_to_secs t) (elapsed (fst (reg_read (soc t) b (env t))) (regs (env t) (b + RTC_CLR_L))
      + uint (regs (env t) (b + RTC_CLR_L))) r = Some tm"
  shows "\<exists>u. csi_rtc_get_time r t = (Ok tm, u)"
proof -
  obtain e tr ms where run: "wj_rtc_read_runningtime b t = (Ok ms, t\<lparr>env := e, trace := tr\<rparr>)" "regs e = regs (env t)"
    "trunc_div (uint ms) 1000 = elapsed (fst (reg_read (soc t) b (env t))) (regs (env t) (b + RTC_CLR_L))"
    using read_runningtime [OF rf d] .
  define k :: "u32 \<Rightarrow> ('e, csi_rtc_time_t) ract" where
    "k = (\<lambda>l. bind_res (get_st year_to_secs) (\<lambda>secs. deref (gmtime_r secs (trunc_div (uint ms) 1000 + uint l) r)))"
  obtain e2 tr2 where "bind_res (wj_rtc_read_load_count b) k (t\<lparr>env := e, trace := tr\<rparr>)
      = k (regs (env t) (b + RTC_CLR_L)) (t\<lparr>env := e2, trace := tr2\<rparr>)"
    using read_load_count [of "t\<lparr>env := e, trace := tr\<rparr>" b regs k] rf run(2) by auto
  moreover have "csi_rtc_get_time r t = bind_res (wj_rtc_read_load_count b) k (t\<lparr>env := e, trace := tr\<rparr>)"
    using run(1) b by (simp add: csi_rtc_get_time_def HANDLE_REG_BASE_def get_st_def bind_res_def k_def)
  ultimately show ?thesis using g run(3) by (simp add: k_def act_defs)
qed

lemma elapsed_range: "0 \<le> elapsed c l \<and> elapsed c l \<le> 262144"
  using uint_bounded [of "c - l"] by (auto simp: elapsed_def pos_imp_zdiv_nonneg_iff)

lemma read_back:
  fixes t :: "'e rtc_t"
  assumes v: "valid_tm tm" and t: "dev_reg_base (dev_objs t rtc) = b" "reg_file (soc t) (rtc_plain b) regs" "regs (env t) (b + RTC_DIV) = 0"
    "regs (env t) (b + RTC_CLR_L) = word_of_int (base_secs tm)" "year_to_secs t = word_of_int (tm_secs tm - base_secs tm)"
    and k: "k = elapsed (fst (reg_read (soc t) b (env t))) (word_of_int (base_secs tm))"
  shows "if year_fits (tm_year tm + 1900)
    then tm_secs tm + k < 47482 * 86400 \<longrightarrow>
      (\<exists>u tm'. csi_rtc_get_time r t = (Ok tm', u) \<and> valid_tm tm' \<and> tm_secs tm' = tm_secs tm + k \<and> tm_wday tm' = weekday (tm_day tm'))
    else \<exists>u tm'. csi_rtc_get_time r t = (Ok tm', u) \<and> tm_year tm' < 70"
proof -
  let ?y = "word_of_int (tm_secs tm - base_secs tm) :: u32"
  have "uint (word_of_int (base_secs tm) :: u32) = base_secs tm"
    using base_secs_range [OF v] by (simp add: uint_word_of_int)
  then have get: "\<exists>u. csi_rtc_get_time r t = (Ok tm', u)" if "gmtime_r ?y (k + base_secs tm) r = Some tm'" for tm'
    by (intro get_time [OF t(2,1,3)]) (use t(4,5) that k in simp)
  have range: "0 \<le> k" "k \<le> 262144" using elapsed_range k by simp_all
  note y = update_basetime(3) [OF v] and secs = tm_secs_range [OF v]
  show ?thesis
  proof (cases "year_fits (tm_year tm + 1900)")
    case True
    have "\<exists>tm'. gmtime_r ?y (k + base_secs tm) r = Some tm' \<and> valid_tm tm' \<and> tm_secs tm' = tm_secs tm + k \<and> tm_wday tm' = weekday (tm_day tm')"
      if "tm_secs tm + k < 47482 * 86400"
      using gmtime_correct [of "k + base_secs tm" ?y r] y True that secs range by auto
    with True show ?thesis using get by (simp only: if_True) blast
  next
    case False
    have "\<exists>tm'. gmtime_r ?y (k + base_secs tm) r = Some tm' \<and> tm_year tm' < 70"
      by (rule gmtime_negative) (use y False secs range in simp)
    with False show ?thesis using get by (simp only: if_False) blast
  qed
qed


definition sample_rtc :: "(u32 \<Rightarrow> u32) rtc_t" where
  "sample_rtc =
     \<lparr>soc = sample_soc, env = (\<lambda>_. 0), trace = [], g_chip_wakeup_flag = 0, enabled_irq_num = replicate 32 0, g_system_clock = 0,
      g_share_srame_clock = 0, g_sram_clk_div0_num = 0, g_sram_clk_div1_num = 0, g_aoi2c_ic_clk = 0, g_aonsys_clk_src_pll_div = 0,
      g_irq_nested_level = 0, g_irq_table = replicate 64 None,
      dev_objs = (\<lambda>_. \<lparr>dev_reg_base = 0xFFF40000, irq_num = 29, dev_idx = 0, dev_dev_tag = DEV_WJ_RTC_TAG, irq_handler = None\<rparr>),
      year_to_secs = 0, rtc_callback = None\<rparr>"


end
