(* ===== verification/Dw_Timer.thy ===== *)
theory Dw_Timer
  imports Csi_Dev Sys_Clk
begin

text \<open>
  The timer driver (\<^verbatim>\<open>csi/drivers/timer/dw/v1.0\<close>: \<^verbatim>\<open>timer.c\<close> and \<^verbatim>\<open>dw_timer_ll.h\<close>). A handle is the number of its
  device object. The functions for power management, which are not used by the firmware, are left out.
\<close>

subsection \<open>Registers\<close>

definition TLC :: u32 where "TLC = 0"
definition TCV :: u32 where "TCV = 4"
definition TCR :: u32 where "TCR = 8"
definition TEOI :: u32 where "TEOI = 0xc"
definition TIS :: u32 where "TIS = 0x10"

definition DW_TIMER_CTL_ENABLE_SEL_EN :: u32 where "DW_TIMER_CTL_ENABLE_SEL_EN = 1"
definition DW_TIMER_CTL_MODE_SEL_EN :: u32 where "DW_TIMER_CTL_MODE_SEL_EN = 2"
definition DW_TIMER_CTL_INT_MAKS_EN :: u32 where "DW_TIMER_CTL_INT_MAKS_EN = 4"
definition DW_TIMER_CTL_HARD_TRIG_EN :: u32 where "DW_TIMER_CTL_HARD_TRIG_EN = 16"
definition DW_TIMER_EOI_REG_EN :: u32 where "DW_TIMER_EOI_REG_EN = 1"
definition DW_TIMER_INT_STATUS_EN :: u32 where "DW_TIMER_INT_STATUS_EN = 1"

lemmas timer_regs = TLC_def TCV_def TCR_def
lemmas timer_bits = DW_TIMER_CTL_ENABLE_SEL_EN_def DW_TIMER_CTL_MODE_SEL_EN_def DW_TIMER_CTL_INT_MAKS_EN_def

text \<open>The callback is code of the client; it is modelled by its effect on the hardware state.\<close>

record 'e timer_t = "'e dev_t" +
  timer_callback :: "nat \<Rightarrow> ('e \<Rightarrow> 'e) option"

type_synonym ('e, 'a) tact = "('e timer_t, 'a) act"

definition tim_bit_sta :: "u32 \<Rightarrow> u32 \<Rightarrow> ('e, u32) tact" where
  "tim_bit_sta reg b = bind_res (CHIP_REG_GET reg) (\<lambda>v. ret (if v AND b \<noteq> 0 then 1 else 0))"

definition dw_timer_read_load :: "u32 \<Rightarrow> ('e, u32) tact" where
  "dw_timer_read_load timer_base = CHIP_REG_GET (timer_base + TLC)"

definition dw_timer_write_load :: "u32 \<Rightarrow> u32 \<Rightarrow> ('e, unit) tact" where
  "dw_timer_write_load timer_base val = CHIP_REG_SET val (timer_base + TLC)"

definition dw_timer_get_current :: "u32 \<Rightarrow> ('e, u32) tact" where
  "dw_timer_get_current timer_base = CHIP_REG_GET (timer_base + TCV)"

definition dw_timer_set_enable :: "u32 \<Rightarrow> ('e, unit) tact" where
  "dw_timer_set_enable timer_base = set_bits DW_TIMER_CTL_ENABLE_SEL_EN (timer_base + TCR)"

definition dw_timer_set_disable :: "u32 \<Rightarrow> ('e, unit) tact" where
  "dw_timer_set_disable timer_base = clr_bits DW_TIMER_CTL_ENABLE_SEL_EN (timer_base + TCR)"

definition dw_timer_get_enable :: "u32 \<Rightarrow> ('e, u32) tact" where
  "dw_timer_get_enable timer_base = tim_bit_sta (timer_base + TCR) DW_TIMER_CTL_ENABLE_SEL_EN"

definition dw_timer_set_mode_free :: "u32 \<Rightarrow> ('e, unit) tact" where
  "dw_timer_set_mode_free timer_base = clr_bits DW_TIMER_CTL_MODE_SEL_EN (timer_base + TCR)"

definition dw_timer_set_mode_load :: "u32 \<Rightarrow> ('e, unit) tact" where
  "dw_timer_set_mode_load timer_base = set_bits DW_TIMER_CTL_MODE_SEL_EN (timer_base + TCR)"

definition dw_timer_get_model :: "u32 \<Rightarrow> ('e, u32) tact" where
  "dw_timer_get_model timer_base = tim_bit_sta (timer_base + TCR) DW_TIMER_CTL_MODE_SEL_EN"

definition dw_timer_set_mask :: "u32 \<Rightarrow> ('e, unit) tact" where
  "dw_timer_set_mask timer_base = set_bits DW_TIMER_CTL_INT_MAKS_EN (timer_base + TCR)"

definition dw_timer_set_unmask :: "u32 \<Rightarrow> ('e, unit) tact" where
  "dw_timer_set_unmask timer_base = clr_bits DW_TIMER_CTL_INT_MAKS_EN (timer_base + TCR)"

definition dw_timer_get_mask :: "u32 \<Rightarrow> ('e, u32) tact" where
  "dw_timer_get_mask timer_base = tim_bit_sta (timer_base + TCR) DW_TIMER_CTL_INT_MAKS_EN"

definition dw_timer_set_hardtrigger_en :: "u32 \<Rightarrow> ('e, unit) tact" where
  "dw_timer_set_hardtrigger_en timer_base = set_bits DW_TIMER_CTL_HARD_TRIG_EN (timer_base + TCR)"

definition dw_timer_set_hardtrigger_dis :: "u32 \<Rightarrow> ('e, unit) tact" where
  "dw_timer_set_hardtrigger_dis timer_base = clr_bits DW_TIMER_CTL_HARD_TRIG_EN (timer_base + TCR)"

definition dw_timer_get_hardtrigger :: "u32 \<Rightarrow> ('e, u32) tact" where
  "dw_timer_get_hardtrigger timer_base = tim_bit_sta (timer_base + TCR) DW_TIMER_CTL_HARD_TRIG_EN"

definition dw_timer_clear_irq :: "u32 \<Rightarrow> ('e, u32) tact" where
  "dw_timer_clear_irq timer_base = tim_bit_sta (timer_base + TEOI) DW_TIMER_EOI_REG_EN"

definition dw_timer_get_int_status :: "u32 \<Rightarrow> ('e, u32) tact" where
  "dw_timer_get_int_status timer_base = tim_bit_sta (timer_base + TIS) DW_TIMER_INT_STATUS_EN"

definition dw_timer_reset_register :: "u32 \<Rightarrow> ('e, unit) tact" where
  "dw_timer_reset_register timer_base = seqs [CHIP_REG_SET 0 (timer_base + TCR), CHIP_REG_SET 0 (timer_base + TLC)]"

subsection \<open>The driver\<close>

definition tim_base :: "nat \<Rightarrow> ('e, u32) tact" where
  "tim_base timer = get_st (\<lambda>s. dev_reg_base (dev_objs s timer))"

definition tim_irq :: "nat \<Rightarrow> ('e, nat) tact" where
  "tim_irq timer = get_st (\<lambda>s. unat (irq_num (dev_objs s timer)))"

text \<open>The products are 32 bits wide and wrap around.\<close>

definition DW_TIMER_GET_RELOAD_VAL :: "u32 \<Rightarrow> u32 \<Rightarrow> u32" where
  "DW_TIMER_GET_RELOAD_VAL tim frq = (if tim < 25000 then (frq * tim) div 1000 else frq * (tim div 1000))"

definition run_dw_timer_irq_handler :: "nat \<Rightarrow> ('e, unit) tact" where
  "run_dw_timer_irq_handler timer =
     bind_res (tim_base timer) (\<lambda>timer_base.
     bind_res (dw_timer_get_int_status timer_base) (\<lambda>sta.
     if sta \<noteq> 0 then
       bind_res (dw_timer_clear_irq timer_base) (\<lambda>_.
       bind_res (get_st (\<lambda>s. timer_callback s timer)) (\<lambda>c.
       case c of None \<Rightarrow> ret () | Some f \<Rightarrow> upd_st (\<lambda>s. s\<lparr>env := f (env s)\<rparr>)))
     else ret ()))"

definition csi_timer_init :: "nat \<Rightarrow> u32 \<Rightarrow> ('e, unit) tact" where
  "csi_timer_init timer i =
     bind_res (get_st (\<lambda>s. target_get DEV_DW_TIMER_TAG i (Some (dev_objs s timer)))) (\<lambda>r.
     case r of
       Inl e \<Rightarrow> fail CSI_ERROR
     | Inr d \<Rightarrow> seqs [upd_obj timer (\<lambda>_. d), bind_res (tim_base timer) dw_timer_reset_register])"

definition csi_timer_uninit :: "nat \<Rightarrow> ('e, unit) tact" where
  "csi_timer_uninit timer = bind_res (tim_base timer) dw_timer_reset_register"

definition csi_timer_start :: "nat \<Rightarrow> u32 \<Rightarrow> ('e, unit) tact" where
  "csi_timer_start timer timeout_us =
     bind_res (tim_base timer) (\<lambda>timer_base.
     bind_res (get_st (\<lambda>s. soc_get_timer_freq (ucast (dev_idx (dev_objs s timer))) div 1000)) (\<lambda>tmp_freq.
     let tmp_load = DW_TIMER_GET_RELOAD_VAL timeout_us tmp_freq;
         tmp_load' = (if tmp_load < 10 then 10 else tmp_load)
     in seqs
       [dw_timer_set_mode_load timer_base,
        dw_timer_write_load timer_base tmp_load',
        dw_timer_set_disable timer_base,
        dw_timer_set_enable timer_base,
        dw_timer_set_unmask timer_base]))"

definition csi_timer_stop :: "nat \<Rightarrow> ('e, unit) tact" where
  "csi_timer_stop timer =
     bind_res (tim_base timer) (\<lambda>timer_base. seqs [dw_timer_set_mask timer_base, dw_timer_set_disable timer_base])"

definition csi_timer_get_remaining_value :: "nat \<Rightarrow> ('e, u32) tact" where
  "csi_timer_get_remaining_value timer = bind_res (tim_base timer) dw_timer_get_current"

definition csi_timer_get_load_value :: "nat \<Rightarrow> ('e, u32) tact" where
  "csi_timer_get_load_value timer = bind_res (tim_base timer) dw_timer_read_load"

definition csi_timer_is_running :: "nat \<Rightarrow> ('e, bool) tact" where
  "csi_timer_is_running timer = bind_res (tim_base timer) (\<lambda>b. bind_res (dw_timer_get_enable b) (\<lambda>v. ret (v \<noteq> 0)))"

definition csi_timer_attach_callback :: "nat \<Rightarrow> ('e \<Rightarrow> 'e) option \<Rightarrow> ('e, unit) tact" where
  "csi_timer_attach_callback timer callback =
     bind_res (tim_irq timer) (\<lambda>irq. seqs
       [upd_st (\<lambda>s. s\<lparr>timer_callback := (timer_callback s)(timer := callback)\<rparr>),
        csi_irq_attach irq dw_timer_irq_handler timer,
        soc_do (\<lambda>c. irq_enable c irq)])"

definition csi_timer_detach_callback :: "nat \<Rightarrow> ('e, unit) tact" where
  "csi_timer_detach_callback timer =
     bind_res (tim_irq timer) (\<lambda>irq. seqs
       [upd_st (\<lambda>s. s\<lparr>timer_callback := (timer_callback s)(timer := None)\<rparr>),
        soc_do (\<lambda>c. irq_disable c irq),
        csi_irq_detach irq])"

subsection \<open>Starting the timer\<close>

text \<open>The registers of a timer that hold what is written to them.\<close>

definition tim_plain :: "u32 \<Rightarrow> (u32 \<Rightarrow> bool) \<Rightarrow> bool" where
  "tim_plain b R \<longleftrightarrow> R (b + TLC) \<and> R (b + TCR)"

lemma reload_bounds:
  assumes "us < 178957000"
  shows "uint (DW_TIMER_GET_RELOAD_VAL us 24000) = (if us < 25000 then 24 * uint us else 24000 * (uint us div 1000))"
proof (cases "us < 25000")
  case True
  then have "uint us < 25000" by (simp add: word_less_def)
  moreover have "0 \<le> uint us" by simp
  ultimately have "uint (24000 * us) = 24000 * uint us"
    by (simp add: uint_word_arith_bintrs take_bit_int_eq_self)
  then show ?thesis using True by (simp add: DW_TIMER_GET_RELOAD_VAL_def uint_div)
next
  case False
  have us: "uint us < 178957000" "0 \<le> uint us" using assms by (simp_all add: word_less_def)
  have "0 \<le> uint us div 1000" using us(2) by (simp add: pos_imp_zdiv_nonneg_iff)
  moreover have "uint us div 1000 < 178957" using us by auto
  ultimately have "uint (24000 * (us div 1000)) = 24000 * (uint us div 1000)"
    by (simp add: uint_word_arith_bintrs uint_div take_bit_int_eq_self)
  then show ?thesis using False by (simp add: DW_TIMER_GET_RELOAD_VAL_def)
qed

lemma tcr_after_start: "((((v OR 2) AND NOT 1) OR 1) AND NOT 4) = (v AND NOT 4) OR (3 :: u32)"
proof (rule bit_word_eqI)
  fix n :: nat
  have "bit (2 :: u32) n \<longleftrightarrow> n = 1" "bit (1 :: u32) n \<longleftrightarrow> n = 0" "bit (4 :: u32) n \<longleftrightarrow> n = 2" "bit (3 :: u32) n \<longleftrightarrow> n = 0 \<or> n = 1"
    using bit_exp_iff [of 1 n, where 'a = u32] bit_exp_iff [of 2 n, where 'a = u32] by (auto simp: bit_1_iff bit_numeral_rec split: nat.splits)
  then show "bit ((((v OR 2) AND NOT 1) OR 1) AND NOT 4) n = bit ((v AND NOT 4) OR (3 :: u32)) n" if "n < LENGTH(32)"
    using that by (auto simp: bit_simps)
qed


definition sample_timer :: "(u32 \<Rightarrow> u32) timer_t" where
  "sample_timer =
     \<lparr>soc = sample_soc, env = (\<lambda>_. 0), trace = [], g_chip_wakeup_flag = 0, enabled_irq_num = replicate 32 0, g_system_clock = 0,
      g_share_srame_clock = 0, g_sram_clk_div0_num = 0, g_sram_clk_div1_num = 0, g_aoi2c_ic_clk = 0, g_aonsys_clk_src_pll_div = 0,
      g_irq_nested_level = 0, g_irq_table = replicate 64 None,
      dev_objs = (\<lambda>_. \<lparr>dev_reg_base = 0xFFF4D000, irq_num = 33, dev_idx = 0, dev_dev_tag = DEV_DW_TIMER_TAG, irq_handler = None\<rparr>),
      timer_callback = (\<lambda>_. None)\<rparr>"


end
