(* ===== verification/Dw_Wdt.thy ===== *)
theory Dw_Wdt
  imports Csi_Dev Sys_Clk
begin

text \<open>
  The watchdog driver (\<^verbatim>\<open>csi/drivers/wdt/dw/v1.0\<close>: \<^verbatim>\<open>wdt.c\<close> and \<^verbatim>\<open>dw_wdt_ll.h\<close>). A handle is the number of its device
  object. The functions for power management, which are not used by the firmware, are left out.
\<close>

subsection \<open>Registers\<close>

definition WDT_CR :: u32 where "WDT_CR = 0"
definition WDT_TORR :: u32 where "WDT_TORR = 4"
definition WDT_CCVR :: u32 where "WDT_CCVR = 8"
definition WDT_CRR :: u32 where "WDT_CRR = 0xc"
definition WDT_STAT :: u32 where "WDT_STAT = 0x10"
definition WDT_EOI :: u32 where "WDT_EOI = 0x14"

definition DW_WDT_CR_ENABLE_EN :: u32 where "DW_WDT_CR_ENABLE_EN = 1"
definition DW_WDT_CR_RMOD_EN :: u32 where "DW_WDT_CR_RMOD_EN = 2"
definition DW_WDT_CR_RPL_Msk :: u32 where "DW_WDT_CR_RPL_Msk = 0x1c"
definition DW_WDT_CR_RPL_Pos :: nat where "DW_WDT_CR_RPL_Pos = 2"
definition DW_WDT_TORR_TOP_Msk :: u32 where "DW_WDT_TORR_TOP_Msk = 0x4"
definition DW_WDT_TORR_TOPINIT_Msk :: u32 where "DW_WDT_TORR_TOPINIT_Msk = 0x40"
definition DW_WDT_TORR_TOPINIT_Pos :: nat where "DW_WDT_TORR_TOPINIT_Pos = 4"
definition DW_WDT_CNT_RESTART_REG :: u32 where "DW_WDT_CNT_RESTART_REG = 0x76"
definition DW_WDT_STAT_INTR_EN :: u32 where "DW_WDT_STAT_INTR_EN = 1"

lemmas wdt_regs = WDT_CR_def WDT_TORR_def WDT_CCVR_def WDT_CRR_def WDT_STAT_def WDT_EOI_def
lemmas wdt_bits = DW_WDT_CR_ENABLE_EN_def DW_WDT_TORR_TOP_Msk_def DW_WDT_TORR_TOPINIT_Msk_def DW_WDT_TORR_TOPINIT_Pos_def

text \<open>The callback is code of the client; it is modelled by its effect on the hardware state.\<close>

record 'e wdt_t = "'e dev_t" +
  wdt_callback :: "nat \<Rightarrow> ('e \<Rightarrow> 'e) option"

type_synonym ('e, 'a) wact = "('e wdt_t, 'a) act"

definition wdt_bit_sta :: "u32 \<Rightarrow> u32 \<Rightarrow> ('e, u32) wact" where
  "wdt_bit_sta reg b = bind_res (CHIP_REG_GET reg) (\<lambda>v. ret (if v AND b \<noteq> 0 then 1 else 0))"

definition dw_wdt_cr_status_get :: "u32 \<Rightarrow> ('e, u32) wact" where
  "dw_wdt_cr_status_get wdt_base = wdt_bit_sta (wdt_base + WDT_CR) DW_WDT_CR_ENABLE_EN"

definition dw_wdt_cr_enable :: "u32 \<Rightarrow> ('e, unit) wact" where
  "dw_wdt_cr_enable wdt_base = set_bits DW_WDT_CR_ENABLE_EN (wdt_base + WDT_CR)"

definition dw_wdt_cr_disable :: "u32 \<Rightarrow> ('e, unit) wact" where
  "dw_wdt_cr_disable wdt_base = clr_bits DW_WDT_CR_ENABLE_EN (wdt_base + WDT_CR)"

definition dw_wdt_cr_rmod_get :: "u32 \<Rightarrow> ('e, u32) wact" where
  "dw_wdt_cr_rmod_get wdt_base = wdt_bit_sta (wdt_base + WDT_CR) DW_WDT_CR_RMOD_EN"

definition dw_wdt_cr_rmod_set :: "u32 \<Rightarrow> ('e, unit) wact" where
  "dw_wdt_cr_rmod_set wdt_base = set_bits DW_WDT_CR_RMOD_EN (wdt_base + WDT_CR)"

definition dw_wdt_cr_rmod_clr :: "u32 \<Rightarrow> ('e, unit) wact" where
  "dw_wdt_cr_rmod_clr wdt_base = clr_bits DW_WDT_CR_RMOD_EN (wdt_base + WDT_CR)"

definition dw_wdt_cr_rpl_get :: "u32 \<Rightarrow> ('e, u32) wact" where
  "dw_wdt_cr_rpl_get wdt_base =
     bind_res (CHIP_REG_GET (wdt_base + WDT_CR)) (\<lambda>v. ret (drop_bit DW_WDT_CR_RPL_Pos (v AND DW_WDT_CR_RPL_Msk)))"

definition dw_wdt_cr_rpl_set :: "u32 \<Rightarrow> u32 \<Rightarrow> ('e, unit) wact" where
  "dw_wdt_cr_rpl_set wdt_base val = seqs
     [clr_bits DW_WDT_CR_RPL_Msk (wdt_base + WDT_CR),
      reg_modify (\<lambda>v. v + push_bit DW_WDT_CR_RPL_Pos val) (wdt_base + WDT_CR)]"

definition dw_wdt_torr_top_get :: "u32 \<Rightarrow> ('e, u32) wact" where
  "dw_wdt_torr_top_get wdt_base = bind_res (CHIP_REG_GET (wdt_base + WDT_TORR)) (\<lambda>v. ret (v AND DW_WDT_TORR_TOP_Msk))"

definition dw_wdt_torr_top_set :: "u32 \<Rightarrow> u32 \<Rightarrow> ('e, unit) wact" where
  "dw_wdt_torr_top_set wdt_base val = seqs
     [clr_bits DW_WDT_TORR_TOP_Msk (wdt_base + WDT_TORR),
      reg_modify (\<lambda>v. v + val) (wdt_base + WDT_TORR)]"

definition dw_wdt_torr_topinit_get :: "u32 \<Rightarrow> ('e, u32) wact" where
  "dw_wdt_torr_topinit_get wdt_base =
     bind_res (CHIP_REG_GET (wdt_base + WDT_TORR)) (\<lambda>v. ret (drop_bit DW_WDT_TORR_TOPINIT_Pos (v AND DW_WDT_TORR_TOPINIT_Msk)))"

definition dw_wdt_torr_topinit_set :: "u32 \<Rightarrow> u32 \<Rightarrow> ('e, unit) wact" where
  "dw_wdt_torr_topinit_set wdt_base val = seqs
     [clr_bits DW_WDT_TORR_TOPINIT_Msk (wdt_base + WDT_TORR),
      reg_modify (\<lambda>v. v + push_bit DW_WDT_TORR_TOPINIT_Pos val) (wdt_base + WDT_TORR)]"

definition dw_wdt_ccvr_get :: "u32 \<Rightarrow> ('e, u32) wact" where
  "dw_wdt_ccvr_get wdt_base = CHIP_REG_GET (wdt_base + WDT_CCVR)"

definition dw_wdt_crr_safety_restart :: "u32 \<Rightarrow> ('e, unit) wact" where
  "dw_wdt_crr_safety_restart wdt_base = CHIP_REG_SET DW_WDT_CNT_RESTART_REG (wdt_base + WDT_CRR)"

definition dw_wdt_stat_status_get :: "u32 \<Rightarrow> ('e, u32) wact" where
  "dw_wdt_stat_status_get wdt_base = wdt_bit_sta (wdt_base + WDT_STAT) DW_WDT_STAT_INTR_EN"

definition dw_wdt_eoi_intr_clear :: "u32 \<Rightarrow> ('e, unit) wact" where
  "dw_wdt_eoi_intr_clear wdt_base = bind_res (CHIP_REG_GET (wdt_base + WDT_EOI)) (\<lambda>_. ret ())"

definition dw_wdt_reset_register :: "u32 \<Rightarrow> ('e, unit) wact" where
  "dw_wdt_reset_register wdt_base = seqs
     [CHIP_REG_SET 0 (wdt_base + WDT_CR), CHIP_REG_SET 0 (wdt_base + WDT_TORR), CHIP_REG_SET 0 (wdt_base + WDT_CRR)]"

subsection \<open>The driver\<close>

definition wdt_base_of :: "nat \<Rightarrow> ('e, u32) wact" where
  "wdt_base_of wdt = get_st (\<lambda>s. dev_reg_base (dev_objs s wdt))"

definition wdt_irq_of :: "nat \<Rightarrow> ('e, nat) wact" where
  "wdt_irq_of wdt = get_st (\<lambda>s. unat (irq_num (dev_objs s wdt)))"

definition wdt_freq_of :: "nat \<Rightarrow> ('e, u32) wact" where
  "wdt_freq_of wdt = bind_res (get_st (\<lambda>s. ucast (dev_idx (dev_objs s wdt)))) soc_get_wdt_freq"

definition run_dw_wdt_irq_handler :: "nat \<Rightarrow> ('e, unit) wact" where
  "run_dw_wdt_irq_handler wdt =
     bind_res (wdt_base_of wdt) (\<lambda>wdt_base.
     bind_res (dw_wdt_stat_status_get wdt_base) (\<lambda>sta.
     if sta \<noteq> 0 then
       bind_res (get_st (\<lambda>s. wdt_callback s wdt)) (\<lambda>c.
       case c of None \<Rightarrow> ret () | Some f \<Rightarrow> upd_st (\<lambda>s. s\<lparr>env := f (env s)\<rparr>))
     else ret ()))"

definition csi_wdt_init :: "nat \<Rightarrow> u32 \<Rightarrow> ('e, unit) wact" where
  "csi_wdt_init wdt i =
     bind_res (get_st (\<lambda>s. target_get DEV_DW_WDT_TAG i (Some (dev_objs s wdt)))) (\<lambda>r.
     case r of
       Inl e \<Rightarrow> fail CSI_ERROR
     | Inr d \<Rightarrow> seqs [upd_obj wdt (\<lambda>_. d), bind_res (wdt_base_of wdt) dw_wdt_reset_register])"

definition csi_wdt_uninit :: "nat \<Rightarrow> ('e, unit) wact" where
  "csi_wdt_uninit wdt = bind_res (wdt_base_of wdt) dw_wdt_reset_register"

text \<open>The loop over \<^verbatim>\<open>i\<close>; \<open>None\<close> is the end of the loop without a break.\<close>

definition top_code :: "u32 \<Rightarrow> nat option" where
  "top_code set_cnt = List.find (\<lambda>i. set_cnt \<le> push_bit i 1) [0..<16]"

definition csi_wdt_set_timeout :: "nat \<Rightarrow> u32 \<Rightarrow> ('e, unit) wact" where
  "csi_wdt_set_timeout wdt ms =
     bind_res (wdt_base_of wdt) (\<lambda>wdt_base.
     bind_res (wdt_freq_of wdt) (\<lambda>freq.
     case top_code (drop_bit 16 ((freq div 1000) * ms)) of
       None \<Rightarrow> fail CSI_ERROR
     | Some i \<Rightarrow> seqs
         [dw_wdt_cr_disable wdt_base,
          dw_wdt_torr_top_set wdt_base (of_nat i),
          dw_wdt_torr_topinit_set wdt_base (of_nat i),
          bind_res (dw_wdt_cr_status_get wdt_base) (\<lambda>v.
            if v \<noteq> 0 then seqs [dw_wdt_cr_enable wdt_base, dw_wdt_crr_safety_restart wdt_base] else ret ())]))"

definition csi_wdt_start :: "nat \<Rightarrow> ('e, unit) wact" where
  "csi_wdt_start wdt =
     bind_res (wdt_base_of wdt) (\<lambda>wdt_base. seqs [dw_wdt_cr_enable wdt_base, dw_wdt_crr_safety_restart wdt_base])"

definition csi_wdt_stop :: "nat \<Rightarrow> ('e, unit) wact" where
  "csi_wdt_stop wdt = bind_res (wdt_base_of wdt) dw_wdt_cr_disable"

definition csi_wdt_feed :: "nat \<Rightarrow> ('e, unit) wact" where
  "csi_wdt_feed wdt = bind_res (wdt_base_of wdt) dw_wdt_crr_safety_restart"

definition csi_wdt_get_remaining_time :: "nat \<Rightarrow> ('e, u32) wact" where
  "csi_wdt_get_remaining_time wdt =
     bind_res (wdt_base_of wdt) (\<lambda>wdt_base.
     bind_res (dw_wdt_ccvr_get wdt_base) (\<lambda>v.
     bind_res (wdt_freq_of wdt) (\<lambda>freq.
     if freq div 1000 = 0 then undef else ret (v div (freq div 1000)))))"

definition csi_wdt_is_running :: "nat \<Rightarrow> ('e, bool) wact" where
  "csi_wdt_is_running wdt = bind_res (wdt_base_of wdt) (\<lambda>b. bind_res (dw_wdt_cr_status_get b) (\<lambda>v. ret (v \<noteq> 0)))"

definition csi_wdt_intr_clear :: "nat \<Rightarrow> ('e, unit) wact" where
  "csi_wdt_intr_clear wdt = bind_res (wdt_base_of wdt) dw_wdt_eoi_intr_clear"

definition csi_wdt_is_timeout :: "nat \<Rightarrow> ('e, bool) wact" where
  "csi_wdt_is_timeout wdt = bind_res (wdt_base_of wdt) (\<lambda>b. bind_res (dw_wdt_stat_status_get b) (\<lambda>v. ret (v \<noteq> 0)))"

definition csi_wdt_attach_callback :: "nat \<Rightarrow> ('e \<Rightarrow> 'e) option \<Rightarrow> ('e, unit) wact" where
  "csi_wdt_attach_callback wdt callback =
     bind_res (wdt_base_of wdt) (\<lambda>wdt_base.
     bind_res (wdt_irq_of wdt) (\<lambda>irq. seqs
       [upd_st (\<lambda>s. s\<lparr>wdt_callback := (wdt_callback s)(wdt := callback)\<rparr>),
        csi_irq_attach irq dw_wdt_irq_handler wdt,
        soc_do (\<lambda>c. irq_enable c irq),
        dw_wdt_cr_rmod_set wdt_base]))"

definition csi_wdt_detach_callback :: "nat \<Rightarrow> ('e, unit) wact" where
  "csi_wdt_detach_callback wdt =
     bind_res (wdt_base_of wdt) (\<lambda>wdt_base.
     bind_res (wdt_irq_of wdt) (\<lambda>irq. seqs
       [upd_st (\<lambda>s. s\<lparr>wdt_callback := (wdt_callback s)(wdt := None)\<rparr>),
        soc_do (\<lambda>c. irq_disable c irq),
        csi_irq_detach irq,
        dw_wdt_cr_rmod_clr wdt_base]))"

subsection \<open>Setting the timeout\<close>

definition torr_after :: "u32 \<Rightarrow> u32 \<Rightarrow> u32" where
  "torr_after v i = (((v AND NOT 4) + i) AND NOT 0x40) + push_bit 4 i"

text \<open>What is kept of an old code, of which only bit 2 is cleared.\<close>

definition kept_code :: "nat \<Rightarrow> nat" where
  "kept_code j = (if odd (j div 4) then j - 4 else j)"

lemma torr_codes:
  assumes "i < 16" and "j < 16" and "kept_code j + i < 16"
  shows "torr_after (17 * of_nat j) (of_nat i) = 17 * of_nat (kept_code j + i)"
proof -
  have "list_all (\<lambda>j. list_all (\<lambda>i. kept_code j + i < 16 \<longrightarrow>
      torr_after (17 * of_nat j) (of_nat i) = 17 * of_nat (kept_code j + i)) [0..<16]) [0..<16]"
    by code_simp
  then show ?thesis using assms by (simp add: list_all_iff)
qed

lemma top_code_Some:
  "top_code c = Some i \<longleftrightarrow> i < 16 \<and> c \<le> push_bit i 1 \<and> (\<forall>k < i. push_bit k 1 < c)"
  unfolding top_code_def find_Some_iff by (auto simp: not_le intro!: exI [of _ i])

lemma uint_code: "i < 16 \<Longrightarrow> uint (push_bit i 1 :: u32) = 2 ^ i"
proof -
  have "list_all (\<lambda>i. uint (push_bit i 1 :: u32) = 2 ^ i) [0..<16]" by code_simp
  then show "i < 16 \<Longrightarrow> uint (push_bit i 1 :: u32) = 2 ^ i" by (simp add: list_all_iff)
qed

lemma top_code_None: "top_code c = None \<longleftrightarrow> 2 ^ 15 < uint c"
proof -
  have "uint (push_bit i 1 :: u32) \<le> 2 ^ 15" if "i < 16" for i
    using that by (simp only: uint_code) (rule power_increasing, auto)
  then have "(\<forall>i < 16. push_bit i 1 < c) \<longleftrightarrow> 2 ^ 15 < uint c"
    using uint_code [of 15] by (auto simp: word_less_def intro: le_less_trans dest: spec [of _ 15])
  then show ?thesis unfolding top_code_def find_None_iff by (auto simp: not_le)
qed

text \<open>The registers of a watchdog that hold what is written to them.\<close>

definition wdt_plain :: "u32 \<Rightarrow> (u32 \<Rightarrow> bool) \<Rightarrow> bool" where
  "wdt_plain b R \<longleftrightarrow> R (b + WDT_CR) \<and> R (b + WDT_TORR)"

lemma computes_status [computes_rules]:
  "R (b + WDT_CR) \<Longrightarrow> computes R regs (dw_wdt_cr_status_get b) (\<lambda>r. if r (b + WDT_CR) AND 1 \<noteq> 0 then 1 else 0) id"
  unfolding dw_wdt_cr_status_get_def wdt_bit_sta_def wdt_bits
  by (rule computes_cong [OF computes_bind [OF computes_get computes_ret]]) auto

lemma computes_top_set [computes_rules]:
  "R (b + WDT_TORR) \<Longrightarrow> computes R regs (dw_wdt_torr_top_set b v) (\<lambda>_. ()) (\<lambda>r. r(b + WDT_TORR := (r (b + WDT_TORR) AND NOT 4) + v))"
  unfolding dw_wdt_torr_top_set_def wdt_bits
  by (rule computes_cong [OF computes_seqs(2) [OF computes_modify computes_seqs(2) [OF computes_modify computes_seqs(1)]]]) auto

lemma computes_topinit_set [computes_rules]:
  "R (b + WDT_TORR) \<Longrightarrow>
   computes R regs (dw_wdt_torr_topinit_set b v) (\<lambda>_. ()) (\<lambda>r. r(b + WDT_TORR := (r (b + WDT_TORR) AND NOT 0x40) + push_bit 4 v))"
  unfolding dw_wdt_torr_topinit_set_def wdt_bits
  by (rule computes_cong [OF computes_seqs(2) [OF computes_modify computes_seqs(2) [OF computes_modify computes_seqs(1)]]]) auto

text \<open>After the watchdog was disabled its status is never enabled: the branch that restarts it is dead.\<close>

lemma set_code_effect:
  fixes s :: "'e wdt_t"
  assumes "reg_file (soc s) R regs" and "wdt_plain b R"
  shows "\<exists>t. seqs [dw_wdt_cr_disable b, dw_wdt_torr_top_set b v, dw_wdt_torr_topinit_set b v,
        bind_res (dw_wdt_cr_status_get b) (\<lambda>x. if x \<noteq> 0 then seqs [dw_wdt_cr_enable b, dw_wdt_crr_safety_restart b] else ret ())] s = (Ok (), t)
     \<and> only_hw s t
     \<and> regs (env t) = (regs (env s))(b + WDT_CR := regs (env s) (b + WDT_CR) AND NOT 1, b + WDT_TORR := torr_after (regs (env s) (b + WDT_TORR)) v)"
proof -
  have plain: "R (b + WDT_CR)" "R (b + WDT_TORR)" using assms(2) by (simp_all add: wdt_plain_def)
  have ne: "b + WDT_CR \<noteq> b + WDT_TORR" by (simp add: wdt_regs)
  define m :: "('e, unit) wact" where "m = seqs [dw_wdt_cr_disable b, dw_wdt_torr_top_set b v, dw_wdt_torr_topinit_set b v]"
  let ?k = "bind_res (dw_wdt_cr_status_get b) (\<lambda>x. if x \<noteq> 0 then seqs [dw_wdt_cr_enable b, dw_wdt_crr_safety_restart b] else ret ())"
  have "computes R regs m (\<lambda>_. ()) (\<lambda>r. r(b + WDT_CR := r (b + WDT_CR) AND NOT 1, b + WDT_TORR := torr_after (r (b + WDT_TORR)) v))"
    unfolding m_def dw_wdt_cr_disable_def wdt_bits
    by (rule computes_cong [OF computes_seqs(2) [OF computes_modify computes_seqs(2) [OF computes_top_set
          computes_seqs(2) [OF computes_topinit_set computes_seqs(1)]]]])
      (use plain ne in \<open>auto simp: fun_eq_iff torr_after_def\<close>)
  then obtain t where t: "m s = (Ok (), t)" "only_hw s t"
    "regs (env t) = (regs (env s))(b + WDT_CR := regs (env s) (b + WDT_CR) AND NOT 1, b + WDT_TORR := torr_after (regs (env s) (b + WDT_TORR)) v)"
    by (rule computesE [OF _ assms(1)])
  have "reg_file (soc t) R regs" using only_hw_soc [OF t(2)] assms(1) by simp
  moreover have "(regs (env t) (b + WDT_CR)) AND 1 = 0" using t(3) ne by (simp add: and.assoc)
  ultimately obtain u where u: "dw_wdt_cr_status_get b t = (Ok 0, u)" "only_hw t u" "regs (env u) = regs (env t)"
    using computes_status [of R b regs] plain(1) by (auto elim: computesE)
  have "seqs [dw_wdt_cr_disable b, dw_wdt_torr_top_set b v, dw_wdt_torr_topinit_set b v, ?k] s = (Ok (), u)"
  proof -
    have "seqs [dw_wdt_cr_disable b, dw_wdt_torr_top_set b v, dw_wdt_torr_topinit_set b v, ?k] = bind_res m (\<lambda>_. bind_res ?k (\<lambda>_. ret ()))"
      by (simp add: m_def seqs_def bind_assoc)
    then show ?thesis using t(1) u(1) by (simp add: bind_res_step) (simp add: bind_res_def ret_def)
  qed
  with t u show ?thesis using only_hw_trans by auto
qed


definition sample_wdt :: "(u32 \<Rightarrow> u32) wdt_t" where
  "sample_wdt =
     \<lparr>soc = sample_soc, env = (\<lambda>a. if a = 0xFFF50000 then 1 else 0), trace = [], g_chip_wakeup_flag = 0, enabled_irq_num = replicate 32 0,
      g_system_clock = 24000000, g_share_srame_clock = 0, g_sram_clk_div0_num = 0, g_sram_clk_div1_num = 0, g_aoi2c_ic_clk = 0,
      g_aonsys_clk_src_pll_div = 0, g_irq_nested_level = 0, g_irq_table = replicate 64 None,
      dev_objs = (\<lambda>_. \<lparr>dev_reg_base = 0xFFF50000, irq_num = 40, dev_idx = 3, dev_dev_tag = DEV_DW_WDT_TAG, irq_handler = None\<rparr>),
      wdt_callback = (\<lambda>_. None)\<rparr>"


end
