(* ===== verification/Dw_Iic.thy ===== *)
theory Dw_Iic
  imports Csi_Dev Sys_Clk
begin

text \<open>
  The blocking master functions of the I2C driver (\<^verbatim>\<open>csi/drivers/iic/dw/v1.0\<close>: \<^verbatim>\<open>iic.c\<close>, \<^verbatim>\<open>dw_iic_ll.c\<close> and
  \<^verbatim>\<open>dw_iic_ll.h\<close>) and the clock they take their timeouts from (\<^verbatim>\<open>csi/drivers/tick/mtime/tick.c\<close>). These are the functions the
  PMIC subsystem calls. The asynchronous and slave functions, which it does not call, are left out.
\<close>

subsection \<open>Registers\<close>

definition IC_CON :: u32 where "IC_CON = 0"
definition IC_TAR :: u32 where "IC_TAR = 4"
definition IC_SAR :: u32 where "IC_SAR = 8"
definition IC_DATA_CMD :: u32 where "IC_DATA_CMD = 0x10"
definition IC_SS_SCL_HCNT :: u32 where "IC_SS_SCL_HCNT = 0x14"
definition IC_SS_SCL_LCNT :: u32 where "IC_SS_SCL_LCNT = 0x18"
definition IC_FS_SCL_HCNT :: u32 where "IC_FS_SCL_HCNT = 0x1c"
definition IC_FS_SCL_LCNT :: u32 where "IC_FS_SCL_LCNT = 0x20"
definition IC_HS_SCL_HCNT :: u32 where "IC_HS_SCL_HCNT = 0x24"
definition IC_HS_SCL_LCNT :: u32 where "IC_HS_SCL_LCNT = 0x28"
definition IC_INTR_MASK :: u32 where "IC_INTR_MASK = 0x30"
definition IC_RAW_INTR_STAT :: u32 where "IC_RAW_INTR_STAT = 0x34"
definition IC_CLR_INTR :: u32 where "IC_CLR_INTR = 0x40"
definition IC_CLR_RX_UNDER :: u32 where "IC_CLR_RX_UNDER = 0x44"
definition IC_CLR_RX_OVER :: u32 where "IC_CLR_RX_OVER = 0x48"
definition IC_CLR_TX_OVER :: u32 where "IC_CLR_TX_OVER = 0x4c"
definition IC_CLR_RD_REQ :: u32 where "IC_CLR_RD_REQ = 0x50"
definition IC_CLR_TX_ABRT :: u32 where "IC_CLR_TX_ABRT = 0x54"
definition IC_CLR_RX_DONE :: u32 where "IC_CLR_RX_DONE = 0x58"
definition IC_CLR_ACTIVITY :: u32 where "IC_CLR_ACTIVITY = 0x5c"
definition IC_CLR_STOP_DET :: u32 where "IC_CLR_STOP_DET = 0x60"
definition IC_CLR_START_DET :: u32 where "IC_CLR_START_DET = 0x64"
definition IC_CLR_GEN_CALL :: u32 where "IC_CLR_GEN_CALL = 0x68"
definition IC_ENABLE :: u32 where "IC_ENABLE = 0x6c"
definition IC_STATUS :: u32 where "IC_STATUS = 0x70"
definition IC_TXFLR :: u32 where "IC_TXFLR = 0x74"
definition IC_RXFLR :: u32 where "IC_RXFLR = 0x78"
definition IC_FIFO_RST_EN :: u32 where "IC_FIFO_RST_EN = 0xa4"

definition DW_IIC_CON_MASTER_EN :: u32 where "DW_IIC_CON_MASTER_EN = 1"
definition DW_IIC_CON_SPEEDL_EN :: u32 where "DW_IIC_CON_SPEEDL_EN = 2"
definition DW_IIC_CON_SPEEDH_EN :: u32 where "DW_IIC_CON_SPEEDH_EN = 4"
definition DW_IIC_CON_SLAVE_ADDR_MODE :: u32 where "DW_IIC_CON_SLAVE_ADDR_MODE = 8"
definition DW_IIC_CON_RESTART_EN :: u32 where "DW_IIC_CON_RESTART_EN = 0x20"
definition DW_IIC_CON_SLAVE_EN :: u32 where "DW_IIC_CON_SLAVE_EN = 0x40"
definition DW_IIC_TAR_GC_OR_START :: u32 where "DW_IIC_TAR_GC_OR_START = 0x400"
definition DW_IIC_TAR_SPECIAL :: u32 where "DW_IIC_TAR_SPECIAL = 0x800"
definition DW_IIC_TAR_MASTER_ADDR_MODE :: u32 where "DW_IIC_TAR_MASTER_ADDR_MODE = 0x1000"
definition DW_IIC_DATA_CMD :: u32 where "DW_IIC_DATA_CMD = 0x100"
definition DW_IIC_RAW_STOP_DET :: u32 where "DW_IIC_RAW_STOP_DET = 0x200"
definition DW_IIC_EN :: u32 where "DW_IIC_EN = 1"
definition DW_IIC_STATUS_ACTIVITY_STATE :: u32 where "DW_IIC_STATUS_ACTIVITY_STATE = 1"
definition IIC_MAX_FIFO :: nat where "IIC_MAX_FIFO = 8"
definition DW_IIC_TIMEOUT_DEF_VAL :: nat where "DW_IIC_TIMEOUT_DEF_VAL = 0x100000"

lemmas iic_offsets = IC_CON_def IC_TAR_def IC_DATA_CMD_def IC_ENABLE_def IC_STATUS_def IC_TXFLR_def IC_RXFLR_def IC_CLR_ACTIVITY_def
  IC_RAW_INTR_STAT_def

subsection \<open>The handle\<close>

datatype csi_iic_mode_t = IIC_MODE_MASTER | IIC_MODE_SLAVE

text \<open>Speed and address mode come from the byte fields of a configuration.\<close>

definition IIC_BUS_SPEED_STANDARD :: u8 where "IIC_BUS_SPEED_STANDARD = 0"
definition IIC_BUS_SPEED_FAST :: u8 where "IIC_BUS_SPEED_FAST = 1"
definition IIC_BUS_SPEED_FAST_PLUS :: u8 where "IIC_BUS_SPEED_FAST_PLUS = 2"
definition IIC_BUS_SPEED_HIGH :: u8 where "IIC_BUS_SPEED_HIGH = 3"
definition IIC_ADDRESS_7BIT :: u8 where "IIC_ADDRESS_7BIT = 0"
definition IIC_ADDRESS_10BIT :: u8 where "IIC_ADDRESS_10BIT = 1"

datatype csi_iic_mem_addr_size_t = IIC_MEM_ADDR_SIZE_8BIT | IIC_MEM_ADDR_SIZE_16BIT

text \<open>
  The pointers of the asynchronous functions are modelled by whether they are set. The halves of the core timer are read one after
  the other.
\<close>

record csi_iic =
  iic_callback :: bool
  iic_mode :: csi_iic_mode_t
  iic_tx_dma :: bool
  iic_rx_dma :: bool
  iic_send :: bool
  iic_receive :: bool
  iic_writeable :: bool
  iic_readable :: bool
  iic_error :: bool

record 'e iic_t = "'e dev_t" +
  csi_coret_get_value :: "'e \<Rightarrow> u32 \<times> 'e"
  csi_coret_get_valueh :: "'e \<Rightarrow> u32 \<times> 'e"
  iic_handles :: "nat \<Rightarrow> csi_iic"

type_synonym ('e, 'a) iact = "('e iic_t, 'a) act"

definition coret_value :: "('e, u32) iact" where
  "coret_value s = (let (v, e) = csi_coret_get_value s (env s) in (Ok v, s\<lparr>env := e\<rparr>))"

definition coret_valueh :: "('e, u32) iact" where
  "coret_valueh s = (let (v, e) = csi_coret_get_valueh s (env s) in (Ok v, s\<lparr>env := e\<rparr>))"

definition tick_ms_of :: "u32 \<Rightarrow> u32 \<Rightarrow> u32" where
  "tick_ms_of h l = ucast (drop_bit 13 ((push_bit 32 (ucast h) OR ucast l :: 64 word) * 3))"

definition csi_tick_get_ms :: "('e, u32) iact" where
  "csi_tick_get_ms = bind_res coret_valueh (\<lambda>h. bind_res coret_value (\<lambda>l. ret (tick_ms_of h l)))"

text \<open>The core timer counts at 3 MHz, for which the clock is ten percent fast: after 1000 ms it shows 1098.\<close>

lemma tick_runs_fast: "tick_ms_of 0 3000000 = 1098"
  by (simp add: tick_ms_of_def)

definition iic_base_of :: "nat \<Rightarrow> ('e, u32) iact" where
  "iic_base_of iic = get_st (\<lambda>s. dev_reg_base (dev_objs s iic))"

definition upd_iic :: "nat \<Rightarrow> (csi_iic \<Rightarrow> csi_iic) \<Rightarrow> ('e, unit) iact" where
  "upd_iic iic f = upd_st (\<lambda>s. s\<lparr>iic_handles := (iic_handles s)(iic := f (iic_handles s iic))\<rparr>)"

text \<open>A read whose value is not used.\<close>

abbreviation touch :: "u32 \<Rightarrow> ('e, unit) iact" where
  "touch reg \<equiv> bind_res (CHIP_REG_GET reg) (\<lambda>_. ret ())"

subsection \<open>Register functions\<close>

definition dw_iic_enable :: "u32 \<Rightarrow> ('e, unit) iact" where
  "dw_iic_enable iic_base = CHIP_REG_SET DW_IIC_EN (iic_base + IC_ENABLE)"

definition dw_iic_disable :: "u32 \<Rightarrow> ('e, unit) iact" where
  "dw_iic_disable iic_base = seqs [touch (iic_base + IC_CLR_ACTIVITY), CHIP_REG_SET (NOT DW_IIC_EN) (iic_base + IC_ENABLE)]"

definition dw_iic_get_iic_status :: "u32 \<Rightarrow> ('e, u32) iact" where
  "dw_iic_get_iic_status iic_base = CHIP_REG_GET (iic_base + IC_ENABLE)"

definition dw_iic_enable_restart :: "u32 \<Rightarrow> ('e, unit) iact" where
  "dw_iic_enable_restart iic_base = set_bits DW_IIC_CON_RESTART_EN (iic_base + IC_CON)"

definition dw_iic_clear_all_irq :: "u32 \<Rightarrow> ('e, unit) iact" where
  "dw_iic_clear_all_irq iic_base = seqs (map (\<lambda>off. touch (iic_base + off))
     [IC_CLR_INTR, IC_CLR_RX_UNDER, IC_CLR_RX_OVER, IC_CLR_TX_OVER, IC_CLR_RD_REQ, IC_CLR_TX_ABRT, IC_CLR_RX_DONE, IC_CLR_ACTIVITY,
      IC_CLR_STOP_DET, IC_CLR_START_DET, IC_CLR_GEN_CALL])"

definition dw_iic_disable_all_irq :: "u32 \<Rightarrow> ('e, unit) iact" where
  "dw_iic_disable_all_irq iic_base = CHIP_REG_SET 0 (iic_base + IC_INTR_MASK)"

definition dw_iic_set_slave_10bit_addr_mode :: "u32 \<Rightarrow> ('e, unit) iact" where
  "dw_iic_set_slave_10bit_addr_mode iic_base = set_bits DW_IIC_CON_SLAVE_ADDR_MODE (iic_base + IC_CON)"

definition dw_iic_set_slave_7bit_addr_mode :: "u32 \<Rightarrow> ('e, unit) iact" where
  "dw_iic_set_slave_7bit_addr_mode iic_base = clr_bits DW_IIC_CON_SLAVE_ADDR_MODE (iic_base + IC_CON)"

definition dw_iic_set_master_10bit_addr_mode :: "u32 \<Rightarrow> ('e, unit) iact" where
  "dw_iic_set_master_10bit_addr_mode iic_base = set_bits DW_IIC_TAR_MASTER_ADDR_MODE (iic_base + IC_TAR)"

definition dw_iic_set_master_7bit_addr_mode :: "u32 \<Rightarrow> ('e, unit) iact" where
  "dw_iic_set_master_7bit_addr_mode iic_base = clr_bits DW_IIC_TAR_MASTER_ADDR_MODE (iic_base + IC_TAR)"

definition dw_iic_set_standard_scl_hcnt :: "u32 \<Rightarrow> u32 \<Rightarrow> ('e, unit) iact" where
  "dw_iic_set_standard_scl_hcnt iic_base cnt = CHIP_REG_SET cnt (iic_base + IC_SS_SCL_HCNT)"

definition dw_iic_set_standard_scl_lcnt :: "u32 \<Rightarrow> u32 \<Rightarrow> ('e, unit) iact" where
  "dw_iic_set_standard_scl_lcnt iic_base cnt = CHIP_REG_SET cnt (iic_base + IC_SS_SCL_LCNT)"

definition dw_iic_set_fast_scl_hcnt :: "u32 \<Rightarrow> u32 \<Rightarrow> ('e, unit) iact" where
  "dw_iic_set_fast_scl_hcnt iic_base cnt = CHIP_REG_SET cnt (iic_base + IC_FS_SCL_HCNT)"

definition dw_iic_set_fast_scl_lcnt :: "u32 \<Rightarrow> u32 \<Rightarrow> ('e, unit) iact" where
  "dw_iic_set_fast_scl_lcnt iic_base cnt = CHIP_REG_SET cnt (iic_base + IC_FS_SCL_LCNT)"

definition dw_iic_set_high_scl_hcnt :: "u32 \<Rightarrow> u32 \<Rightarrow> ('e, unit) iact" where
  "dw_iic_set_high_scl_hcnt iic_base cnt = CHIP_REG_SET cnt (iic_base + IC_HS_SCL_HCNT)"

definition dw_iic_set_high_scl_lcnt :: "u32 \<Rightarrow> u32 \<Rightarrow> ('e, unit) iact" where
  "dw_iic_set_high_scl_lcnt iic_base cnt = CHIP_REG_SET cnt (iic_base + IC_HS_SCL_LCNT)"

definition dw_iic_set_own_address :: "u32 \<Rightarrow> u32 \<Rightarrow> ('e, unit) iact" where
  "dw_iic_set_own_address iic_base address = CHIP_REG_SET address (iic_base + IC_SAR)"

definition dw_iic_get_transmit_fifo_num :: "u32 \<Rightarrow> ('e, u32) iact" where
  "dw_iic_get_transmit_fifo_num iic_base = CHIP_REG_GET (iic_base + IC_TXFLR)"

definition dw_iic_get_receive_fifo_num :: "u32 \<Rightarrow> ('e, u32) iact" where
  "dw_iic_get_receive_fifo_num iic_base = CHIP_REG_GET (iic_base + IC_RXFLR)"

definition dw_iic_transmit_data :: "u32 \<Rightarrow> u8 \<Rightarrow> ('e, unit) iact" where
  "dw_iic_transmit_data iic_base d = CHIP_REG_SET (ucast d) (iic_base + IC_DATA_CMD)"

definition dw_iic_get_iic_state :: "u32 \<Rightarrow> ('e, u32) iact" where
  "dw_iic_get_iic_state iic_base = CHIP_REG_GET (iic_base + IC_STATUS)"

definition dw_iic_receive_data :: "u32 \<Rightarrow> ('e, u8) iact" where
  "dw_iic_receive_data iic_base = bind_res (CHIP_REG_GET (iic_base + IC_DATA_CMD)) (\<lambda>v. ret (ucast v))"

definition dw_iic_data_cmd :: "u32 \<Rightarrow> ('e, unit) iact" where
  "dw_iic_data_cmd iic_base = CHIP_REG_SET DW_IIC_DATA_CMD (iic_base + IC_DATA_CMD)"

definition dw_iic_get_raw_interrupt_state :: "u32 \<Rightarrow> ('e, u32) iact" where
  "dw_iic_get_raw_interrupt_state iic_base = CHIP_REG_GET (iic_base + IC_RAW_INTR_STAT)"

definition with_iic_disabled :: "u32 \<Rightarrow> ('e, unit) iact \<Rightarrow> ('e, unit) iact" where
  "with_iic_disabled iic_base m =
     bind_res (dw_iic_get_iic_status iic_base) (\<lambda>iic_status. seqs
       [dw_iic_disable iic_base, m, if iic_status = DW_IIC_EN then dw_iic_enable iic_base else ret ()])"

definition dw_iic_set_target_address :: "u32 \<Rightarrow> u32 \<Rightarrow> ('e, unit) iact" where
  "dw_iic_set_target_address iic_base address = with_iic_disabled iic_base
     (reg_modify (\<lambda>v. (v AND (DW_IIC_TAR_MASTER_ADDR_MODE OR DW_IIC_TAR_SPECIAL OR DW_IIC_TAR_GC_OR_START)) OR address) (iic_base + IC_TAR))"

definition set_transfer_speed :: "u32 \<Rightarrow> u32 \<Rightarrow> ('e, unit) iact" where
  "set_transfer_speed iic_base bits =
     reg_modify (\<lambda>v. (v AND NOT (DW_IIC_CON_SPEEDL_EN OR DW_IIC_CON_SPEEDH_EN)) OR bits) (iic_base + IC_CON)"

definition dw_iic_set_transfer_speed_high :: "u32 \<Rightarrow> ('e, unit) iact" where
  "dw_iic_set_transfer_speed_high iic_base = set_transfer_speed iic_base (DW_IIC_CON_SPEEDL_EN OR DW_IIC_CON_SPEEDH_EN)"

definition dw_iic_set_transfer_speed_fast :: "u32 \<Rightarrow> ('e, unit) iact" where
  "dw_iic_set_transfer_speed_fast iic_base = set_transfer_speed iic_base DW_IIC_CON_SPEEDH_EN"

definition dw_iic_set_transfer_speed_standard :: "u32 \<Rightarrow> ('e, unit) iact" where
  "dw_iic_set_transfer_speed_standard iic_base = set_transfer_speed iic_base DW_IIC_CON_SPEEDL_EN"

definition dw_iic_set_slave_mode :: "u32 \<Rightarrow> ('e, unit) iact" where
  "dw_iic_set_slave_mode iic_base = with_iic_disabled iic_base (clr_bits (DW_IIC_CON_MASTER_EN OR DW_IIC_CON_SLAVE_EN) (iic_base + IC_CON))"

definition dw_iic_set_master_mode :: "u32 \<Rightarrow> ('e, unit) iact" where
  "dw_iic_set_master_mode iic_base = with_iic_disabled iic_base (set_bits (DW_IIC_CON_MASTER_EN OR DW_IIC_CON_SLAVE_EN) (iic_base + IC_CON))"

subsection \<open>Waiting\<close>

text \<open>
  A loop that runs while \<open>busy\<close>, asking the clock in every turn; \<open>late\<close> is what it still does once the time is over. The result says whether
  it ended in time. The fuel bounds the turns.
\<close>

fun wait_while :: "nat \<Rightarrow> ('e, bool) iact \<Rightarrow> (u32 \<Rightarrow> bool) \<Rightarrow> ('e, unit) iact \<Rightarrow> ('e, bool) iact" where
  "wait_while 0 busy expired late = hang"
| "wait_while (Suc fuel) busy expired late =
     bind_res busy (\<lambda>b. if \<not> b then ret True
     else bind_res csi_tick_get_ms (\<lambda>t. if expired t then bind_res late (\<lambda>_. ret False) else wait_while fuel busy expired late))"

definition dw_iic_wait_bus_idle :: "nat \<Rightarrow> u32 \<Rightarrow> u32 \<Rightarrow> ('e, bool) iact" where
  "dw_iic_wait_bus_idle fuel iic_base timeout =
     bind_res csi_tick_get_ms (\<lambda>t. let time_out = timeout + t in
     wait_while fuel (bind_res (dw_iic_get_iic_state iic_base) (\<lambda>v. ret (DW_IIC_STATUS_ACTIVITY_STATE AND v \<noteq> 0))) (\<lambda>t. t > time_out) (ret ()))"

text \<open>The condition of the loops is evaluated once more after the time is over; the receiving one also prints the time.\<close>

definition wait_iic_transmit :: "nat \<Rightarrow> u32 \<Rightarrow> u32 \<Rightarrow> ('e, bool) iact" where
  "wait_iic_transmit fuel iic_base timeout =
     bind_res csi_tick_get_ms (\<lambda>t. let timecount = timeout + t in
     wait_while fuel (bind_res (dw_iic_get_transmit_fifo_num iic_base) (\<lambda>v. ret (v \<noteq> 0))) (\<lambda>t. t \<ge> timecount)
       (touch (iic_base + IC_TXFLR)))"

definition wait_iic_receive :: "nat \<Rightarrow> u32 \<Rightarrow> u32 \<Rightarrow> u32 \<Rightarrow> ('e, bool) iact" where
  "wait_iic_receive fuel iic_base wait_data_num timeout =
     bind_res csi_tick_get_ms (\<lambda>t. let timecount = timeout + t in
     wait_while fuel (bind_res (dw_iic_get_receive_fifo_num iic_base) (\<lambda>v. ret (v < wait_data_num))) (\<lambda>t. t \<ge> timecount)
       (seqs [bind_res csi_tick_get_ms (\<lambda>_. ret ()), touch (iic_base + IC_RXFLR)]))"

text \<open>The wait for the stop condition, which gives up after \<open>DW_IIC_TIMEOUT_DEF_VAL\<close> further turns; nobody looks at the result.\<close>

fun stop_loop :: "nat \<Rightarrow> u32 \<Rightarrow> ('e, unit) iact" where
  "stop_loop 0 iic_base = touch (iic_base + IC_RAW_INTR_STAT)"
| "stop_loop (Suc n) iic_base =
     bind_res (dw_iic_get_raw_interrupt_state iic_base) (\<lambda>v. if v AND DW_IIC_RAW_STOP_DET \<noteq> 0 then ret () else stop_loop n iic_base)"

subsection \<open>Configuration\<close>

definition csi_iic_init :: "nat \<Rightarrow> u32 \<Rightarrow> ('e, unit) iact" where
  "csi_iic_init iic i =
     (let clear = upd_iic iic (\<lambda>h. h\<lparr>iic_writeable := True, iic_readable := True, iic_error := False, iic_send := False, iic_receive := False,
            iic_rx_dma := False, iic_tx_dma := False, iic_callback := False\<rparr>)
      in bind_res (get_st (\<lambda>s. target_get DEV_DW_IIC_TAG i (Some (dev_objs s iic)))) (\<lambda>r.
         case r of
           Inl e \<Rightarrow> bind_res clear (\<lambda>_. fail CSI_ERROR)
         | Inr d \<Rightarrow> seqs
             [upd_obj iic (\<lambda>_. d),
              bind_res (iic_base_of iic) (\<lambda>iic_base. seqs
                [CHIP_REG_SET 0 (iic_base + IC_SAR), dw_iic_disable iic_base, dw_iic_clear_all_irq iic_base,
                 dw_iic_disable_all_irq iic_base, CHIP_REG_SET 0 (iic_base + IC_FIFO_RST_EN)]),
              clear]))"

definition csi_iic_uninit :: "nat \<Rightarrow> ('e, unit) iact" where
  "csi_iic_uninit iic =
     bind_res (iic_base_of iic) (\<lambda>iic_base.
     bind_res (get_st (\<lambda>s. unat (irq_num (dev_objs s iic)))) (\<lambda>irq. seqs
       [upd_iic iic (\<lambda>h. h\<lparr>iic_error := False, iic_writeable := False, iic_readable := False, iic_send := False, iic_receive := False,
            iic_rx_dma := False, iic_tx_dma := False\<rparr>),
        dw_iic_clear_all_irq iic_base, dw_iic_disable_all_irq iic_base, dw_iic_disable iic_base,
        soc_do (\<lambda>c. irq_disable c irq), csi_irq_detach irq]))"

definition csi_iic_mode :: "nat \<Rightarrow> csi_iic_mode_t \<Rightarrow> ('e, unit) iact" where
  "csi_iic_mode iic mode =
     bind_res (iic_base_of iic) (\<lambda>iic_base. seqs
       [dw_iic_disable iic_base,
        upd_iic iic (\<lambda>h. h\<lparr>iic_mode := mode\<rparr>),
        case mode of IIC_MODE_MASTER \<Rightarrow> dw_iic_set_master_mode iic_base | IIC_MODE_SLAVE \<Rightarrow> dw_iic_set_slave_mode iic_base,
        dw_iic_enable_restart iic_base])"

definition csi_iic_addr_mode :: "nat \<Rightarrow> u8 \<Rightarrow> ('e, unit) iact" where
  "csi_iic_addr_mode iic addr_mode =
     bind_res (iic_base_of iic) (\<lambda>iic_base.
     bind_res (dw_iic_disable iic_base) (\<lambda>_.
     if addr_mode = IIC_ADDRESS_7BIT then seqs [dw_iic_set_master_7bit_addr_mode iic_base, dw_iic_set_slave_7bit_addr_mode iic_base]
     else if addr_mode = IIC_ADDRESS_10BIT then seqs [dw_iic_set_master_10bit_addr_mode iic_base, dw_iic_set_slave_10bit_addr_mode iic_base]
     else fail CSI_ERROR))"

definition csi_iic_speed :: "nat \<Rightarrow> u8 \<Rightarrow> ('e, unit) iact" where
  "csi_iic_speed iic speed =
     bind_res (iic_base_of iic) (\<lambda>iic_base.
     bind_res (dw_iic_disable iic_base) (\<lambda>_.
     let freq = bind_res (get_st (\<lambda>s. ucast (dev_idx (dev_objs s iic)))) soc_get_iic_freq in
     if speed = IIC_BUS_SPEED_STANDARD then
         bind_res (dw_iic_set_transfer_speed_standard iic_base) (\<lambda>_. bind_res freq (\<lambda>f. let ic_clk = f div 1000000 in seqs
           [dw_iic_set_standard_scl_hcnt iic_base (5 * ic_clk - 8), dw_iic_set_standard_scl_lcnt iic_base (5 * ic_clk - 1)]))
     else if speed = IIC_BUS_SPEED_FAST then
         bind_res (dw_iic_set_transfer_speed_fast iic_base) (\<lambda>_. bind_res freq (\<lambda>f. seqs
           [dw_iic_set_fast_scl_hcnt iic_base 40, dw_iic_set_fast_scl_lcnt iic_base 87]))
     else if speed = IIC_BUS_SPEED_FAST_PLUS then
         bind_res (dw_iic_set_transfer_speed_fast iic_base) (\<lambda>_. bind_res freq (\<lambda>f. let ic_clk = f div 1000000 in seqs
           [dw_iic_set_fast_scl_hcnt iic_base (ic_clk div 2 - 8), dw_iic_set_fast_scl_lcnt iic_base (ic_clk div 2 - 1)]))
     else if speed = IIC_BUS_SPEED_HIGH then
         bind_res (dw_iic_set_transfer_speed_high iic_base) (\<lambda>_. bind_res freq (\<lambda>f. let ic_clk = f div 10000000 in seqs
           [dw_iic_set_high_scl_hcnt iic_base (147 * ic_clk div 100 - 8), dw_iic_set_high_scl_lcnt iic_base (147 * ic_clk div 100 - 1)]))
     else fail CSI_ERROR))"

definition csi_iic_own_addr :: "nat \<Rightarrow> u32 \<Rightarrow> ('e, unit) iact" where
  "csi_iic_own_addr iic own_addr =
     bind_res (iic_base_of iic) (\<lambda>iic_base. seqs [dw_iic_disable iic_base, dw_iic_set_own_address iic_base own_addr])"

subsection \<open>Transfers\<close>

text \<open>The result codes as the numbers the transfer functions return.\<close>

definition err_num :: "csi_error_t \<Rightarrow> int" where
  "err_num e = (case e of CSI_ERROR \<Rightarrow> -1 | CSI_BUSY \<Rightarrow> -2 | CSI_TIMEOUT \<Rightarrow> -3 | CSI_UNSUPPORTED \<Rightarrow> -4)"

text \<open>\<open>n\<close> bytes from the buffer; the result is the rest of it. A byte behind the end of the buffer is undefined.\<close>

fun tx_bytes :: "nat \<Rightarrow> u32 \<Rightarrow> u8 list \<Rightarrow> ('e, u8 list) iact" where
  "tx_bytes 0 iic_base buf = ret buf"
| "tx_bytes (Suc n) iic_base buf =
     (case buf of [] \<Rightarrow> undef | x # xs \<Rightarrow> bind_res (dw_iic_transmit_data iic_base x) (\<lambda>_. tx_bytes n iic_base xs))"

definition start_transfer :: "nat \<Rightarrow> u32 \<Rightarrow> u32 \<Rightarrow> u32 \<Rightarrow> ('e, bool) iact" where
  "start_transfer fuel iic_base devaddr timeout =
     bind_res (dw_iic_wait_bus_idle fuel iic_base timeout) (\<lambda>idle.
     if \<not> idle then ret False
     else bind_res (seqs [dw_iic_disable iic_base, dw_iic_set_target_address iic_base devaddr, dw_iic_enable iic_base]) (\<lambda>_. ret True))"

text \<open>The inner loop for long messages fills the queue of the controller; the result is whether it ended in time, the count and the rest.\<close>

fun fill_loop :: "nat \<Rightarrow> u32 \<Rightarrow> u32 \<Rightarrow> nat \<Rightarrow> nat \<Rightarrow> u8 list \<Rightarrow> ('e, bool \<times> nat \<times> u8 list) iact" where
  "fill_loop 0 iic_base timecount sz send_count buf = hang"
| "fill_loop (Suc fuel) iic_base timecount sz send_count buf =
     (if send_count \<ge> sz then ret (True, send_count, buf)
      else
        bind_res (dw_iic_get_transmit_fifo_num iic_base) (\<lambda>n. let send_num = unat (ucast (of_nat IIC_MAX_FIFO - n) :: u8) in
        bind_res (tx_bytes send_num iic_base buf) (\<lambda>buf'.
        bind_res csi_tick_get_ms (\<lambda>t.
        if t \<ge> timecount then ret (False, send_count + send_num, buf')
        else fill_loop fuel iic_base timecount sz (send_count + send_num) buf'))))"

text \<open>The outer loop: it ends when exactly the size has been sent, or in an error.\<close>

fun send_loop :: "nat \<Rightarrow> u32 \<Rightarrow> u32 \<Rightarrow> u32 \<Rightarrow> nat \<Rightarrow> nat \<Rightarrow> u8 list \<Rightarrow> ('e, int) iact" where
  "send_loop 0 iic_base timeout timecount sz send_count buf = hang"
| "send_loop (Suc fuel) iic_base timeout timecount sz send_count buf =
     (let finish = (\<lambda>send_count buf. if send_count = sz then bind_res (stop_loop DW_IIC_TIMEOUT_DEF_VAL iic_base) (\<lambda>_. ret (int send_count))
                      else send_loop fuel iic_base timeout timecount sz send_count buf)
      in if sz < IIC_MAX_FIFO then
           bind_res (tx_bytes sz iic_base buf) (\<lambda>buf'.
           bind_res (wait_iic_transmit (Suc fuel) iic_base timeout) (\<lambda>sent.
           if \<not> sent then ret (err_num CSI_TIMEOUT) else finish (send_count + sz) buf'))
         else
           bind_res (fill_loop (Suc fuel) iic_base timecount sz send_count buf) (\<lambda>(in_time, cnt, buf').
           if \<not> in_time then ret (int cnt) else finish cnt buf'))"

definition csi_iic_master_send :: "nat \<Rightarrow> nat \<Rightarrow> u32 \<Rightarrow> u8 list \<Rightarrow> nat \<Rightarrow> u32 \<Rightarrow> ('e, int) iact" where
  "csi_iic_master_send fuel iic devaddr buf sz timeout =
     bind_res csi_tick_get_ms (\<lambda>t. let timecount = timeout + t in
     if sz = 0 then ret (err_num CSI_ERROR)
     else
       bind_res (iic_base_of iic) (\<lambda>iic_base.
       bind_res (start_transfer fuel iic_base devaddr timeout) (\<lambda>started.
       if \<not> started then ret (err_num CSI_TIMEOUT) else send_loop fuel iic_base timeout timecount sz 0 buf)))"

text \<open>Reading: the result is the count or an error and the bytes stored in the buffer.\<close>

fun rx_bytes :: "nat \<Rightarrow> u32 \<Rightarrow> ('e, u8 list) iact" where
  "rx_bytes 0 iic_base = ret []"
| "rx_bytes (Suc n) iic_base = bind_res (dw_iic_receive_data iic_base) (\<lambda>x. bind_res (rx_bytes n iic_base) (\<lambda>xs. ret (x # xs)))"

definition rx_short :: "nat \<Rightarrow> u32 \<Rightarrow> nat \<Rightarrow> u32 \<Rightarrow> ('e, int \<times> u8 list) iact" where
  "rx_short fuel iic_base sz timeout =
     bind_res (for_each [0..<sz] (\<lambda>_. dw_iic_data_cmd iic_base)) (\<lambda>_.
     bind_res (wait_iic_receive fuel iic_base (of_nat sz) timeout) (\<lambda>in_time.
     if in_time then bind_res (rx_bytes sz iic_base) (\<lambda>bs. ret (int sz, bs)) else ret (err_num CSI_TIMEOUT, [])))"

fun rx_loop :: "nat \<Rightarrow> nat \<Rightarrow> u32 \<Rightarrow> nat \<Rightarrow> u32 \<Rightarrow> ('e, int \<times> u8 list) iact" where
  "rx_loop fuel 0 iic_base cmd_num timeout = ret (0, [])"
| "rx_loop fuel (Suc n) iic_base cmd_num timeout =
     bind_res (wait_iic_receive fuel iic_base 1 timeout) (\<lambda>in_time.
     if \<not> in_time then ret (err_num CSI_TIMEOUT, [])
     else
       bind_res (dw_iic_receive_data iic_base) (\<lambda>x.
       bind_res (if cmd_num > 0 then dw_iic_data_cmd iic_base else ret ()) (\<lambda>_.
       bind_res (rx_loop fuel n iic_base (cmd_num - 1) timeout) (\<lambda>(k, xs). ret (if k < 0 then k else k + 1, x # xs)))))"

fun stop_wait :: "nat \<Rightarrow> u32 \<Rightarrow> u32 \<Rightarrow> ('e, unit) iact" where
  "stop_wait 0 iic_base timecount = hang"
| "stop_wait (Suc fuel) iic_base timecount =
     bind_res (dw_iic_get_raw_interrupt_state iic_base) (\<lambda>v.
     if v AND DW_IIC_RAW_STOP_DET \<noteq> 0 then ret ()
     else bind_res csi_tick_get_ms (\<lambda>t. if t \<ge> timecount then ret () else stop_wait fuel iic_base timecount))"

definition csi_iic_master_receive :: "nat \<Rightarrow> nat \<Rightarrow> u32 \<Rightarrow> nat \<Rightarrow> u32 \<Rightarrow> ('e, int \<times> u8 list) iact" where
  "csi_iic_master_receive fuel iic devaddr sz timeout =
     (if sz = 0 then ret (err_num CSI_ERROR, [])
      else
        bind_res (iic_base_of iic) (\<lambda>iic_base.
        bind_res (start_transfer fuel iic_base devaddr timeout) (\<lambda>started.
        if \<not> started then ret (err_num CSI_TIMEOUT, [])
        else if sz < IIC_MAX_FIFO then rx_short fuel iic_base sz timeout
        else
          bind_res (for_each [0..<IIC_MAX_FIFO] (\<lambda>_. dw_iic_data_cmd iic_base)) (\<lambda>_.
          bind_res (rx_loop fuel sz iic_base (sz - IIC_MAX_FIFO) timeout) (\<lambda>r.
          bind_res csi_tick_get_ms (\<lambda>t.
          bind_res (stop_wait fuel iic_base (timeout + t)) (\<lambda>_. ret r)))))))"

definition csi_iic_mem_receive :: "nat \<Rightarrow> nat \<Rightarrow> u32 \<Rightarrow> u16 \<Rightarrow> csi_iic_mem_addr_size_t \<Rightarrow> nat \<Rightarrow> u32 \<Rightarrow> ('e, int \<times> u8 list) iact" where
  "csi_iic_mem_receive fuel iic devaddr memaddr memaddr_size sz timeout =
     (if sz = 0 then ret (err_num CSI_ERROR, [])
      else
        bind_res (iic_base_of iic) (\<lambda>iic_base.
        bind_res (start_transfer fuel iic_base devaddr timeout) (\<lambda>started.
        if \<not> started then ret (err_num CSI_TIMEOUT, [])
        else
          let addr = (case memaddr_size of
              IIC_MEM_ADDR_SIZE_8BIT \<Rightarrow> [ucast memaddr]
            | IIC_MEM_ADDR_SIZE_16BIT \<Rightarrow> [ucast (drop_bit 8 memaddr), ucast memaddr])
          in bind_res (tx_bytes (length addr) iic_base addr) (\<lambda>_.
             bind_res (wait_iic_transmit fuel iic_base timeout) (\<lambda>sent.
             if \<not> sent then ret (err_num CSI_ERROR, [])
             else if sz < IIC_MAX_FIFO then rx_short fuel iic_base sz timeout
             else
               bind_res (for_each [0..<IIC_MAX_FIFO] (\<lambda>_. dw_iic_data_cmd iic_base)) (\<lambda>_.
               bind_res (rx_loop fuel sz iic_base (sz - IIC_MAX_FIFO) timeout) (\<lambda>r.
               if fst r = int sz then bind_res (stop_loop DW_IIC_TIMEOUT_DEF_VAL iic_base) (\<lambda>_. ret r) else ret r)))))))"

subsection \<open>What the functions do on the bus\<close>

text \<open>
  \<open>answers c m Q\<close>: on the hardware \<open>c\<close> the action changes nothing but the hardware, and \<open>Q\<close> holds of the accesses it makes and of its result,
  whatever the state of the hardware.
\<close>

definition answers :: "'e soc_if \<Rightarrow> ('e, 'a) iact \<Rightarrow> (access list \<Rightarrow> 'a res \<Rightarrow> bool) \<Rightarrow> bool" where
  "answers c m Q \<longleftrightarrow> (\<forall>s. soc s = c \<longrightarrow> (\<exists>r e tr. m s = (r, s\<lparr>env := e, trace := trace s @ tr\<rparr>) \<and> Q tr r))"

lemma answersE:
  assumes "answers c m P" and "soc s = c"
  obtains r e tr where "m s = (r, s\<lparr>env := e, trace := trace s @ tr\<rparr>)" and "P tr r"
  using assms unfolding answers_def by blast

lemma answers_run: "answers (soc s) m Q \<Longrightarrow> \<exists>r e tr. m s = (r, s\<lparr>env := e, trace := trace s @ tr\<rparr>) \<and> Q tr r"
  unfolding answers_def by blast

lemma answersI: "(\<And>s. soc s = c \<Longrightarrow> \<exists>r e tr. m s = (r, s\<lparr>env := e, trace := trace s @ tr\<rparr>) \<and> Q tr r) \<Longrightarrow> answers c m Q"
  unfolding answers_def by blast

lemma answers_mono:
  assumes "answers c m P" and "\<And>tr r. P tr r \<Longrightarrow> Q tr r"
  shows "answers c m Q"
proof (rule answersI)
  fix s :: "'a iic_t"
  assume "soc s = c"
  with assms(1) obtain r e tr where "m s = (r, s\<lparr>env := e, trace := trace s @ tr\<rparr>)" "P tr r" by (rule answersE)
  with assms(2) show "\<exists>r e tr. m s = (r, s\<lparr>env := e, trace := trace s @ tr\<rparr>) \<and> Q tr r" by blast
qed

definition after :: "(access list \<Rightarrow> 'b res \<Rightarrow> bool) \<Rightarrow> 'e soc_if \<Rightarrow> ('a \<Rightarrow> ('e, 'b) iact) \<Rightarrow> access list \<Rightarrow> 'a res \<Rightarrow> bool" where
  "after Q c f tr r =
     (case r of Ok a \<Rightarrow> answers c (f a) (\<lambda>tr2. Q (tr @ tr2)) | Err x \<Rightarrow> Q tr (Err x) | Hang \<Rightarrow> Q tr Hang | Ub \<Rightarrow> Q tr Ub)"

lemma after_simps [simp]:
  "after Q c f tr (Ok a) = answers c (f a) (\<lambda>tr2. Q (tr @ tr2))" "after Q c f tr (Err x) = Q tr (Err x)"
  "after Q c f tr Hang = Q tr Hang" "after Q c f tr Ub = Q tr Ub"
  by (simp_all add: after_def)

lemma answers_bind:
  fixes m :: "('e, 'a) iact"
  assumes "answers c m (after Q c f)"
  shows "answers c (bind_res m f) Q"
proof (rule answersI)
  fix s :: "'e iic_t"
  assume s: "soc s = c"
  from assms s obtain r e tr where m: "m s = (r, s\<lparr>env := e, trace := trace s @ tr\<rparr>)" and q: "after Q c f tr r" by (rule answersE)
  show "\<exists>r e tr. bind_res m f s = (r, s\<lparr>env := e, trace := trace s @ tr\<rparr>) \<and> Q tr r"
  proof (cases r)
    case (Ok a)
    let ?t = "s\<lparr>env := e, trace := trace s @ tr\<rparr>"
    have "answers c (f a) (\<lambda>tr2. Q (tr @ tr2))" "soc ?t = c" using q Ok s by simp_all
    then obtain r2 e2 tr2 where "f a ?t = (r2, ?t\<lparr>env := e2, trace := trace ?t @ tr2\<rparr>)" "Q (tr @ tr2) r2" by (rule answersE)
    then show ?thesis using m Ok by (intro exI [of _ r2] exI [of _ e2] exI [of _ "tr @ tr2"]) (simp add: bind_res_def)
  qed (use m q in \<open>auto simp: bind_res_def\<close>)
qed

lemma answers_pure:
  assumes "\<And>s. m s = (r, s)" and "Q [] r"
  shows "answers c m Q"
proof (rule answersI)
  fix s :: "'a iic_t"
  show "\<exists>r e tr. m s = (r, s\<lparr>env := e, trace := trace s @ tr\<rparr>) \<and> Q tr r"
    using assms by (intro exI [of _ r] exI [of _ "env s"] exI [of _ "[]"]) simp
qed

lemma answers_ret: "Q [] (Ok a) \<Longrightarrow> answers c (ret a) Q"
  by (rule answers_pure) (simp_all add: ret_def)

lemma answers_hang: "Q [] Hang \<Longrightarrow> answers c hang Q"
  by (rule answers_pure) (simp_all add: hang_def)

lemma answers_undef: "Q [] Ub \<Longrightarrow> answers c undef Q"
  by (rule answers_pure) (simp_all add: undef_def)

lemma answers_get: "(\<And>e. Q [Rd reg (fst (reg_read c reg e))] (Ok (fst (reg_read c reg e)))) \<Longrightarrow> answers c (CHIP_REG_GET reg) Q"
  unfolding CHIP_REG_GET_def by (intro answersI) (auto split: prod.splits, metis fst_conv)

lemma answers_set: "Q [Wr reg v] (Ok ()) \<Longrightarrow> answers c (CHIP_REG_SET v reg) Q"
  unfolding CHIP_REG_SET_def by (intro answersI) auto

lemma answers_tick:
  assumes "\<And>t. Q [] (Ok t)"
  shows "answers c csi_tick_get_ms Q"
proof (rule answersI)
  fix s :: "'a iic_t"
  obtain h e1 where h: "csi_coret_get_valueh s (env s) = (h, e1)" by fastforce
  obtain l e2 where l: "csi_coret_get_value s e1 = (l, e2)" by fastforce
  have "csi_tick_get_ms s = (Ok (tick_ms_of h l), s\<lparr>env := e2, trace := trace s @ []\<rparr>)"
    using h l by (simp add: csi_tick_get_ms_def coret_valueh_def coret_value_def bind_res_def ret_def)
  with assms show "\<exists>r e tr. csi_tick_get_ms s = (r, s\<lparr>env := e, trace := trace s @ tr\<rparr>) \<and> Q tr r" by blast
qed

lemmas answers_intros = answers_bind answers_ret answers_hang answers_undef answers_get answers_set answers_tick

lemma seqs_rec: "seqs [] = ret ()" "seqs (m # ms) = bind_res m (\<lambda>_. seqs ms)"
  by (simp_all add: seqs_def)

lemma answers_modify:
  "(\<And>v. Q [Rd reg v, Wr reg (f v)] (Ok ())) \<Longrightarrow> answers c (reg_modify f reg) Q"
  unfolding reg_modify_def by (rule answers_bind, rule answers_get) (auto intro: answers_set)

text \<open>The values written, and those read from one register.\<close>

definition wr_list :: "access list \<Rightarrow> (u32 \<times> u32) list" where
  "wr_list tr = concat (map (\<lambda>x. case x of Wr a v \<Rightarrow> [(a, v)] | Rd a v \<Rightarrow> []) tr)"

definition rd_at :: "u32 \<Rightarrow> access list \<Rightarrow> u32 list" where
  "rd_at reg tr = concat (map (\<lambda>x. case x of Rd a v \<Rightarrow> if a = reg then [v] else [] | Wr a v \<Rightarrow> []) tr)"

lemma wr_list_simps [simp]: "wr_list [] = []" "wr_list (Wr a v # tr) = (a, v) # wr_list tr" "wr_list (Rd a v # tr) = wr_list tr"
    "wr_list (tr @ tr') = wr_list tr @ wr_list tr'"
  and rd_at_simps [simp]: "rd_at reg [] = []" "rd_at reg (Wr a v # tr) = rd_at reg tr" "rd_at reg (Rd a v # tr) = (if a = reg then [v] else []) @ rd_at reg tr"
    "rd_at reg (tr @ tr') = rd_at reg tr @ rd_at reg tr'"
  by (simp_all add: wr_list_def rd_at_def)

text \<open>Accesses that neither write nor fetch data: what waiting does.\<close>

definition quiet :: "u32 \<Rightarrow> access list \<Rightarrow> bool" where
  "quiet b tr \<longleftrightarrow> wr_list tr = [] \<and> rd_at (b + IC_DATA_CMD) tr = []"

lemma quiet_simps [simp]: "quiet b []" "quiet b (tr @ tr') \<longleftrightarrow> quiet b tr \<and> quiet b tr'"
    "quiet b (Rd a v # tr) \<longleftrightarrow> a \<noteq> b + IC_DATA_CMD \<and> quiet b tr"
  by (auto simp: quiet_def)

lemma answers_wait:
  assumes "answers c busy (\<lambda>tr r. quiet b tr \<and> (\<exists>v. r = Ok v \<and> (idle \<longrightarrow> \<not> v)))" and "answers c late (\<lambda>tr r. quiet b tr \<and> r = Ok ())"
  shows "answers c (wait_while fuel busy expired late) (\<lambda>tr r. quiet b tr \<and> r \<in> {Ok True, Ok False, Hang} \<and> (idle \<and> fuel > 0 \<longrightarrow> r = Ok True))"
proof (induction fuel)
  case 0
  show ?case by (simp add: answers_hang)
next
  case (Suc fuel)
  show ?case unfolding wait_while.simps
    by (rule answers_bind, rule answers_mono [OF assms(1)])
      (auto intro!: answers_ret answers_bind answers_tick answers_mono [OF assms(2)] answers_mono [OF Suc.IH])
qed

text \<open>Hardware that never makes the driver wait: the bus is idle, the transmit queue is drained and \<open>n\<close> bytes have arrived.\<close>

definition ready :: "'e soc_if \<Rightarrow> u32 \<Rightarrow> u32 \<Rightarrow> bool" where
  "ready c b n \<longleftrightarrow> (\<forall>e. fst (reg_read c (b + IC_STATUS) e) AND DW_IIC_STATUS_ACTIVITY_STATE = 0)
     \<and> (\<forall>e. fst (reg_read c (b + IC_TXFLR) e) = 0) \<and> (\<forall>e. n \<le> fst (reg_read c (b + IC_RXFLR) e))"

lemma answers_waits:
  "answers c (dw_iic_wait_bus_idle fuel b timeout) (\<lambda>tr r. quiet b tr \<and> r \<in> {Ok True, Ok False, Hang} \<and> (ready c b k \<and> fuel > 0 \<longrightarrow> r = Ok True))"
  "answers c (wait_iic_transmit fuel b timeout) (\<lambda>tr r. quiet b tr \<and> r \<in> {Ok True, Ok False, Hang} \<and> (ready c b k \<and> fuel > 0 \<longrightarrow> r = Ok True))"
  "answers c (wait_iic_receive fuel b n timeout) (\<lambda>tr r. quiet b tr \<and> r \<in> {Ok True, Ok False, Hang} \<and> (ready c b n \<and> fuel > 0 \<longrightarrow> r = Ok True))"
proof -
  have busy: "answers c (bind_res (CHIP_REG_GET (b + off)) (\<lambda>v. ret (f v))) (\<lambda>tr r. quiet b tr \<and> (\<exists>v. r = Ok v \<and> (idle \<longrightarrow> \<not> v)))"
    if "off \<noteq> IC_DATA_CMD" "\<And>e. idle \<Longrightarrow> \<not> f (fst (reg_read c (b + off) e))" for off idle and f :: "u32 \<Rightarrow> bool"
    using that by (auto intro!: answers_bind answers_get answers_ret)
  have late: "answers c (touch (b + off)) (\<lambda>tr r. quiet b tr \<and> r = Ok ())" if "off \<noteq> IC_DATA_CMD" for off
    using that by (auto intro!: answers_bind answers_get answers_ret)
  have off: "IC_STATUS \<noteq> IC_DATA_CMD" "IC_TXFLR \<noteq> IC_DATA_CMD" "IC_RXFLR \<noteq> IC_DATA_CMD" by (simp_all add: iic_offsets)
  have print: "answers c (seqs [bind_res csi_tick_get_ms (\<lambda>_. ret ()), touch (b + IC_RXFLR)]) (\<lambda>tr r. quiet b tr \<and> r = Ok ())"
    unfolding seqs_rec using off(3) by (auto intro!: answers_bind answers_tick answers_ret answers_get)
  show "answers c (dw_iic_wait_bus_idle fuel b timeout) (\<lambda>tr r. quiet b tr \<and> r \<in> {Ok True, Ok False, Hang} \<and> (ready c b k \<and> fuel > 0 \<longrightarrow> r = Ok True))"
    unfolding dw_iic_wait_bus_idle_def dw_iic_get_iic_state_def Let_def
    by (rule answers_bind, rule answers_tick, simp, rule answers_mono [OF answers_wait [where b = b and idle = "ready c b k"]], rule busy)
      (auto simp: ready_def off and.commute intro!: answers_ret)
  show "answers c (wait_iic_transmit fuel b timeout) (\<lambda>tr r. quiet b tr \<and> r \<in> {Ok True, Ok False, Hang} \<and> (ready c b k \<and> fuel > 0 \<longrightarrow> r = Ok True))"
    unfolding wait_iic_transmit_def dw_iic_get_transmit_fifo_num_def Let_def
    by (rule answers_bind, rule answers_tick, simp, rule answers_mono [OF answers_wait [where b = b and idle = "ready c b k"]], rule busy)
      (auto simp: ready_def off intro!: late)
  show "answers c (wait_iic_receive fuel b n timeout) (\<lambda>tr r. quiet b tr \<and> r \<in> {Ok True, Ok False, Hang} \<and> (ready c b n \<and> fuel > 0 \<longrightarrow> r = Ok True))"
    unfolding wait_iic_receive_def dw_iic_get_receive_fifo_num_def Let_def
    by (rule answers_bind, rule answers_tick, simp, rule answers_mono [OF answers_wait [where b = b and idle = "ready c b n"]], rule busy)
      (auto simp: ready_def off not_less intro!: print)
qed

text \<open>The selection of a chip: the controller is disabled, the address written and the controller enabled.\<close>

definition selects :: "u32 \<Rightarrow> u32 \<Rightarrow> (u32 \<times> u32) list \<Rightarrow> bool" where
  "selects b devaddr w \<longleftrightarrow> (\<exists>v k. w =
     [(b + IC_ENABLE, NOT DW_IIC_EN), (b + IC_ENABLE, NOT DW_IIC_EN), (b + IC_TAR, (v AND 0x1c00) OR devaddr)] @ replicate (Suc k) (b + IC_ENABLE, DW_IIC_EN))"

lemma answers_start:
  "answers c (start_transfer fuel b devaddr timeout) (\<lambda>tr r. rd_at (b + IC_DATA_CMD) tr = []
     \<and> (r = Ok True \<and> selects b devaddr (wr_list tr) \<or> r \<in> {Ok False, Hang} \<and> wr_list tr = []) \<and> (ready c b k \<and> fuel > 0 \<longrightarrow> r = Ok True))"
proof -
  have off: "IC_CLR_ACTIVITY \<noteq> IC_DATA_CMD" "IC_ENABLE \<noteq> IC_DATA_CMD" "IC_TAR \<noteq> IC_DATA_CMD" by (simp_all add: iic_offsets)
  have bits: "DW_IIC_TAR_MASTER_ADDR_MODE OR DW_IIC_TAR_SPECIAL OR DW_IIC_TAR_GC_OR_START = 0x1c00"
    by (simp add: DW_IIC_TAR_MASTER_ADDR_MODE_def DW_IIC_TAR_SPECIAL_def DW_IIC_TAR_GC_OR_START_def)
  have sel: "answers c (bind_res (seqs [dw_iic_disable b, dw_iic_set_target_address b devaddr, dw_iic_enable b]) (\<lambda>_. ret True))
      (\<lambda>tr r. rd_at (b + IC_DATA_CMD) tr = [] \<and> r = Ok True \<and> selects b devaddr (wr_list tr))"
    unfolding seqs_rec dw_iic_disable_def dw_iic_enable_def dw_iic_set_target_address_def with_iic_disabled_def dw_iic_get_iic_status_def bits
    using off by (auto intro!: answers_intros answers_modify) (auto simp: selects_def intro: exI [of _ 0] exI [of _ 1])
  show ?thesis unfolding start_transfer_def
    by (rule answers_bind, rule answers_mono [OF answers_waits(1) [where k = k]])
      (auto simp: quiet_def intro!: answers_ret answers_mono [OF sel])
qed

lemma answers_tx_bytes:
  "n \<le> length buf \<Longrightarrow> answers c (tx_bytes n b buf) (\<lambda>tr r. rd_at (b + IC_DATA_CMD) tr = [] \<and> r = Ok (drop n buf)
     \<and> wr_list tr = map (\<lambda>x. (b + IC_DATA_CMD, ucast x)) (take n buf))"
proof (induction n arbitrary: buf)
  case 0
  show ?case by (auto intro: answers_ret)
next
  case (Suc n)
  then obtain x xs where buf: "buf = x # xs" "n \<le> length xs" by (cases buf) auto
  show ?case unfolding buf(1) tx_bytes.simps list.case dw_iic_transmit_data_def
    by (rule answers_bind, rule answers_set) (auto intro!: answers_mono [OF Suc.IH [OF buf(2)]])
qed

lemma answers_stop: "answers c (stop_loop n b) (\<lambda>tr r. quiet b tr \<and> r = Ok ())"
proof (induction n)
  case 0
  show ?case by (auto intro!: answers_intros simp: iic_offsets)
next
  case (Suc n)
  show ?case unfolding stop_loop.simps dw_iic_get_raw_interrupt_state_def
    by (auto intro!: answers_intros answers_mono [OF Suc.IH] simp: iic_offsets)
qed

text \<open>A message shorter than the queue of the controller.\<close>

lemma answers_send_short:
  assumes "0 < sz" "sz < IIC_MAX_FIFO" "sz \<le> length buf"
  shows "answers c (send_loop fuel b timeout timecount sz 0 buf) (\<lambda>tr r. r \<in> {Ok (int sz), Ok (err_num CSI_TIMEOUT), Hang}
    \<and> rd_at (b + IC_DATA_CMD) tr = [] \<and> (r \<noteq> Hang \<longrightarrow> wr_list tr = map (\<lambda>x. (b + IC_DATA_CMD, ucast x)) (take sz buf)) \<and> (ready c b k \<and> fuel > 0 \<longrightarrow> r = Ok (int sz)))"
proof (cases fuel)
  case 0
  then show ?thesis by (auto intro!: answers_hang)
next
  case (Suc f)
  have wait: "answers c (bind_res (wait_iic_transmit (Suc f) b timeout) (\<lambda>sent. if \<not> sent then ret (err_num CSI_TIMEOUT)
      else bind_res (stop_loop DW_IIC_TIMEOUT_DEF_VAL b) (\<lambda>_. ret (int (0 + sz)))))
      (\<lambda>tr r. quiet b tr \<and> r \<in> {Ok (int sz), Ok (err_num CSI_TIMEOUT), Hang} \<and> (ready c b k \<longrightarrow> r = Ok (int sz)))"
    by (rule answers_bind, rule answers_mono [OF answers_waits(2) [where k = k]])
      (auto intro!: answers_ret answers_bind answers_mono [OF answers_stop])
  show ?thesis unfolding Suc send_loop.simps Let_def using assms
    by (simp, intro answers_bind answers_mono [OF answers_tx_bytes])
      (auto simp: quiet_def intro!: answers_mono [OF wait])
qed

text \<open>A longer message: the queue is filled up whatever is left of the message, so that a drained queue takes eight bytes in every turn.\<close>

lemma tx_bytes_trivial: "answers c (tx_bytes n b buf) (\<lambda>tr r. r = Ub \<or> (\<exists>x. r = Ok x))"
proof (induction n arbitrary: buf)
  case 0
  show ?case by (auto intro: answers_ret)
next
  case (Suc n)
  show ?case
  proof (cases buf)
    case Nil
    then show ?thesis by (simp add: answers_undef)
  next
    case (Cons x xs)
    then show ?thesis by (auto simp: dw_iic_transmit_data_def intro!: answers_bind answers_set answers_mono [OF Suc.IH])
  qed
qed

lemma answers_fill:
  assumes "\<And>e. fst (reg_read c (b + IC_TXFLR) e) = 0"
  shows "8 dvd cnt \<Longrightarrow> answers c (fill_loop fuel b timecount sz cnt buf) (\<lambda>tr r. case r of Ok (_, n, _) \<Rightarrow> 8 dvd n | Err _ \<Rightarrow> False | _ \<Rightarrow> True)"
proof (induction fuel arbitrary: cnt buf)
  case 0
  show ?case by (simp add: answers_hang)
next
  case (Suc fuel)
  have "unat (ucast (of_nat IIC_MAX_FIFO - 0 :: u32) :: u8) = 8" by (simp add: IIC_MAX_FIFO_def)
  then show ?case unfolding fill_loop.simps dw_iic_get_transmit_fifo_num_def Let_def using Suc.prems
    by (auto simp: assms intro!: answers_ret answers_bind answers_get answers_tick answers_mono [OF tx_bytes_trivial]
        answers_mono [OF Suc.IH])
qed

lemma answers_send_long:
  assumes "\<And>e. fst (reg_read c (b + IC_TXFLR) e) = 0" and "IIC_MAX_FIFO \<le> sz" and "\<not> 8 dvd sz"
  shows "8 dvd cnt \<Longrightarrow> answers c (send_loop fuel b timeout timecount sz cnt buf) (\<lambda>tr r. r \<noteq> Ok (int sz))"
proof (induction fuel arbitrary: cnt buf)
  case 0
  show ?case by (simp add: answers_hang)
next
  case (Suc fuel)
  show ?case unfolding send_loop.simps Let_def using assms(2)
    by (simp add: not_less [symmetric] del: fill_loop.simps, intro answers_bind answers_mono [OF answers_fill [OF assms(1) Suc.prems]])
      (use assms(3) in \<open>auto intro!: answers_ret answers_mono [OF Suc.IH] split: res.splits\<close>)
qed

lemma bind_base: "dev_reg_base (dev_objs s iic) = b \<Longrightarrow> bind_res (iic_base_of iic) f s = f b s"
  by (simp add: iic_base_of_def get_st_def bind_res_def)

abbreviation send_body :: "nat \<Rightarrow> u32 \<Rightarrow> u32 \<Rightarrow> u32 \<Rightarrow> u32 \<Rightarrow> nat \<Rightarrow> u8 list \<Rightarrow> ('e, int) iact" where
  "send_body fuel b devaddr timeout timecount sz buf \<equiv> bind_res (start_transfer fuel b devaddr timeout)
     (\<lambda>started. if \<not> started then ret (err_num CSI_TIMEOUT) else send_loop fuel b timeout timecount sz 0 buf)"

lemma send_unfold:
  fixes s :: "'e iic_t"
  assumes "dev_reg_base (dev_objs s iic) = b" and "0 < sz"
  shows "\<exists>timecount e. csi_iic_master_send fuel iic devaddr buf sz timeout s =
    send_body fuel b devaddr timeout timecount sz buf (s\<lparr>env := e\<rparr>)"
proof -
  have "answers (soc s) csi_tick_get_ms (\<lambda>tr r. tr = [] \<and> (\<exists>t. r = Ok t))" by (rule answers_tick) simp
  then obtain r e tr where "csi_tick_get_ms s = (r, s\<lparr>env := e, trace := trace s @ tr\<rparr>)" "tr = [] \<and> (\<exists>t. r = Ok t)"
    by (rule answersE) simp
  then obtain t where t: "csi_tick_get_ms s = (Ok t, s\<lparr>env := e\<rparr>)" by auto
  have b: "dev_reg_base (dev_objs (s\<lparr>env := e\<rparr>) iic) = b" using assms(1) by simp
  show ?thesis
    unfolding csi_iic_master_send_def bind_res_def [of csi_tick_get_ms] t Let_def using assms(2)
    by (intro exI [of _ "timeout + t"] exI [of _ e]) (simp add: bind_base [OF b])
qed

lemma send_short_effect:
  fixes s :: "'e iic_t"
  assumes "dev_reg_base (dev_objs s iic) = b" and "0 < sz" and "sz < IIC_MAX_FIFO" and "sz \<le> length buf"
  shows "\<exists>r e tr. csi_iic_master_send fuel iic devaddr buf sz timeout s = (r, s\<lparr>env := e, trace := trace s @ tr\<rparr>)
      \<and> r \<in> {Ok (int sz), Ok (err_num CSI_TIMEOUT), Hang} \<and> rd_at (b + IC_DATA_CMD) tr = []
      \<and> (r = Ok (int sz) \<longrightarrow> (\<exists>w. selects b devaddr w \<and> wr_list tr = w @ map (\<lambda>x. (b + IC_DATA_CMD, ucast x)) (take sz buf)))
      \<and> (r = Ok (err_num CSI_TIMEOUT) \<longrightarrow>
           wr_list tr = [] \<or> (\<exists>w. selects b devaddr w \<and> wr_list tr = w @ map (\<lambda>x. (b + IC_DATA_CMD, ucast x)) (take sz buf)))
      \<and> (ready (soc s) b 0 \<and> fuel > 0 \<longrightarrow> r = Ok (int sz))"
proof -
  obtain timecount e0 where u: "csi_iic_master_send fuel iic devaddr buf sz timeout s =
    send_body fuel b devaddr timeout timecount sz buf (s\<lparr>env := e0\<rparr>)"
    using send_unfold [OF assms(1,2)] by blast
  let ?m = "send_body fuel b devaddr timeout timecount sz buf"
  let ?s = "s\<lparr>env := e0\<rparr>" and ?bytes = "map (\<lambda>x. (b + IC_DATA_CMD, ucast x)) (take sz buf)"
  let ?Q = "\<lambda>tr r. r \<in> {Ok (int sz), Ok (err_num CSI_TIMEOUT), Hang} \<and> rd_at (b + IC_DATA_CMD) tr = []
      \<and> (r = Ok (int sz) \<longrightarrow> (\<exists>w. selects b devaddr w \<and> wr_list tr = w @ ?bytes))
      \<and> (r = Ok (err_num CSI_TIMEOUT) \<longrightarrow> wr_list tr = [] \<or> (\<exists>w. selects b devaddr w \<and> wr_list tr = w @ ?bytes))
      \<and> (ready (soc s) b 0 \<and> fuel > 0 \<longrightarrow> r = Ok (int sz))"
  have ne: "int sz \<noteq> err_num CSI_TIMEOUT" by (simp add: err_num_def)
  have "answers (soc s) ?m ?Q"
    by (rule answers_bind, rule answers_mono [OF answers_start [where k = 0]])
      (use ne in \<open>auto intro!: answers_ret answers_mono [OF answers_send_short [OF assms(2-4), where k = 0]]\<close>)
  moreover have "soc ?s = soc s" by simp
  ultimately obtain r e tr where run: "?m ?s = (r, ?s\<lparr>env := e, trace := trace ?s @ tr\<rparr>)" and post: "?Q tr r" by (rule answersE)
  have "?m ?s = (r, s\<lparr>env := e, trace := trace s @ tr\<rparr>)" using run by simp
  with post show ?thesis unfolding u by blast
qed

lemma send_long_effect:
  fixes s :: "'e iic_t"
  assumes "dev_reg_base (dev_objs s iic) = b" and "IIC_MAX_FIFO \<le> sz" and "\<forall>e. fst (reg_read (soc s) (b + IC_TXFLR) e) = 0" and "\<not> 8 dvd sz"
  shows "fst (csi_iic_master_send fuel iic devaddr buf sz timeout s) \<noteq> Ok (int sz)"
proof -
  have "0 < sz" using assms(2) by (simp add: IIC_MAX_FIFO_def)
  then obtain timecount e0 where u: "csi_iic_master_send fuel iic devaddr buf sz timeout s =
    send_body fuel b devaddr timeout timecount sz buf (s\<lparr>env := e0\<rparr>)"
    using send_unfold [OF assms(1)] by blast
  let ?m = "send_body fuel b devaddr timeout timecount sz buf" and ?s = "s\<lparr>env := e0\<rparr>"
  have "answers (soc s) ?m (\<lambda>tr r. r \<noteq> Ok (int sz))"
    by (rule answers_bind, rule answers_mono [OF answers_start [where k = 0]])
      (use assms in \<open>auto simp: err_num_def intro!: answers_ret answers_mono [OF answers_send_long]\<close>)
  moreover have "soc ?s = soc s" by simp
  ultimately obtain r e tr where "?m ?s = (r, ?s\<lparr>env := e, trace := trace ?s @ tr\<rparr>)" "r \<noteq> Ok (int sz)" by (rule answersE)
  then show ?thesis unfolding u by simp
qed

text \<open>
  C21: what sending a message to a chip does on the bus, whatever the controller answers. A message of less than eight bytes is reported as sent only
  after the chip has been selected while the controller was disabled and exactly the bytes of the message have been written in their order;
  otherwise the result is a timeout, and nothing or all of this has been written. On a controller that never makes the driver wait it is sent.
  A longer message whose length is not a multiple of eight is never reported as sent when the queue of the controller is
  empty at every turn: each turn takes eight bytes, also from behind the message.
\<close>

theorem iic_send_bytes:
  fixes s :: "'e iic_t"
  assumes "dev_reg_base (dev_objs s iic) = b" and "0 < sz" and "sz \<le> length buf"
  shows "if sz < IIC_MAX_FIFO
    then \<exists>r e tr. csi_iic_master_send fuel iic devaddr buf sz timeout s = (r, s\<lparr>env := e, trace := trace s @ tr\<rparr>)
      \<and> r \<in> {Ok (int sz), Ok (err_num CSI_TIMEOUT), Hang}
      \<and> (r = Ok (int sz) \<longrightarrow> (\<exists>w. selects b devaddr w \<and> wr_list tr = w @ map (\<lambda>x. (b + IC_DATA_CMD, ucast x)) (take sz buf)))
      \<and> (r = Ok (err_num CSI_TIMEOUT) \<longrightarrow>
           wr_list tr = [] \<or> (\<exists>w. selects b devaddr w \<and> wr_list tr = w @ map (\<lambda>x. (b + IC_DATA_CMD, ucast x)) (take sz buf)))
      \<and> (ready (soc s) b 0 \<and> fuel > 0 \<longrightarrow> r = Ok (int sz))
    else (\<forall>e. fst (reg_read (soc s) (b + IC_TXFLR) e) = 0) \<and> \<not> 8 dvd sz
      \<longrightarrow> fst (csi_iic_master_send fuel iic devaddr buf sz timeout s) \<noteq> Ok (int sz)"
proof (cases "sz < IIC_MAX_FIFO")
  case True
  from send_short_effect [OF assms(1,2) True assms(3), of fuel devaddr timeout] show ?thesis using True by (simp only: if_True) blast
next
  case False
  then show ?thesis using send_long_effect [OF assms(1), of sz fuel devaddr buf timeout] by simp
qed

text \<open>A controller all of whose registers read as zero.\<close>

definition sample_iic :: "(u32 \<Rightarrow> u32) iic_t" where
  "sample_iic =
     \<lparr>soc = sample_soc\<lparr>reg_read := \<lambda>a e. (0, e)\<rparr>, env = (\<lambda>_. 0), trace = [], g_chip_wakeup_flag = 0, enabled_irq_num = replicate 32 0, g_system_clock = 0,
      g_share_srame_clock = 0, g_sram_clk_div0_num = 0, g_sram_clk_div1_num = 0, g_aoi2c_ic_clk = 0, g_aonsys_clk_src_pll_div = 0,
      g_irq_nested_level = 0, g_irq_table = replicate 64 None,
      dev_objs = (\<lambda>_. \<lparr>dev_reg_base = 0xFFF4C000, irq_num = 32, dev_idx = 0, dev_dev_tag = DEV_DW_IIC_TAG, irq_handler = None\<rparr>),
      csi_coret_get_value = (\<lambda>e. (0, e)), csi_coret_get_valueh = (\<lambda>e. (0, e)),
      iic_handles = (\<lambda>_. \<lparr>iic_callback = False, iic_mode = IIC_MODE_MASTER, iic_tx_dma = False, iic_rx_dma = False, iic_send = False,
        iic_receive = False, iic_writeable = True, iic_readable = True, iic_error = False\<rparr>)\<rparr>"

theorem iic_send_bytes_witness:
  "(\<exists>e tr w. csi_iic_master_send 1 0 0x5a [0x11, 0x22] 2 10 sample_iic = (Ok 2, sample_iic\<lparr>env := e, trace := tr\<rparr>)
      \<and> selects 0xFFF4C000 0x5a w \<and> wr_list tr = w @ [(0xFFF4C010, 0x11), (0xFFF4C010, 0x22)])
   \<and> fst (csi_iic_master_send 9 0 0x5a (replicate 10 0) 10 10 sample_iic) \<noteq> Ok 10"
proof -
  have b: "dev_reg_base (dev_objs sample_iic 0) = 0xFFF4C000" and soc: "soc sample_iic = sample_soc\<lparr>reg_read := \<lambda>a e. (0, e)\<rparr>"
    and tr: "trace sample_iic = []" by (simp_all add: sample_iic_def)
  have rdy: "ready (soc sample_iic) 0xFFF4C000 0" by (simp add: soc ready_def)
  have "\<not> 8 dvd (10 :: nat)" by simp
  then show ?thesis
    using iic_send_bytes [where s = sample_iic and iic = 0 and buf = "[0x11, 0x22]" and sz = 2 and fuel = 1 and devaddr = "0x5a" and timeout = 10, OF b]
      iic_send_bytes [where s = sample_iic and iic = 0 and buf = "replicate 10 0" and sz = 10 and fuel = 9 and devaddr = "0x5a" and timeout = 10, OF b]
      rdy tr by (auto simp: IIC_MAX_FIFO_def IC_DATA_CMD_def soc)
qed

subsection \<open>Receiving\<close>

lemma answers_rx_bytes:
  "answers c (rx_bytes n b) (\<lambda>tr r. wr_list tr = [] \<and> (\<exists>vs. length vs = n \<and> rd_at (b + IC_DATA_CMD) tr = vs \<and> r = Ok (map ucast vs)))"
proof (induction n)
  case 0
  show ?case by (auto intro: answers_ret)
next
  case (Suc n)
  show ?case unfolding rx_bytes.simps dw_iic_receive_data_def bind_assoc
    by (auto intro!: answers_bind answers_get answers_ret answers_mono [OF Suc.IH])
qed

lemma answers_commands:
  "answers c (for_each xs (\<lambda>_. dw_iic_data_cmd b)) (\<lambda>tr r. r = Ok () \<and> rd_at (b + IC_DATA_CMD) tr = []
     \<and> wr_list tr = replicate (length xs) (b + IC_DATA_CMD, DW_IIC_DATA_CMD))"
  by (induction xs) (auto simp: dw_iic_data_cmd_def intro!: answers_intros elim: answers_mono)

text \<open>
  A request for less than eight bytes: they are returned only after as many read commands, and are what the controller then delivered.
\<close>

lemma answers_rx_short:
  "answers c (rx_short fuel b sz timeout) (\<lambda>tr r. (r = Hang \<or> r = Ok (err_num CSI_TIMEOUT, []) \<or>
      r = Ok (int sz, map ucast (rd_at (b + IC_DATA_CMD) tr)) \<and> length (rd_at (b + IC_DATA_CMD) tr) = sz)
    \<and> wr_list tr = replicate sz (b + IC_DATA_CMD, DW_IIC_DATA_CMD))"
  unfolding rx_short_def
  by (intro answers_bind answers_mono [OF answers_commands])
    (auto simp: quiet_def intro!: answers_bind answers_ret answers_mono [OF answers_waits(3)] answers_mono [OF answers_rx_bytes])

lemma answers_receive:
  fixes s :: "'e iic_t"
  assumes "dev_reg_base (dev_objs s iic) = b" and "0 < sz" and "sz < IIC_MAX_FIFO"
  shows "\<exists>r e tr. csi_iic_master_receive fuel iic devaddr sz timeout s = (r, s\<lparr>env := e, trace := trace s @ tr\<rparr>)
    \<and> (\<forall>bs. r = Ok (int sz, bs) \<longrightarrow> bs = map ucast (rd_at (b + IC_DATA_CMD) tr) \<and> length bs = sz
        \<and> (\<exists>w. selects b devaddr w \<and> wr_list tr = w @ replicate sz (b + IC_DATA_CMD, DW_IIC_DATA_CMD)))"
proof -
  let ?m = "bind_res (start_transfer fuel b devaddr timeout) (\<lambda>started. if \<not> started then ret (err_num CSI_TIMEOUT, []) else rx_short fuel b sz timeout)"
  have "csi_iic_master_receive fuel iic devaddr sz timeout s = ?m s"
    unfolding csi_iic_master_receive_def using assms by (simp add: bind_base [OF assms(1)])
  moreover have "answers (soc s) ?m (\<lambda>tr r. \<forall>bs. r = Ok (int sz, bs) \<longrightarrow> bs = map ucast (rd_at (b + IC_DATA_CMD) tr) \<and> length bs = sz
        \<and> (\<exists>w. selects b devaddr w \<and> wr_list tr = w @ replicate sz (b + IC_DATA_CMD, DW_IIC_DATA_CMD)))"
    by (rule answers_bind, rule answers_mono [OF answers_start [where k = 0]])
      (auto simp: err_num_def intro!: answers_ret answers_mono [OF answers_rx_short])
  ultimately show ?thesis using answers_run by simp
qed

end
