(* ===== verification/Pmic_Bus.thy ===== *)
theory Pmic_Bus
  imports Pmic_Iic Dw_Iic
begin

text \<open>
  The PMIC subsystem on the I2C driver: the bus functions of \<open>if_dev\<close> are those of \<open>Dw_Iic\<close>, so that the hardware state behind the PMIC handle is
  the state of the driver, and a register access of a PMIC driver is followed down to the registers of the controller.
\<close>

text \<open>
  The driver as \<^verbatim>\<open>pmic.c\<close> calls it. It waits 10 or 100 ms, which is the argument \<open>timeout\<close>. Every wait of the driver ends by the clock; a
  call that uses up its fuel counts as a timeout.
\<close>

definition dw_iic_if :: "nat \<Rightarrow> nat \<Rightarrow> u32 \<Rightarrow> 'e iic_t iic_if" where
  "dw_iic_if fuel iic timeout =
     \<lparr>iic_init = (\<lambda>i. csi_iic_init iic (ucast i)),
      iic_uninit = (\<lambda>d. snd (csi_iic_uninit iic d)),
      iic_mode_master = csi_iic_mode iic IIC_MODE_MASTER,
      iic_addr_mode = csi_iic_addr_mode iic,
      iic_speed = csi_iic_speed iic,
      iic_master_send = (\<lambda>a bs d. case csi_iic_master_send fuel iic (ucast a) bs (length bs) timeout d of
        (Ok n, d') \<Rightarrow> (n, d') | (_, d') \<Rightarrow> (err_num CSI_TIMEOUT, d')),
      iic_master_receive = (\<lambda>a n d. case csi_iic_master_receive fuel iic (ucast a) n timeout d of
        (Ok r, d') \<Rightarrow> (r, d') | (_, d') \<Rightarrow> ((err_num CSI_TIMEOUT, []), d')),
      iic_mem_receive = (\<lambda>a off wide n d.
        case csi_iic_mem_receive fuel iic (ucast a) (ucast off) (if wide then IIC_MEM_ADDR_SIZE_16BIT else IIC_MEM_ADDR_SIZE_8BIT) n timeout d of
          (Ok r, d') \<Rightarrow> (r, d') | (_, d') \<Rightarrow> ((err_num CSI_TIMEOUT, []), d'))\<rparr>"

lemma reg_addr_short: "reg_addr_bytes off \<noteq> []" "length (reg_addr_bytes off) \<le> 2"
  by (simp_all add: reg_addr_bytes_def)

abbreviation data_writes :: "u32 \<Rightarrow> u8 list \<Rightarrow> (u32 \<times> u32) list" where
  "data_writes b bs \<equiv> map (\<lambda>x. (b + IC_DATA_CMD, ucast x)) bs"

text \<open>A short message through the interface.\<close>

lemma bus_send_on_driver:
  fixes s :: "'e iic_t csi_pmic_t"
  assumes "if_dev s = dw_iic_if fuel iic timeout" "dev_reg_base (dev_objs (hw s) iic) = b" "bs \<noteq> []" "length bs < IIC_MAX_FIFO"
  shows "\<exists>n e tr. bus_send a bs s = (Ok n, s\<lparr>hw := (hw s)\<lparr>env := e, trace := trace (hw s) @ tr\<rparr>\<rparr>)
    \<and> (n = int (length bs) \<longrightarrow> rd_at (b + IC_DATA_CMD) tr = [] \<and> (\<exists>w. selects b (ucast a) w \<and> wr_list tr = w @ data_writes b bs))
    \<and> (ready (soc (hw s)) b 0 \<and> fuel > 0 \<longrightarrow> n = int (length bs))"
proof -
  have "0 < length bs" using assms(3) by simp
  from send_short_effect [OF assms(2) this assms(4) order_refl, of fuel "ucast a" timeout]
  obtain r e tr where send: "csi_iic_master_send fuel iic (ucast a) bs (length bs) timeout (hw s) = (r, (hw s)\<lparr>env := e, trace := trace (hw s) @ tr\<rparr>)"
    and r: "r \<in> {Ok (int (length bs)), Ok (err_num CSI_TIMEOUT), Hang}" and post: "rd_at (b + IC_DATA_CMD) tr = []"
      "r = Ok (int (length bs)) \<longrightarrow> (\<exists>w. selects b (ucast a) w \<and> wr_list tr = w @ data_writes b bs)"
      "ready (soc (hw s)) b 0 \<and> fuel > 0 \<longrightarrow> r = Ok (int (length bs))"
    by auto
  have ne: "err_num CSI_TIMEOUT \<noteq> int (length bs)" by (simp add: err_num_def)
  let ?n = "case r of Ok n \<Rightarrow> n | _ \<Rightarrow> err_num CSI_TIMEOUT"
  have "bus_send a bs s = (Ok ?n, s\<lparr>hw := (hw s)\<lparr>env := e, trace := trace (hw s) @ tr\<rparr>\<rparr>)"
    using r send by (auto simp: bus_send_def hw_act_def assms(1) dw_iic_if_def)
  moreover have "?n = int (length bs) \<longleftrightarrow> r = Ok (int (length bs))" using r ne by auto
  ultimately show ?thesis using post by (intro exI [of _ ?n] exI [of _ e] exI [of _ tr]) blast
qed

lemma bus_receive_on_driver:
  fixes s :: "'e iic_t csi_pmic_t"
  assumes "if_dev s = dw_iic_if fuel iic timeout" "dev_reg_base (dev_objs (hw s) iic) = b"
  shows "\<exists>n bs e tr. bus_receive a 1 s = (Ok (n, bs), s\<lparr>hw := (hw s)\<lparr>env := e, trace := trace (hw s) @ tr\<rparr>\<rparr>)
    \<and> (n = 1 \<longrightarrow> (\<exists>x w. bs = [ucast x] \<and> rd_at (b + IC_DATA_CMD) tr = [x] \<and> selects b (ucast a) w \<and> wr_list tr = w @ [(b + IC_DATA_CMD, DW_IIC_DATA_CMD)]))"
proof -
  have "(0 :: nat) < 1" "1 < IIC_MAX_FIFO" by (simp_all add: IIC_MAX_FIFO_def)
  from answers_receive [OF assms(2) this, of fuel "ucast a" timeout]
  obtain r e tr where rec: "csi_iic_master_receive fuel iic (ucast a) 1 timeout (hw s) = (r, (hw s)\<lparr>env := e, trace := trace (hw s) @ tr\<rparr>)"
    and post: "\<forall>bs. r = Ok (1, bs) \<longrightarrow> bs = map ucast (rd_at (b + IC_DATA_CMD) tr) \<and> length bs = 1
        \<and> (\<exists>w. selects b (ucast a) w \<and> wr_list tr = w @ [(b + IC_DATA_CMD, DW_IIC_DATA_CMD)])"
    by auto
  let ?r = "case r of Ok x \<Rightarrow> x | _ \<Rightarrow> (err_num CSI_TIMEOUT, [])"
  have bus: "bus_receive a 1 s = (Ok ?r, s\<lparr>hw := (hw s)\<lparr>env := e, trace := trace (hw s) @ tr\<rparr>\<rparr>)"
    using rec by (simp add: bus_receive_def hw_act_def assms(1) dw_iic_if_def split: res.splits)
  have "\<exists>x w. snd ?r = [ucast x] \<and> rd_at (b + IC_DATA_CMD) tr = [x] \<and> selects b (ucast a) w \<and> wr_list tr = w @ [(b + IC_DATA_CMD, DW_IIC_DATA_CMD)]"
    if "fst ?r = 1"
  proof -
    have "r = Ok (1, snd ?r)" using that by (cases r) (auto simp: err_num_def)
    with post have p: "snd ?r = map ucast (rd_at (b + IC_DATA_CMD) tr)" "length (snd ?r) = 1"
      "\<exists>w. selects b (ucast a) w \<and> wr_list tr = w @ [(b + IC_DATA_CMD, DW_IIC_DATA_CMD)]" by blast+
    then obtain x where "rd_at (b + IC_DATA_CMD) tr = [x]" by (cases "rd_at (b + IC_DATA_CMD) tr") auto
    with p show ?thesis by auto
  qed
  with bus show ?thesis by (intro exI [of _ "fst ?r"] exI [of _ "snd ?r"] exI [of _ e] exI [of _ tr]) auto
qed


text \<open>A PMIC handle on a controller all of whose registers read as zero.\<close>

definition sample_on_bus :: "(u32 \<Rightarrow> u32) iic_t csi_pmic_t" where
  "sample_on_bus =
     \<lparr>pmic_status = CSI_STATUS_PMIC_OK, if_dev = dw_iic_if 1 0 10,
      pmic_csi_gpio = \<lparr>gpio_init = (\<lambda>_. ret ()), gpio_dir_input = (\<lambda>_. ret ()), gpio_dir_output = (\<lambda>_. ret ()),
        gpio_irq_mode = (\<lambda>_ _. ret ()), gpio_irq_enable = (\<lambda>_ _. ret ()), gpio_attach_callback = ret (), gpio_write = (\<lambda>_ _. id),
        gpio_read = (\<lambda>_ _. 0)\<rparr>,
      dev_num = 0, pmic_devs = [], regu_num = 0, regu_list = [], hw_wdt_pmic_id = 0, wdt_ops = None,
      pmic_read_reg = True, pmic_write_reg = True, powerupflag = 0, drv_addr = (\<lambda>_. 0), hw = sample_iic\<rparr>"


end
