(* ===== verification/Aon_Sys.thy ===== *)
theory Aon_Sys
  imports Aon_State Pmic_Device
begin

text \<open>
  The reserved part of the SRAM in which the reboot reason is left (\<^verbatim>\<open>aon_sys/aon_sys.c\<close>) and the PMIC handle
  (\<^verbatim>\<open>aon_pmic/aon_pmic.c\<close>), which is the address of a static object and never NULL.
\<close>

definition AON_SRAM_BASE_ADDR :: u32 where "AON_SRAM_BASE_ADDR = 0xFFEF8000"
definition LIGHT_AON_SRAM_LEN :: u32 where "LIGHT_AON_SRAM_LEN = 0x10000"
definition LIGHT_AON_SRAM_RESERV :: u32 where "LIGHT_AON_SRAM_RESERV = LIGHT_AON_SRAM_LEN - 0x100"

definition CHIP_EVENT_PMIC_ONKEY :: u32 where "CHIP_EVENT_PMIC_ONKEY = 1"
definition CHIP_EVENT_SW_HANG :: u32 where "CHIP_EVENT_SW_HANG = 0x23"

definition SYS_FUNC_AON_RESERVE_MEM :: u8 where "SYS_FUNC_AON_RESERVE_MEM = 1"

definition set_aon_reservemem_addr :: "u32 \<Rightarrow> ('w, 'e, u8) aact" where
  "set_aon_reservemem_addr offset =
     (if offset \<ge> LIGHT_AON_SRAM_LEN \<or> offset < LIGHT_AON_SRAM_RESERV then ret AON_ERR_PARM
      else
        bind_res (upd_st (\<lambda>s. s\<lparr>aon_sram_reservemem_init := True, aon_sram_reservemem_addr := AON_SRAM_BASE_ADDR + offset\<rparr>)) (\<lambda>_.
        ret AON_ERR_NONE))"

definition set_aon_rebootmode :: "u32 \<Rightarrow> ('w, 'e, u8) aact" where
  "set_aon_rebootmode mode =
     bind_res (get_st (\<lambda>s. (aon_sram_reservemem_init s, aon_sram_reservemem_addr s))) (\<lambda>(ini, addr).
     if \<not> ini then ret AON_ERR_PARM
     else bind_res (put_ram addr (le_bytes mode)) (\<lambda>_. ret AON_ERR_NONE))"

definition check_aon_rebootmode :: "('w, 'e, u8) aact" where
  "check_aon_rebootmode =
     catch_err (on_pmic csi_pmic_get_powerup_flag) (\<lambda>r. case r of
       Inl _ \<Rightarrow> ret AON_ERR_FAIL
     | Inr up \<Rightarrow>
         bind_res (if up \<noteq> 0 then bind_res (set_aon_rebootmode CHIP_EVENT_PMIC_ONKEY) (\<lambda>_. ret ()) else ret ()) (\<lambda>_.
         ret AON_ERR_NONE))"

text \<open>The result of \<^verbatim>\<open>set_aon_reservemem_addr\<close> is overwritten before it is reported.\<close>

definition sys_dispatch :: "aon_rpc_msg_t \<Rightarrow> aon_rpc_msg_t \<Rightarrow> ('w, 'e, aon_rpc_msg_t) aact" where
  "sys_dispatch msg tx_msg =
     bind_res
       (if func msg = SYS_FUNC_AON_RESERVE_MEM then
          bind_res (set_aon_reservemem_addr (RPC_GET_BE32 (data msg) 0)) (\<lambda>_. check_aon_rebootmode)
        else ret AON_ERR_NOTFOUND) (\<lambda>result.
     ret (ack_head tx_msg 1 (RPC_GET_SVC_ID msg) (func msg) result))"

definition aon_sys_init :: "('w, 'e, unit) aact" where
  "aon_sys_init = aon_rpc_svc_cb_register AON_RPC_SVC_SYS SYS_DISPATCH"

end
