(* ===== verification/Aon_Pmic.thy ===== *)
theory Aon_Pmic
  imports Aon_State Pmic_Regulator Pmic_Device Pmic_Power
begin

text \<open>
  The power management service (\<^verbatim>\<open>aon_pmic/aon_pmic.c\<close>). Variables the code does not initialise, and output variables after a call
  that failed, are the parameter \<open>junk\<close> (three voltages and a word). The fuel bounds the loop of a voltage change and the sequences of power on and off.
\<close>

definition PM_FUNC_SET_RESOURCE_REGULATOR :: u8 where "PM_FUNC_SET_RESOURCE_REGULATOR = 1"
definition PM_FUNC_GET_RESOURCE_REGULATOR :: u8 where "PM_FUNC_GET_RESOURCE_REGULATOR = 2"
definition PM_FUNC_SET_RESOURCE_POWER_MODE :: u8 where "PM_FUNC_SET_RESOURCE_POWER_MODE = 3"
definition PM_FUNC_PWR_SET :: u8 where "PM_FUNC_PWR_SET = 4"
definition PM_FUNC_PWR_GET :: u8 where "PM_FUNC_PWR_GET = 5"
definition PM_FUNC_CHECK_FAULT :: u8 where "PM_FUNC_CHECK_FAULT = 6"
definition PM_FUNC_GET_TEMPERATURE :: u8 where "PM_FUNC_GET_TEMPERATURE = 7"

text \<open>
  The loop of \<^verbatim>\<open>set_each_hw_volatage\<close>: rail \<open>i\<close> gets field \<open>index\<close> of the message, and with its flag set the next
  rail the same voltage. The array has three entries; a store behind it is undefined.
\<close>

function each_hw_loop :: "u8 list \<Rightarrow> nat \<Rightarrow> u16 \<Rightarrow> nat \<Rightarrow> nat \<Rightarrow> u32 list \<Rightarrow> u32 list res" where
  "each_hw_loop d hw_num is_dualrail i index uv =
     (if i \<ge> hw_num then Ok uv
      else if i \<ge> length uv then Ub
      else
        let uv1 = uv[i := RPC_GET_BE32 d (4 + index * 4)] in
        if is_dualrail AND push_bit index 1 \<noteq> 0
        then (if i + 1 \<ge> length uv then Ub
              else each_hw_loop d hw_num is_dualrail (i + 2) (index + 1) (uv1[i + 1 := uv1 ! i]))
        else each_hw_loop d hw_num is_dualrail (i + 1) (index + 1) uv1)"
  by pat_completeness auto
termination by (relation "measure (\<lambda>(_, n, _, i, _). n - i)") auto

declare each_hw_loop.simps [simp del]

definition set_each_hw_volatage :: "aon_rpc_msg_t \<Rightarrow> nat \<Rightarrow> regu_voltage_param_t \<Rightarrow> ('w, 'e, regu_voltage_param_t) aact" where
  "set_each_hw_volatage msg hw_num regu_vol s =
     (case each_hw_loop (data msg) hw_num (RPC_GET_BE16 (data msg) 2) 0 0 (target_uv regu_vol) of
        Ok uv \<Rightarrow> (Ok (regu_vol\<lparr>target_uv := uv\<rparr>), s)
      | _ \<Rightarrow> (Ub, s))"

text \<open>The 16-bit id of a message is stored over a byte and its padding; the byte keeps the low half.\<close>

definition msg_regu_id :: "aon_rpc_msg_t \<Rightarrow> u8" where
  "msg_regu_id msg = ucast (RPC_GET_BE16 (data msg) 0)"

definition put_data :: "aon_rpc_msg_t \<Rightarrow> (u8 list \<Rightarrow> u8 list) \<Rightarrow> aon_rpc_msg_t" where
  "put_data m f = m\<lparr>data := f (data m)\<rparr>"

fun status_code :: "csi_pmic_status_en \<Rightarrow> u32" where
  "status_code CSI_STATUS_PMIC_NOT_INIT = 0"
| "status_code CSI_STATUS_PMIC_OK = 1"
| "status_code CSI_STATUS_PMIC_DEV_REG_ERR = 2"
| "status_code CSI_STATUS_PMIC_REGU_REG_ERR = 3"
| "status_code CSI_STATUS_PMIC_SOFT_POWER_CTRL_ERR = 4"
| "status_code CSI_STATUS_PMIC_IIC_CONFIG_ERR = 5"
| "status_code CSI_STATUS_PMIC_IIC_ERR = 6"

definition pmic_dispatch :: "nat \<Rightarrow> u32 list \<times> u32 \<Rightarrow> aon_rpc_msg_t \<Rightarrow> aon_rpc_msg_t \<Rightarrow> ('w, 'e, aon_rpc_msg_t) aact" where
  "pmic_dispatch fuel junk msg tx_msg =
     bind_res
       (if func msg = PM_FUNC_SET_RESOURCE_REGULATOR then
          bind_res
            (catch_err (on_pmic (pmic_get_regu_hw_id_num (ucast (msg_regu_id msg)))) (\<lambda>r. case r of
               Inl _ \<Rightarrow> ret AON_ERR_FAIL
             | Inr hw_num \<Rightarrow>
                 bind_res (set_each_hw_volatage msg hw_num \<lparr>rv_regu_ext_id = msg_regu_id msg, target_uv = fst junk\<rparr>) (\<lambda>regu_vol.
                 result_of (on_pmic (csi_pmic_regulator_set_voltage fuel regu_vol))))) (\<lambda>result.
          ret (1, result, tx_msg))
        else if func msg = PM_FUNC_GET_RESOURCE_REGULATOR then
          catch_err (on_pmic (csi_pmic_regulator_get_voltage \<lparr>rv_regu_ext_id = msg_regu_id msg, target_uv = fst junk\<rparr>)) (\<lambda>r.
          let (result, uv) = (case r of Inl _ \<Rightarrow> (AON_ERR_FAIL, fst junk) | Inr v \<Rightarrow> (AON_ERR_NONE, target_uv v)) in
          ret (13, result, put_data tx_msg (\<lambda>d. RPC_SET_BE32 (RPC_SET_BE32 d 5 (uv ! 0)) 9 (uv ! 1))))
        else if func msg = PM_FUNC_SET_RESOURCE_POWER_MODE then
          bind_res (chip_power_pd_ctrl (ucast (RPC_GET_BE16 (data msg) 0)) (ucast (RPC_GET_BE16 (data msg) 2))) (\<lambda>r.
          ret (1, if r < 0 then AON_ERR_FAIL else AON_ERR_NONE, tx_msg))
        else if func msg = PM_FUNC_PWR_SET then
          bind_res (result_of (on_pmic (csi_pmic_regulator_ctrl (msg_regu_id msg) (RPC_GET_BE16 (data msg) 2 \<noteq> 0)))) (\<lambda>result.
          ret (5, result, tx_msg))
        else if func msg = PM_FUNC_PWR_GET then
          catch_err (on_pmic (csi_pmic_regulator_is_enable (msg_regu_id msg))) (\<lambda>r.
          let (result, benable) = (case r of Inl _ \<Rightarrow> (AON_ERR_FAIL, snd junk) | Inr v \<Rightarrow> (AON_ERR_NONE, v)) in
          ret (5, result, put_data tx_msg (\<lambda>d. RPC_SET_BE16 (RPC_SET_BE16 d 1 (ucast (RPC_GET_BE16 (data msg) 0))) 3 benable)))
        else if func msg = PM_FUNC_CHECK_FAULT then
          bind_res (get_st (\<lambda>s. pmic_status (g_pmic s))) (\<lambda>st.
          bind_res
            (if status_code st \<noteq> 0
             then bind_res (upd_st (\<lambda>s. s\<lparr>g_pmic := (g_pmic s)\<lparr>pmic_status := CSI_STATUS_PMIC_OK\<rparr>\<rparr>)) (\<lambda>_. ret (status_code st))
             else ret (status_code CSI_STATUS_PMIC_OK)) (\<lambda>error_code.
          ret (5, AON_ERR_NONE, put_data tx_msg (\<lambda>d. RPC_SET_BE32 d 1 error_code))))
        else if func msg = PM_FUNC_GET_TEMPERATURE then
          catch_err (on_pmic csi_pmic_read_temperature) (\<lambda>r.
          let (result, val) = (case r of Inl _ \<Rightarrow> (AON_ERR_FAIL, snd junk) | Inr v \<Rightarrow> (AON_ERR_NONE, v)) in
          ret (9, result, put_data tx_msg (\<lambda>d. RPC_SET_BE32 (RPC_SET_BE32 d 1 (ucast (RPC_GET_U8 (data msg) 0))) 5 val)))
        else ret (1, AON_ERR_NOTFOUND, tx_msg)) (\<lambda>(ack_size, result, tx).
     ret (ack_head tx ack_size (RPC_GET_SVC_ID msg) (func msg) result))"

definition aon_pmic_init :: "nat \<Rightarrow> pmic_config_t \<Rightarrow> ('w, 'e, unit) aact" where
  "aon_pmic_init fuel aon_conf =
     bind_res (as_err CSI_ERROR (on_pmic (csi_pmic_init fuel aon_conf))) (\<lambda>_.
     aon_rpc_svc_cb_register AON_RPC_SVC_PM PMIC_DISPATCH)"

definition aon_pmic_poweroff :: "nat \<Rightarrow> ('w, 'e, unit) aact" where
  "aon_pmic_poweroff fuel = on_pmic (csi_pmic_soft_power_off fuel)"

subsection \<open>Where the voltages of a message go\<close>

lemma each_hw_step:
  "i < hw_num \<Longrightarrow> i < length uv \<Longrightarrow> each_hw_loop d hw_num dual i index uv =
     (let uv1 = uv[i := RPC_GET_BE32 d (4 + index * 4)] in
      if bit dual index
      then (if i + 1 \<ge> length uv then Ub else each_hw_loop d hw_num dual (i + 2) (index + 1) (uv1[i + 1 := uv1 ! i]))
      else each_hw_loop d hw_num dual (i + 1) (index + 1) uv1)"
  by (subst each_hw_loop.simps) (simp add: and_exp_eq_0_iff_not_bit Let_def)

lemma each_hw_end: "hw_num \<le> i \<Longrightarrow> each_hw_loop d hw_num dual i index uv = Ok uv"
  by (subst each_hw_loop.simps) simp

text \<open>
  C27: the voltages of a request with up to three rails. The store of the second rail of a pair leaves the array exactly when there are
  three rails and the flags pair the last one with a rail that does not exist; the code does not check this (a comment
  asks for it). In all other cases every rail gets a voltage of the message; without pairs rail \<open>i\<close> gets
  voltage \<open>i\<close>, and the entries behind the rails stay as they were.
\<close>

theorem set_each_hw_bounds:
  assumes "length (target_uv v) = 3" and "hw_num \<le> 3"
  shows "(fst (set_each_hw_volatage msg hw_num v s) = Ub \<longleftrightarrow>
      hw_num = 3 \<and> (let b = bit (RPC_GET_BE16 (data msg) 2) in b 0 \<and> b 1 \<or> \<not> b 0 \<and> \<not> b 1 \<and> b 2))
    \<and> (RPC_GET_BE16 (data msg) 2 = 0 \<longrightarrow>
      set_each_hw_volatage msg hw_num v s =
        (Ok (v\<lparr>target_uv := map (\<lambda>i. if i < hw_num then RPC_GET_BE32 (data msg) (4 + 4 * i) else target_uv v ! i) [0..<3]\<rparr>), s))
    \<and> (\<forall>w. set_each_hw_volatage msg hw_num v s = (Ok w, s) \<longrightarrow>
      set (take hw_num (target_uv w)) \<subseteq> (\<lambda>k. RPC_GET_BE32 (data msg) (4 + 4 * k)) ` {0, 1, 2})"
proof -
  obtain a b c where uv: "target_uv v = [a, b, c]"
    using assms(1) by (auto simp: length_Suc_conv numeral_eq_Suc)
  have up: "[0..<3] = [0, 1, 2]" by (simp add: upt_rec numeral_eq_Suc)
  have cases: "hw_num = 0 \<or> hw_num = 1 \<or> hw_num = 2 \<or> hw_num = 3" using assms(2) by auto
  have less: "i < 3 \<longleftrightarrow> i = 0 \<or> i = 1 \<or> i = (2 :: nat)" "i < 2 \<longleftrightarrow> i = 0 \<or> i = (1 :: nat)" for i by auto
  from cases show ?thesis
    by (elim disjE) (auto simp: set_each_hw_volatage_def uv up less each_hw_step each_hw_end Let_def numeral_eq_Suc)
qed

theorem set_each_hw_bounds_witness:
  "fst (set_each_hw_volatage (zero_msg\<lparr>data := [0, 7, 0, 4] @ replicate 20 0\<rparr>) 3 \<lparr>rv_regu_ext_id = 7, target_uv = [1, 2, 3]\<rparr> sample_aon) = Ub
    \<and> set_each_hw_volatage (zero_msg\<lparr>data := [0, 7, 0, 0, 0, 0, 0, 9] @ replicate 16 0\<rparr>) 1 \<lparr>rv_regu_ext_id = 7, target_uv = [1, 2, 3]\<rparr> sample_aon
      = (Ok \<lparr>rv_regu_ext_id = 7, target_uv = [9, 2, 3]\<rparr>, sample_aon)"
proof -
  let ?v = "\<lparr>rv_regu_ext_id = 7, target_uv = [1, 2, 3]\<rparr>"
  have up: "[0..<3] = [0, 1, 2]" by (simp add: upt_rec numeral_eq_Suc)
  have "bit (4 :: u16) 2" "\<not> bit (4 :: u16) 1" "\<not> bit (4 :: u16) 0" by simp_all
  then show ?thesis
    using set_each_hw_bounds [of ?v 3 "zero_msg\<lparr>data := [0, 7, 0, 4] @ replicate 20 0\<rparr>" sample_aon]
      set_each_hw_bounds [of ?v 1 "zero_msg\<lparr>data := [0, 7, 0, 0, 0, 0, 0, 9] @ replicate 16 0\<rparr>" sample_aon]
    by (simp add: RPC_GET_BE16_def RPC_GET_BE32_def up)
qed

end
