(* ===== verification/Chip_Wdt.thy ===== *)
theory Chip_Wdt
  imports Chip_Base
begin

text \<open>
  The watchdogs of the application and audio subsystems as the always-on domain sees them, and the system reset
  (\<^verbatim>\<open>csi/chips/thead/light_aon/wdt.c\<close>). A watchdog handle stands for the watchdog of its index.
\<close>

definition AON_WDT_RST_EN :: u32 where "AON_WDT_RST_EN = 2"

definition AON_WDT_RST_MSK_ALL :: u32 where
  "AON_WDT_RST_MSK_ALL = AON_WDT_RST_EN OR AUD_WDT_RST_EN OR AP_WDT0_RST_EN OR AP_WDT1_RST_EN"

text \<open>The indices of the table of watchdogs: \<^verbatim>\<open>APWDT0_INDEX\<close>, \<^verbatim>\<open>APWDT1_INDEX\<close>, \<^verbatim>\<open>AUDWDT_INDEX\<close>.\<close>

definition g_light_wdt_rsc :: "u8 list" where
  "g_light_wdt_rsc = [0, 1, 2]"

definition chip_wdt_clear_reset :: "('e, 'z, unit) cact" where
  "chip_wdt_clear_reset = CHIP_REG_SET 0xffffffff AONSYS_WDT_RESET_CLR"

definition chip_wdt_get_sta :: "('e, 'z, u32) cact" where
  "chip_wdt_get_sta = CHIP_REG_GET AONSYS_WDT_RESET_ST"

definition chip_wdt_disable_reset :: "('e, 'z, unit) cact" where
  "chip_wdt_disable_reset = clr_bits AON_WDT_RST_MSK_ALL AONSYS_WDT_RESET_EN"

definition chip_wdt_clear_timeout :: "('e, 'z, unit) cact" where
  "chip_wdt_clear_timeout = for_each g_light_wdt_rsc (\<lambda>i. soc_do (\<lambda>c. wdt_intr_clear c i))"

definition chip_wdt_init :: "('e, 'z, unit) cact" where
  "chip_wdt_init = for_each g_light_wdt_rsc (\<lambda>i. on_soc (\<lambda>c. wdt_init c i))"

fun check_timeout_loop :: "u8 list \<Rightarrow> u32 \<Rightarrow> ('e, 'z, u32) cact" where
  "check_timeout_loop [] idx = ret idx"
| "check_timeout_loop (i # is) idx =
     bind_res (soc_call (\<lambda>c. wdt_is_timeout c i)) (\<lambda>b.
     check_timeout_loop is (if b then idx OR push_bit (unat i) 1 else idx))"

definition chip_wdt_check_timeout :: "('e, 'z, u32) cact" where
  "chip_wdt_check_timeout = check_timeout_loop g_light_wdt_rsc 0"

definition system_reset :: "('e, 'z, unit) cact" where
  "system_reset = seqs [set_bits SW_GLB_RST_EN REG_RST_REQ_EN_0, CHIP_REG_SET SW_SYS_RST_REQ REG_SYS_RST_CFG]"

end
