(* ===== verification/Aon_Wdt.thy ===== *)
theory Aon_Wdt
  imports Aon_Misc Aon_Sys Aon_Pmic Chip_Wdt
begin

text \<open>
  The watchdog service (\<^verbatim>\<open>aon_wdt/aon_wdt.c\<close>): a timer of the always-on processor watches the watchdogs of the other
  subsystems and feeds the watchdog of the PMIC. When one of them has timed out, the next tick reboots the system.
\<close>

definition AON_WDT_PMIC_TMR_LEN :: u32 where "AON_WDT_PMIC_TMR_LEN = 32"
definition AON_WDT_DEF_MONITOR_TMR_LEN :: u8 where "AON_WDT_DEF_MONITOR_TMR_LEN = 4"

definition WDG_FUNC_WDG_START :: u8 where "WDG_FUNC_WDG_START = 1"
definition WDG_FUNC_WDG_STOP :: u8 where "WDG_FUNC_WDG_STOP = 2"
definition WDG_FUNC_WDG_PING :: u8 where "WDG_FUNC_WDG_PING = 3"
definition WDG_FUNC_WDG_TIMEOUTSET :: u8 where "WDG_FUNC_WDG_TIMEOUTSET = 4"
definition WDG_FUNC_WDG_RESTART :: u8 where "WDG_FUNC_WDG_RESTART = 5"
definition WDG_FUNC_WDG_GET_STATE :: u8 where "WDG_FUNC_WDG_GET_STATE = 6"
definition WDG_FUNC_WDG_POWER_OFF :: u8 where "WDG_FUNC_WDG_POWER_OFF = 7"
definition WDG_FUNC_AON_WDT_ON :: u8 where "WDG_FUNC_AON_WDT_ON = 8"
definition WDG_FUNC_AON_WDT_OFF :: u8 where "WDG_FUNC_AON_WDT_OFF = 9"

subsection \<open>The hardware watchdog\<close>

text \<open>A call on the handle of the watchdog; the PMIC functions dereference a NULL handle.\<close>

definition on_wdt_pmic :: "('w, 'a) pact \<Rightarrow> ('w, 'e, 'a) aact" where
  "on_wdt_pmic m = bind_res (get_st (\<lambda>s. pmic_handle (g_aon_wdt s))) (\<lambda>h. if h then on_pmic m else undef)"

definition aon_hw_wdt_set_time_len :: "u32 \<Rightarrow> ('w, 'e, unit) aact" where
  "aon_hw_wdt_set_time_len time_len =
     bind_res (get_st (\<lambda>s. hw_wdt_type (g_aon_wdt s))) (\<lambda>type.
     if type = AON_HW_WDT_USE_PMIC then on_wdt_pmic (csi_pmic_wdt_set_timer time_len) else ret ())"

text \<open>The state goes back to run when the watchdog is disabled; the result -1 is \<open>Err\<close>.\<close>

definition aon_hw_wdt_repower :: "nat \<Rightarrow> ('w, 'e, unit) aact" where
  "aon_hw_wdt_repower fuel =
     bind_res (get_st g_aon_wdt) (\<lambda>w.
     let unless_disabled = (\<lambda>m. if \<not> hw_wdt_en w then upd_wdt (\<lambda>w. w\<lparr>monitor_state := AON_WDT_MONITOR_RUN\<rparr>) else m);
         reset = bind_res system_reset (\<lambda>_. soc_do wait_for_interrupt)
     in case hw_wdt_type w of
          AON_HW_WDT_USE_PMIC \<Rightarrow> unless_disabled (on_wdt_pmic csi_pmic_repower)
        | AON_HW_WDT_SOFT_RST \<Rightarrow> unless_disabled reset
        | AON_HW_WDT_CRASH_DUMP \<Rightarrow> bind_res (aon_regdump_handler fuel) (\<lambda>_. unless_disabled reset)
        | AON_HW_WDT_USE_HW_WDT \<Rightarrow> fail CSI_ERROR)"

definition aon_hw_wdt_feed :: "('w, 'e, unit) aact" where
  "aon_hw_wdt_feed = on_wdt_pmic csi_pmic_wdt_feed"

definition aon_wdt_monitor_tmr_callback :: "nat \<Rightarrow> ('w, 'e, unit) aact" where
  "aon_wdt_monitor_tmr_callback fuel =
     bind_res (get_st (\<lambda>s. monitor_state (g_aon_wdt s))) (\<lambda>st.
     case st of
       AON_WDT_MONITOR_RUN \<Rightarrow>
         bind_res chip_wdt_check_timeout (\<lambda>idx.
         bind_res (upd_st (\<lambda>s. s\<lparr>monitor_index := idx\<rparr>)) (\<lambda>_.
         bind_res (if sint idx > 0 then upd_wdt (\<lambda>w. w\<lparr>monitor_state := AON_WDT_MONITOR_REPOWER\<rparr>) else ret ()) (\<lambda>_.
         bind_res (get_st g_aon_wdt) (\<lambda>w.
         if hw_wdt_type w = AON_HW_WDT_USE_PMIC \<and> hw_wdt_en w then ignore aon_hw_wdt_feed else ret ()))))
     | AON_WDT_MONITOR_REPOWER \<Rightarrow>
         bind_res (set_aon_rebootmode CHIP_EVENT_SW_HANG) (\<lambda>_. ignore (aon_hw_wdt_repower fuel))
     | AON_WDT_MONITOR_IDLE \<Rightarrow> ret ())"

definition aon_wdt_init_monitor_timer :: "u8 \<Rightarrow> ('w, 'e, unit) aact" where
  "aon_wdt_init_monitor_timer tmr_sec =
     bind_res (on_soc timer_init) (\<lambda>_.
     bind_res (upd_wdt (\<lambda>w. w\<lparr>monitor_tmr_len := tmr_sec\<rparr>)) (\<lambda>_.
     on_soc timer_attach))"

definition aon_hw_wdt_start :: "('w, 'e, unit) aact" where
  "aon_hw_wdt_start =
     bind_res (get_st g_aon_wdt) (\<lambda>w.
     if hw_wdt_en w then ret ()
     else
       catch_err (if hw_wdt_type w = AON_HW_WDT_USE_PMIC then on_wdt_pmic csi_pmic_wdt_start else ret ()) (\<lambda>r.
       bind_res (upd_wdt (\<lambda>w. w\<lparr>hw_wdt_en := True\<rparr>)) (\<lambda>_.
       case r of Inl e \<Rightarrow> fail e | Inr _ \<Rightarrow> ret ())))"

definition aon_hw_wdt_stop :: "('w, 'e, unit) aact" where
  "aon_hw_wdt_stop =
     bind_res (get_st g_aon_wdt) (\<lambda>w.
     if \<not> hw_wdt_en w then ret ()
     else
       catch_err (if hw_wdt_type w = AON_HW_WDT_USE_PMIC then on_wdt_pmic csi_pmic_wdt_stop else ret ()) (\<lambda>r.
       bind_res (upd_wdt (\<lambda>w. w\<lparr>hw_wdt_en := False\<rparr>)) (\<lambda>_.
       case r of Inl e \<Rightarrow> fail e | Inr _ \<Rightarrow> ret ())))"

subsection \<open>The monitor\<close>

definition aon_wdt_start :: "('w, 'e, unit) aact" where
  "aon_wdt_start =
     bind_res (get_st g_aon_wdt) (\<lambda>w.
     if monitor_state w \<noteq> AON_WDT_MONITOR_IDLE then ret ()
     else
       bind_res (on_soc (\<lambda>c. timer_start c (ucast (monitor_tmr_len w) * 1000000))) (\<lambda>_.
       catch_err (aon_hw_wdt_set_time_len AON_WDT_PMIC_TMR_LEN) (\<lambda>r. case r of
         Inl e \<Rightarrow> bind_res (soc_do timer_stop) (\<lambda>_. fail e)
       | Inr _ \<Rightarrow>
           bind_res (upd_wdt (\<lambda>w. w\<lparr>monitor_state := AON_WDT_MONITOR_RUN\<rparr>)) (\<lambda>_.
           bind_res chip_wdt_get_sta (\<lambda>sta.
           bind_res (upd_st (\<lambda>s. s\<lparr>last_wdt_stat := sta\<rparr>)) (\<lambda>_.
           seqs [chip_wdt_clear_reset, chip_wdt_clear_timeout, chip_wdt_disable_reset]))))))"

definition aon_wdt_stop :: "('w, 'e, unit) aact" where
  "aon_wdt_stop =
     bind_res (get_st g_aon_wdt) (\<lambda>w.
     if monitor_state w = AON_WDT_MONITOR_REPOWER then ret ()
     else seqs [ignore aon_hw_wdt_stop, soc_do timer_stop, upd_wdt (\<lambda>w. w\<lparr>monitor_state := AON_WDT_MONITOR_IDLE\<rparr>)])"

definition wdg_dispatch :: "nat \<Rightarrow> aon_rpc_msg_t \<Rightarrow> aon_rpc_msg_t \<Rightarrow> ('w, 'e, aon_rpc_msg_t) aact" where
  "wdg_dispatch fuel msg tx_msg =
     bind_res
       (if func msg = WDG_FUNC_WDG_GET_STATE then
          ret (9, AON_ERR_NONE, put_data tx_msg (\<lambda>d. RPC_SET_BE32 (RPC_SET_BE32 d 1 0) 5 0))
        else if func msg = WDG_FUNC_WDG_START then bind_res (result_of aon_wdt_start) (\<lambda>r. ret (1, r, tx_msg))
        else if func msg = WDG_FUNC_WDG_STOP then bind_res (result_of aon_wdt_stop) (\<lambda>r. ret (1, r, tx_msg))
        else if func msg = WDG_FUNC_WDG_PING then bind_res (result_of aon_hw_wdt_feed) (\<lambda>r. ret (1, r, tx_msg))
        else if func msg = WDG_FUNC_WDG_TIMEOUTSET then
          bind_res (result_of (aon_hw_wdt_set_time_len (RPC_GET_BE32 (data msg) 0))) (\<lambda>r. ret (1, r, tx_msg))
        else if func msg = WDG_FUNC_WDG_RESTART then bind_res system_reset (\<lambda>_. ret (0, AON_ERR_NONE, tx_msg))
        else if func msg = WDG_FUNC_WDG_POWER_OFF then
          bind_res (ignore (aon_pmic_poweroff fuel)) (\<lambda>_. ret (0, AON_ERR_NONE, tx_msg))
        else if func msg = WDG_FUNC_AON_WDT_ON then bind_res (result_of aon_hw_wdt_start) (\<lambda>r. ret (1, r, tx_msg))
        else if func msg = WDG_FUNC_AON_WDT_OFF then bind_res (result_of aon_hw_wdt_stop) (\<lambda>r. ret (1, r, tx_msg))
        else ret (1, AON_ERR_NOTFOUND, tx_msg)) (\<lambda>(ack_size, result, tx).
     ret (ack_head tx ack_size (RPC_GET_SVC_ID msg) (func msg) result))"

definition aon_wdt_init :: "aon_hw_wdt_en \<Rightarrow> ('w, 'e, unit) aact" where
  "aon_wdt_init type =
     bind_res (get_st (\<lambda>s. is_init (g_aon_wdt s))) (\<lambda>ini.
     if ini then ret ()
     else
       bind_res (aon_wdt_init_monitor_timer AON_WDT_DEF_MONITOR_TMR_LEN) (\<lambda>_.
       bind_res chip_wdt_init (\<lambda>_.
       bind_res
         (if type = AON_HW_WDT_USE_PMIC then
            bind_res (upd_wdt (\<lambda>w. w\<lparr>pmic_handle := True\<rparr>)) (\<lambda>_.
            bind_res (as_err CSI_ERROR (on_wdt_pmic csi_pmic_get_autoboot_flag)) (\<lambda>autoboot_ena.
            ret (if autoboot_ena = 0 then AON_HW_WDT_SOFT_RST else type)))
          else ret type) (\<lambda>type.
       bind_res (upd_wdt (\<lambda>w. w\<lparr>monitor_state := AON_WDT_MONITOR_IDLE, is_init := True, hw_wdt_en := False, hw_wdt_type := type\<rparr>)) (\<lambda>_.
       aon_rpc_svc_cb_register AON_RPC_SVC_WDG WDG_DISPATCH)))))"

subsection \<open>Frame: what leaves the monitor alone\<close>

text \<open>
  A predicate that does not look at the hardware, the memory and the registers of the dump. The functions
  that only work on those keep it.
\<close>

named_theorems wdt_frame "actions that do not touch the watchdog monitor"

locale bystander =
  fixes P :: "('w, 'e) aon_t \<Rightarrow> bool"
  assumes env_irrelevant: "P s \<Longrightarrow> P (s\<lparr>env := e\<rparr>)"
    and trace_irrelevant: "P s \<Longrightarrow> P (s\<lparr>trace := tr\<rparr>)"
    and ram_irrelevant: "P s \<Longrightarrow> P (s\<lparr>ram := m\<rparr>)"
    and reginfo_irrelevant: "P s \<Longrightarrow> P (s\<lparr>g_reginfo := r\<rparr>)"
    and map_irrelevant: "P s \<Longrightarrow> P (s\<lparr>g_map := mp\<rparr>)"
    and status_irrelevant: "P s \<Longrightarrow> P (s\<lparr>monitor_index := i\<rparr>)" "P s \<Longrightarrow> P (s\<lparr>last_wdt_stat := i\<rparr>)"
begin

lemma frame_basic [wdt_frame]:
  "keeps P (CHIP_REG_GET reg)" "keeps P (CHIP_REG_SET v reg)" "keeps P (reg_modify f reg)"
  "keeps P (on_soc h)" "keeps P (soc_do k)" "keeps P (soc_call l)" "keeps P (put_ram b bs)"
  using trace_irrelevant [OF env_irrelevant]
  by (auto simp: keeps_def act_defs CHIP_REG_GET_def CHIP_REG_SET_def reg_modify_def put_ram_def
      intro: env_irrelevant ram_irrelevant split: prod.splits)

lemma frame_upd [wdt_frame]:
  "keeps P (upd_st (\<lambda>s. s\<lparr>monitor_index := i\<rparr>))" "keeps P (upd_st (\<lambda>s. s\<lparr>last_wdt_stat := i\<rparr>))"
  by (auto intro!: keeps_rules status_irrelevant)

lemma frame_chip [wdt_frame]:
  "keeps P chip_wdt_clear_reset" "keeps P chip_wdt_get_sta" "keeps P chip_wdt_disable_reset"
  "keeps P chip_wdt_clear_timeout" "keeps P chip_wdt_init" "keeps P system_reset"
  unfolding chip_wdt_clear_reset_def chip_wdt_get_sta_def chip_wdt_disable_reset_def chip_wdt_clear_timeout_def chip_wdt_init_def system_reset_def
  by (auto intro!: keeps_rules frame_basic keeps_seqs)

lemma frame_check [wdt_frame]: "keeps P chip_wdt_check_timeout"
proof -
  have "keeps P (check_timeout_loop l i)" for l i
    by (induction l arbitrary: i) (auto intro!: keeps_rules frame_basic)
  then show ?thesis by (simp add: chip_wdt_check_timeout_def)
qed

lemma frame_reboot [wdt_frame]: "keeps P (set_aon_rebootmode mode)"
  unfolding set_aon_rebootmode_def by (auto intro!: keeps_rules frame_basic split: prod.splits)

lemma frame_active [wdt_frame]: "keeps P (ip_is_active name)"
  unfolding ip_is_active_def ip_clk_is_active_def ip_pd_is_active_def
  by (auto intro!: keeps_rules frame_basic split: option.splits prod.splits)

lemma frame_dump [wdt_frame]: "keeps P (aon_regdump_handler fuel)"
proof -
  have wr: "keeps P (rd_reg_write a c l mv)" for a c l mv
    unfolding rd_reg_write_def Let_def by (auto intro!: keeps_rules frame_basic)
  have fl: "keeps P (fill_regs n src info line)" for n src info line
    by (induction n arbitrary: src line) (auto intro!: keeps_rules frame_basic split: option.splits)
  have ln: "keeps P (rd_reg_fillline d src n info)" for d src n info
    unfolding rd_reg_fillline_def Let_def by (auto intro!: keeps_rules frame_basic fl split: prod.splits)
  have ls: "keeps P (set_mem_lines n d src info)" for n d src info
    by (induction n arbitrary: d src) (auto intro!: keeps_rules ln split: prod.splits)
  have mm: "keeps P (rd_set_mem ri d)" for ri d
    unfolding rd_set_mem_def Let_def by (auto intro!: keeps_rules frame_active wr ln ls split: prod.splits)
  have cf: "keeps P (rd_read_cfg a n)" for a n
    unfolding rd_read_cfg_def by (auto intro!: keeps_rules reginfo_irrelevant split: prod.splits)
  have lp: "keeps P (regdump_loop n sg cfg d)" for n sg cfg d
    by (induction n arbitrary: cfg d) (auto intro!: keeps_rules wr mm cf split: sum.splits)
  show ?thesis unfolding aon_regdump_handler_def Let_def by (auto intro!: keeps_rules map_irrelevant wr lp)
qed

end

lemma check_timeout_only_env: "\<exists>idx e. chip_wdt_check_timeout s = (Ok idx, s\<lparr>env := e\<rparr>)"
proof -
  have "\<exists>idx e. check_timeout_loop l i s = (Ok idx, s\<lparr>env := e\<rparr>)" for l i and s :: "('e, 'z) chip_t_scheme"
  proof (induction l arbitrary: i s)
    case Nil
    show ?case by (intro exI [of _ i] exI [of _ "env s"]) (simp add: ret_def)
  next
    case (Cons j l)
    obtain b e where b: "wdt_is_timeout (soc s) j (env s) = (b, e)" by fastforce
    obtain idx e' where "check_timeout_loop l (if b then i OR push_bit (unat j) 1 else i) (s\<lparr>env := e\<rparr>) = (Ok idx, s\<lparr>env := e\<rparr>\<lparr>env := e'\<rparr>)"
      using Cons.IH by blast
    then show ?case using b by (intro exI [of _ idx] exI [of _ e']) (simp add: bind_res_def soc_call_def)
  qed
  then show ?thesis unfolding chip_wdt_check_timeout_def .
qed

text \<open>What is said of the watchdog monitor alone is such a predicate, and calls into the PMIC keep it too.\<close>

interpretation wdt: bystander "\<lambda>s. Q (g_aon_wdt s)" for Q
  by unfold_locales simp_all

lemma wdt_frame_pmic [wdt_frame]:
  "keeps (\<lambda>s. Q (g_aon_wdt s)) (on_pmic m)" "keeps (\<lambda>s. Q (g_aon_wdt s)) (on_wdt_pmic m)"
  "keeps (\<lambda>s. Q (g_aon_wdt s)) (aon_hw_wdt_set_time_len len)" "keeps (\<lambda>s. Q (g_aon_wdt s)) aon_hw_wdt_feed"
proof -
  show pm: "keeps (\<lambda>s. Q (g_aon_wdt s)) (on_pmic m)" for Q m by (simp add: keeps_def on_pmic_def split: prod.splits)
  show wp: "keeps (\<lambda>s. Q (g_aon_wdt s)) (on_wdt_pmic m)" for Q m unfolding on_wdt_pmic_def by (auto intro!: keeps_rules pm)
  show "keeps (\<lambda>s. Q (g_aon_wdt s)) (aon_hw_wdt_set_time_len len)" "keeps (\<lambda>s. Q (g_aon_wdt s)) aon_hw_wdt_feed"
    unfolding aon_hw_wdt_set_time_len_def aon_hw_wdt_feed_def by (auto intro!: keeps_rules wp)
qed

lemma keeps_upd_wdt: "(\<And>w. Q w \<Longrightarrow> Q (f w)) \<Longrightarrow> keeps (\<lambda>s. Q (g_aon_wdt s)) (upd_wdt f)"
  by (simp add: keeps_def upd_wdt_def upd_st_def)

lemma wdt_unchanged: "(\<And>Q. keeps (\<lambda>s. Q (g_aon_wdt s)) m) \<Longrightarrow> g_aon_wdt (snd (m s)) = g_aon_wdt s"
  by (drule meta_spec [where x = "\<lambda>w. w = g_aon_wdt s"]) (simp add: keeps_def)

lemmas wdt_keeps = keeps_rules wdt_frame keeps_ignore keeps_upd_wdt keeps_seqs

abbreviation wdt_at :: "aon_wdt_t \<Rightarrow> ('w, 'e) aon_t \<Rightarrow> bool" where
  "wdt_at w s \<equiv> g_aon_wdt s = w"

subsection \<open>The state machine of the monitor\<close>

text \<open>What can happen to the monitor: timer ticks, the functions of the watchdog service, and the configuration of the register dump.\<close>

datatype wdt_event = Tick nat | Start | Stop | Hw_Start | Hw_Stop | Ping | Set_Len u32 | Dump_Cfg u32 u32 u32

definition wdt_act :: "wdt_event \<Rightarrow> ('w, 'e, unit) aact" where
  "wdt_act ev =
     (case ev of
        Tick fuel \<Rightarrow> aon_wdt_monitor_tmr_callback fuel
      | Start \<Rightarrow> aon_wdt_start
      | Stop \<Rightarrow> aon_wdt_stop
      | Hw_Start \<Rightarrow> aon_hw_wdt_start
      | Hw_Stop \<Rightarrow> aon_hw_wdt_stop
      | Ping \<Rightarrow> aon_hw_wdt_feed
      | Set_Len len \<Rightarrow> aon_hw_wdt_set_time_len len
      | Dump_Cfg a off sz \<Rightarrow> bind_res (rd_init a off sz) (\<lambda>_. upd_wdt (\<lambda>w. w\<lparr>hw_wdt_type := AON_HW_WDT_CRASH_DUMP\<rparr>)))"

text \<open>The transitions the monitor is meant to make; the flag says whether the hardware watchdog is enabled.\<close>

inductive wdt_trans :: "bool \<Rightarrow> aont_fsm_t \<Rightarrow> wdt_event \<Rightarrow> aont_fsm_t \<Rightarrow> bool" where
  stay: "wdt_trans en st ev st"
| start: "wdt_trans en AON_WDT_MONITOR_IDLE Start AON_WDT_MONITOR_RUN"
| stop: "wdt_trans en AON_WDT_MONITOR_RUN Stop AON_WDT_MONITOR_IDLE"
| timeout: "wdt_trans en AON_WDT_MONITOR_RUN (Tick n) AON_WDT_MONITOR_REPOWER"
| disabled: "wdt_trans False AON_WDT_MONITOR_REPOWER (Tick n) AON_WDT_MONITOR_RUN"

inductive_simps wdt_trans_repower: "wdt_trans en AON_WDT_MONITOR_REPOWER ev st"

abbreviation mon :: "('w, 'e) aon_t \<Rightarrow> aont_fsm_t" where
  "mon s \<equiv> monitor_state (g_aon_wdt s)"

abbreviation mon_in :: "aont_fsm_t set \<Rightarrow> ('w, 'e) aon_t \<Rightarrow> bool" where
  "mon_in S s \<equiv> monitor_state (g_aon_wdt s) \<in> S"

lemma hw_start_keeps: "keeps (mon_in S) aon_hw_wdt_start"
  unfolding aon_hw_wdt_start_def by (auto intro!: wdt_keeps keeps_upd_wdt [where Q = "\<lambda>w. monitor_state w \<in> S"] split: sum.splits)

lemma hw_stop_keeps: "keeps (mon_in S) aon_hw_wdt_stop"
  unfolding aon_hw_wdt_stop_def by (auto intro!: wdt_keeps keeps_upd_wdt [where Q = "\<lambda>w. monitor_state w \<in> S"] split: sum.splits)

lemma keeps_mon: "keeps (mon_in S) m \<Longrightarrow> mon s \<in> S \<Longrightarrow> mon (snd (m s)) \<in> S"
  by (simp add: keeps_def)

lemma repower_enabled: "hw_wdt_en w \<Longrightarrow> keeps (wdt_at w) (aon_hw_wdt_repower fuel)"
proof -
  assume en: "hw_wdt_en w"
  have "keeps (wdt_at w)
      (case hw_wdt_type w of
          AON_HW_WDT_USE_PMIC \<Rightarrow> on_wdt_pmic csi_pmic_repower
        | AON_HW_WDT_SOFT_RST \<Rightarrow> bind_res system_reset (\<lambda>_. soc_do wait_for_interrupt)
        | AON_HW_WDT_CRASH_DUMP \<Rightarrow> bind_res (aon_regdump_handler fuel) (\<lambda>_. bind_res system_reset (\<lambda>_. soc_do wait_for_interrupt))
        | AON_HW_WDT_USE_HW_WDT \<Rightarrow> fail CSI_ERROR)"
    by (cases "hw_wdt_type w") (auto intro!: keeps_rules wdt_frame)
  then show ?thesis
    using en unfolding aon_hw_wdt_repower_def Let_def keeps_def by (simp add: bind_res_def get_st_def cong: aon_hw_wdt_en.case_cong)
qed

lemma repower_keeps: "keeps (mon_in {AON_WDT_MONITOR_REPOWER, AON_WDT_MONITOR_RUN}) (aon_hw_wdt_repower fuel)"
  unfolding aon_hw_wdt_repower_def Let_def
  by (auto intro!: wdt_keeps keeps_upd_wdt [where Q = "\<lambda>w. monitor_state w \<in> {AON_WDT_MONITOR_REPOWER, AON_WDT_MONITOR_RUN}"]
      split: aon_hw_wdt_en.splits)

lemma start_keeps: "keeps (mon_in {AON_WDT_MONITOR_IDLE, AON_WDT_MONITOR_RUN}) aon_wdt_start"
  unfolding aon_wdt_start_def
  by (auto intro!: wdt_keeps keeps_upd_wdt [where Q = "\<lambda>w. monitor_state w \<in> {AON_WDT_MONITOR_IDLE, AON_WDT_MONITOR_RUN}"]
      split: sum.splits)

lemma stop_keeps: "AON_WDT_MONITOR_IDLE \<in> S \<Longrightarrow> keeps (mon_in S) aon_wdt_stop"
  unfolding aon_wdt_stop_def
  by (auto intro!: wdt_keeps hw_stop_keeps keeps_upd_wdt [where Q = "\<lambda>w. monitor_state w \<in> S"] )

lemma tick_run:
  assumes "mon s = AON_WDT_MONITOR_RUN"
  shows "mon (snd (aon_wdt_monitor_tmr_callback fuel s)) \<in> {AON_WDT_MONITOR_RUN, AON_WDT_MONITOR_REPOWER}"
proof -
  let ?S = "{AON_WDT_MONITOR_RUN, AON_WDT_MONITOR_REPOWER}"
  have "keeps (mon_in ?S)
      (bind_res chip_wdt_check_timeout (\<lambda>idx.
         bind_res (upd_st (\<lambda>s. s\<lparr>monitor_index := idx\<rparr>)) (\<lambda>_.
         bind_res (if sint idx > 0 then upd_wdt (\<lambda>w. w\<lparr>monitor_state := AON_WDT_MONITOR_REPOWER\<rparr>) else ret ()) (\<lambda>_.
         bind_res (get_st g_aon_wdt) (\<lambda>w.
         if hw_wdt_type w = AON_HW_WDT_USE_PMIC \<and> hw_wdt_en w then ignore aon_hw_wdt_feed else ret ())))))"
    by (auto intro!: wdt_keeps  keeps_upd_wdt [where Q = "\<lambda>w. monitor_state w \<in> ?S"])
  from keeps_mon [OF this, of s] assms show ?thesis
    by (simp add: aon_wdt_monitor_tmr_callback_def bind_res_def [of "get_st _"] get_st_def [of _ s])
qed

lemma tick_repower:
  fixes s :: "('w, 'e) aon_t"
  assumes "mon s = AON_WDT_MONITOR_REPOWER"
  shows "mon (snd (aon_wdt_monitor_tmr_callback fuel s))
      \<in> {AON_WDT_MONITOR_REPOWER} \<union> (if hw_wdt_en (g_aon_wdt s) then {} else {AON_WDT_MONITOR_RUN})"
proof -
  let ?m = "bind_res (set_aon_rebootmode CHIP_EVENT_SW_HANG) (\<lambda>_. ignore (aon_hw_wdt_repower fuel)) :: ('w, 'e, unit) aact"
  have eq: "aon_wdt_monitor_tmr_callback fuel s = ?m s"
    using assms by (simp add: aon_wdt_monitor_tmr_callback_def bind_res_def [of "get_st _"] get_st_def [of _ s])
  show ?thesis
  proof (cases "hw_wdt_en (g_aon_wdt s)")
    case True
    then have "keeps (wdt_at (g_aon_wdt s)) ?m" by (intro keeps_rules keeps_ignore wdt_frame repower_enabled)
    then have "g_aon_wdt (snd (?m s)) = g_aon_wdt s" by (rule keepsD) simp
    with eq assms True show ?thesis by simp
  next
    case False
    have "keeps (mon_in {AON_WDT_MONITOR_REPOWER, AON_WDT_MONITOR_RUN}) ?m"
      by (intro wdt_keeps  repower_keeps)
    from keeps_mon [OF this, of s] eq assms False show ?thesis by auto
  qed
qed


subsection \<open>The watchdog of the PMIC and the register dump\<close>

text \<open>The PMIC handle as it was, with the monitor configured for crash dumps.\<close>

abbreviation cut_off :: "'w csi_pmic_t \<Rightarrow> ('w, 'e) aon_t \<Rightarrow> bool" where
  "cut_off p s \<equiv> g_pmic s = p \<and> hw_wdt_type (g_aon_wdt s) = AON_HW_WDT_CRASH_DUMP"

interpretation cut: bystander "cut_off p" for p
  by unfold_locales simp_all

definition run_wdt :: "wdt_event list \<Rightarrow> ('w, 'e) aon_t \<Rightarrow> ('w, 'e) aon_t" where
  "run_wdt evs s = fold (\<lambda>ev s. snd (wdt_act ev s)) evs s"

lemma cut_upd_wdt: "(\<And>w. hw_wdt_type (f w) = hw_wdt_type w) \<Longrightarrow> keeps (cut_off p) (upd_wdt f)"
  by (simp add: keeps_def upd_wdt_def upd_st_def)

lemmas cut_keeps = keeps_rules keeps_ignore keeps_seqs cut_upd_wdt cut.frame_basic cut.frame_upd cut.frame_chip cut.frame_check
  cut.frame_reboot cut.frame_dump

text \<open>A step that depends on the type of the watchdog only has to be looked at for the type it has here.\<close>

lemma cut_get:
  "(\<And>w. hw_wdt_type w = AON_HW_WDT_CRASH_DUMP \<Longrightarrow> keeps (cut_off p) (f w)) \<Longrightarrow> keeps (cut_off p) (bind_res (get_st g_aon_wdt) f)"
  by (simp add: keeps_def bind_res_def get_st_def)

lemma cut_type:
  "keeps (cut_off p) (f AON_HW_WDT_CRASH_DUMP) \<Longrightarrow> keeps (cut_off p) (bind_res (get_st (\<lambda>s. hw_wdt_type (g_aon_wdt s))) f)"
  by (simp add: keeps_def bind_res_def get_st_def)

lemma cut_set_len: "keeps (cut_off p) (aon_hw_wdt_set_time_len len)"
  unfolding aon_hw_wdt_set_time_len_def by (rule cut_type) (simp add: keeps_rules)

lemma cut_repower: "keeps (cut_off p) (aon_hw_wdt_repower fuel)"
  unfolding aon_hw_wdt_repower_def Let_def by (rule cut_get) (auto intro!: cut_keeps)

lemma cut_tick: "keeps (cut_off p) (aon_wdt_monitor_tmr_callback fuel)"
  unfolding aon_wdt_monitor_tmr_callback_def
  by (auto intro!: cut_keeps cut_repower cut_get split: aont_fsm_t.splits)

lemma cut_hw: "keeps (cut_off p) aon_hw_wdt_start" "keeps (cut_off p) aon_hw_wdt_stop"
  unfolding aon_hw_wdt_start_def aon_hw_wdt_stop_def by (rule cut_get; auto intro!: cut_keeps split: sum.splits)+

lemma cut_start: "keeps (cut_off p) aon_wdt_start"
  unfolding aon_wdt_start_def by (auto intro!: cut_keeps cut_set_len split: sum.splits)

lemma cut_stop: "keeps (cut_off p) aon_wdt_stop"
  unfolding aon_wdt_stop_def by (auto intro!: cut_keeps cut_hw)

lemma cut_event: "ev \<noteq> Ping \<Longrightarrow> keeps (cut_off p) (wdt_act ev)"
proof (cases ev)
  case (Dump_Cfg a off sz)
  then show ?thesis by (simp add: wdt_act_def keeps_def rd_init_def act_defs)
qed (simp_all add: wdt_act_def cut_tick cut_start cut_stop cut_hw cut_set_len)


definition sample_watched :: "(sample_hw, u32 \<Rightarrow> u32) aon_t" where
  "sample_watched = sample_aon\<lparr>g_aon_wdt := \<lparr>is_init = True, hw_wdt_en = True, monitor_state = AON_WDT_MONITOR_RUN, monitor_tmr_len = 4,
     hw_wdt_type = AON_HW_WDT_USE_PMIC, pmic_handle = True\<rparr>\<rparr>"


end
