(* ===== verification/Aon_Sleep.thy ===== *)
theory Aon_Sleep
  imports Chip_Sleep Chip_Domains Aon_State Pmic_Regulator "HOL-Library.Sublist"
begin

text \<open>
  System sleep and wake-up with the PMIC (\<^verbatim>\<open>csi/chips/thead/light_aon/power.c\<close>) and the low power service
  (\<^verbatim>\<open>aon_lowpower/aon_lpm.c\<close>). A PMIC pointer is \<open>True\<close> when it points to \<^verbatim>\<open>g_pmic\<close>; any other pointer is undefined
  to use. Delays have no effect on the modelled state.
\<close>

subsection \<open>Power rails of the application subsystem\<close>

definition SOC_DVDD18_AON :: u8 where "SOC_DVDD18_AON = 0"
definition SOC_AVDD33_USB3 :: u8 where "SOC_AVDD33_USB3 = 1"
definition SOC_DVDD08_AON :: u8 where "SOC_DVDD08_AON = 2"
definition SOC_APCPU_DVDD_DVDDM :: u8 where "SOC_APCPU_DVDD_DVDDM = 3"
definition SOC_DVDD08_DDR :: u8 where "SOC_DVDD08_DDR = 4"
definition SOC_VDD_DDR_1V8 :: u8 where "SOC_VDD_DDR_1V8 = 5"
definition SOC_VDD_DDR_1V1 :: u8 where "SOC_VDD_DDR_1V1 = 6"
definition SOC_VDD_DDR_0V6 :: u8 where "SOC_VDD_DDR_0V6 = 7"
definition SOC_DVDD18_AP :: u8 where "SOC_DVDD18_AP = 8"
definition SOC_DVDD08_AP :: u8 where "SOC_DVDD08_AP = 9"
definition SOC_AVDD08_MIPI_HDMI :: u8 where "SOC_AVDD08_MIPI_HDMI = 10"
definition SOC_AVDD18_MIPI_HDMI :: u8 where "SOC_AVDD18_MIPI_HDMI = 11"
definition SOC_DVDD33_EMMC :: u8 where "SOC_DVDD33_EMMC = 12"
definition SOC_DVDD18_EMMC :: u8 where "SOC_DVDD18_EMMC = 13"

definition apsys_soc_poweroff_id :: "u8 list" where
  "apsys_soc_poweroff_id =
     [SOC_DVDD18_EMMC, SOC_DVDD33_EMMC, SOC_AVDD18_MIPI_HDMI, SOC_AVDD08_MIPI_HDMI, SOC_DVDD08_AP, SOC_DVDD18_AP,
      SOC_VDD_DDR_0V6, SOC_APCPU_DVDD_DVDDM]"

definition apsys_soc_lowpower_id :: "u8 list" where
  "apsys_soc_lowpower_id =
     [SOC_VDD_DDR_1V1, SOC_DVDD08_DDR, SOC_VDD_DDR_1V8, SOC_DVDD18_AON, SOC_AVDD33_USB3, SOC_DVDD08_AON]"

definition on_handle :: "bool \<Rightarrow> ('w, 'a) pact \<Rightarrow> ('w, 'e, 'a) aact" where
  "on_handle pmic m = (if pmic then on_pmic m else undef)"

text \<open>The rails are switched on in the reverse order of switching them off.\<close>

definition apsys_power_ctrl :: "bool \<Rightarrow> bool \<Rightarrow> ('w, 'e, unit) aact" where
  "apsys_power_ctrl pmic ena =
     for_each (if ena then rev apsys_soc_poweroff_id else apsys_soc_poweroff_id) (\<lambda>ext.
       on_handle pmic (csi_pmic_regulator_ctrl ext ena))"

text \<open>Only \<^verbatim>\<open>CSI_ERROR\<close> ends the loop; other error codes are ignored.\<close>

definition apsys_lowpower_ctrl :: "bool \<Rightarrow> pmic_buck_mode \<Rightarrow> ('w, 'e, unit) aact" where
  "apsys_lowpower_ctrl pmic mode =
     for_each apsys_soc_lowpower_id (\<lambda>ext.
       catch_err (on_handle pmic (csi_pmic_mode_select ext mode)) (\<lambda>r.
       if r = Inl CSI_ERROR then fail CSI_ERROR else ret ()))"

subsection \<open>Suspend and resume\<close>

definition C906_CORE0 :: u16 where "C906_CORE0 = 4"

definition c910_cores :: "u32 list" where
  "c910_cores = map of_nat [0..<MAX_C910_CORE_NUM]"

text \<open>
  The condition of the wait loop, evaluated from left to right as far as needed, and the loop; fuel bounds its turns.
\<close>

definition all_inactive :: "('w, 'e, bool) aact" where
  "all_inactive =
     foldr (\<lambda>m n. bind_res m (\<lambda>b. if b then n else ret False))
       [cpu_is_inactive 0, cpu_is_inactive 1, cpu_is_inactive 2, cpu_is_inactive 3, indicator_magic_num_check]
       (cpu_is_inactive C906_CORE0)"

fun wait_all_inactive :: "nat \<Rightarrow> ('w, 'e, unit) aact" where
  "wait_all_inactive 0 = hang"
| "wait_all_inactive (Suc fuel) = bind_res all_inactive (\<lambda>b. if b then ret () else wait_all_inactive fuel)"

text \<open>What is done once the cores are down, up to the wait for an interrupt.\<close>

definition suspend_sequence :: "nat \<Rightarrow> bool \<Rightarrow> ('w, 'e, unit) aact" where
  "suspend_sequence fuel pmic = seqs
     [for_each c910_cores c910_dbg_mask,
      c910_l2cache_flush fuel,
      for_each c910_cores (\<lambda>cpu. c910_mem_rentention_enter cpu MEM_RET_SD),
      cpu_top_mem_retention_enter MEM_RET_SD,
      CHIP_REG_SET 0xFFFFF08 0xFFC21008,
      CHIP_REG_SET 0 0xFFC21280,
      CHIP_REG_SET 0xC0000 0xFFC21284,
      CHIP_REG_SET 0 0xFFC21080,
      soc_do (\<lambda>c. lpddr4_lp3_enter c 3733),
      ap_power_down,
      power_isolator_en,
      aon_mem_retention_enter MEM_RET_DSLP,
      sram_axi_reset,
      pvtc_reset,
      ignore (apsys_lowpower_ctrl pmic SLEEP),
      ignore (apsys_power_ctrl pmic False),
      audio_powerdown,
      system_clk_switch fuel PLL_SLEEP SYS_LP_STANDBY,
      bind_res (get_st g_chip_wakeup_flag) aonsys_wakeup_source_set,
      soc_do wait_for_interrupt]"

definition chip_lpm_suspend :: "nat \<Rightarrow> bool \<Rightarrow> ('w, 'e, u32) aact" where
  "chip_lpm_suspend fuel pmic =
     bind_res chip_lp_mode_get_lp_mode (\<lambda>chip_lp_mode.
     bind_res
       (if chip_lp_mode = CHIP_LP_STANDBY
        then bind_res (wait_all_inactive fuel) (\<lambda>_. suspend_sequence fuel pmic)
        else ret ()) (\<lambda>_.
     ret chip_lp_mode))"

text \<open>\<^verbatim>\<open>while (!chip_lp_mode_get_iopmp_flag());\<close>\<close>

fun wait_iopmp_flag :: "nat \<Rightarrow> ('e, 'z, unit) cact" where
  "wait_iopmp_flag 0 = hang"
| "wait_iopmp_flag (Suc fuel) = bind_res chip_lp_mode_get_iopmp_flag (\<lambda>f. if f \<noteq> 0 then ret () else wait_iopmp_flag fuel)"

definition chip_lpm_resume :: "nat \<Rightarrow> bool \<Rightarrow> u32 \<Rightarrow> ('w, 'e, unit) aact" where
  "chip_lpm_resume fuel pmic chip_lp_mode =
     bind_res (CHIP_REG_GET AON_PMU_GPIO_INT_STS) (\<lambda>_.
     if chip_lp_mode = CHIP_LP_STANDBY then seqs
       [bind_res (get_st g_chip_wakeup_flag) aonsys_wakeup_source_clr,
        system_clk_switch fuel PLL_NORMAL SYS_LP_STANDBY,
        ignore (apsys_lowpower_ctrl pmic SYNC),
        aon_mem_retention_exit MEM_RET_DSLP,
        ignore (apsys_power_ctrl pmic True),
        power_isolator_release,
        cpu_top_mem_retention_exit MEM_RET_SD,
        for_each c910_cores (\<lambda>cpu. c910_mem_rentention_exit cpu MEM_RET_SD),
        CHIP_REG_SET 0 REG_AON_ISO_CFG,
        CHIP_REG_SET 1 REG_AON_DDRSYS_RST_CFG,
        CHIP_REG_SET 1 REG_AON_DDRSYS_RST_CFG,
        CHIP_REG_SET 1 REG_AON_DDRSYS_RST_CFG,
        pvtc_reset_release,
        sram_axi_reset_release,
        ap_power_up,
        for_each c910_cores c910_dbg_unmask,
        CHIP_REG_SET 0 AONSYS_WDT_RESET_EN,
        wait_iopmp_flag fuel,
        chip_lp_mode_set_iopmp_flag False,
        soc_do (\<lambda>c. lpddr4_lp3_exit c 3733),
        CHIP_REG_SET 0 0xFFC21008,
        CHIP_REG_SET 0 0xFFC21284,
        board_device_resume,
        chip_lp_mode_set_ddr_flag True,
        audio_powerup]
     else ret ())"

definition chip_lpm_finish :: "('w, 'e, unit) aact" where
  "chip_lpm_finish =
     bind_res chip_lp_mode_get_lp_mode (\<lambda>chip_lp_mode.
     bind_res
       (if chip_lp_mode = CHIP_LP_STANDBY then seqs
          [indicator_magic_num_clear,
           bind_res (get_st (\<lambda>s. monitor_tmr_len (g_aon_wdt s))) (\<lambda>len. ignore (on_soc (\<lambda>c. timer_start c (ucast len * 1000000)))),
           soc_do (\<lambda>c. irq_enable c DW_TIMER0_IRQn)]
        else ret ()) (\<lambda>_.
     chip_lp_mode_set_lp_mode SYS_LP_NONE))"

subsection \<open>The low power service\<close>

definition LPM_FUNC_AON_REQUIRE_STR :: u8 where "LPM_FUNC_AON_REQUIRE_STR = 1"
definition LPM_FUNC_AON_RESUME_STR :: u8 where "LPM_FUNC_AON_RESUME_STR = 2"
definition LPM_FUNC_AON_CPUHP :: u8 where "LPM_FUNC_AON_CPUHP = 4"

text \<open>
  \<^verbatim>\<open>chip_lpm_suspend\<close> is declared without parameters and called without its argument: the pointer it receives is the
  parameter \<open>stale\<close>.
\<close>

definition lpm_process :: "nat \<Rightarrow> bool \<Rightarrow> ('w, 'e, unit) aact" where
  "lpm_process fuel stale =
     bind_res (chip_lpm_suspend fuel stale) (\<lambda>chip_lp_mode.
     if chip_lp_mode \<noteq> CHIP_LP_NONE then chip_lpm_resume fuel True chip_lp_mode else ret ())"

definition lpm_dispatch :: "nat \<Rightarrow> bool \<Rightarrow> aon_rpc_msg_t \<Rightarrow> aon_rpc_msg_t \<Rightarrow> ('w, 'e, aon_rpc_msg_t) aact" where
  "lpm_dispatch fuel stale msg tx_msg =
     bind_res
       (if func msg = LPM_FUNC_AON_REQUIRE_STR then
          bind_res (chip_lp_mode_set_lp_mode SYS_LP_STANDBY) (\<lambda>_.
          bind_res (lpm_process fuel stale) (\<lambda>_. ret (0, AON_ERR_NONE, tx_msg)))
        else if func msg = LPM_FUNC_AON_RESUME_STR then
          bind_res chip_lpm_finish (\<lambda>_. ret (1, AON_ERR_NONE, tx_msg))
        else if func msg = LPM_FUNC_AON_CPUHP then
          (let cpu_id = RPC_GET_BE16 (data msg) 0; status = RPC_GET_BE16 (data msg) 2 in
           bind_res (chip_cpu_power_ctrl fuel (ucast cpu_id) (ucast status \<noteq> LIGHT_AON_PM_PW_MODE_OFF)) (\<lambda>_.
           ret (5, AON_ERR_NONE, tx_msg\<lparr>data := RPC_SET_BE16 (RPC_SET_BE16 (data tx_msg) 1 (ucast cpu_id)) 3 (ucast status)\<rparr>)))
        else ret (0, AON_ERR_NOTFOUND, tx_msg)) (\<lambda>(ack_size, result, tx).
     ret (ack_head tx ack_size (RPC_GET_SVC_ID msg) (func msg) result))"

definition aon_lpm_init :: "u32 \<Rightarrow> ('w, 'e, unit) aact" where
  "aon_lpm_init wakeup_flag =
     bind_res (chip_lp_mode_set_lp_mode SYS_LP_NONE) (\<lambda>_.
     bind_res (chip_set_wakeup_flag wakeup_flag) (\<lambda>_.
     aon_rpc_svc_cb_register AON_RPC_SVC_LPM LPM_DISPATCH))"

subsection \<open>Nothing is switched off before the cores are\<close>

definition only_reads :: "access list \<Rightarrow> bool" where
  "only_reads tr \<longleftrightarrow> (\<forall>x \<in> set tr. \<exists>r v. x = Rd r v)"

text \<open>The reads of one turn of the wait loop in which every core was inactive and the host had left its marks.\<close>

definition core_idle :: "u16 \<Rightarrow> u32 \<Rightarrow> bool" where
  "core_idle cpu v \<longleftrightarrow> drop_bit (2 * unat cpu) v AND CPU_LP_MODE_MSK = 0"

definition ready_pass :: "access list \<Rightarrow> bool" where
  "ready_pass tr \<longleftrightarrow> (\<exists>v0 v1 v2 v3 v4.
     tr = map (Rd REG_AON_CPU_LP_MODE) [v0, v1, v2, v3]
       @ [Rd REG_AON_STR_INDICATOR_0 INDICATOR_0_MAGIC_NUM, Rd REG_AON_STR_INDICATOR_1 INDICATOR_1_MAGIC_NUM,
          Rd REG_AON_STR_INDICATOR_2 INDICATOR_2_MAGIC_NUM, Rd REG_AON_STR_INDICATOR_3 INDICATOR_3_MAGIC_NUM]
       @ [Rd REG_AON_CPU_LP_MODE v4]
     \<and> core_idle 0 v0 \<and> core_idle 1 v1 \<and> core_idle 2 v2 \<and> core_idle 3 v3 \<and> core_idle C906_CORE0 v4)"

lemma only_reads_simps [simp]:
  "only_reads []" "only_reads (Rd r v # tr) = only_reads tr" "only_reads (t1 @ t2) \<longleftrightarrow> only_reads t1 \<and> only_reads t2"
  by (auto simp: only_reads_def)

lemma emits_inactive:
  "unat cpu < 16 \<Longrightarrow> emits (cpu_is_inactive cpu) (\<lambda>tr b. \<exists>v. tr = [Rd REG_AON_CPU_LP_MODE v] \<and> b = core_idle cpu v)"
  unfolding cpu_is_inactive_def by (auto intro!: emits_read emits_ret simp: core_idle_def)

text \<open>A conjunct of the condition: the rest is evaluated only when it holds.\<close>

lemma emits_and:
  assumes "emits m P" and "\<And>t b. P t b \<Longrightarrow> only_reads t" and "\<And>t1. P t1 True \<Longrightarrow> emits n (\<lambda>t2 b. only_reads t2 \<and> (b \<longrightarrow> R (t1 @ t2)))"
  shows "emits (bind_res m (\<lambda>b. if b then n else ret False)) (\<lambda>tr b. only_reads tr \<and> (b \<longrightarrow> R tr))"
proof (rule emits_then [OF assms(1)])
  fix t1 b
  assume P: "P t1 b"
  show "emits (if b then n else ret False) (\<lambda>t2 c. only_reads (t1 @ t2) \<and> (c \<longrightarrow> R (t1 @ t2)))"
    using P assms(2) [OF P] emits_mono [OF assms(3)] by (cases b) (auto intro!: emits_ret)
qed

lemma emits_marks:
  "emits indicator_magic_num_check (\<lambda>tr b. only_reads tr \<and> (b \<longrightarrow> tr =
     [Rd REG_AON_STR_INDICATOR_0 INDICATOR_0_MAGIC_NUM, Rd REG_AON_STR_INDICATOR_1 INDICATOR_1_MAGIC_NUM,
      Rd REG_AON_STR_INDICATOR_2 INDICATOR_2_MAGIC_NUM, Rd REG_AON_STR_INDICATOR_3 INDICATOR_3_MAGIC_NUM]))"
  unfolding indicator_magic_num_check_def by (auto intro!: emits_read emits_ret)

lemma emits_all_inactive: "emits all_inactive (\<lambda>tr b. only_reads tr \<and> (b \<longrightarrow> ready_pass tr))"
proof -
  have small: "unat (0 :: u16) < 16" "unat (1 :: u16) < 16" "unat (2 :: u16) < 16" "unat (3 :: u16) < 16" "unat C906_CORE0 < 16"
    by (simp_all add: C906_CORE0_def)
  show ?thesis
    unfolding all_inactive_def foldr.simps o_apply id_apply
    apply (rule emits_and [OF emits_inactive [OF small(1)]], force)
    apply (rule emits_and [OF emits_inactive [OF small(2)]], force)
    apply (rule emits_and [OF emits_inactive [OF small(3)]], force)
    apply (rule emits_and [OF emits_inactive [OF small(4)]], force)
    apply (rule emits_and [OF emits_marks], force)
    apply (rule emits_mono [OF emits_inactive [OF small(5)]])
    apply (auto simp: ready_pass_def)
    done
qed

lemma wait_trace:
  fixes s :: "('w, 'e) aon_t"
  shows "\<exists>r e tr. wait_all_inactive fuel s = (r, s\<lparr>env := e, trace := trace s @ tr\<rparr>)
    \<and> (r = Hang \<and> only_reads tr \<or> r = Ok () \<and> (\<exists>t1 t2. tr = t1 @ t2 \<and> only_reads t1 \<and> ready_pass t2))"
proof (induction fuel arbitrary: s)
  case 0
  show ?case by (intro exI [of _ Hang] exI [of _ "env s"] exI [of _ "[]"]) (simp add: hang_def)
next
  case (Suc fuel)
  obtain b e t1 where p: "all_inactive s = (Ok b, s\<lparr>env := e, trace := trace s @ t1\<rparr>)" "only_reads t1" "b \<Longrightarrow> ready_pass t1"
    using emitsE [OF emits_all_inactive, of s] by blast
  show ?case
  proof (cases b)
    case True
    with p show ?thesis
      by (intro exI [of _ "Ok ()"] exI [of _ e] exI [of _ t1]) (auto simp: bind_res_def ret_def intro: exI [of _ "[]"])
  next
    case False
    let ?s = "s\<lparr>env := e, trace := trace s @ t1\<rparr>"
    obtain r e' t2 where q: "wait_all_inactive fuel ?s = (r, ?s\<lparr>env := e', trace := trace ?s @ t2\<rparr>)"
      "r = Hang \<and> only_reads t2 \<or> r = Ok () \<and> (\<exists>u1 u2. t2 = u1 @ u2 \<and> only_reads u1 \<and> ready_pass u2)"
      using Suc.IH [of ?s] by blast
    have "wait_all_inactive (Suc fuel) s = (r, s\<lparr>env := e', trace := trace s @ (t1 @ t2)\<rparr>)"
      using p(1) q(1) False by (simp add: bind_res_def)
    moreover have "r = Hang \<and> only_reads (t1 @ t2) \<or> r = Ok () \<and> (\<exists>u1 u2. t1 @ t2 = u1 @ u2 \<and> only_reads u1 \<and> ready_pass u2)"
      using q(2) p(2) by (metis append.assoc only_reads_simps(3))
    ultimately show ?thesis by blast
  qed
qed

text \<open>Whatever is done afterwards only adds to the accesses.\<close>

abbreviation begins :: "access list \<Rightarrow> ('w, 'e) aon_t \<Rightarrow> bool" where
  "begins T s \<equiv> prefix T (trace s)"

lemma begins_basic:
  "keeps (begins T) (CHIP_REG_GET reg)" "keeps (begins T) (CHIP_REG_SET v reg)" "keeps (begins T) (reg_modify f reg)"
  "keeps (begins T) (soc_do k)" "keeps (begins T) (on_pmic m)"
  by (auto simp: keeps_def act_defs CHIP_REG_GET_def CHIP_REG_SET_def reg_modify_def split: prod.splits)

lemmas begins_rules = keeps_rules keeps_ignore keeps_seqs keeps_for_each begins_basic

lemma begins_emits:
  fixes m :: "('w, 'e, 'a) aact"
  assumes "emits m P"
  shows "keeps (begins T) m"
proof (rule keepsI)
  fix s :: "('w, 'e) aon_t"
  assume T: "begins T s"
  obtain a e tr where "m s = (Ok a, s\<lparr>env := e, trace := trace s @ tr\<rparr>)" using assms by (rule emitsE)
  with T show "begins T (snd (m s))" by simp
qed

lemma begins_poll: "keeps (begins T) (poll fuel reg p)"
  by (induction fuel) (auto intro!: begins_rules)

lemma begins_cores:
  "keeps (begins T) (c910_dbg_mask cpu)" "keeps (begins T) (c910_l2cache_flush fuel)" "keeps (begins T) (c910_mem_rentention_enter cpu mode)"
  unfolding c910_dbg_mask_def c910_l2cache_flush_def c910_mem_rentention_enter_def
  by (auto intro!: begins_rules begins_poll split: option.splits)

lemma begins_domains:
  "keeps (begins T) (cpu_top_mem_retention_enter mode)" "keeps (begins T) (aon_mem_retention_enter mode)" "keeps (begins T) ap_power_down"
  "keeps (begins T) power_isolator_en" "keeps (begins T) sram_axi_reset" "keeps (begins T) pvtc_reset" "keeps (begins T) audio_powerdown"
  unfolding cpu_top_mem_retention_enter_def aon_mem_retention_enter_def ap_power_down_def power_isolator_en_def sram_axi_reset_def pvtc_reset_def
  by (auto intro!: begins_rules begins_emits [OF powerdown_ops(1)] split: MEM_RET_MODE.splits)

lemma begins_rails: "keeps (begins T) (apsys_lowpower_ctrl pmic mode)" "keeps (begins T) (apsys_power_ctrl pmic ena)"
  unfolding apsys_lowpower_ctrl_def apsys_power_ctrl_def on_handle_def by (auto intro!: begins_rules)

lemma begins_sleep_clock: "keeps (begins T) (system_clk_switch fuel PLL_SLEEP SYS_LP_STANDBY)"
  unfolding system_clk_switch_def aonsys_periph_clk_disable_def gate_bits_def aonsys_slp_clk_sel_def power_sys_pll_def power_audio_pll_def
  by (auto intro!: begins_rules)

lemma begins_wakeup: "keeps (begins T) (aonsys_wakeup_source_set wakeup)"
proof -
  have "keeps (begins T) (irq_save_loop n irq j)" for n irq j
    by (induction n arbitrary: irq j) (auto intro!: begins_rules simp: vic_enabled_irq_detect_def)
  then show ?thesis unfolding aonsys_wakeup_source_set_def by (auto intro!: begins_rules)
qed

lemma begins_sequence: "keeps (begins T) (suspend_sequence fuel pmic)"
  unfolding suspend_sequence_def
  by (rule keeps_seqs) (auto intro!: begins_rules begins_cores begins_domains begins_rails begins_sleep_clock begins_wakeup)

text \<open>
  C9: suspending in standby mode touches nothing before the cores are down. Up to a turn of the wait loop in which all four C910
  cores and the C906 were seen inactive and the host had left all its four marks, the function only reads registers
  and changes no variable; if no such turn comes, that is all it does. Requested in any other mode it reads the mode register once and returns the mode.
\<close>

theorem suspend_waits_for_cores:
  fixes s :: "('w, 'e) aon_t"
  shows "(\<exists>r e tr. chip_lpm_suspend fuel pmic s = (r, s\<lparr>env := e, trace := trace s @ tr\<rparr>)
      \<and> (\<exists>v. tr = [Rd REG_AON_CHIP_LP_MODE v] \<and> r = Ok (drop_bit CHIP_LP_MODE_OFFSET (v AND CHIP_LP_MODE_MASK)) \<and> r \<noteq> Ok CHIP_LP_STANDBY
         \<or> r = Hang \<and> only_reads tr))
    \<or> (\<exists>r t t1 t2 t3. chip_lpm_suspend fuel pmic s = (r, t) \<and> trace t = trace s @ t1 @ t2 @ t3 \<and> only_reads t1 \<and> ready_pass t2)"
proof -
  obtain v e0 where rd: "reg_read (soc s) REG_AON_CHIP_LP_MODE (env s) = (v, e0)" by fastforce
  define s1 where "s1 = s\<lparr>env := e0, trace := trace s @ [Rd REG_AON_CHIP_LP_MODE v]\<rparr>"
  let ?mode = "drop_bit CHIP_LP_MODE_OFFSET (v AND CHIP_LP_MODE_MASK)"
  have m: "chip_lp_mode_get_lp_mode s = (Ok ?mode, s1)"
    using rd by (simp add: chip_lp_mode_get_lp_mode_def bind_res_def CHIP_REG_GET_def ret_def s1_def)
  show ?thesis
  proof (cases "?mode = CHIP_LP_STANDBY")
    case False
    then have "chip_lpm_suspend fuel pmic s = (Ok ?mode, s1)" using m by (simp add: chip_lpm_suspend_def bind_res_def ret_def)
    then show ?thesis using False by (intro disjI1) (auto simp: s1_def)
  next
    case True
    let ?go = "bind_res (suspend_sequence fuel pmic) (\<lambda>_. ret ?mode) :: ('w, 'e, u32) aact"
    have sus: "chip_lpm_suspend fuel pmic s = bind_res (wait_all_inactive fuel) (\<lambda>_. ?go) s1"
      using True by (simp add: chip_lpm_suspend_def bind_res_step [where m = chip_lp_mode_get_lp_mode, OF m] bind_assoc)
    obtain r e tr where w: "wait_all_inactive fuel s1 = (r, s1\<lparr>env := e, trace := trace s1 @ tr\<rparr>)"
      "r = Hang \<and> only_reads tr \<or> r = Ok () \<and> (\<exists>t1 t2. tr = t1 @ t2 \<and> only_reads t1 \<and> ready_pass t2)"
      using wait_trace [of fuel s1] by blast
    from w(2) show ?thesis
    proof (elim disjE conjE exE)
      assume "r = Hang" "only_reads tr"
      then have "chip_lpm_suspend fuel pmic s = (Hang, s\<lparr>env := e, trace := trace s @ (Rd REG_AON_CHIP_LP_MODE v # tr)\<rparr>)"
        using sus w(1) by (simp add: bind_res_def s1_def)
      then show ?thesis using \<open>only_reads tr\<close>
        by (intro disjI1 exI [of _ Hang] exI [of _ e] exI [of _ "Rd REG_AON_CHIP_LP_MODE v # tr"]) simp
    next
      fix t1 t2
      assume t: "r = Ok ()" "tr = t1 @ t2" "only_reads t1" "ready_pass t2"
      let ?u = "s1\<lparr>env := e, trace := trace s1 @ tr\<rparr>"
      have "keeps (begins (trace ?u)) ?go" by (intro keeps_rules begins_sequence)
      then have "begins (trace ?u) (snd (?go ?u))" by (rule keepsD) simp
      then obtain t3 where t3: "trace (snd (?go ?u)) = trace ?u @ t3" by (auto elim: prefixE)
      have "chip_lpm_suspend fuel pmic s = ?go ?u" using sus w(1) t(1) by (simp add: bind_res_def [of "wait_all_inactive fuel"])
      moreover have "trace (snd (?go ?u)) = trace s @ (Rd REG_AON_CHIP_LP_MODE v # t1) @ t2 @ t3"
        using t3 t(2) by (simp add: s1_def)
      ultimately show ?thesis using t(3,4)
        by (intro disjI2 exI [of _ "fst (?go ?u)"] exI [of _ "snd (?go ?u)"] exI [of _ "Rd REG_AON_CHIP_LP_MODE v # t1"] exI [of _ t2] exI [of _ t3])
          simp
    qed
  qed
qed

end
