(* ===== verification/Aon_Service.thy ===== *)
theory Aon_Service
  imports Aon_Wdt Aon_Sleep
begin

text \<open>
  What the RPC layer relies on of the services: every dispatcher that returns fills in an acknowledgement of the request and leaves the RPC
  layer's own state alone. The contract is the locale \<open>rpc_service\<close>, interpreted on the five dispatchers.
\<close>

subsection \<open>Actions that serve\<close>

definition rpc_view :: "('w, 'e) aon_t \<Rightarrow> aon_rpc_msg_t rpc_queue \<times> rpc_process_t list \<times> bool \<times> u8 list" where
  "rpc_view s = (g_rpc_quque s, g_rpc_process s, rpc_init_flag s, rx_data s)"

lemma rpc_view_simps [simp]:
  "rpc_view (s\<lparr>env := e\<rparr>) = rpc_view s" "rpc_view (s\<lparr>trace := tr\<rparr>) = rpc_view s" "rpc_view (s\<lparr>ram := m\<rparr>) = rpc_view s"
  "rpc_view (s\<lparr>g_pmic := p\<rparr>) = rpc_view s" "rpc_view (s\<lparr>g_aon_wdt := w\<rparr>) = rpc_view s" "rpc_view (s\<lparr>g_reginfo := r\<rparr>) = rpc_view s"
  "rpc_view (s\<lparr>g_map := mp\<rparr>) = rpc_view s" "rpc_view (s\<lparr>monitor_index := i\<rparr>) = rpc_view s" "rpc_view (s\<lparr>last_wdt_stat := i\<rparr>) = rpc_view s"
  "rpc_view (s\<lparr>enabled_irq_num := l\<rparr>) = rpc_view s" "rpc_view (s\<lparr>g_chip_wakeup_flag := i\<rparr>) = rpc_view s"
  "rpc_view (s\<lparr>aon_sram_reservemem_init := b\<rparr>) = rpc_view s" "rpc_view (s\<lparr>aon_sram_reservemem_addr := a\<rparr>) = rpc_view s"
  by (simp_all add: rpc_view_def)

text \<open>\<open>quiet\<close>: the RPC layer does not notice. \<open>serves\<close>: moreover no error code comes out, and the result, if any, is as described.\<close>

definition quiet :: "('w, 'e, 'a) aact \<Rightarrow> bool" where
  "quiet m \<longleftrightarrow> (\<forall>s. rpc_view (snd (m s)) = rpc_view s)"

definition serves :: "('w, 'e, 'a) aact \<Rightarrow> ('a \<Rightarrow> bool) \<Rightarrow> bool" where
  "serves m P \<longleftrightarrow> (\<forall>s. rpc_view (snd (m s)) = rpc_view s \<and> (case fst (m s) of Ok a \<Rightarrow> P a | Err _ \<Rightarrow> False | _ \<Rightarrow> True))"

abbreviation runs_quietly :: "('w, 'e, 'a) aact \<Rightarrow> bool" where
  "runs_quietly m \<equiv> serves m (\<lambda>_. True)"

lemma quietI: "(\<And>v. keeps (\<lambda>s. rpc_view s = v) m) \<Longrightarrow> quiet m"
  by (simp add: quiet_def keeps_def)

lemma serves_quiet: "serves m P \<Longrightarrow> quiet m"
  by (simp add: serves_def quiet_def)

named_theorems serves_rules "actions that serve"

lemma serves_mono: "serves m P \<Longrightarrow> (\<And>a. P a \<Longrightarrow> Q a) \<Longrightarrow> serves m Q"
  by (fastforce simp: serves_def split: res.splits)

lemma serves_basic [serves_rules]:
  "P a \<Longrightarrow> serves (ret a) P" "serves undef P" "serves hang P" "(\<And>s. P (f s)) \<Longrightarrow> serves (get_st f) P"
  by (simp_all add: serves_def act_defs)

lemma serves_upd [serves_rules]: "(\<And>s. rpc_view (g s) = rpc_view s) \<Longrightarrow> P () \<Longrightarrow> serves (upd_st g) P"
  by (simp add: serves_def act_defs)

lemma serves_bind:
  assumes "serves m P" and "\<And>a. P a \<Longrightarrow> serves (f a) Q"
  shows "serves (bind_res m f) Q"
  unfolding serves_def
proof
  fix s
  obtain r t where m: "m s = (r, t)" by fastforce
  with assms(1) have "rpc_view t = rpc_view s" and r: "case r of Ok a \<Rightarrow> P a | Err _ \<Rightarrow> False | _ \<Rightarrow> True"
    unfolding serves_def by (metis snd_conv, metis fst_conv)
  then show "rpc_view (snd (bind_res m f s)) = rpc_view s
      \<and> (case fst (bind_res m f s) of Ok a \<Rightarrow> Q a | Err _ \<Rightarrow> False | _ \<Rightarrow> True)"
    using assms(2) by (cases r) (auto simp: bind_res_def m serves_def)
qed

lemma serves_seq [serves_rules]: "runs_quietly m \<Longrightarrow> (\<And>a. serves (f a) Q) \<Longrightarrow> serves (bind_res m f) Q"
  by (rule serves_bind)

lemma serves_catch [serves_rules]:
  assumes "quiet m" and "\<And>a. serves (f a) Q"
  shows "serves (catch_err m f) Q"
  unfolding serves_def
proof
  fix s
  obtain r t where m: "m s = (r, t)" by fastforce
  with assms(1) have "rpc_view t = rpc_view s" unfolding quiet_def by (metis snd_conv)
  then show "rpc_view (snd (catch_err m f s)) = rpc_view s
      \<and> (case fst (catch_err m f s) of Ok a \<Rightarrow> Q a | Err _ \<Rightarrow> False | _ \<Rightarrow> True)"
    using assms(2) by (cases r) (auto simp: catch_err_def m serves_def)
qed

lemma serves_ignore [serves_rules]: "quiet m \<Longrightarrow> P () \<Longrightarrow> serves (ignore m) P"
  unfolding ignore_def by (intro serves_rules)

lemma serves_result_of [serves_rules]: "quiet m \<Longrightarrow> runs_quietly (result_of m)"
  unfolding result_of_def by (auto intro!: serves_rules)

lemma serves_hw [serves_rules]:
  "runs_quietly (CHIP_REG_GET reg)" "runs_quietly (CHIP_REG_SET v reg)" "runs_quietly (reg_modify f reg)"
  "runs_quietly (soc_do k)" "runs_quietly (soc_call l)" "runs_quietly (put_ram b bs)"
  by (auto simp: serves_def act_defs CHIP_REG_GET_def CHIP_REG_SET_def reg_modify_def put_ram_def split: prod.splits)

lemma serves_for_each [serves_rules]: "(\<And>i. runs_quietly (f i)) \<Longrightarrow> runs_quietly (for_each is f)"
  by (induction "is") (auto intro!: serves_rules)

lemma serves_seqs [serves_rules]: "(\<And>m. m \<in> set ms \<Longrightarrow> runs_quietly m) \<Longrightarrow> runs_quietly (seqs ms)"
  by (induction ms) (auto intro!: serves_rules)

lemma serves_emits: "emits m P \<Longrightarrow> runs_quietly m"
  unfolding serves_def by (rule allI, rule_tac s = s in emitsE, assumption, simp)

lemma quiet_pmic [serves_rules]: "quiet (on_pmic m)" "quiet (on_soc h)"
  by (simp_all add: quiet_def act_defs split: prod.splits)

text \<open>Everything below the services serves.\<close>

interpretation view: bystander "\<lambda>s. Q (rpc_view s)" for Q
  by unfold_locales simp_all

lemma view_upd_wdt: "keeps (\<lambda>s. Q (rpc_view s)) (upd_wdt f)"
  by (simp add: keeps_def upd_wdt_def upd_st_def)

lemma view_pmic: "keeps (\<lambda>s. Q (rpc_view s)) (on_pmic m)" "keeps (\<lambda>s. Q (rpc_view s)) (on_wdt_pmic m)"
  by (auto simp: keeps_def on_wdt_pmic_def act_defs split: prod.splits)

lemmas view_keeps = keeps_rules keeps_ignore keeps_seqs view_upd_wdt view_pmic view.frame_basic view.frame_upd view.frame_chip
  view.frame_check view.frame_reboot view.frame_dump

lemma quiet_wdt [serves_rules]:
  "quiet aon_wdt_start" "quiet aon_wdt_stop" "quiet aon_hw_wdt_start" "quiet aon_hw_wdt_stop" "quiet aon_hw_wdt_feed"
  "quiet (aon_hw_wdt_set_time_len len)" "quiet (aon_pmic_poweroff fuel)"
  unfolding aon_wdt_start_def aon_wdt_stop_def aon_hw_wdt_start_def aon_hw_wdt_stop_def aon_hw_wdt_feed_def aon_hw_wdt_set_time_len_def
    aon_pmic_poweroff_def
  by (rule quietI; auto intro!: view_keeps split: sum.splits)+

lemma serves_reset [serves_rules]: "runs_quietly system_reset"
  unfolding system_reset_def by (auto intro!: serves_rules)

lemma serves_domains [serves_rules]: "runs_quietly (chip_power_pd_ctrl pd mode :: ('w, 'e, int) aact)"
proof (cases "pd \<in> set pd_ids \<and> mode \<in> {LIGHT_AON_PM_PW_MODE_OFF, LIGHT_AON_PM_PW_MODE_ON}")
  case True
  then show ?thesis using serves_emits [OF pd_ctrl_off] serves_emits [OF pd_ctrl_on] by blast
next
  case False
  then have "chip_power_pd_ctrl pd mode = (ret (-1) :: ('w, 'e, int) aact)" by (auto simp: chip_power_pd_ctrl_def Let_def pd_ids_def)
  then show ?thesis by (auto intro!: serves_rules)
qed

lemma serves_poll [serves_rules]: "runs_quietly (poll fuel reg p)"
  by (induction fuel) (auto intro!: serves_rules)

lemma serves_wait [serves_rules]: "runs_quietly (wait_inactive fuel cpu)"
  by (induction fuel) (auto intro!: serves_rules simp: cpu_is_inactive_def)

lemma serves_cores [serves_rules]: "runs_quietly (chip_cpu_power_ctrl fuel cpu on)"
proof -
  have v: "runs_quietly (ignore (subsys_pd_verify md st))" for md st
    by (rule serves_emits [OF performs_verify])
  show ?thesis
    unfolding chip_cpu_power_ctrl_def c910_powerup_def c910_powerdown_def c910_reset_def c910_reset_release_def c910_sys_clk_enable_def
      subsys_defs gate_bits_def
    by (auto intro!: serves_rules v split: option.splits)
qed

lemma serves_lp_mode [serves_rules]:
  "runs_quietly chip_lp_mode_get_lp_mode" "runs_quietly (chip_lp_mode_set_lp_mode mode)" "runs_quietly chip_lp_mode_get_iopmp_flag"
  "runs_quietly (chip_lp_mode_set_iopmp_flag b)" "runs_quietly (chip_lp_mode_set_ddr_flag b)"
  unfolding chip_lp_mode_get_lp_mode_def chip_lp_mode_set_lp_mode_def chip_lp_mode_get_iopmp_flag_def chip_lp_mode_set_iopmp_flag_def
    chip_lp_mode_set_ddr_flag_def gate_bits_def Let_def
  by (auto intro!: serves_rules)

lemma serves_core_sleep [serves_rules]:
  "runs_quietly (c910_dbg_mask cpu)" "runs_quietly (c910_dbg_unmask cpu)" "runs_quietly (c910_l2cache_flush fuel)"
  "runs_quietly (c910_mem_rentention_enter cpu mode)" "runs_quietly (c910_mem_rentention_exit cpu mode)"
  unfolding c910_dbg_mask_def c910_dbg_unmask_def c910_l2cache_flush_def c910_mem_rentention_enter_def c910_mem_rentention_exit_def
  by (auto intro!: serves_rules split: option.splits)

lemma serves_memories [serves_rules]:
  "runs_quietly (cpu_top_mem_retention_enter mode)" "runs_quietly (cpu_top_mem_retention_exit mode)"
  "runs_quietly (aon_mem_retention_enter mode)" "runs_quietly (aon_mem_retention_exit mode)"
  unfolding cpu_top_mem_retention_enter_def cpu_top_mem_retention_exit_def aon_mem_retention_enter_def aon_mem_retention_exit_def
  by (auto intro!: serves_rules split: MEM_RET_MODE.splits)

lemma serves_supply [serves_rules]:
  "runs_quietly ap_power_down" "runs_quietly ap_power_up" "runs_quietly power_isolator_en" "runs_quietly power_isolator_release"
  "runs_quietly sram_axi_reset" "runs_quietly sram_axi_reset_release" "runs_quietly pvtc_reset" "runs_quietly pvtc_reset_release"
  "runs_quietly audio_powerdown" "runs_quietly audio_powerup" "runs_quietly board_device_resume" "runs_quietly indicator_magic_num_clear"
  unfolding ap_power_down_def ap_power_up_def power_isolator_en_def power_isolator_release_def sram_axi_reset_def sram_axi_reset_release_def
    pvtc_reset_def pvtc_reset_release_def board_device_resume_def board_resume_def indicator_magic_num_clear_def
  by (auto intro!: serves_rules serves_emits [OF powerdown_ops(1)] serves_emits [OF powerup_ops(1)])

lemma serves_clocks [serves_rules]: "runs_quietly (system_clk_switch fuel pll SYS_LP_STANDBY)"
proof -
  have "runs_quietly (rc_ready_loop n d)" for n d by (induction n) (auto intro!: serves_rules)
  then show ?thesis
    unfolding system_clk_switch_def aonsys_periph_clk_disable_def gate_bits_def aonsys_slp_clk_sel_def power_sys_pll_def power_audio_pll_def Let_def
    by (auto intro!: serves_rules split: PLL_SLEEP_MODE.splits POWER_STATE.splits)
qed

lemma serves_wakeup [serves_rules]: "runs_quietly (aonsys_wakeup_source_set w)" "runs_quietly (aonsys_wakeup_source_clr w)"
proof -
  have "runs_quietly (irq_save_loop n irq j)" for n irq j
    by (induction n arbitrary: irq j) (auto intro!: serves_rules simp: vic_enabled_irq_detect_def)
  moreover have "runs_quietly (irq_restore_loop l)" for l
    by (induction l) (auto intro!: serves_rules)
  ultimately show "runs_quietly (aonsys_wakeup_source_set w)" "runs_quietly (aonsys_wakeup_source_clr w)"
    unfolding aonsys_wakeup_source_set_def aonsys_wakeup_source_clr_def by (auto intro!: serves_rules)
qed

lemma quiet_rails [serves_rules]: "quiet (apsys_lowpower_ctrl pmic mode)" "quiet (apsys_power_ctrl pmic ena)"
  unfolding apsys_lowpower_ctrl_def apsys_power_ctrl_def on_handle_def
  by (rule quietI; auto intro!: view_keeps split: if_splits)+

lemma serves_suspend [serves_rules]: "runs_quietly (chip_lpm_suspend fuel pmic)"
proof -
  have "runs_quietly (wait_all_inactive n)" for n
    by (induction n) (auto intro!: serves_rules serves_emits [OF emits_all_inactive])
  then show ?thesis unfolding chip_lpm_suspend_def suspend_sequence_def by (auto intro!: serves_rules)
qed

lemma serves_resume [serves_rules]: "runs_quietly (chip_lpm_resume fuel pmic mode)"
proof -
  have "runs_quietly (wait_iopmp_flag n)" for n by (induction n) (auto intro!: serves_rules)
  then show ?thesis unfolding chip_lpm_resume_def by (auto intro!: serves_rules)
qed

lemma serves_lpm [serves_rules]: "runs_quietly (lpm_process fuel stale)" "runs_quietly chip_lpm_finish"
  unfolding lpm_process_def chip_lpm_finish_def by (auto intro!: serves_rules)

subsection \<open>The contract of a service\<close>

text \<open>
  The reply \<open>r\<close> to \<open>msg\<close> built in the message object \<open>tx\<close>; when \<open>full\<close>, it is not empty, so that the RPC layer sends it.
\<close>

definition acknowledges :: "bool \<Rightarrow> aon_rpc_msg_t \<Rightarrow> aon_rpc_msg_t \<Rightarrow> aon_rpc_msg_t \<Rightarrow> bool" where
  "acknowledges full msg tx r \<longleftrightarrow>
     (\<exists>tx' sz err. svc tx' = svc tx \<and> length (data tx') = length (data tx) \<and> unat sz \<le> 13 \<and> (full \<longrightarrow> sz \<noteq> 0)
        \<and> r = ack_head tx' sz (RPC_GET_SVC_ID msg) (func msg) err)"

lemma acknowledgesI:
  "svc tx' = svc tx \<Longrightarrow> length (data tx') = length (data tx) \<Longrightarrow> unat sz \<le> 13 \<Longrightarrow> full \<longrightarrow> sz \<noteq> 0 \<Longrightarrow>
     acknowledges full msg tx (ack_head tx' sz (RPC_GET_SVC_ID msg) (func msg) err)"
  unfolding acknowledges_def by blast

locale rpc_service =
  fixes serve :: "aon_rpc_msg_t \<Rightarrow> aon_rpc_msg_t \<Rightarrow> ('w, 'e, aon_rpc_msg_t) aact"
  assumes acks: "serves (serve msg tx) (acknowledges False msg tx)"
begin

lemma reply_fields:
  assumes "serve msg tx s = (Ok r, t)"
  shows "version r = AON_RPC_VERSION \<and> unat (msg_size r) \<le> 13 \<and> svc r = (svc tx OR 0xC0) OR RPC_GET_SVC_ID msg
    \<and> func r = func msg \<and> length (data r) = length (data tx)"
proof -
  have "acknowledges False msg tx r" using acks [of msg tx] assms unfolding serves_def by (metis fst_conv res.case(1))
  then obtain tx' sz err where r: "r = ack_head tx' sz (RPC_GET_SVC_ID msg) (func msg) err"
    "svc tx' = svc tx" "length (data tx') = length (data tx)" "unat sz \<le> 13"
    unfolding acknowledges_def by blast
  then have "svc r = (svc tx OR 0xC0) OR RPC_GET_SVC_ID msg" by (simp add: svc_ack_head)
  with r show ?thesis by (simp add: ack_head_fields)
qed

lemma reply_frame: "serve msg tx s = (r, t) \<Longrightarrow> rpc_view t = rpc_view s"
  using acks [of msg tx] unfolding serves_def by (metis snd_conv)

lemma reply_no_error: "serve msg tx s \<noteq> (Err e, t)"
  using acks [of msg tx] unfolding serves_def by (metis fst_conv res.case(2))

end

text \<open>A service that never leaves a request without an answer.\<close>

locale answering_service = rpc_service +
  assumes acks_full: "serves (serve msg tx) (acknowledges True msg tx)"
begin

lemma reply_not_empty: "serve msg tx s = (Ok r, t) \<Longrightarrow> msg_size r \<noteq> 0"
proof -
  assume "serve msg tx s = (Ok r, t)"
  then have "acknowledges True msg tx r" using acks_full [of msg tx] unfolding serves_def by (metis fst_conv res.case(1))
  then show ?thesis by (auto simp: acknowledges_def ack_head_fields)
qed

end

lemma acknowledges_weaken: "serves m (acknowledges True msg tx) \<Longrightarrow> serves m (acknowledges False msg tx)"
  by (rule serves_mono, assumption) (unfold acknowledges_def, blast)

text \<open>The two ways in which the dispatchers end.\<close>

definition fills :: "bool \<Rightarrow> aon_rpc_msg_t \<Rightarrow> u8 \<times> u8 \<times> aon_rpc_msg_t \<Rightarrow> bool" where
  "fills full tx = (\<lambda>(sz, err, tx'). svc tx' = svc tx \<and> length (data tx') = length (data tx) \<and> unat sz \<le> 13 \<and> (full \<longrightarrow> sz \<noteq> 0))"

lemma acks_sized:
  "serves m (fills full tx) \<Longrightarrow>
     serves (bind_res m (\<lambda>(sz, err, tx'). ret (ack_head tx' sz (RPC_GET_SVC_ID msg) (func msg) err))) (acknowledges full msg tx)"
  by (erule serves_bind) (auto simp: fills_def intro!: serves_rules acknowledgesI)

lemma acks_plain:
  "runs_quietly m \<Longrightarrow>
     serves (bind_res m (\<lambda>err. ret (ack_head tx 1 (RPC_GET_SVC_ID msg) (func msg) err))) (acknowledges full msg tx)"
  by (rule serves_seq) (auto intro!: serves_rules acknowledgesI)

lemma misc_acks: "serves (misc_dispatch wide_shl msg tx) (acknowledges full msg tx)"
  unfolding misc_dispatch_def rd_init_def upd_wdt_def by (rule acks_plain) (auto intro!: serves_rules)

lemma sys_acks: "serves (sys_dispatch msg tx) (acknowledges full msg tx)"
  unfolding sys_dispatch_def set_aon_reservemem_addr_def check_aon_rebootmode_def set_aon_rebootmode_def
  by (rule acks_plain) (auto intro!: serves_rules split: sum.splits)

lemma serves_branches:
  "(c \<Longrightarrow> serves m P) \<Longrightarrow> (\<not> c \<Longrightarrow> serves n P) \<Longrightarrow> serves (if c then m else n) P"
  "(\<And>e. serves (f e) P) \<Longrightarrow> (\<And>a. serves (g a) P) \<Longrightarrow> serves (case r of Inl e \<Rightarrow> f e | Inr a \<Rightarrow> g a) P"
  "(\<And>a b. serves (h a b) P) \<Longrightarrow> serves (case x of (a, b) \<Rightarrow> h a b) P"
  by (auto split: sum.splits prod.splits)

lemma wdg_acks: "serves (wdg_dispatch fuel msg tx) (acknowledges False msg tx)"
  unfolding wdg_dispatch_def put_data_def by (intro acks_sized serves_branches serves_rules) (simp_all add: fills_def)

lemma lpm_acks: "serves (lpm_dispatch fuel stale msg tx) (acknowledges False msg tx)"
  unfolding lpm_dispatch_def Let_def by (intro acks_sized serves_branches serves_rules) (simp_all add: fills_def)

lemma pmic_acks: "serves (pmic_dispatch fuel junk msg tx) (acknowledges True msg tx)"
proof -
  have "runs_quietly (set_each_hw_volatage m n v)" for m n v
    by (auto simp: serves_def set_each_hw_volatage_def split: res.splits)
  then show ?thesis
    unfolding pmic_dispatch_def put_data_def Let_def
    by (intro acks_sized serves_branches serves_rules) (simp_all add: fills_def)
qed

interpretation pmic: answering_service "pmic_dispatch fuel junk" for fuel junk
  by unfold_locales (intro acknowledges_weaken pmic_acks, rule pmic_acks)

interpretation misc: answering_service "misc_dispatch wide_shl" for wide_shl
  by unfold_locales (rule misc_acks)+

interpretation sys: answering_service sys_dispatch
  by unfold_locales (rule sys_acks)+

interpretation wdg: rpc_service "wdg_dispatch fuel" for fuel
  by unfold_locales (rule wdg_acks)

interpretation lpm: rpc_service "lpm_dispatch fuel stale" for fuel stale
  by unfold_locales (rule lpm_acks)

end
