(* ===== verification/Aon_Rpc.thy ===== *)
theory Aon_Rpc
  imports Aon_Service
begin

text \<open>
  The remote procedure calls of the host processors (\<^verbatim>\<open>aon_rpc/aon_rpc.c\<close>) and the temperature sensor
  (\<^verbatim>\<open>aon_pvt/aon_pvt.c\<close>). A request arrives in the mailbox interrupt, which answers it at once or leaves it in the queue for
  the main loop. A request in the interrupt runs to its end before the main loop goes on.
\<close>

subsection \<open>Temperature sensor\<close>

definition pvt_evt_callback :: "nat \<Rightarrow> ('w, 'e, unit) aact" where
  "pvt_evt_callback fuel =
     bind_res (get_st (\<lambda>s. pvt_ts_num (soc s) (env s))) (\<lambda>n.
     bind_res (for_each [0..<n] (\<lambda>i. soc_do (\<lambda>c. pvt_read_ts c i))) (\<lambda>_.
     ignore (aon_pmic_poweroff fuel)))"

definition aon_pvt_init :: "nat \<Rightarrow> ('w, 'e, unit) aact" where
  "aon_pvt_init pvt_idx =
     as_err CSI_ERROR (seqs
       [on_soc (\<lambda>c. pvt_init c pvt_idx), on_soc (\<lambda>c. pvt_rising_alarm c 0 3415 3600),
        on_soc (\<lambda>c. pvt_falling_alarm c 0 890 700), on_soc pvt_attach])"

subsection \<open>Calling a service\<close>

text \<open>
  What the services depend on beyond the state: the fuel of their loops, variables they read without having set them, the
  result of undefined shifts and the argument that is not passed.
\<close>

record svc_par =
  sp_fuel :: nat
  sp_junk :: "u32 list \<times> u32"
  sp_wide_shl :: "u8 \<Rightarrow> nat \<Rightarrow> u32"
  sp_stale :: bool

definition call_service :: "svc_par \<Rightarrow> rpc_svc_process \<Rightarrow> aon_rpc_msg_t \<Rightarrow> aon_rpc_msg_t \<Rightarrow> ('w, 'e, aon_rpc_msg_t) aact" where
  "call_service par f =
     (case f of
        PMIC_DISPATCH \<Rightarrow> pmic_dispatch (sp_fuel par) (sp_junk par)
      | WDG_DISPATCH \<Rightarrow> wdg_dispatch (sp_fuel par)
      | MISC_DISPATCH \<Rightarrow> misc_dispatch (sp_wide_shl par)
      | SYS_DISPATCH \<Rightarrow> sys_dispatch
      | LPM_DISPATCH \<Rightarrow> lpm_dispatch (sp_fuel par) (sp_stale par))"

definition low_priority_svc_list :: "(u8 \<times> u8) list" where
  "low_priority_svc_list = [(AON_RPC_SVC_LPM, LPM_FUNC_AON_CPUHP)]"

definition is_rpc_msg_high_priority :: "u8 \<Rightarrow> u8 \<Rightarrow> bool" where
  "is_rpc_msg_high_priority svc_id func_id \<longleftrightarrow> (svc_id, func_id) \<notin> set low_priority_svc_list"

definition aon_rpc_msg_process :: "svc_par \<Rightarrow> aon_rpc_msg_t \<Rightarrow> aon_rpc_msg_t \<Rightarrow> ('w, 'e, aon_rpc_msg_t) aact" where
  "aon_rpc_msg_process par rx_msg tx_msg =
     bind_res (get_st (\<lambda>s. find_service (g_rpc_process s) (RPC_GET_SVC_ID rx_msg))) (\<lambda>p. case p of
       Some f \<Rightarrow> call_service par f rx_msg tx_msg
     | None \<Rightarrow> ret (ack_head tx_msg 1 (RPC_GET_SVC_ID rx_msg) (func rx_msg) AON_ERR_NOTFOUND))"

subsection \<open>Requests\<close>

text \<open>The bytes of a message object, in memory order.\<close>

definition msg_bytes :: "aon_rpc_msg_t \<Rightarrow> u8 list" where
  "msg_bytes m = [version m, msg_size m, svc m, func m] @ data m"

definition msg_of :: "u8 list \<Rightarrow> aon_rpc_msg_t" where
  "msg_of bs = \<lparr>version = bs ! 0, msg_size = bs ! 1, svc = bs ! 2, func = bs ! 3, data = drop 4 bs\<rparr>"

text \<open>
  The answer is sent when the request wants one and the answer is not empty; the result is the message object
  afterwards and what was handed to the mailbox. A length
  beyond the message object is undefined.
\<close>

definition send_ack :: "aon_rpc_msg_t \<Rightarrow> aon_rpc_msg_t \<Rightarrow> (aon_rpc_msg_t \<Rightarrow> nat) \<Rightarrow> ('w, 'e, aon_rpc_msg_t \<times> u8 list option) aact" where
  "send_ack rx_msg tx_msg len =
     (if RPC_GET_SVC_FLAG_ACK_TYPE rx_msg = RPC_SVC_MSG_NEED_ACK \<and> msg_size tx_msg \<noteq> 0 then
        let tx1 = RPC_SET_SVC_FLAG_MSG_TYPE tx_msg RPC_SVC_MSG_TYPE_ACK;
            tx2 = RPC_SET_SVC_FLAG_ACK_TYPE tx1 RPC_SVC_MSG_NO_NEED_ACK
        in if len tx2 > length (msg_bytes tx2) then undef
           else bind_res (soc_wait (\<lambda>c. mbox_send c (msg_bytes tx2) (len tx2))) (\<lambda>_.
                ret (tx2, Some (take (len tx2) (msg_bytes tx2))))
      else ret (tx_msg, None))"

definition aon_rpc_dispatch :: "svc_par \<Rightarrow> aon_rpc_msg_t \<Rightarrow> ('w, 'e, u8 list option) aact" where
  "aon_rpc_dispatch par rx_msg =
     (let reply = (\<lambda>tx_msg. bind_res (send_ack rx_msg tx_msg (\<lambda>tx. 4 + unat (msg_size tx))) (\<lambda>(_, sent). ret sent)) in
      if msg_size rx_msg = 0 then reply (ack_head zero_msg 1 AON_RPC_SVC_UNKNOWN 0 AON_ERR_IPC)
      else if version rx_msg < AON_RPC_VERSION then
        reply (ack_head zero_msg 1 (RPC_GET_SVC_ID rx_msg) (func rx_msg) AON_ERR_VERSION)
      else if is_rpc_msg_high_priority (RPC_GET_SVC_ID rx_msg) (func rx_msg) then
        bind_res (aon_rpc_msg_process par rx_msg zero_msg) reply
      else
        bind_res (upd_st (\<lambda>s. s\<lparr>g_rpc_quque := snd (enqueue rx_msg (g_rpc_quque s))\<rparr>)) (\<lambda>_. ret None))"

text \<open>
  The mailbox driver stores the received bytes in the static buffer of 28 bytes; \<open>received\<close> says that the event is
  \<^verbatim>\<open>MBOX_EVENT_RECEIVED\<close>.
\<close>

definition aon_low_power_isr :: "svc_par \<Rightarrow> bool \<Rightarrow> nat \<Rightarrow> nat \<Rightarrow> ('w, 'e, u8 list option) aact" where
  "aon_low_power_isr par received channel_id received_len =
     (if received then
        bind_res (soc_call (\<lambda>c. mbox_receive c channel_id received_len)) (\<lambda>bs.
        bind_res (get_st rx_data) (\<lambda>old.
        if length bs > length old then undef
        else
          bind_res (upd_st (\<lambda>s. s\<lparr>rx_data := put_prefix bs old\<rparr>)) (\<lambda>_.
          aon_rpc_dispatch par (msg_of (put_prefix bs old)))))
      else ret None)"

definition aon_rpc_init :: "('w, 'e, unit) aact" where
  "aon_rpc_init =
     bind_res (upd_st (\<lambda>s. s\<lparr>g_rpc_quque := initializeQueue (g_rpc_quque s)\<rparr>)) (\<lambda>_.
     bind_res (as_err CSI_ERROR (on_soc mbox_attach)) (\<lambda>_.
     upd_st (\<lambda>s. s\<lparr>rpc_init_flag := True\<rparr>)))"

text \<open>
  One turn of the main loop. \<^verbatim>\<open>tx_msg\<close> is a variable of the loop that is not cleared between messages; the whole
  object is sent.
\<close>

definition rpc_loop_turn :: "svc_par \<Rightarrow> aon_rpc_msg_t \<Rightarrow> ('w, 'e, aon_rpc_msg_t \<times> u8 list option) aact" where
  "rpc_loop_turn par tx_msg =
     bind_res (\<lambda>s. let (r, q) = dequeue_msg (g_rpc_quque s) in (Ok r, s\<lparr>g_rpc_quque := q\<rparr>)) (\<lambda>m. case m of
       None \<Rightarrow> ret (tx_msg, None)
     | Some rx_msg \<Rightarrow>
         bind_res (aon_rpc_msg_process par rx_msg tx_msg) (\<lambda>tx.
         send_ack rx_msg tx (\<lambda>_. AON_RPC_MAX_LEN)))"

text \<open>The loop does not end; the model stops it after \<open>turns\<close> turns.\<close>

fun rpc_loop :: "nat \<Rightarrow> svc_par \<Rightarrow> aon_rpc_msg_t \<Rightarrow> ('w, 'e, unit) aact" where
  "rpc_loop 0 par tx_msg = hang"
| "rpc_loop (Suc turns) par tx_msg = bind_res (rpc_loop_turn par tx_msg) (\<lambda>(tx, _). rpc_loop turns par tx)"

definition aon_rpc_process_loop :: "nat \<Rightarrow> svc_par \<Rightarrow> ('w, 'e, unit) aact" where
  "aon_rpc_process_loop turns par =
     bind_res (get_st rpc_init_flag) (\<lambda>ini. if \<not> ini then fail CSI_ERROR else rpc_loop turns par zero_msg)"

definition aon_rpc_send :: "u8 list \<Rightarrow> nat \<Rightarrow> ('w, 'e, int) aact" where
  "aon_rpc_send bs len =
     bind_res (get_st rpc_init_flag) (\<lambda>ini. if \<not> ini then ret (-1) else soc_wait (\<lambda>c. mbox_send c bs len))"

subsection \<open>Replies\<close>

interpretation process: rpc_service "aon_rpc_msg_process par" for par
proof
  fix msg tx
  have "serves (call_service par f msg tx) (acknowledges False msg tx)" for f
    by (cases f) (simp_all add: call_service_def pmic.acks misc.acks sys.acks wdg.acks lpm.acks)
  then show "serves (aon_rpc_msg_process par msg tx) (acknowledges False msg tx)"
    unfolding aon_rpc_msg_process_def
    by (intro serves_seq) (auto intro!: serves_rules acknowledgesI split: option.splits)
qed

lemma process_not_empty:
  assumes "aon_rpc_msg_process par msg tx s = (Ok r, t)" and "find_service (g_rpc_process s) (RPC_GET_SVC_ID msg) \<notin> {Some WDG_DISPATCH, Some LPM_DISPATCH}"
  shows "msg_size r \<noteq> 0"
proof (cases "find_service (g_rpc_process s) (RPC_GET_SVC_ID msg)")
  case None
  with assms show ?thesis by (auto simp: aon_rpc_msg_process_def bind_res_def get_st_def ret_def ack_head_fields)
next
  case (Some f)
  with assms have "call_service par f msg tx s = (Ok r, t)" by (simp add: aon_rpc_msg_process_def bind_res_def get_st_def)
  with assms(2) Some show ?thesis
    by (cases f) (auto simp: call_service_def dest: pmic.reply_not_empty misc.reply_not_empty sys.reply_not_empty)
qed

text \<open>Flags that are set already, and the bytes of a message.\<close>

lemma set_flags_again:
  "svc m = (x OR 0xC0) OR y \<Longrightarrow>
     RPC_SET_SVC_FLAG_ACK_TYPE (RPC_SET_SVC_FLAG_MSG_TYPE m RPC_SVC_MSG_TYPE_ACK) RPC_SVC_MSG_NO_NEED_ACK = m"
proof -
  assume m: "svc m = (x OR 0xC0) OR y"
  have "((x OR 0xC0) OR y) OR 0x80 OR 0x40 = (x OR 0xC0) OR y"
    by (rule bit_word_eqI) (auto simp: bit_or_iff bit_svc_masks bit_C0)
  with m show ?thesis by (cases m) (simp add: rpc_defs RPC_SVC_MSG_TYPE_ACK_def RPC_SVC_MSG_NO_NEED_ACK_def or.assoc)
qed

lemma length_msg_bytes: "length (msg_bytes m) = 4 + length (data m)"
  by (simp add: msg_bytes_def)

text \<open>Sending returns, and leaves everything but the hardware as it is, or waits for the acknowledgement forever.\<close>

lemma send_ack_result:
  assumes "svc tx = (x OR 0xC0) OR y" and "len tx \<le> 4 + length (data tx)"
  shows "\<exists>e. send_ack rx tx len s =
      (Ok (tx, if RPC_GET_SVC_FLAG_ACK_TYPE rx = RPC_SVC_MSG_NEED_ACK \<and> msg_size tx \<noteq> 0 then Some (take (len tx) (msg_bytes tx)) else None), s\<lparr>env := e\<rparr>)
    \<or> send_ack rx tx len s = (Hang, s\<lparr>env := e\<rparr>)"
proof (cases "RPC_GET_SVC_FLAG_ACK_TYPE rx = RPC_SVC_MSG_NEED_ACK \<and> msg_size tx \<noteq> 0")
  case True
  obtain n e where "mbox_send (soc s) (msg_bytes tx) (len tx) (env s) = (n, e)" by fastforce
  with True assms show ?thesis
    by (intro exI [of _ e]) (cases n; simp add: send_ack_def set_flags_again length_msg_bytes bind_res_def soc_wait_def ret_def)
next
  case False
  then show ?thesis by (intro exI [of _ "env s"]) (auto simp: send_ack_def ret_def)
qed

text \<open>The bytes of a reply to a request with service \<open>sid\<close> and function \<open>fn\<close>, of which \<open>n\<close> are sent.\<close>

definition reply_bytes :: "u8 \<Rightarrow> u8 \<Rightarrow> nat \<Rightarrow> u8 list \<Rightarrow> bool" where
  "reply_bytes sid fn n bs \<longleftrightarrow> length bs = n \<and> bs ! 0 = AON_RPC_VERSION \<and> bs ! 1 \<noteq> 0 \<and> 4 + unat (bs ! 1) \<le> n
     \<and> bs ! 2 = 0xC0 OR sid \<and> bs ! 3 = fn"

definition wants_ack :: "aon_rpc_msg_t \<Rightarrow> bool" where
  "wants_ack m \<longleftrightarrow> RPC_GET_SVC_FLAG_ACK_TYPE m = RPC_SVC_MSG_NEED_ACK"

lemma reply_bytes_of:
  assumes "version r = AON_RPC_VERSION" "msg_size r \<noteq> 0" "svc r = 0xC0 OR sid" "func r = fn"
    "4 + unat (msg_size r) \<le> n" "n \<le> 4 + length (data r)"
  shows "reply_bytes sid fn n (take n (msg_bytes r))"
  using assms by (auto simp: reply_bytes_def msg_bytes_def nth_append)

lemma dispatch_reply:
  assumes "version r = AON_RPC_VERSION" "unat (msg_size r) \<le> 13" "svc r = 0xC0 OR sid" "func r = fn" "length (data r) = 24"
  shows "\<exists>e y. bind_res (send_ack rx r (\<lambda>tx. 4 + unat (msg_size tx))) (\<lambda>(_, sent). ret sent) s = (y, s\<lparr>env := e\<rparr>)
    \<and> (case y of
         Ok None \<Rightarrow> \<not> wants_ack rx \<or> msg_size r = 0
       | Ok (Some bs) \<Rightarrow> wants_ack rx \<and> reply_bytes sid fn (4 + unat (bs ! 1)) bs \<and> unat (bs ! 1) \<le> 13
       | _ \<Rightarrow> y = Hang)"
proof -
  let ?x = "if wants_ack rx \<and> msg_size r \<noteq> 0 then Some (take (4 + unat (msg_size r)) (msg_bytes r)) else None"
  obtain e where e: "send_ack rx r (\<lambda>tx. 4 + unat (msg_size tx)) s \<in> {(Ok (r, ?x), s\<lparr>env := e\<rparr>), (Hang, s\<lparr>env := e\<rparr>)}"
    using send_ack_result [of r 0 sid "\<lambda>tx. 4 + unat (msg_size tx)" rx s] assms by (auto simp: wants_ack_def)
  have "take (4 + unat (msg_size r)) (msg_bytes r) ! 1 = msg_size r" by (simp add: msg_bytes_def)
  with e assms reply_bytes_of [of r sid fn "4 + unat (msg_size r)"] show ?thesis
    by (auto simp: bind_res_def ret_def)
qed

text \<open>
  C5: what the mailbox interrupt sends back is always a well-formed message of the protocol version: its length is four plus the
  size it states, at most 17 bytes, its flags say acknowledgement, and service and function are those of the request (0 for
  a request of size 0). It is sent only when the request wants it. Such a request stays without an answer
  only when it is deferred to the main loop or handled by the watchdog or low power service.
\<close>

theorem rpc_replies_well_formed:
  "case aon_rpc_dispatch par m s of
      (Ok (Some bs), t) \<Rightarrow> wants_ack m \<and> unat (bs ! 1) \<le> 13
        \<and> reply_bytes (if msg_size m = 0 then 0 else RPC_GET_SVC_ID m) (if msg_size m = 0 then 0 else func m) (4 + unat (bs ! 1)) bs
    | (Ok None, t) \<Rightarrow> wants_ack m \<longrightarrow> (RPC_GET_SVC_ID m, func m) = (AON_RPC_SVC_LPM, LPM_FUNC_AON_CPUHP)
        \<or> find_service (g_rpc_process s) (RPC_GET_SVC_ID m) \<in> {Some WDG_DISPATCH, Some LPM_DISPATCH}
    | (Err e, t) \<Rightarrow> False
    | _ \<Rightarrow> True"
proof -
  have ack1: "version (ack_head zero_msg 1 sid fn err) = AON_RPC_VERSION" "unat (msg_size (ack_head zero_msg 1 sid fn err)) \<le> 13"
    "svc (ack_head zero_msg 1 (RPC_GET_SVC_ID m) fn err) = 0xC0 OR RPC_GET_SVC_ID m" "svc (ack_head zero_msg 1 0 fn err) = 0xC0 OR 0"
    "func (ack_head zero_msg 1 sid fn err) = fn" "length (data (ack_head zero_msg 1 sid fn err)) = 24" for sid fn err
    by (simp_all add: ack_head_fields svc_ack_head zero_msg_def)
  consider "msg_size m = 0" | "msg_size m \<noteq> 0" "version m < AON_RPC_VERSION"
    | "msg_size m \<noteq> 0" "\<not> version m < AON_RPC_VERSION" "is_rpc_msg_high_priority (RPC_GET_SVC_ID m) (func m)"
    | "msg_size m \<noteq> 0" "\<not> version m < AON_RPC_VERSION" "\<not> is_rpc_msg_high_priority (RPC_GET_SVC_ID m) (func m)" by blast
  then show ?thesis
  proof cases
    case 1
    let ?r = "ack_head zero_msg 1 0 0 AON_ERR_IPC"
    from 1 show ?thesis
      using dispatch_reply [where r = ?r and rx = m and s = s, OF ack1(1,2,4,5,6)]
      by (auto simp: aon_rpc_dispatch_def AON_RPC_SVC_UNKNOWN_def ack_head_fields split: option.splits res.splits)
  next
    case 2
    let ?r = "ack_head zero_msg 1 (RPC_GET_SVC_ID m) (func m) AON_ERR_VERSION"
    from 2 show ?thesis
      using dispatch_reply [where r = ?r and rx = m and s = s, OF ack1(1,2,3,5,6)]
      by (auto simp: aon_rpc_dispatch_def ack_head_fields split: option.splits res.splits)
  next
    case 3
    obtain r t where p: "aon_rpc_msg_process par m zero_msg s = (r, t)" by fastforce
    show ?thesis
    proof (cases r)
      case (Ok a)
      have a: "version a = AON_RPC_VERSION" "unat (msg_size a) \<le> 13" "svc a = 0xC0 OR RPC_GET_SVC_ID m" "func a = func m" "length (data a) = 24"
        using process.reply_fields [OF p [unfolded Ok]] by (simp_all add: zero_msg_def)
      have "aon_rpc_dispatch par m s = bind_res (send_ack m a (\<lambda>tx. 4 + unat (msg_size tx))) (\<lambda>(_, sent). ret sent) t"
        using 3 p Ok by (simp add: aon_rpc_dispatch_def bind_res_def [of "aon_rpc_msg_process par m zero_msg"])
      with dispatch_reply [OF a, of m t] process_not_empty [OF p [unfolded Ok]] 3 show ?thesis
        by (auto split: option.splits res.splits)
    qed (use 3 p process.reply_no_error [of par m zero_msg s] in \<open>auto simp: aon_rpc_dispatch_def bind_res_def\<close>)
  next
    case 4
    then show ?thesis
      by (auto simp: aon_rpc_dispatch_def is_rpc_msg_high_priority_def low_priority_svc_list_def bind_res_def upd_st_def ret_def)
  qed
qed

definition sample_par :: svc_par where
  "sample_par = \<lparr>sp_fuel = 10, sp_junk = ([0, 0, 0], 0), sp_wide_shl = (\<lambda>_ _. 0), sp_stale = True\<rparr>"

text \<open>A request for the unregistered watchdog service, which wants an answer.\<close>

definition sample_request :: aon_rpc_msg_t where
  "sample_request = zero_msg\<lparr>version := 2, msg_size := 1, svc := AON_RPC_SVC_WDG, func := WDG_FUNC_WDG_START\<rparr>"

theorem rpc_replies_well_formed_witness:
  "\<exists>t. aon_rpc_dispatch sample_par sample_request sample_aon = (Ok (Some [2, 1, 0xC5, 1, 7]), t)
     \<and> reply_bytes AON_RPC_SVC_WDG WDG_FUNC_WDG_START 5 [2, 1, 0xC5, 1, 7]"
proof -
  have "find_service (g_rpc_process sample_aon) 5 = None"
    by (simp add: find_service_def sample_aon_def CONFIG_RPC_MAX_MSG_PROCESS_def numeral_eq_Suc)
  moreover have "take (Suc 0) ((replicate 24 (0 :: u8))[0 := 7]) = [7]" by (simp add: numeral_eq_Suc)
  ultimately obtain t where "aon_rpc_dispatch sample_par sample_request sample_aon = (Ok (Some [2, 1, 0xC5, 1, 7]), t)"
    by (simp add: aon_rpc_dispatch_def sample_request_def zero_msg_def AON_RPC_VERSION_def is_rpc_msg_high_priority_def low_priority_svc_list_def
        aon_svc_defs aon_err_defs aon_rpc_msg_process_def rpc_defs WDG_FUNC_WDG_START_def act_defs send_ack_def msg_bytes_def
        RPC_SVC_MSG_TYPE_ACK_def RPC_SVC_MSG_NO_NEED_ACK_def RPC_SVC_MSG_NEED_ACK_def
        sample_aon_def sample_soc_def)
  with rpc_replies_well_formed [where par = sample_par and m = sample_request and s = sample_aon] show ?thesis
    by (simp add: sample_request_def zero_msg_def RPC_GET_SVC_ID_def aon_svc_defs)
qed

subsection \<open>The main loop\<close>

text \<open>
  The steps of the running system as far as the RPC layer sees them: a mailbox interrupt or a turn of the main loop, which carries its
  message object \<open>tx\<close> from turn to turn.
\<close>

inductive rpc_step :: "svc_par \<Rightarrow> ('w, 'e) aon_t \<times> aon_rpc_msg_t \<Rightarrow> ('w, 'e) aon_t \<times> aon_rpc_msg_t \<Rightarrow> bool" for par where
  isr: "aon_low_power_isr par received ch n s = (Ok sent, t) \<Longrightarrow> rpc_step par (s, tx) (t, tx)"
| turn: "rpc_loop_turn par tx s = (Ok (tx', sent), t) \<Longrightarrow> rpc_step par (s, tx) (t, tx')"

inductive rpc_reach :: "svc_par \<Rightarrow> ('w, 'e) aon_t \<Rightarrow> ('w, 'e) aon_t \<times> aon_rpc_msg_t \<Rightarrow> bool" for par s0 where
  start: "rpc_reach par s0 (s0, zero_msg)"
| step: "rpc_reach par s0 x \<Longrightarrow> rpc_step par x y \<Longrightarrow> rpc_reach par s0 y"

inductive_cases rpc_stepE: "rpc_step par (s, tx) y"

definition deferred_msg :: "aon_rpc_msg_t \<Rightarrow> bool" where
  "deferred_msg m \<longleftrightarrow> RPC_GET_SVC_ID m = AON_RPC_SVC_LPM \<and> func m = LPM_FUNC_AON_CPUHP"

definition rpc_inv :: "('w, 'e) aon_t \<times> aon_rpc_msg_t \<Rightarrow> bool" where
  "rpc_inv = (\<lambda>(s, tx). rpcq_ok (g_rpc_quque s) \<and> (\<forall>m \<in> set (rpcq_list (g_rpc_quque s)). deferred_msg m)
     \<and> svc tx \<in> {0, 0xC6} \<and> length (data tx) = 24)"

lemma view_quque: "rpc_view t = rpc_view s \<Longrightarrow> g_rpc_quque t = g_rpc_quque s"
  by (simp add: rpc_view_def)

lemma send_ack_view: "send_ack rx tx len s = (r, t) \<Longrightarrow> rpc_view t = rpc_view s"
  by (auto simp: send_ack_def act_defs Let_def split: if_splits prod.splits option.splits)

lemma dispatch_queue:
  assumes "aon_rpc_dispatch par m s = (r, t)"
  shows "g_rpc_quque t = g_rpc_quque s \<or> deferred_msg m \<and> g_rpc_quque t = snd (enqueue m (g_rpc_quque s))"
proof -
  have reply: "g_rpc_quque t = g_rpc_quque u"
    if "bind_res (send_ack m tx len) (\<lambda>(_, sent). ret sent) u = (r, t)" for tx len u
  proof -
    obtain x v where a: "send_ack m tx len u = (x, v)" by fastforce
    with that have "v = t" by (cases x) (auto simp: bind_res_def ret_def)
    with view_quque [OF send_ack_view [OF a]] show ?thesis by simp
  qed
  show ?thesis
  proof (cases "msg_size m = 0 \<or> version m < AON_RPC_VERSION")
    case True
    with assms reply show ?thesis by (auto simp: aon_rpc_dispatch_def split: if_splits)
  next
    case False
    obtain x u where p: "aon_rpc_msg_process par m zero_msg s = (x, u)" by fastforce
    have frame: "g_rpc_quque u = g_rpc_quque s" by (rule view_quque [OF process.reply_frame [OF p]])
    show ?thesis
    proof (cases "is_rpc_msg_high_priority (RPC_GET_SVC_ID m) (func m)")
      case True
      have "g_rpc_quque t = g_rpc_quque u"
        using False True p assms by (cases x) (auto simp: aon_rpc_dispatch_def bind_res_def [of "aon_rpc_msg_process par m zero_msg"] dest!: reply)
      with frame show ?thesis by simp
    next
      case low: False
      with False assms show ?thesis
        by (auto simp: aon_rpc_dispatch_def deferred_msg_def is_rpc_msg_high_priority_def low_priority_svc_list_def bind_res_def upd_st_def ret_def)
    qed
  qed
qed

lemma enqueue_deferred:
  assumes "rpcq_ok q" and "\<forall>x \<in> set (rpcq_list q). deferred_msg x" and "deferred_msg m"
  shows "rpcq_ok (snd (enqueue m q)) \<and> (\<forall>x \<in> set (rpcq_list (snd (enqueue m q))). deferred_msg x)"
proof (cases "isFull q")
  case True
  with assms show ?thesis by (simp add: enqueue_def)
next
  case False
  then have "rpcq_len q < QUEUE_SIZE - 1" using isFull_iff [OF assms(1)] rpcq_len_bound [OF assms(1)] by simp
  from enqueue_accepts [OF assms(1) this, of m] assms(2,3) show ?thesis by auto
qed

lemma isr_keeps_inv:
  assumes "aon_low_power_isr par received ch n s = (Ok sent, t)" and "rpc_inv (s, tx)"
  shows "rpc_inv (t, tx)"
proof -
  have "g_rpc_quque t = g_rpc_quque s \<or> (\<exists>m. deferred_msg m \<and> g_rpc_quque t = snd (enqueue m (g_rpc_quque s)))"
  proof (cases received)
    case True
    obtain bs e where r: "mbox_receive (soc s) ch n (env s) = (bs, e)" by fastforce
    let ?m = "msg_of (put_prefix bs (rx_data s))" and ?u = "s\<lparr>env := e, rx_data := put_prefix bs (rx_data s)\<rparr>"
    have "aon_rpc_dispatch par ?m ?u = (Ok sent, t)"
      using assms(1) True r by (auto simp: aon_low_power_isr_def bind_res_def soc_call_def get_st_def upd_st_def undef_def split: if_splits)
    from dispatch_queue [OF this] show ?thesis by auto
  next
    case False
    with assms(1) show ?thesis by (auto simp: aon_low_power_isr_def ret_def)
  qed
  then show ?thesis
  proof (elim disjE exE conjE)
    fix m
    assume m: "deferred_msg m" "g_rpc_quque t = snd (enqueue m (g_rpc_quque s))"
    with assms(2) enqueue_deferred [OF _ _ m(1), of "g_rpc_quque s"] show ?thesis by (simp add: rpc_inv_def)
  qed (use assms(2) in \<open>simp add: rpc_inv_def\<close>)
qed

text \<open>What a turn that takes a message from the queue does.\<close>

lemma turn_message:
  assumes "rpc_loop_turn par tx s = (Ok (tx', sent), t)" and "rpc_inv (s, tx)"
  shows "rpc_inv (t, tx') \<and> (case sent of None \<Rightarrow> True | Some bs \<Rightarrow> reply_bytes AON_RPC_SVC_LPM LPM_FUNC_AON_CPUHP AON_RPC_MAX_LEN bs)"
proof (cases "rpcq_list (g_rpc_quque s)")
  case Nil
  with assms have "dequeue_msg (g_rpc_quque s) = (None, g_rpc_quque s)"
    using isEmpty_iff [of "g_rpc_quque s"] length_rpcq_list [of "g_rpc_quque s"] by (auto simp: rpc_inv_def dequeue_msg_def dequeue_def)
  with assms show ?thesis by (auto simp: rpc_loop_turn_def bind_res_def ret_def)
next
  case (Cons m ms)
  then obtain q where q: "dequeue_msg (g_rpc_quque s) = (Some m, q)" "rpcq_ok q" "rpcq_list q = ms"
    using dequeue_head [of "g_rpc_quque s" m ms] assms(2) unfolding rpc_inv_def by blast
  have m: "RPC_GET_SVC_ID m = 6" "func m = LPM_FUNC_AON_CPUHP" and ms: "\<forall>x \<in> set ms. deferred_msg x"
    using assms(2) Cons by (auto simp: rpc_inv_def deferred_msg_def aon_svc_defs)
  let ?u = "s\<lparr>g_rpc_quque := q\<rparr>"
  obtain r v where p: "aon_rpc_msg_process par m tx ?u = (Ok r, v)" and sd: "send_ack m r (\<lambda>_. AON_RPC_MAX_LEN) v = (Ok (tx', sent), t)"
    using assms(1) q(1) unfolding rpc_loop_turn_def by (auto simp: bind_res_def split: prod.splits res.splits)
  have "svc tx OR 0xC0 OR 6 = (0xC6 :: u8)" using assms(2) by (auto simp: rpc_inv_def)
  then have svc: "svc r = 0xC6" and r: "version r = AON_RPC_VERSION" "unat (msg_size r) \<le> 13" "func r = LPM_FUNC_AON_CPUHP" "length (data r) = 24"
    using process.reply_fields [OF p] m assms(2) by (auto simp: rpc_inv_def or.assoc)
  have "svc r = (0 OR 0xC0) OR 6" using svc by simp
  from send_ack_result [OF this, of "\<lambda>_. AON_RPC_MAX_LEN" m v] r(4) sd
  obtain e where e: "tx' = r" "t = v\<lparr>env := e\<rparr>" "sent = None \<or> msg_size r \<noteq> 0 \<and> sent = Some (take AON_RPC_MAX_LEN (msg_bytes r))"
    by (auto simp: AON_RPC_MAX_LEN_def split: if_splits)
  have "g_rpc_quque t = q" using view_quque [OF process.reply_frame [OF p]] e(2) by simp
  then have "rpc_inv (t, tx')" using q(2,3) ms e(1) svc r(4) by (simp add: rpc_inv_def)
  moreover have "reply_bytes AON_RPC_SVC_LPM LPM_FUNC_AON_CPUHP AON_RPC_MAX_LEN (take AON_RPC_MAX_LEN (msg_bytes r))" if "msg_size r \<noteq> 0"
    using r svc that by (intro reply_bytes_of) (simp_all add: aon_svc_defs AON_RPC_MAX_LEN_def)
  ultimately show ?thesis using e(3) by auto
qed

lemma reach_inv:
  assumes "rpc_reach par s0 x" and "rpcq_ok (g_rpc_quque s0)" and "rpcq_list (g_rpc_quque s0) = []"
  shows "rpc_inv x"
  using assms
proof (induction rule: rpc_reach.induct)
  case start
  then show ?case by (simp add: rpc_inv_def zero_msg_def)
next
  case (step x y)
  obtain s tx where x: "x = (s, tx)" by fastforce
  with step have inv: "rpc_inv (s, tx)" by simp
  from step.hyps(2) show ?case
    unfolding x by (rule rpc_stepE) (use isr_keeps_inv [OF _ inv] turn_message [OF _ inv] in auto)
qed

text \<open>
  C13: the main loop never clears its message object, and the accessors only or the service id into it. Nevertheless, however interrupts
  and turns of the loop follow each other after the start, every reply the loop sends is a well-formed acknowledgement with
  the service and function of its request, since only requests to switch a core reach the queue. It sends the
  whole object of 28 bytes.
\<close>

theorem main_loop_replies:
  assumes "rpc_reach par s0 (s, tx)" and "rpcq_ok (g_rpc_quque s0)" and "rpcq_list (g_rpc_quque s0) = []"
    and "rpc_loop_turn par tx s = (Ok (tx', Some bs), t)"
  shows "(\<forall>m \<in> set (rpcq_list (g_rpc_quque s)). deferred_msg m)
    \<and> reply_bytes AON_RPC_SVC_LPM LPM_FUNC_AON_CPUHP AON_RPC_MAX_LEN bs"
  using reach_inv [OF assms(1-3)] turn_message [OF assms(4)] by (simp add: rpc_inv_def)

text \<open>A mailbox in which a request to switch core 1 waits.\<close>

definition sample_hotplug :: "u8 list" where
  "sample_hotplug = [2, 4, 6, 4, 0, 1, 0, 1, 0, 0, 0, 0, 0, 0, 0, 0, 0, 0, 0, 0, 0, 0, 0, 0, 0, 0, 0, 0]"

definition sample_ringing :: "(sample_hw, u32 \<Rightarrow> u32) aon_t" where
  "sample_ringing = sample_aon\<lparr>soc := sample_soc\<lparr>mbox_receive := \<lambda>ch n e. (sample_hotplug, e)\<rparr>\<rparr>"

definition sample_queued :: "(sample_hw, u32 \<Rightarrow> u32) aon_t" where
  "sample_queued = sample_ringing\<lparr>rx_data := sample_hotplug,
     g_rpc_quque := \<lparr>items = (replicate QUEUE_SIZE zero_msg)[0 := msg_of sample_hotplug], front = 0, rear = 1\<rparr>\<rparr>"

lemma sample_isr: "aon_low_power_isr sample_par True 0 28 sample_ringing = (Ok None, sample_queued)"
  by (simp add: aon_low_power_isr_def sample_ringing_def sample_queued_def sample_aon_def sample_soc_def act_defs put_prefix_def sample_hotplug_def
      AON_RPC_MAX_LEN_def aon_rpc_dispatch_def msg_of_def AON_RPC_VERSION_def is_rpc_msg_high_priority_def low_priority_svc_list_def
      RPC_GET_SVC_ID_def aon_svc_defs LPM_FUNC_AON_CPUHP_def rpcq_defs)

theorem main_loop_replies_witness:
  "\<exists>tx' bs t. rpc_loop_turn sample_par zero_msg sample_queued = (Ok (tx', Some bs), t)
     \<and> reply_bytes AON_RPC_SVC_LPM LPM_FUNC_AON_CPUHP AON_RPC_MAX_LEN bs"
proof -
  have reach: "rpc_reach sample_par sample_ringing (sample_queued, zero_msg)"
    by (rule rpc_reach.step [OF rpc_reach.start rpc_step.isr [OF sample_isr]])
  have q: "rpcq_ok (g_rpc_quque sample_ringing)" "rpcq_list (g_rpc_quque sample_ringing) = []"
    by (simp_all add: sample_ringing_def sample_aon_def rpcq_ok_def rpcq_list_def rpcq_len_def QUEUE_SIZE_def)
  have "find_service (replicate 10 \<lparr>p_svc = 0, p_func = None\<rparr>) 6 = None"
    by (simp add: find_service_def numeral_eq_Suc)
  then obtain tx' bs t where turn: "rpc_loop_turn sample_par zero_msg sample_queued = (Ok (tx', Some bs), t)"
    by (simp add: rpc_loop_turn_def sample_queued_def sample_ringing_def sample_aon_def sample_soc_def sample_hotplug_def act_defs
        rpcq_defs msg_of_def aon_rpc_msg_process_def send_ack_def rpc_defs CONFIG_RPC_MAX_MSG_PROCESS_def length_msg_bytes AON_RPC_MAX_LEN_def
        RPC_SVC_MSG_NEED_ACK_def zero_msg_def)
  with main_loop_replies [OF reach q turn] show ?thesis by blast
qed

end
