(* ===== verification/Wj_Mbox.thy ===== *)
theory Wj_Mbox
  imports Csi_Dev
begin

text \<open>
  The mailbox driver (\<^verbatim>\<open>csi/drivers/mbox/wj/v5.0\<close>: \<^verbatim>\<open>mbox.c\<close> and \<^verbatim>\<open>wj_mbox_ll.h\<close>). A message is the seven words INFO0 to
  INFO6 of a channel; INFO7 carries the acknowledgement. A processor reads its local registers and writes the ones that are
  local to the other side. The size arguments of the driver are not used by it. The handle is \<^verbatim>\<open>mbox\<close> of
  \<^verbatim>\<open>board_init.c\<close>; its device object has number 1.
\<close>

subsection \<open>Registers\<close>

definition TH1520_MBOX_STA :: u32 where "TH1520_MBOX_STA = 0"
definition TH1520_MBOX_CLR :: u32 where "TH1520_MBOX_CLR = 4"
definition TH1520_MBOX_MASK :: u32 where "TH1520_MBOX_MASK = 0xc"
definition TH1520_MBOX_DATA_INFO_NUM :: nat where "TH1520_MBOX_DATA_INFO_NUM = 7"
definition TH1520_MBOX_INFO0 :: u32 where "TH1520_MBOX_INFO0 = 0x14"
definition TH1520_MBOX_INFO7 :: u32 where "TH1520_MBOX_INFO7 = 0x30"
definition TH1520_MBOX_GEN :: u32 where "TH1520_MBOX_GEN = 0x10"
definition TH1520_MBOX_GEN_TX_DATA :: u32 where "TH1520_MBOX_GEN_TX_DATA = 0x40"
definition TH1520_MBOX_GEN_TX_ACK :: u32 where "TH1520_MBOX_GEN_TX_ACK = 0x80"
definition TH1520_MBOX_CHANS :: nat where "TH1520_MBOX_CHANS = 4"
definition TH1520_MBOX_ACK_MAGIC :: u32 where "TH1520_MBOX_ACK_MAGIC = 0xdeadbeaf"
definition TH1520_MBOX_ICU_CPU1 :: nat where "TH1520_MBOX_ICU_CPU1 = 1"
definition TH1520_MBOX_ICU_CPU2 :: nat where "TH1520_MBOX_ICU_CPU2 = 2"
definition TH1520_MBOX_ICU_CPU3 :: nat where "TH1520_MBOX_ICU_CPU3 = 3"

lemmas mbox_offsets = TH1520_MBOX_STA_def TH1520_MBOX_CLR_def TH1520_MBOX_MASK_def TH1520_MBOX_INFO0_def TH1520_MBOX_INFO7_def
  TH1520_MBOX_GEN_def
lemmas mbox_consts = TH1520_MBOX_DATA_INFO_NUM_def TH1520_MBOX_GEN_TX_DATA_def TH1520_MBOX_GEN_TX_ACK_def TH1520_MBOX_CHANS_def
  TH1520_MBOX_ACK_MAGIC_def TH1520_MBOX_ICU_CPU1_def TH1520_MBOX_ICU_CPU2_def TH1520_MBOX_ICU_CPU3_def

record th1520_mbox_priv =
  cur_cpu_ch_base :: u32
  cur_icu_cpu_id :: nat
  comm_local_base :: "u32 list"
  comm_remote_base :: "u32 list"

text \<open>The addresses of the second entry have 40 bits; a pointer of the always-on processor keeps the lower 32.\<close>

definition priv :: "th1520_mbox_priv list" where
  "priv =
     [\<lparr>cur_cpu_ch_base = 0xFFC41000, cur_icu_cpu_id = TH1520_MBOX_ICU_CPU1,
       comm_local_base = [0xFFC40000, 0xFFC41000, 0xFFC42000, 0xFFC43000],
       comm_remote_base = [0xFFC3D000, 0xFFC41000, 0xFFC4D000, 0xFFC55000]\<rparr>,
      \<lparr>cur_cpu_ch_base = 0xEFC4A000, cur_icu_cpu_id = TH1520_MBOX_ICU_CPU2,
       comm_local_base = [0xEFC48000, 0xEFC49000, 0xEFC4A000, 0xEFC4B000],
       comm_remote_base = [0xEFC3E000, 0xEFC46000, 0xEFC4A000, 0xEFC56000]\<rparr>]"

definition get_mbox_priv :: "nat \<Rightarrow> th1520_mbox_priv option" where
  "get_mbox_priv i = List.find (\<lambda>p. cur_icu_cpu_id p = i) priv"

text \<open>\<open>mbox_callback\<close>: whether a callback is attached to the handle.\<close>

record 'e mbox_t = "'e dev_t" +
  mbox_callback :: bool

type_synonym ('e, 'z, 'a) mact = "(('e, 'z) mbox_t_scheme, 'a) act"

definition wj_mbox_write :: "th1520_mbox_priv \<Rightarrow> u32 \<Rightarrow> u32 \<Rightarrow> ('e, 'z, unit) mact" where
  "wj_mbox_write p val offs = CHIP_REG_SET val (cur_cpu_ch_base p + offs)"

definition wj_mbox_read :: "th1520_mbox_priv \<Rightarrow> u32 \<Rightarrow> ('e, 'z, u32) mact" where
  "wj_mbox_read p offs = CHIP_REG_GET (cur_cpu_ch_base p + offs)"

definition wj_mbox_rmw :: "th1520_mbox_priv \<Rightarrow> u32 \<Rightarrow> u32 \<Rightarrow> u32 \<Rightarrow> ('e, 'z, u32) mact" where
  "wj_mbox_rmw p offs st clr =
     bind_res (wj_mbox_read p offs) (\<lambda>v. let val = (v AND NOT clr) OR st in
     bind_res (wj_mbox_write p val offs) (\<lambda>_. ret val))"

definition chan_base :: "th1520_mbox_priv \<Rightarrow> nat \<Rightarrow> bool \<Rightarrow> ('e, 'z, u32) mact" where
  "chan_base p channel_id is_remote = arr_get (if is_remote then comm_remote_base p else comm_local_base p) channel_id"

definition wj_mbox_chan_write :: "th1520_mbox_priv \<Rightarrow> nat \<Rightarrow> u32 \<Rightarrow> u32 \<Rightarrow> bool \<Rightarrow> ('e, 'z, unit) mact" where
  "wj_mbox_chan_write p channel_id val offs is_remote =
     bind_res (chan_base p channel_id is_remote) (\<lambda>b. CHIP_REG_SET val (b + offs))"

definition wj_mbox_chan_read :: "th1520_mbox_priv \<Rightarrow> nat \<Rightarrow> u32 \<Rightarrow> bool \<Rightarrow> ('e, 'z, u32) mact" where
  "wj_mbox_chan_read p channel_id offs is_remote =
     bind_res (chan_base p channel_id is_remote) (\<lambda>b. CHIP_REG_GET (b + offs))"

definition wj_mbox_chan_rmw :: "th1520_mbox_priv \<Rightarrow> nat \<Rightarrow> u32 \<Rightarrow> u32 \<Rightarrow> u32 \<Rightarrow> bool \<Rightarrow> ('e, 'z, unit) mact" where
  "wj_mbox_chan_rmw p channel_id off st clr is_remote =
     bind_res (wj_mbox_chan_read p channel_id off is_remote) (\<lambda>v.
     wj_mbox_chan_write p channel_id ((v AND NOT clr) OR st) off is_remote)"

text \<open>The loops over INFO0 to INFO6; the data are the words of the buffer, of which seven are read.\<close>

fun rd_words :: "nat \<Rightarrow> th1520_mbox_priv \<Rightarrow> nat \<Rightarrow> u32 \<Rightarrow> bool \<Rightarrow> ('e, 'z, u32 list) mact" where
  "rd_words 0 p channel_id off is_remote = ret []"
| "rd_words (Suc n) p channel_id off is_remote =
     bind_res (wj_mbox_chan_read p channel_id off is_remote) (\<lambda>w.
     bind_res (rd_words n p channel_id (off + 4) is_remote) (\<lambda>ws. ret (w # ws)))"

definition wj_mbox_chan_rd_data :: "th1520_mbox_priv \<Rightarrow> nat \<Rightarrow> bool \<Rightarrow> ('e, 'z, u32 list) mact" where
  "wj_mbox_chan_rd_data p channel_id is_remote = rd_words TH1520_MBOX_DATA_INFO_NUM p channel_id TH1520_MBOX_INFO0 is_remote"

fun wr_words :: "nat \<Rightarrow> u32 list \<Rightarrow> th1520_mbox_priv \<Rightarrow> nat \<Rightarrow> u32 \<Rightarrow> bool \<Rightarrow> ('e, 'z, unit) mact" where
  "wr_words 0 ws p channel_id off is_remote = ret ()"
| "wr_words (Suc n) ws p channel_id off is_remote =
     (case ws of
        [] \<Rightarrow> undef
      | w # ws' \<Rightarrow>
          bind_res (wj_mbox_chan_write p channel_id w off is_remote) (\<lambda>_. wr_words n ws' p channel_id (off + 4) is_remote))"

definition wj_mbox_chan_wr_data :: "th1520_mbox_priv \<Rightarrow> nat \<Rightarrow> u32 list \<Rightarrow> bool \<Rightarrow> ('e, 'z, unit) mact" where
  "wj_mbox_chan_wr_data p channel_id ws is_remote = wr_words TH1520_MBOX_DATA_INFO_NUM ws p channel_id TH1520_MBOX_INFO0 is_remote"

definition wj_mbox_chan_wr_ack :: "th1520_mbox_priv \<Rightarrow> nat \<Rightarrow> u32 \<Rightarrow> bool \<Rightarrow> ('e, 'z, unit) mact" where
  "wj_mbox_chan_wr_ack p channel_id w is_remote = wj_mbox_chan_write p channel_id w TH1520_MBOX_INFO7 is_remote"

subsection \<open>The driver\<close>

definition mbox :: nat where "mbox = 1"

definition mbox_idx :: "('e, 'z, nat) mact" where
  "mbox_idx = get_st (\<lambda>s. unat (dev_idx (dev_objs s mbox)))"

definition mbox_irq :: "('e, 'z, nat) mact" where
  "mbox_irq = get_st (\<lambda>s. unat (irq_num (dev_objs s mbox)))"

text \<open>
  One pass over the channels: \<open>i\<close> runs from 0 to 2, and channel numbers skip the processor itself. The argument \<open>callback\<close> is
  what the attached callback does with a channel; it is code of the client.
\<close>

definition irq_channel :: "th1520_mbox_priv \<Rightarrow> (nat \<Rightarrow> ('e, 'z, unit) mact) \<Rightarrow> u32 \<Rightarrow> nat \<Rightarrow> ('e, 'z, unit) mact" where
  "irq_channel p callback sta i =
     (if \<not> bit sta i then ret ()
      else
        bind_res (wj_mbox_rmw p TH1520_MBOX_CLR (push_bit i 1) 0) (\<lambda>_.
        let id_map = (if i \<ge> TH1520_MBOX_ICU_CPU1 then i + 1 else i) in
        bind_res (wj_mbox_chan_read p id_map TH1520_MBOX_INFO0 False) (\<lambda>info0_data.
        bind_res (get_st mbox_callback) (\<lambda>attached. if info0_data \<noteq> 0 \<and> attached then callback id_map else ret ()))))"

fun irq_loop :: "nat \<Rightarrow> th1520_mbox_priv \<Rightarrow> (nat \<Rightarrow> ('e, 'z, unit) mact) \<Rightarrow> u32 \<Rightarrow> ('e, 'z, unit) mact" where
  "irq_loop 0 p callback sta = hang"
| "irq_loop (Suc fuel) p callback sta =
     (if sta = 0 then ret ()
      else
        bind_res (for_each [0..<TH1520_MBOX_CHANS - 1] (irq_channel p callback sta)) (\<lambda>_.
        bind_res (wj_mbox_read p TH1520_MBOX_STA) (irq_loop fuel p callback)))"

definition run_wj_mbox_irq_handler :: "nat \<Rightarrow> (nat \<Rightarrow> ('e, 'z, unit) mact) \<Rightarrow> ('e, 'z, unit) mact" where
  "run_wj_mbox_irq_handler fuel callback =
     bind_res mbox_idx (\<lambda>i. case get_mbox_priv i of
       None \<Rightarrow> ret ()
     | Some p \<Rightarrow> bind_res (wj_mbox_read p TH1520_MBOX_STA) (irq_loop fuel p callback))"

text \<open>The channels of the other processors, with the number of the bit in the mask.\<close>

fun init_chans :: "th1520_mbox_priv \<Rightarrow> nat list \<Rightarrow> nat \<Rightarrow> ('e, 'z, unit) mact" where
  "init_chans p [] bitmap = ret ()"
| "init_chans p (i # is) bitmap =
     (if i = cur_icu_cpu_id p then init_chans p is bitmap
      else seqs
        [wj_mbox_chan_rmw p i TH1520_MBOX_GEN 0 0xff True,
         wj_mbox_chan_rmw p i TH1520_MBOX_GEN 0 0xff False,
         wj_mbox_chan_wr_ack p i 0 True,
         wj_mbox_chan_wr_data p i (replicate 8 0) False,
         bind_res (wj_mbox_rmw p TH1520_MBOX_MASK (push_bit bitmap 1) 0) (\<lambda>_. ret ()),
         init_chans p is (bitmap + 1)])"

definition csi_mbox_init :: "u32 \<Rightarrow> ('e, 'z, unit) mact" where
  "csi_mbox_init i =
     (case get_mbox_priv (unat i) of
        None \<Rightarrow> fail CSI_ERROR
      | Some p \<Rightarrow>
          bind_res (get_st (\<lambda>s. target_get DEV_WJ_MBOX_TAG i (Some (dev_objs s mbox)))) (\<lambda>r.
          case r of
            Inl e \<Rightarrow> fail CSI_ERROR
          | Inr d \<Rightarrow> bind_res (upd_obj mbox (\<lambda>_. d)) (\<lambda>_. init_chans p [0..<TH1520_MBOX_CHANS] 0)))"

definition csi_mbox_uninit :: "('e, 'z, unit) mact" where
  "csi_mbox_uninit =
     bind_res mbox_idx (\<lambda>i. case get_mbox_priv i of
       None \<Rightarrow> ret ()
     | Some p \<Rightarrow> bind_res mbox_irq (\<lambda>irq. seqs
         [for_each [0..<TH1520_MBOX_CHANS - 1] (\<lambda>i. bind_res (wj_mbox_rmw p TH1520_MBOX_MASK 0 (push_bit i 1)) (\<lambda>_. ret ())),
          csi_irq_detach irq,
          soc_do (\<lambda>c. irq_disable c irq)]))"

text \<open>The result is -1 when there is no such mailbox. The wait for the acknowledgement has no time limit; fuel bounds its turns.\<close>

fun wait_ack :: "nat \<Rightarrow> th1520_mbox_priv \<Rightarrow> nat \<Rightarrow> ('e, 'z, unit) mact" where
  "wait_ack 0 p channel_id = hang"
| "wait_ack (Suc fuel) p channel_id =
     bind_res (wj_mbox_chan_read p channel_id TH1520_MBOX_INFO7 False) (\<lambda>ack_magic.
     if ack_magic \<noteq> TH1520_MBOX_ACK_MAGIC then wait_ack fuel p channel_id else ret ())"

definition csi_mbox_send :: "nat \<Rightarrow> nat \<Rightarrow> u32 list \<Rightarrow> nat \<Rightarrow> ('e, 'z, int) mact" where
  "csi_mbox_send fuel channel_id ws sz =
     bind_res mbox_idx (\<lambda>i. case get_mbox_priv i of
       None \<Rightarrow> ret (-1)
     | Some p \<Rightarrow>
         bind_res (wj_mbox_chan_wr_data p channel_id ws True) (\<lambda>_.
         bind_res (wj_mbox_chan_rmw p channel_id TH1520_MBOX_GEN TH1520_MBOX_GEN_TX_DATA 0 True) (\<lambda>_.
         bind_res (wait_ack fuel p channel_id) (\<lambda>_. ret 0))))"

text \<open>\<open>None\<close> stands for the result -1, for which the buffer is not written.\<close>

definition csi_mbox_receive :: "nat \<Rightarrow> nat \<Rightarrow> ('e, 'z, u32 list option) mact" where
  "csi_mbox_receive channel_id sz =
     bind_res mbox_idx (\<lambda>i. case get_mbox_priv i of
       None \<Rightarrow> ret None
     | Some p \<Rightarrow>
         bind_res (wj_mbox_chan_rd_data p channel_id False) (\<lambda>ws.
         bind_res (wj_mbox_chan_write p channel_id 0 TH1520_MBOX_INFO0 False) (\<lambda>_.
         bind_res (wj_mbox_chan_wr_ack p channel_id TH1520_MBOX_ACK_MAGIC True) (\<lambda>_.
         bind_res
           (if channel_id \<noteq> TH1520_MBOX_ICU_CPU3
            then wj_mbox_chan_rmw p channel_id TH1520_MBOX_GEN TH1520_MBOX_GEN_TX_ACK 0 True
            else ret ()) (\<lambda>_.
         ret (Some ws))))))"

definition csi_mbox_attach_callback :: "('e, 'z, unit) mact" where
  "csi_mbox_attach_callback =
     bind_res mbox_irq (\<lambda>irq. seqs
       [upd_st (\<lambda>s. s\<lparr>mbox_callback := True\<rparr>),
        csi_irq_attach irq wj_mbox_irq_handler mbox,
        soc_do (\<lambda>c. irq_enable c irq)])"

definition csi_mbox_detach_callback :: "('e, 'z, unit) mact" where
  "csi_mbox_detach_callback =
     bind_res mbox_irq (\<lambda>irq. seqs
       [upd_st (\<lambda>s. s\<lparr>mbox_callback := False\<rparr>),
        csi_irq_detach irq,
        soc_do (\<lambda>c. irq_disable c irq)])"

subsection \<open>What the functions do to the registers\<close>

text \<open>A list of words stored from an address on.\<close>

fun put_words :: "u32 \<Rightarrow> u32 list \<Rightarrow> (u32 \<Rightarrow> u32) \<Rightarrow> u32 \<Rightarrow> u32" where
  "put_words a [] r = r"
| "put_words a (w # ws) r = put_words (a + 4) ws (r(a := w))"

fun get_words :: "nat \<Rightarrow> u32 \<Rightarrow> (u32 \<Rightarrow> u32) \<Rightarrow> u32 list" where
  "get_words 0 a r = []"
| "get_words (Suc n) a r = r a # get_words n (a + 4) r"

fun all_plain :: "(u32 \<Rightarrow> bool) \<Rightarrow> nat \<Rightarrow> u32 \<Rightarrow> bool" where
  "all_plain R 0 a \<longleftrightarrow> True"
| "all_plain R (Suc n) a \<longleftrightarrow> R a \<and> all_plain R n (a + 4)"

definition chan_addr :: "th1520_mbox_priv \<Rightarrow> nat \<Rightarrow> bool \<Rightarrow> u32" where
  "chan_addr p ch is_remote = (if is_remote then comm_remote_base p else comm_local_base p) ! ch"

definition chan_ok :: "th1520_mbox_priv \<Rightarrow> nat \<Rightarrow> bool" where
  "chan_ok p ch \<longleftrightarrow> ch < length (comm_remote_base p) \<and> ch < length (comm_local_base p)"

lemma chan_base_ret: "chan_ok p ch \<Longrightarrow> chan_base p ch rem = ret (chan_addr p ch rem)"
  by (rule ext) (auto simp: chan_base_def chan_ok_def chan_addr_def arr_get_def ret_def)

lemma computes_chan_read [computes_rules]:
  "chan_ok p ch \<Longrightarrow> R (chan_addr p ch rem + off) \<Longrightarrow>
   computes R regs (wj_mbox_chan_read p ch off rem) (\<lambda>r. r (chan_addr p ch rem + off)) id"
  by (simp add: wj_mbox_chan_read_def chan_base_ret computes_get)

lemma computes_chan_write [computes_rules]:
  "chan_ok p ch \<Longrightarrow> R (chan_addr p ch rem + off) \<Longrightarrow>
   computes R regs (wj_mbox_chan_write p ch v off rem) (\<lambda>_. ()) (\<lambda>r. r(chan_addr p ch rem + off := v))"
  by (simp add: wj_mbox_chan_write_def chan_base_ret computes_set)

lemma computes_chan_rmw [computes_rules]:
  "chan_ok p ch \<Longrightarrow> R (chan_addr p ch rem + off) \<Longrightarrow>
   computes R regs (wj_mbox_chan_rmw p ch off st clr rem) (\<lambda>_. ())
     (\<lambda>r. r(chan_addr p ch rem + off := (r (chan_addr p ch rem + off) AND NOT clr) OR st))"
  unfolding wj_mbox_chan_rmw_def
  by (rule computes_cong [OF computes_bind [OF computes_chan_read computes_chan_write]]) auto

lemma computes_rd_words:
  assumes "chan_ok p ch" and "all_plain R n (chan_addr p ch rem + off)"
  shows "computes R regs (rd_words n p ch off rem) (get_words n (chan_addr p ch rem + off)) id"
  using assms(2)
proof (induction n arbitrary: off)
  case 0
  show ?case unfolding rd_words.simps by (rule computes_cong [OF computes_ret]) auto
next
  case (Suc n)
  have "all_plain R n (chan_addr p ch rem + (off + 4))" using Suc.prems by (simp add: add.assoc)
  note ih = Suc.IH [OF this]
  show ?case unfolding rd_words.simps
    by (rule computes_cong [OF computes_bind [OF computes_chan_read computes_bind [OF ih computes_ret]]])
      (use Suc.prems assms(1) in \<open>auto simp: add.assoc\<close>)
qed

lemma computes_wr_words:
  assumes "chan_ok p ch" and "all_plain R n (chan_addr p ch rem + off)" and "n \<le> length ws"
  shows "computes R regs (wr_words n ws p ch off rem) (\<lambda>_. ()) (put_words (chan_addr p ch rem + off) (take n ws))"
  using assms(2,3)
proof (induction n arbitrary: off ws)
  case 0
  show ?case unfolding wr_words.simps by (rule computes_cong [OF computes_ret]) auto
next
  case (Suc n)
  then obtain w ws' where ws: "ws = w # ws'" by (cases ws) auto
  have "all_plain R n (chan_addr p ch rem + (off + 4))" "n \<le> length ws'" using Suc.prems ws by (simp_all add: add.assoc)
  note ih = Suc.IH [OF this]
  show ?case unfolding ws wr_words.simps list.case
    by (rule computes_cong [OF computes_bind [OF computes_chan_write ih]])
      (use Suc.prems assms(1) in \<open>auto simp: add.assoc fun_upd_def\<close>)
qed

lemma forall_less_7: "(\<forall>i < (7 :: nat). P i) \<longleftrightarrow> P 0 \<and> P 1 \<and> P 2 \<and> P 3 \<and> P 4 \<and> P 5 \<and> P 6"
proof -
  have "{i. i < (7 :: nat)} = {0, 1, 2, 3, 4, 5, 6}" by auto
  then show ?thesis by (metis (no_types, lifting) insert_iff mem_Collect_eq singletonD)
qed

lemma get_words_7: "get_words 7 a r = [r a, r (a + 4), r (a + 4 + 4), r (a + 4 + 4 + 4), r (a + 4 + 4 + 4 + 4),
    r (a + 4 + 4 + 4 + 4 + 4), r (a + 4 + 4 + 4 + 4 + 4 + 4)]"
  by (simp add: eval_nat_numeral)

lemma get_put_words:
  assumes "length ws = 7"
  shows "get_words 7 a (put_words a ws r) = ws" and "\<forall>i < 7. x \<noteq> a + 4 * of_nat i \<Longrightarrow> put_words a ws r x = r x"
proof -
  obtain w0 w1 w2 w3 w4 w5 w6 where ws: "ws = [w0, w1, w2, w3, w4, w5, w6]"
    using assms by (auto simp: numeral_eq_Suc length_Suc_conv)
  show "get_words 7 a (put_words a ws r) = ws" unfolding get_words_7 ws by simp
  assume "\<forall>i < 7. x \<noteq> a + 4 * of_nat i"
  then have x: "i < 7 \<Longrightarrow> x \<noteq> a + 4 * of_nat i" for i by blast
  show "put_words a ws r x = r x"
    unfolding ws using x [of 0] x [of 1] x [of 2] x [of 3] x [of 4] x [of 5] x [of 6] by (simp add: ac_simps)
qed

text \<open>The registers of a channel of the always-on processor that hold what is written to them.\<close>

definition aon_mbox :: th1520_mbox_priv where "aon_mbox = priv ! 0"

abbreviation local_reg :: "nat \<Rightarrow> u32 \<Rightarrow> u32" where
  "local_reg ch off \<equiv> chan_addr aon_mbox ch False + off"

abbreviation remote_reg :: "nat \<Rightarrow> u32 \<Rightarrow> u32" where
  "remote_reg ch off \<equiv> chan_addr aon_mbox ch True + off"

definition mbox_plain :: "nat \<Rightarrow> (u32 \<Rightarrow> bool) \<Rightarrow> bool" where
  "mbox_plain ch R \<longleftrightarrow> all_plain R 8 (local_reg ch TH1520_MBOX_INFO0) \<and> all_plain R 8 (remote_reg ch TH1520_MBOX_INFO0)
     \<and> R (remote_reg ch TH1520_MBOX_GEN)"

lemma mbox_plainD:
  assumes "mbox_plain ch R"
  shows "all_plain R 7 (local_reg ch TH1520_MBOX_INFO0)" "all_plain R 7 (remote_reg ch TH1520_MBOX_INFO0)"
    "R (local_reg ch TH1520_MBOX_INFO0)" "R (local_reg ch TH1520_MBOX_INFO7)" "R (remote_reg ch TH1520_MBOX_INFO7)" "R (remote_reg ch TH1520_MBOX_GEN)"
proof -
  have all: "all_plain R 8 (b + TH1520_MBOX_INFO0) \<Longrightarrow> all_plain R 7 (b + TH1520_MBOX_INFO0) \<and> R (b + TH1520_MBOX_INFO0) \<and> R (b + TH1520_MBOX_INFO7)" for b
    by (simp add: eval_nat_numeral mbox_offsets add.assoc)
  show "all_plain R 7 (local_reg ch TH1520_MBOX_INFO0)" "all_plain R 7 (remote_reg ch TH1520_MBOX_INFO0)"
    "R (local_reg ch TH1520_MBOX_INFO0)" "R (local_reg ch TH1520_MBOX_INFO7)" "R (remote_reg ch TH1520_MBOX_INFO7)" "R (remote_reg ch TH1520_MBOX_GEN)"
    using assms all unfolding mbox_plain_def by blast+
qed

lemma aon_chan_ok: "ch < 4 \<Longrightarrow> chan_ok aon_mbox ch"
  by (simp add: chan_ok_def aon_mbox_def priv_def)

lemma aon_priv: "get_mbox_priv 1 = Some aon_mbox"
  by (simp add: get_mbox_priv_def aon_mbox_def priv_def mbox_consts)

lemma bind_mbox_idx: "dev_idx (dev_objs s mbox) = 1 \<Longrightarrow> bind_res mbox_idx f s = f 1 s"
  by (simp add: mbox_idx_def get_st_def bind_res_def)

lemma receive_effect:
  fixes s :: "('e, 'z) mbox_t_scheme"
  assumes s: "dev_idx (dev_objs s mbox) = 1" "ch < 4" "reg_file (soc s) R regs" "mbox_plain ch R"
  shows "\<exists>t. csi_mbox_receive ch sz s = (Ok (Some (get_words 7 (local_reg ch TH1520_MBOX_INFO0) (regs (env s)))), t) \<and> only_hw s t
    \<and> regs (env t) = (let r = (regs (env s))(local_reg ch TH1520_MBOX_INFO0 := 0, remote_reg ch TH1520_MBOX_INFO7 := TH1520_MBOX_ACK_MAGIC)
        in if ch = TH1520_MBOX_ICU_CPU3 then r
           else r(remote_reg ch TH1520_MBOX_GEN := r (remote_reg ch TH1520_MBOX_GEN) OR TH1520_MBOX_GEN_TX_ACK))"
proof -
  note plain = mbox_plainD [OF s(4)] and ok = aon_chan_ok [OF s(2)]
  let ?ack = "if ch \<noteq> TH1520_MBOX_ICU_CPU3 then wj_mbox_chan_rmw aon_mbox ch TH1520_MBOX_GEN TH1520_MBOX_GEN_TX_ACK 0 True else ret ()
    :: ('e, 'z, unit) mact"
  have ack: "computes R regs ?ack (\<lambda>_. ()) (if ch = TH1520_MBOX_ICU_CPU3 then id
      else (\<lambda>r. r(remote_reg ch TH1520_MBOX_GEN := r (remote_reg ch TH1520_MBOX_GEN) OR TH1520_MBOX_GEN_TX_ACK)))"
    by (simp add: computes_ret computes_chan_rmw [where R = R and rem = True and off = TH1520_MBOX_GEN and clr = 0, OF ok plain(6), simplified])
  define m :: "('e, 'z, u32 list option) mact" where
    "m = bind_res (wj_mbox_chan_rd_data aon_mbox ch False) (\<lambda>ws.
       bind_res (wj_mbox_chan_write aon_mbox ch 0 TH1520_MBOX_INFO0 False) (\<lambda>_.
       bind_res (wj_mbox_chan_wr_ack aon_mbox ch TH1520_MBOX_ACK_MAGIC True) (\<lambda>_.
       bind_res ?ack (\<lambda>_. ret (Some ws)))))"
  have m: "csi_mbox_receive ch sz s = m s" unfolding csi_mbox_receive_def bind_mbox_idx [OF s(1)] aon_priv m_def by simp
  have "computes R regs m (\<lambda>r. Some (get_words 7 (local_reg ch TH1520_MBOX_INFO0) r))
      (\<lambda>r. (if ch = TH1520_MBOX_ICU_CPU3 then id
         else (\<lambda>r. r(remote_reg ch TH1520_MBOX_GEN := r (remote_reg ch TH1520_MBOX_GEN) OR TH1520_MBOX_GEN_TX_ACK)))
         (r(local_reg ch TH1520_MBOX_INFO0 := 0, remote_reg ch TH1520_MBOX_INFO7 := TH1520_MBOX_ACK_MAGIC)))"
    unfolding m_def wj_mbox_chan_rd_data_def wj_mbox_chan_wr_ack_def
    by (rule computes_cong [OF computes_bind [OF computes_rd_words [OF ok] computes_bind [OF computes_chan_write [OF ok]
        computes_bind [OF computes_chan_write [OF ok] computes_bind [OF ack computes_ret]]]]])
      (use plain in \<open>simp_all add: TH1520_MBOX_DATA_INFO_NUM_def\<close>)
  then show ?thesis unfolding m by (rule computesE [OF _ s(3)]) (auto simp: Let_def)
qed

lemma wait_ack_effect:
  fixes s :: "('e, 'z) mbox_t_scheme"
  assumes "ch < 4" "reg_file (soc s) R regs" "mbox_plain ch R"
  shows "regs (env s) (local_reg ch TH1520_MBOX_INFO7) = TH1520_MBOX_ACK_MAGIC \<Longrightarrow>
      \<exists>t. wait_ack (Suc fuel) aon_mbox ch s = (Ok (), t) \<and> only_hw s t \<and> regs (env t) = regs (env s)"
    and "regs (env s) (local_reg ch TH1520_MBOX_INFO7) \<noteq> TH1520_MBOX_ACK_MAGIC \<Longrightarrow> fst (wait_ack fuel aon_mbox ch s) = Hang"
proof -
  have read: "\<exists>t. wj_mbox_chan_read aon_mbox ch TH1520_MBOX_INFO7 False u = (Ok (regs (env u) (local_reg ch TH1520_MBOX_INFO7)), t)
      \<and> only_hw u t \<and> regs (env t) = regs (env u)" if "reg_file (soc u) R regs" for u :: "('e, 'z) mbox_t_scheme"
    using that by (rule computesE [OF computes_chan_read [where R = R and off = TH1520_MBOX_INFO7 and rem = False, OF aon_chan_ok [OF assms(1)] mbox_plainD(4) [OF assms(3)]]]) auto
  show "\<exists>t. wait_ack (Suc fuel) aon_mbox ch s = (Ok (), t) \<and> only_hw s t \<and> regs (env t) = regs (env s)"
    if "regs (env s) (local_reg ch TH1520_MBOX_INFO7) = TH1520_MBOX_ACK_MAGIC"
    using read [OF assms(2)] that by (auto simp: bind_res_def ret_def)
  show "fst (wait_ack fuel aon_mbox ch s) = Hang" if "regs (env s) (local_reg ch TH1520_MBOX_INFO7) \<noteq> TH1520_MBOX_ACK_MAGIC"
    using that assms(2)
  proof (induction fuel arbitrary: s)
    case 0
    show ?case by (simp add: hang_def)
  next
    case (Suc fuel)
    obtain t where t: "wj_mbox_chan_read aon_mbox ch TH1520_MBOX_INFO7 False s = (Ok (regs (env s) (local_reg ch TH1520_MBOX_INFO7)), t)"
      "only_hw s t" "regs (env t) = regs (env s)" using read Suc.prems(2) by blast
    have "soc t = soc s" using only_hw_soc [OF t(2)] .
    then show ?case using Suc.IH [of t] Suc.prems t by (simp add: bind_res_def)
  qed
qed

lemma channel_addrs:
  assumes "ch \<in> {0, 2, 3}"
  shows "\<forall>i < 7. remote_reg ch TH1520_MBOX_GEN \<noteq> remote_reg ch TH1520_MBOX_INFO0 + 4 * of_nat i"
    and "\<forall>i < 7. local_reg ch TH1520_MBOX_INFO7 \<noteq> remote_reg ch TH1520_MBOX_INFO0 + 4 * of_nat i"
    and "local_reg ch TH1520_MBOX_INFO7 \<noteq> remote_reg ch TH1520_MBOX_GEN" and "local_reg ch TH1520_MBOX_INFO7 \<noteq> remote_reg ch TH1520_MBOX_INFO7"
    and "local_reg ch TH1520_MBOX_INFO0 \<noteq> remote_reg ch TH1520_MBOX_GEN" and "local_reg ch TH1520_MBOX_INFO0 \<noteq> remote_reg ch TH1520_MBOX_INFO7"
  using assms by (auto simp: chan_addr_def aon_mbox_def priv_def mbox_offsets forall_less_7)

lemma send_effect:
  fixes s :: "('e, 'z) mbox_t_scheme"
  assumes s: "dev_idx (dev_objs s mbox) = 1" "ch \<in> {0, 2, 3}" "reg_file (soc s) R regs" "mbox_plain ch R" "7 \<le> length ws"
  defines "r \<equiv> put_words (remote_reg ch TH1520_MBOX_INFO0) (take 7 ws) (regs (env s))"
  defines "r' \<equiv> r(remote_reg ch TH1520_MBOX_GEN := r (remote_reg ch TH1520_MBOX_GEN) OR TH1520_MBOX_GEN_TX_DATA)"
  shows "regs (env s) (local_reg ch TH1520_MBOX_INFO7) = TH1520_MBOX_ACK_MAGIC \<Longrightarrow>
      \<exists>t. csi_mbox_send (Suc fuel) ch ws sz s = (Ok 0, t) \<and> only_hw s t \<and> regs (env t) = r'"
    and "regs (env s) (local_reg ch TH1520_MBOX_INFO7) \<noteq> TH1520_MBOX_ACK_MAGIC \<Longrightarrow> fst (csi_mbox_send fuel ch ws sz s) = Hang"
proof -
  note plain = mbox_plainD [OF s(4)]
  have ch: "ch < 4" and ok: "chan_ok aon_mbox ch" using s(2) aon_chan_ok by auto
  define m :: "('e, 'z, unit) mact" where
    "m = bind_res (wj_mbox_chan_wr_data aon_mbox ch ws True) (\<lambda>_.
       wj_mbox_chan_rmw aon_mbox ch TH1520_MBOX_GEN TH1520_MBOX_GEN_TX_DATA 0 True)"
  have send: "csi_mbox_send f ch ws sz s = bind_res m (\<lambda>_. bind_res (wait_ack f aon_mbox ch) (\<lambda>_. ret 0)) s" for f
    unfolding csi_mbox_send_def bind_mbox_idx [OF s(1)] aon_priv m_def bind_assoc by simp
  have "computes R regs m (\<lambda>_. ()) (\<lambda>r. (put_words (remote_reg ch TH1520_MBOX_INFO0) (take 7 ws) r)
      (remote_reg ch TH1520_MBOX_GEN := put_words (remote_reg ch TH1520_MBOX_INFO0) (take 7 ws) r (remote_reg ch TH1520_MBOX_GEN) OR TH1520_MBOX_GEN_TX_DATA))"
    unfolding m_def wj_mbox_chan_wr_data_def
    by (rule computes_cong [OF computes_bind [OF computes_wr_words [OF ok] computes_chan_rmw [OF ok]]])
      (use plain s(5) in \<open>simp_all add: TH1520_MBOX_DATA_INFO_NUM_def\<close>)
  then obtain t where t: "m s = (Ok (), t)" "only_hw s t" "regs (env t) = r'"
    by (rule computesE [OF _ s(3)]) (auto simp: r_def r'_def)
  have info7: "regs (env t) (local_reg ch TH1520_MBOX_INFO7) = regs (env s) (local_reg ch TH1520_MBOX_INFO7)"
    using t(3) get_put_words(2) [of "take 7 ws"] s(5) channel_addrs [OF s(2)] by (simp add: r'_def r_def)
  have rf: "reg_file (soc t) R regs" using only_hw_soc [OF t(2)] s(3) by simp
  show "\<exists>t. csi_mbox_send (Suc fuel) ch ws sz s = (Ok 0, t) \<and> only_hw s t \<and> regs (env t) = r'"
    if magic: "regs (env s) (local_reg ch TH1520_MBOX_INFO7) = TH1520_MBOX_ACK_MAGIC"
  proof -
    obtain u where "wait_ack (Suc fuel) aon_mbox ch t = (Ok (), u)" "only_hw t u" "regs (env u) = regs (env t)"
      using wait_ack_effect(1) [OF ch rf s(4), of fuel] magic info7 by (auto simp del: wait_ack.simps)
    then show ?thesis using t only_hw_trans unfolding send by (auto simp: bind_res_def ret_def simp del: wait_ack.simps)
  qed
  show "fst (csi_mbox_send fuel ch ws sz s) = Hang" if other: "regs (env s) (local_reg ch TH1520_MBOX_INFO7) \<noteq> TH1520_MBOX_ACK_MAGIC"
  proof -
    obtain u where "wait_ack fuel aon_mbox ch t = (Hang, u)"
      using wait_ack_effect(2) [OF ch rf s(4)] other info7 by (metis prod.collapse)
    then show ?thesis using t unfolding send by (simp add: bind_res_def)
  qed
qed

lemma get_words_upd_gen:
  "get_words 7 (remote_reg ch TH1520_MBOX_INFO0) (r(remote_reg ch TH1520_MBOX_GEN := v)) = get_words 7 (remote_reg ch TH1520_MBOX_INFO0) r"
  unfolding get_words_7 by (simp add: mbox_offsets)

text \<open>
  C20: the message protocol of the mailbox, with the host (channel 0) or another processor, while the other side does not write the registers. Receiving
  returns the seven words the other side has left, whatever size is asked for, clears the first of them, leaves the
  acknowledgement with the other side and signals it, except on channel 3. Sending leaves the first seven words with the other
  side and signals it, whatever the size, and changes nothing else; it returns when the acknowledgement is in the
  local register, and never otherwise. Neither function clears the local acknowledgement: after the first acknowledged message no
  later one waits for its own.
\<close>

theorem mbox_protocol:
  fixes s :: "('e, 'z) mbox_t_scheme"
  assumes "dev_idx (dev_objs s mbox) = 1" and "ch \<in> {0, 2, 3}" and "reg_file (soc s) R regs" and "mbox_plain ch R" and "7 \<le> length ws"
  shows "(\<exists>t. csi_mbox_receive ch sz s = (Ok (Some (get_words 7 (local_reg ch TH1520_MBOX_INFO0) (regs (env s)))), t)
       \<and> regs (env t) (local_reg ch TH1520_MBOX_INFO0) = 0
       \<and> regs (env t) (remote_reg ch TH1520_MBOX_INFO7) = TH1520_MBOX_ACK_MAGIC
       \<and> regs (env t) (remote_reg ch TH1520_MBOX_GEN)
         = regs (env s) (remote_reg ch TH1520_MBOX_GEN) OR (if ch = 3 then 0 else TH1520_MBOX_GEN_TX_ACK)
       \<and> regs (env t) (local_reg ch TH1520_MBOX_INFO7) = regs (env s) (local_reg ch TH1520_MBOX_INFO7))
   \<and> (if regs (env s) (local_reg ch TH1520_MBOX_INFO7) = TH1520_MBOX_ACK_MAGIC
      then \<exists>t. csi_mbox_send (Suc fuel) ch ws sz s = (Ok 0, t)
        \<and> get_words 7 (remote_reg ch TH1520_MBOX_INFO0) (regs (env t)) = take 7 ws
        \<and> regs (env t) (remote_reg ch TH1520_MBOX_GEN) = regs (env s) (remote_reg ch TH1520_MBOX_GEN) OR TH1520_MBOX_GEN_TX_DATA
        \<and> regs (env t) (local_reg ch TH1520_MBOX_INFO7) = TH1520_MBOX_ACK_MAGIC
        \<and> (\<forall>a. (\<forall>i < 7. a \<noteq> remote_reg ch TH1520_MBOX_INFO0 + 4 * of_nat i) \<and> a \<noteq> remote_reg ch TH1520_MBOX_GEN
             \<longrightarrow> regs (env t) a = regs (env s) a)
      else fst (csi_mbox_send fuel ch ws sz s) = Hang)"
proof -
  have ch: "ch < 4" using assms(2) by auto
  note addr = channel_addrs [OF assms(2)]
  let ?r = "put_words (remote_reg ch TH1520_MBOX_INFO0) (take 7 ws) (regs (env s))"
  have put: "?r a = regs (env s) a" if "\<forall>i < 7. a \<noteq> remote_reg ch TH1520_MBOX_INFO0 + 4 * of_nat i" for a
    using get_put_words(2) [of "take 7 ws"] that assms(5) by simp
  have get: "get_words 7 (remote_reg ch TH1520_MBOX_INFO0) (?r(remote_reg ch TH1520_MBOX_GEN := v)) = take 7 ws" for v
    unfolding get_words_upd_gen using get_put_words(1) [of "take 7 ws"] assms(5) by simp
  show ?thesis
  proof
    show "\<exists>t. csi_mbox_receive ch sz s = (Ok (Some (get_words 7 (local_reg ch TH1520_MBOX_INFO0) (regs (env s)))), t)
       \<and> regs (env t) (local_reg ch TH1520_MBOX_INFO0) = 0
       \<and> regs (env t) (remote_reg ch TH1520_MBOX_INFO7) = TH1520_MBOX_ACK_MAGIC
       \<and> regs (env t) (remote_reg ch TH1520_MBOX_GEN)
         = regs (env s) (remote_reg ch TH1520_MBOX_GEN) OR (if ch = 3 then 0 else TH1520_MBOX_GEN_TX_ACK)
       \<and> regs (env t) (local_reg ch TH1520_MBOX_INFO7) = regs (env s) (local_reg ch TH1520_MBOX_INFO7)"
      using receive_effect [OF assms(1) ch assms(3,4), of sz] addr(3-6) addr(3-6) [symmetric]
      by (cases "ch = 3") (auto simp: Let_def TH1520_MBOX_ICU_CPU3_def mbox_offsets)
  next
    let ?g = "regs (env s) (remote_reg ch TH1520_MBOX_GEN) OR TH1520_MBOX_GEN_TX_DATA"
    have "\<exists>t. csi_mbox_send (Suc fuel) ch ws sz s = (Ok 0, t) \<and> regs (env t) = ?r(remote_reg ch TH1520_MBOX_GEN := ?g)"
      if "regs (env s) (local_reg ch TH1520_MBOX_INFO7) = TH1520_MBOX_ACK_MAGIC"
      using send_effect(1) [OF assms that, of fuel sz] put [OF addr(1)] by auto
    moreover have "(?r(remote_reg ch TH1520_MBOX_GEN := ?g)) (local_reg ch TH1520_MBOX_INFO7) = regs (env s) (local_reg ch TH1520_MBOX_INFO7)"
      using put [OF addr(2)] addr(3) by simp
    ultimately show "if regs (env s) (local_reg ch TH1520_MBOX_INFO7) = TH1520_MBOX_ACK_MAGIC
      then \<exists>t. csi_mbox_send (Suc fuel) ch ws sz s = (Ok 0, t)
        \<and> get_words 7 (remote_reg ch TH1520_MBOX_INFO0) (regs (env t)) = take 7 ws
        \<and> regs (env t) (remote_reg ch TH1520_MBOX_GEN) = ?g
        \<and> regs (env t) (local_reg ch TH1520_MBOX_INFO7) = TH1520_MBOX_ACK_MAGIC
        \<and> (\<forall>a. (\<forall>i < 7. a \<noteq> remote_reg ch TH1520_MBOX_INFO0 + 4 * of_nat i) \<and> a \<noteq> remote_reg ch TH1520_MBOX_GEN
             \<longrightarrow> regs (env t) a = regs (env s) a)
      else fst (csi_mbox_send fuel ch ws sz s) = Hang"
      using get [of ?g] put send_effect(2) [OF assms, of fuel sz] by (auto simp del: get_words.simps)
  qed
qed

definition sample_mbox :: "(u32 \<Rightarrow> u32) mbox_t" where
  "sample_mbox =
     \<lparr>soc = sample_soc, env = (\<lambda>a. if a = 0xFFC40030 then 0xdeadbeaf else 0), trace = [], g_chip_wakeup_flag = 0,
      enabled_irq_num = replicate 32 0, g_system_clock = 0,
      g_share_srame_clock = 0, g_sram_clk_div0_num = 0, g_sram_clk_div1_num = 0, g_aoi2c_ic_clk = 0, g_aonsys_clk_src_pll_div = 0,
      g_irq_nested_level = 0, g_irq_table = replicate 64 None,
      dev_objs = (\<lambda>_. \<lparr>dev_reg_base = 0xFFC38000, irq_num = 38, dev_idx = 1, dev_dev_tag = DEV_WJ_MBOX_TAG, irq_handler = None\<rparr>),
      mbox_callback = False\<rparr>"

lemma all_plain_True: "all_plain (\<lambda>_. True) n a"
  by (induction n arbitrary: a) auto

theorem mbox_protocol_witness:
  "(\<exists>t. csi_mbox_receive 0 28 sample_mbox = (Ok (Some [0, 0, 0, 0, 0, 0, 0]), t))
   \<and> (\<exists>t. csi_mbox_send 1 0 [1, 2, 3, 4, 5, 6, 7] 28 sample_mbox = (Ok 0, t) \<and> get_words 7 0xFFC3D014 (env t) = [1, 2, 3, 4, 5, 6, 7])"
proof -
  have hw: "dev_idx (dev_objs sample_mbox mbox) = 1" "reg_file (soc sample_mbox) (\<lambda>_. True) id" "mbox_plain 0 (\<lambda>_. True)"
    "env sample_mbox (local_reg 0 TH1520_MBOX_INFO7) = TH1520_MBOX_ACK_MAGIC" "get_words 7 (local_reg 0 TH1520_MBOX_INFO0) (env sample_mbox) = replicate 7 0"
    "remote_reg 0 TH1520_MBOX_INFO0 = 0xFFC3D014"
    by (simp_all add: sample_mbox_def sample_reg_file mbox_plain_def all_plain_True chan_addr_def aon_mbox_def priv_def mbox_offsets mbox_consts get_words_7)
      (simp add: eval_nat_numeral)
  have "(0 :: nat) \<in> {0, 2, 3}" "7 \<le> length [1, 2, 3, 4, 5, 6, 7 :: u32]" by simp_all
  from mbox_protocol [where regs = id, OF hw(1) this(1) hw(2,3) this(2), of 28 0] show ?thesis
    unfolding id_apply hw by (auto simp: eval_nat_numeral)
qed

end
