(* ===== verification/Aon_Mailbox.thy ===== *)
theory Aon_Mailbox
  imports Aon_Rpc Wj_Mbox
begin

text \<open>
  The RPC layer on the mailbox driver: the mailbox functions the firmware calls are those of \<open>Wj_Mbox\<close>, so that the hardware state of the
  firmware is the state of the driver, and a message is followed between the registers and the services.
\<close>

subsection \<open>The driver as the firmware calls it\<close>

definition EXAMPLE_MBOX_IDX :: u32 where "EXAMPLE_MBOX_IDX = 1"
definition target_ap_channel_id :: nat where "target_ap_channel_id = 0"

text \<open>The buffers of the firmware are bytes, the driver copies words; the last word of a buffer is not cut.\<close>

definition buf_bytes :: "u32 list \<Rightarrow> u8 list" where
  "buf_bytes ws = concat (map le_bytes ws)"

fun buf_words :: "u8 list \<Rightarrow> u32 list" where
  "buf_words (a # b # c # d # bs) = le32 [a, b, c, d] # buf_words bs"
| "buf_words bs = []"

text \<open>
  The firmware and the driver reach the same registers. The buffer of a failed receive is not written. The fuel bounds the wait for an
  acknowledgement.
\<close>

definition mailbox_soc :: "nat \<Rightarrow> ('e, 'z) mbox_t_scheme soc_if \<Rightarrow> ('e, 'z) mbox_t_scheme soc_if" where
  "mailbox_soc fuel c = c\<lparr>
     reg_read := (\<lambda>a d. let (v, e) = reg_read (soc d) a (env d) in (v, d\<lparr>env := e\<rparr>)),
     reg_write := (\<lambda>a v d. d\<lparr>env := reg_write (soc d) a v (env d)\<rparr>),
     mbox_init := csi_mbox_init EXAMPLE_MBOX_IDX,
     mbox_attach := csi_mbox_attach_callback,
     mbox_receive := (\<lambda>ch n d. case csi_mbox_receive ch n d of (Ok (Some ws), d') \<Rightarrow> (buf_bytes ws, d') | (_, d') \<Rightarrow> ([], d')),
     mbox_send := (\<lambda>bs n d. case csi_mbox_send fuel target_ap_channel_id (buf_words bs) n d of
        (Ok v, d') \<Rightarrow> (Some v, d') | (_, d') \<Rightarrow> (None, d'))\<rparr>"

subsection \<open>Words and bytes\<close>

lemma le_bytes_le32: "le_bytes (le32 [a, b, c, d]) = [a, b, c, d]"
proof -
  have "\<not> bit x (8 + n)" "\<not> bit x (16 + n)" "\<not> bit x (24 + n)" for x :: u8 and n
    by (auto dest: bit_imp_le_length)
  then show ?thesis
    by (auto simp: le32_def le_bytes_def bit_or_iff bit_push_bit_iff bit_ucast_iff bit_drop_bit_eq intro!: bit_word_eqI)
qed

lemma length_buf_bytes [simp]: "length (buf_bytes ws) = 4 * length ws"
  by (induction ws) (simp_all add: buf_bytes_def le_bytes_def)

lemma buf_bytes_words: "4 dvd length bs \<Longrightarrow> buf_bytes (buf_words bs) = bs \<and> 4 * length (buf_words bs) = length bs"
proof (induction bs rule: buf_words.induct)
  case (1 a b c d bs)
  have "length (a # b # c # d # bs) = length bs + 4" by simp
  with 1 have "4 dvd length bs" by (metis dvd_add_left_iff dvd_refl)
  with 1 show ?case by (simp add: buf_bytes_def le_bytes_le32)
qed (auto simp: buf_bytes_def dest: dvd_imp_le)

subsection \<open>Messages in the registers\<close>

text \<open>
  The driver is initialised, and the registers of channel \<open>ch\<close> hold what is written to them.
\<close>

definition mailbox_ok :: "(u32 \<Rightarrow> bool) \<Rightarrow> ('e \<Rightarrow> u32 \<Rightarrow> u32) \<Rightarrow> nat \<Rightarrow> ('e, 'z) mbox_t_scheme \<Rightarrow> bool" where
  "mailbox_ok R regs ch d \<longleftrightarrow> dev_idx (dev_objs d mbox) = 1 \<and> reg_file (soc d) R regs \<and> mbox_plain ch R"

definition message_at :: "u32 \<Rightarrow> (u32 \<Rightarrow> u32) \<Rightarrow> u8 list" where
  "message_at a r = buf_bytes (get_words 7 a r)"

lemma length_get_words [simp]: "length (get_words n a r) = n"
  by (induction n arbitrary: a) auto

lemma length_message_at [simp]: "length (message_at a r) = 28"
  by (simp add: message_at_def)

lemma receive_message:
  fixes d :: "('e, 'z) mbox_t_scheme"
  assumes "mailbox_ok R regs ch d" and "ch \<in> {0, 2, 3}"
  shows "\<exists>d'. mbox_receive (mailbox_soc fuel c) ch n d = (message_at (local_reg ch TH1520_MBOX_INFO0) (regs (env d)), d')
    \<and> only_hw d d' \<and> regs (env d') (remote_reg ch TH1520_MBOX_INFO7) = TH1520_MBOX_ACK_MAGIC
    \<and> regs (env d') (local_reg 0 TH1520_MBOX_INFO7) = regs (env d) (local_reg 0 TH1520_MBOX_INFO7)"
proof -
  have ch: "ch < 4" using assms(2) by auto
  obtain d' where d': "csi_mbox_receive ch n d = (Ok (Some (get_words 7 (local_reg ch TH1520_MBOX_INFO0) (regs (env d)))), d')" "only_hw d d'"
    "regs (env d') = (let r = (regs (env d))(local_reg ch TH1520_MBOX_INFO0 := 0, remote_reg ch TH1520_MBOX_INFO7 := TH1520_MBOX_ACK_MAGIC)
        in if ch = TH1520_MBOX_ICU_CPU3 then r
           else r(remote_reg ch TH1520_MBOX_GEN := r (remote_reg ch TH1520_MBOX_GEN) OR TH1520_MBOX_GEN_TX_ACK))"
    using receive_effect [where R = R and regs = regs, OF _ ch] assms(1) unfolding mailbox_ok_def by blast
  have "local_reg 0 TH1520_MBOX_INFO7 \<noteq> local_reg ch TH1520_MBOX_INFO0" "local_reg 0 TH1520_MBOX_INFO7 \<noteq> remote_reg ch TH1520_MBOX_INFO7"
    "local_reg 0 TH1520_MBOX_INFO7 \<noteq> remote_reg ch TH1520_MBOX_GEN" "remote_reg ch TH1520_MBOX_GEN \<noteq> remote_reg ch TH1520_MBOX_INFO7"
    using assms(2) by (auto simp: chan_addr_def aon_mbox_def priv_def mbox_offsets)
  with d' show ?thesis by (intro exI [of _ d'], cases "ch = TH1520_MBOX_ICU_CPU3") (simp_all add: mailbox_soc_def message_at_def Let_def)
qed

lemma send_message:
  fixes d :: "('e, 'z) mbox_t_scheme"
  assumes "mailbox_ok R regs 0 d" and "length bs = 28"
  shows "\<exists>v d'. mbox_send (mailbox_soc (Suc fuel) c) bs n d = (v, d')
    \<and> (if regs (env d) (local_reg 0 TH1520_MBOX_INFO7) = TH1520_MBOX_ACK_MAGIC
       then v = Some 0 \<and> only_hw d d' \<and> message_at (remote_reg 0 TH1520_MBOX_INFO0) (regs (env d')) = bs
         \<and> (\<forall>a. (\<forall>i < 7. a \<noteq> remote_reg 0 TH1520_MBOX_INFO0 + 4 * of_nat i) \<and> a \<noteq> remote_reg 0 TH1520_MBOX_GEN
              \<longrightarrow> regs (env d') a = regs (env d) a)
       else v = None)"
proof -
  have ws: "length (buf_words bs) = 7" "buf_bytes (buf_words bs) = bs" using buf_bytes_words [of bs] assms(2) by auto
  have hw: "dev_idx (dev_objs d mbox) = 1" "(0 :: nat) \<in> {0, 2, 3}" "reg_file (soc d) R regs" "mbox_plain 0 R" "7 \<le> length (buf_words bs)"
    using assms(1) ws by (simp_all add: mailbox_ok_def)
  let ?r = "put_words (remote_reg 0 TH1520_MBOX_INFO0) (take 7 (buf_words bs)) (regs (env d))"
  let ?r' = "?r(remote_reg 0 TH1520_MBOX_GEN := ?r (remote_reg 0 TH1520_MBOX_GEN) OR TH1520_MBOX_GEN_TX_DATA)"
  have get: "message_at (remote_reg 0 TH1520_MBOX_INFO0) ?r' = bs"
    unfolding message_at_def get_words_upd_gen using get_put_words(1) [of "buf_words bs"] ws by simp
  show ?thesis
  proof (cases "regs (env d) (local_reg 0 TH1520_MBOX_INFO7) = TH1520_MBOX_ACK_MAGIC")
    case True
    from send_effect(1) [OF hw True, of fuel n] obtain d' where d': "csi_mbox_send (Suc fuel) 0 (buf_words bs) n d = (Ok 0, d')" "only_hw d d'" "regs (env d') = ?r'"
      by blast
    with True get ws(1) get_put_words(2) [of "buf_words bs"] show ?thesis
      by (intro exI [of _ "Some 0"] exI [of _ d']) (simp add: mailbox_soc_def target_ap_channel_id_def)
  next
    case False
    from send_effect(2) [OF hw False, of "Suc fuel" n] obtain d' where "csi_mbox_send (Suc fuel) 0 (buf_words bs) n d = (Hang, d')"
      by (metis prod.collapse)
    with False show ?thesis by (intro exI [of _ None] exI [of _ d']) (simp add: mailbox_soc_def target_ap_channel_id_def)
  qed
qed

lemma only_hw_mailbox_ok: "only_hw d d' \<Longrightarrow> mailbox_ok R regs ch d \<Longrightarrow> mailbox_ok R regs ch d'"
proof -
  assume "only_hw d d'" "mailbox_ok R regs ch d"
  moreover from this(1) have "dev_objs d' = dev_objs d" unfolding only_hw_def by (drule_tac arg_cong [of _ _ dev_objs]) simp
  ultimately show ?thesis by (simp add: mailbox_ok_def only_hw_soc)
qed

subsection \<open>Requests and replies\<close>

lemma soc_env_upd: "soc (s\<lparr>env := d\<rparr>) = soc s"
  by simp

abbreviation contents :: "('e \<Rightarrow> u32 \<Rightarrow> u32) \<Rightarrow> ('w, ('e, 'z) mbox_t_scheme) aon_t \<Rightarrow> u32 \<Rightarrow> u32" where
  "contents regs s \<equiv> regs (env (env s))"

lemma send_ack_message:
  fixes s :: "('w, ('e, 'z) mbox_t_scheme) aon_t"
  assumes "soc s = mailbox_soc (Suc fuel) c" and "mailbox_ok R regs 0 (env s)" and "length (data tx) = 24"
    and "wants_ack rx" "msg_size tx \<noteq> 0" "len tx \<le> AON_RPC_MAX_LEN" and "svc tx = (x OR 0xC0) OR y"
  shows "if contents regs s (local_reg 0 TH1520_MBOX_INFO7) = TH1520_MBOX_ACK_MAGIC
    then \<exists>t. send_ack rx tx len s = (Ok (tx, Some (take (len tx) (msg_bytes tx))), t)
       \<and> message_at (remote_reg 0 TH1520_MBOX_INFO0) (contents regs t) = msg_bytes tx
       \<and> (\<forall>a. (\<forall>i < 7. a \<noteq> remote_reg 0 TH1520_MBOX_INFO0 + 4 * of_nat i) \<and> a \<noteq> remote_reg 0 TH1520_MBOX_GEN
            \<longrightarrow> contents regs t a = contents regs s a)
    else fst (send_ack rx tx len s) = Hang"
proof -
  have len: "length (msg_bytes tx) = 28" using assms(3) by (simp add: length_msg_bytes)
  from send_message [OF assms(2) len, of fuel c "len tx"] obtain v d where
    "mbox_send (soc s) (msg_bytes tx) (len tx) (env s) = (v, d)"
    "if contents regs s (local_reg 0 TH1520_MBOX_INFO7) = TH1520_MBOX_ACK_MAGIC
     then v = Some 0 \<and> only_hw (env s) d \<and> message_at (remote_reg 0 TH1520_MBOX_INFO0) (regs (env d)) = msg_bytes tx
         \<and> (\<forall>a. (\<forall>i < 7. a \<noteq> remote_reg 0 TH1520_MBOX_INFO0 + 4 * of_nat i) \<and> a \<noteq> remote_reg 0 TH1520_MBOX_GEN
              \<longrightarrow> regs (env d) a = contents regs s a)
     else v = None" unfolding assms(1) by blast
  moreover from this(1) have "send_ack rx tx len s = bind_res (soc_wait (\<lambda>c. mbox_send c (msg_bytes tx) (len tx))) (\<lambda>_. ret (tx, Some (take (len tx) (msg_bytes tx)))) s"
    using assms(4-7) len by (simp add: send_ack_def wants_ack_def set_flags_again AON_RPC_MAX_LEN_def)
  ultimately show ?thesis
    by (cases "contents regs s (local_reg 0 TH1520_MBOX_INFO7) = TH1520_MBOX_ACK_MAGIC")
      (simp_all add: bind_res_def soc_wait_def ret_def)
qed

text \<open>The request in the registers of a channel, and the state of the firmware once the interrupt handler has fetched it.\<close>

definition request :: "('e \<Rightarrow> u32 \<Rightarrow> u32) \<Rightarrow> nat \<Rightarrow> ('w, ('e, 'z) mbox_t_scheme) aon_t \<Rightarrow> u8 list" where
  "request regs ch s = message_at (local_reg ch TH1520_MBOX_INFO0) (contents regs s)"

definition fetched :: "('e \<Rightarrow> u32 \<Rightarrow> u32) \<Rightarrow> nat \<Rightarrow> nat \<Rightarrow> ('w, ('e, 'z) mbox_t_scheme) aon_t \<Rightarrow> ('w, ('e, 'z) mbox_t_scheme) aon_t" where
  "fetched regs ch n s = s\<lparr>env := snd (mbox_receive (soc s) ch n (env s)), rx_data := request regs ch s\<rparr>"


text \<open>
  A request for the unregistered watchdog service on channel 2, while the host has acknowledged an earlier message. The hardware
  functions of the firmware other than the mailbox do nothing.
\<close>

definition sample_driver :: "(u32 \<Rightarrow> u32) mbox_t" where
  "sample_driver = sample_mbox\<lparr>env := (\<lambda>_. 0)(0xFFC40030 := 0xdeadbeaf, 0xFFC42014 := 0x01050102)\<rparr>"

definition sample_idle_soc :: "(u32 \<Rightarrow> u32) mbox_t soc_if" where
  "sample_idle_soc =
     \<lparr>reg_read = (\<lambda>a e. (0, e)), reg_write = (\<lambda>a v e. e), irq_is_enabled = (\<lambda>_ _. False), irq_enable = (\<lambda>_. id),
      irq_disable = (\<lambda>_. id), rtc_intr_clr = id, gpio_intr_clr = id, lpddr4_lp3_enter = (\<lambda>_. id), lpddr4_lp3_exit = (\<lambda>_. id),
      wait_for_interrupt = id, mbox_init = ret (), mbox_attach = ret (), mbox_receive = (\<lambda>ch n e. ([], e)),
      mbox_send = (\<lambda>bs n e. (Some 0, e)), timer_init = ret (), timer_attach = ret (),
      timer_start = (\<lambda>_. ret ()), timer_stop = id, wdt_init = (\<lambda>_. ret ()), wdt_intr_clear = (\<lambda>_. id),
      wdt_is_timeout = (\<lambda>_ e. (False, e)), pvt_init = (\<lambda>_. ret ()), pvt_rising_alarm = (\<lambda>_ _ _. ret ()),
      pvt_falling_alarm = (\<lambda>_ _ _. ret ()), pvt_attach = ret (), pvt_ts_num = (\<lambda>_. 1), pvt_read_ts = (\<lambda>_. id)\<rparr>"

definition sample_linked :: "(sample_hw, (u32 \<Rightarrow> u32) mbox_t) aon_t" where
  "sample_linked =
     \<lparr>soc = mailbox_soc 1 sample_idle_soc, env = sample_driver, trace = [], g_chip_wakeup_flag = 0, enabled_irq_num = replicate 32 0, g_system_clock = 0,
      g_share_srame_clock = 0, g_sram_clk_div0_num = 0, g_sram_clk_div1_num = 0, g_aoi2c_ic_clk = 0, g_aonsys_clk_src_pll_div = 0,
      g_pmic = g_pmic sample_aon, ram = ram sample_aon, rx_data = rx_data sample_aon, g_rpc_quque = g_rpc_quque sample_aon, rpc_init_flag = True,
      g_rpc_process = g_rpc_process sample_aon, g_aon_wdt = g_aon_wdt sample_aon, last_wdt_stat = 0, monitor_index = 0,
      aon_sram_reservemem_addr = 0, aon_sram_reservemem_init = False, g_reginfo = g_reginfo sample_aon, g_map = g_map sample_aon,
      g_soc_reg = g_soc_reg sample_aon\<rparr>"


end
