(* ===== verification/Aon_Main.thy ===== *)
theory Aon_Main
  imports Aon_Rpc Pmic_Invariant
begin

text \<open>
  The start of the firmware (\<^verbatim>\<open>main.c\<close>): the modules are initialised in a fixed order, and the RPC loop is entered only
  when all of them succeeded.
\<close>

text \<open>
  The fields of the configuration the boot loader fills in that the firmware reads. The lists of \<open>aon_pmic\<close> stand for
  the arrays at the configured offsets, with as many elements as the counts say.
\<close>

record aon_config_t =
  uboot_set_magic :: "u8 list"
  wakeup_flag :: u32
  aon_pmic :: pmic_config_t

definition UBOOT_CONFIG_MAGIC :: "u8 list" where
  "UBOOT_CONFIG_MAGIC = str_bytes ''UBOOT_SET''"

definition PVT_IDX :: nat where "PVT_IDX = 0"

text \<open>The initialisation up to the main loop; \<open>Err\<close> is the jump to \<^verbatim>\<open>FAIL\<close>.\<close>

definition aon_modules_init :: "nat \<Rightarrow> aon_config_t \<Rightarrow> ('w, 'e, unit) aact" where
  "aon_modules_init fuel g_conf = seqs
     [aon_rpc_init,
      if pmic_dev_list (aon_pmic g_conf) = [] then fail CSI_ERROR else ret (),
      if regu_id_list (aon_pmic g_conf) = [] then fail CSI_ERROR else ret (),
      if \<not> strncmp_eq (uboot_set_magic g_conf) UBOOT_CONFIG_MAGIC (length UBOOT_CONFIG_MAGIC) then fail CSI_ERROR else ret (),
      aon_pmic_init fuel (aon_pmic g_conf),
      aon_pvt_init PVT_IDX,
      aon_wdt_init AON_HW_WDT_USE_PMIC,
      aon_wdt_start,
      aon_misc_init,
      aon_sys_init,
      aon_lpm_init (wakeup_flag g_conf)]"

text \<open>At \<^verbatim>\<open>FAIL\<close> the processor jumps to itself; the loop does not return.\<close>

definition aon_submodule_init :: "nat \<Rightarrow> svc_par \<Rightarrow> aon_config_t \<Rightarrow> ('w, 'e, unit) aact" where
  "aon_submodule_init turns par g_conf =
     catch_err (aon_modules_init (sp_fuel par) g_conf) (\<lambda>r. case r of
       Inl _ \<Rightarrow> hang
     | Inr _ \<Rightarrow> bind_res (ignore (aon_rpc_process_loop turns par)) (\<lambda>_. hang))"

subsection \<open>What a successful start has set up\<close>

definition achieves :: "(('w, 'e) aon_t \<Rightarrow> bool) \<Rightarrow> ('w, 'e, 'a) aact \<Rightarrow> (('w, 'e) aon_t \<Rightarrow> bool) \<Rightarrow> bool" where
  "achieves P m Q \<longleftrightarrow> (\<forall>s a t. P s \<longrightarrow> m s = (Ok a, t) \<longrightarrow> Q t)"

lemma achieves_bind: "achieves P m R \<Longrightarrow> (\<And>a. achieves R (f a) Q) \<Longrightarrow> achieves P (bind_res m f) Q"
  unfolding achieves_def by (metis bind_res_Ok)

lemma achieves_seqs_Cons: "achieves P m R \<Longrightarrow> achieves R (seqs ms) Q \<Longrightarrow> achieves P (seqs (m # ms)) Q"
  by (simp add: achieves_bind)

lemma achieves_keeps: "keeps P m \<Longrightarrow> achieves P m P"
  unfolding achieves_def by (metis keepsD_eq)

lemma keeps_then: "keeps P m \<Longrightarrow> (\<And>a. achieves P (f a) Q) \<Longrightarrow> achieves P (bind_res m f) Q"
  by (rule achieves_bind [OF achieves_keeps])

lemma keeps_catch_then: "keeps P m \<Longrightarrow> (\<And>r. achieves P (f r) Q) \<Longrightarrow> achieves P (catch_err m f) Q"
  unfolding achieves_def catch_err_def by (fastforce dest: keepsD_eq split: prod.splits res.splits)

lemma achieves_get: "(\<And>s. P s \<Longrightarrow> achieves P (f (g s)) Q) \<Longrightarrow> achieves P (bind_res (get_st g) f) Q"
  by (simp add: achieves_def bind_res_def get_st_def)

lemma achieves_fail: "achieves P (fail e) Q"
  by (simp add: achieves_def fail_def)

lemma achieves_as_err: "achieves P m Q \<Longrightarrow> achieves P (as_err e m) Q"
  unfolding achieves_def by (metis as_err_Ok)

text \<open>
  The stage of a start: the services registered so far, and the state of the watchdog monitor. The hardware watchdog is off.
\<close>

definition stage :: "(u8 \<rightharpoonup> rpc_svc_process) \<Rightarrow> bool \<Rightarrow> aont_fsm_t \<Rightarrow> ('w, 'e) aon_t \<Rightarrow> bool" where
  "stage F ini st s \<longleftrightarrow> rpc_init_flag s \<and> table_ok (g_rpc_process s) \<and> find_service (g_rpc_process s) = F
     \<and> is_init (g_aon_wdt s) = ini \<and> mon s = st \<and> \<not> hw_wdt_en (g_aon_wdt s)"

interpretation stage: bystander "stage F ini st" for F ini st
  by unfold_locales (simp_all add: stage_def)

lemma stage_register: "sid \<noteq> 0 \<Longrightarrow> achieves (stage F ini st) (aon_rpc_svc_cb_register sid f) (stage (F(sid \<mapsto> f)) ini st)"
  unfolding achieves_def using register_ok by (fastforce simp: stage_def)

lemma stage_pmic: "keeps (stage F ini st) (on_pmic m)" "keeps (stage F ini st) (on_wdt_pmic m)"
  by (auto simp: keeps_def on_wdt_pmic_def act_defs stage_def split: prod.splits)

lemma svc_ids_nonzero: "AON_RPC_SVC_PM \<noteq> 0" "AON_RPC_SVC_WDG \<noteq> 0" "AON_RPC_SVC_MISC \<noteq> 0" "AON_RPC_SVC_SYS \<noteq> 0" "AON_RPC_SVC_LPM \<noteq> 0"
  by (simp_all add: aon_svc_defs)

definition cold :: "('w, 'e) aon_t \<Rightarrow> bool" where
  "cold s \<longleftrightarrow> table_ok (g_rpc_process s) \<and> find_service (g_rpc_process s) = Map.empty
     \<and> \<not> is_init (g_aon_wdt s) \<and> mon s = AON_WDT_MONITOR_IDLE \<and> \<not> hw_wdt_en (g_aon_wdt s)"

lemma boot_rpc: "achieves cold aon_rpc_init (stage Map.empty False AON_WDT_MONITOR_IDLE)"
  by (auto simp: achieves_def aon_rpc_init_def stage_def cold_def act_defs split: prod.splits res.splits)

lemma boot_pmic: "achieves (stage F ini st) (aon_pmic_init fuel conf) (stage (F(AON_RPC_SVC_PM \<mapsto> PMIC_DISPATCH)) ini st)"
  unfolding aon_pmic_init_def
  by (intro achieves_bind [OF achieves_as_err [OF achieves_keeps [OF stage_pmic(1)]]] stage_register svc_ids_nonzero)

lemma boot_pvt: "achieves (stage F ini st) (aon_pvt_init i) (stage F ini st)"
  unfolding aon_pvt_init_def by (intro achieves_keeps keeps_rules keeps_seqs) (auto intro: stage.frame_basic)

lemma boot_wdt_init:
  "achieves (stage F False st) (aon_wdt_init type) (stage (F(AON_RPC_SVC_WDG \<mapsto> WDG_DISPATCH)) True AON_WDT_MONITOR_IDLE)"
proof -
  let ?P = "stage F False st" and ?R = "stage F True AON_WDT_MONITOR_IDLE"
  let ?m = "if type = AON_HW_WDT_USE_PMIC then
      bind_res (upd_wdt (\<lambda>w. w\<lparr>pmic_handle := True\<rparr>)) (\<lambda>_.
      bind_res (as_err CSI_ERROR (on_wdt_pmic csi_pmic_get_autoboot_flag)) (\<lambda>autoboot_ena.
      ret (if autoboot_ena = 0 then AON_HW_WDT_SOFT_RST else type)))
    else ret type"
  let ?body = "bind_res (aon_wdt_init_monitor_timer AON_WDT_DEF_MONITOR_TMR_LEN) (\<lambda>_. bind_res chip_wdt_init (\<lambda>_. bind_res ?m (\<lambda>type.
      bind_res (upd_wdt (\<lambda>w. w\<lparr>monitor_state := AON_WDT_MONITOR_IDLE, is_init := True, hw_wdt_en := False, hw_wdt_type := type\<rparr>)) (\<lambda>_.
      aon_rpc_svc_cb_register AON_RPC_SVC_WDG WDG_DISPATCH))))"
  have "keeps ?P (aon_wdt_init_monitor_timer n)" for n
    unfolding aon_wdt_init_monitor_timer_def upd_wdt_def
    by (intro keeps_rules stage.frame_basic) (simp add: stage_def)
  moreover have "keeps ?P ?m"
    unfolding upd_wdt_def by (auto intro!: keeps_rules stage_pmic simp: stage_def)
  moreover have "achieves ?P (upd_wdt (\<lambda>w. w\<lparr>monitor_state := AON_WDT_MONITOR_IDLE, is_init := True, hw_wdt_en := False, hw_wdt_type := ty\<rparr>)) ?R" for ty
    by (simp add: achieves_def stage_def act_defs)
  ultimately have "achieves ?P ?body (stage (F(AON_RPC_SVC_WDG \<mapsto> WDG_DISPATCH)) True AON_WDT_MONITOR_IDLE)"
    by (intro keeps_then [OF _ keeps_then [OF stage.frame_chip(5) keeps_then]] achieves_bind [OF _ stage_register]) (simp_all add: svc_ids_nonzero)
  then show ?thesis by (simp add: achieves_def aon_wdt_init_def bind_res_def [of "get_st _"] get_st_def stage_def)
qed

lemma boot_wdt_start: "achieves (stage F True AON_WDT_MONITOR_IDLE) aon_wdt_start (stage F True AON_WDT_MONITOR_RUN)"
proof -
  let ?P = "stage F True AON_WDT_MONITOR_IDLE" and ?R = "stage F True AON_WDT_MONITOR_RUN"
  have set_len: "keeps ?P (aon_hw_wdt_set_time_len len)" for len
    unfolding aon_hw_wdt_set_time_len_def by (auto intro!: keeps_rules stage_pmic)
  have run: "achieves ?P (upd_wdt (\<lambda>w. w\<lparr>monitor_state := AON_WDT_MONITOR_RUN\<rparr>)) ?R"
    by (simp add: achieves_def stage_def act_defs)
  have tail: "keeps ?R (bind_res chip_wdt_get_sta (\<lambda>sta. bind_res (upd_st (\<lambda>s. s\<lparr>last_wdt_stat := sta\<rparr>)) (\<lambda>_.
      seqs [chip_wdt_clear_reset, chip_wdt_clear_timeout, chip_wdt_disable_reset])))"
    by (intro keeps_bind stage.frame_chip stage.frame_upd keeps_seqs) (auto intro: stage.frame_chip)
  have "achieves ?P (bind_res (on_soc (\<lambda>c. timer_start c n)) (\<lambda>_.
      catch_err (aon_hw_wdt_set_time_len AON_WDT_PMIC_TMR_LEN) (\<lambda>r. case r of
         Inl e \<Rightarrow> bind_res (soc_do timer_stop) (\<lambda>_. fail e)
       | Inr _ \<Rightarrow> bind_res (upd_wdt (\<lambda>w. w\<lparr>monitor_state := AON_WDT_MONITOR_RUN\<rparr>)) (\<lambda>_.
           bind_res chip_wdt_get_sta (\<lambda>sta. bind_res (upd_st (\<lambda>s. s\<lparr>last_wdt_stat := sta\<rparr>)) (\<lambda>_.
           seqs [chip_wdt_clear_reset, chip_wdt_clear_timeout, chip_wdt_disable_reset])))))) ?R" for n
    by (intro keeps_then keeps_catch_then stage.frame_basic set_len)
      (auto split: sum.split simp del: seqs_simps intro: keeps_then [OF stage.frame_basic(5) achieves_fail] achieves_bind [OF run achieves_keeps [OF tail]])
  then show ?thesis
    unfolding aon_wdt_start_def by (intro achieves_get) (simp add: stage_def [of F True AON_WDT_MONITOR_IDLE] del: seqs_simps)
qed

lemma boot_misc: "achieves (stage F ini st) aon_misc_init (stage (F(AON_RPC_SVC_MISC \<mapsto> MISC_DISPATCH)) ini st)"
  unfolding aon_misc_init_def
  by (rule keeps_then [OF _ stage_register [OF svc_ids_nonzero(3)]]) (auto simp: keeps_def stage_def split: prod.splits)

lemma boot_sys: "achieves (stage F ini st) aon_sys_init (stage (F(AON_RPC_SVC_SYS \<mapsto> SYS_DISPATCH)) ini st)"
  unfolding aon_sys_init_def by (intro stage_register svc_ids_nonzero)

lemma boot_lpm:
  "achieves (stage F ini st) (aon_lpm_init w) (\<lambda>t. stage (F(AON_RPC_SVC_LPM \<mapsto> LPM_DISPATCH)) ini st t \<and> g_chip_wakeup_flag t = w)"
proof -
  let ?P = "stage F ini st"
  have mode: "keeps ?P (chip_lp_mode_set_lp_mode SYS_LP_NONE)"
    unfolding set_lp_mode_eq by (rule stage.frame_basic)
  have flg: "achieves ?P (chip_set_wakeup_flag w) (\<lambda>s. ?P s \<and> g_chip_wakeup_flag s = w)"
    by (auto simp: achieves_def chip_set_wakeup_flag_def act_defs stage_def)
  have reg: "achieves (\<lambda>s. ?P s \<and> g_chip_wakeup_flag s = w) (aon_rpc_svc_cb_register AON_RPC_SVC_LPM LPM_DISPATCH)
      (\<lambda>t. stage (F(AON_RPC_SVC_LPM \<mapsto> LPM_DISPATCH)) ini st t \<and> g_chip_wakeup_flag t = w)"
    unfolding achieves_def
  proof (intro allI impI)
    fix s a t
    assume s: "?P s \<and> g_chip_wakeup_flag s = w" and r: "aon_rpc_svc_cb_register AON_RPC_SVC_LPM LPM_DISPATCH s = (Ok a, t)"
    then have "table_ok (g_rpc_process s)" by (simp add: stage_def)
    from register_ok [OF this svc_ids_nonzero(5) r] s
    show "stage (F(AON_RPC_SVC_LPM \<mapsto> LPM_DISPATCH)) ini st t \<and> g_chip_wakeup_flag t = w" by (auto simp: stage_def)
  qed
  show ?thesis unfolding aon_lpm_init_def by (intro keeps_then [OF mode] achieves_bind [OF flg reg])
qed

definition conf_ok :: "aon_config_t \<Rightarrow> bool" where
  "conf_ok conf \<longleftrightarrow> pmic_dev_list (aon_pmic conf) \<noteq> [] \<and> regu_id_list (aon_pmic conf) \<noteq> []
     \<and> strncmp_eq (uboot_set_magic conf) UBOOT_CONFIG_MAGIC (length UBOOT_CONFIG_MAGIC)"

definition all_services :: "u8 \<rightharpoonup> rpc_svc_process" where
  "all_services = [AON_RPC_SVC_PM \<mapsto> PMIC_DISPATCH, AON_RPC_SVC_WDG \<mapsto> WDG_DISPATCH, AON_RPC_SVC_MISC \<mapsto> MISC_DISPATCH,
     AON_RPC_SVC_SYS \<mapsto> SYS_DISPATCH, AON_RPC_SVC_LPM \<mapsto> LPM_DISPATCH]"

lemma rpc_init_frame:
  assumes "aon_rpc_init s = (r, t)"
  shows "g_pmic t = g_pmic s \<and> trace t = trace s \<and> g_rpc_process t = g_rpc_process s"
proof -
  obtain q e where "mbox_attach (soc s) (env s) = (q, e)" by fastforce
  with assms show ?thesis by (cases q) (auto simp: aon_rpc_init_def act_defs)
qed

lemma boot_modules:
  "achieves cold (aon_modules_init fuel conf)
     (\<lambda>t. stage all_services True AON_WDT_MONITOR_RUN t \<and> g_chip_wakeup_flag t = wakeup_flag conf)"
proof -
  have chk: "achieves P (if c then fail e else ret ()) P" for P c e
    by (simp add: achieves_def act_defs)
  show ?thesis
    unfolding aon_modules_init_def all_services_def
    by (intro achieves_seqs_Cons [OF boot_rpc] achieves_seqs_Cons [OF chk] achieves_seqs_Cons [OF boot_pmic] achieves_seqs_Cons [OF boot_pvt]
        achieves_seqs_Cons [OF boot_wdt_init] achieves_seqs_Cons [OF boot_wdt_start] achieves_seqs_Cons [OF boot_misc]
        achieves_seqs_Cons [OF boot_sys] achieves_seqs_Cons [OF boot_lpm])
      (simp add: achieves_def ret_def)
qed


text \<open>A configuration no boot loader has touched.\<close>

definition sample_unset :: aon_config_t where
  "sample_unset = \<lparr>uboot_set_magic = replicate 11 0, wakeup_flag = 0, aon_pmic = sample_config\<rparr>"


end
