(* ===== verification/Spec2Isabelle.thy ===== *)
theory Spec2Isabelle
  imports Rpc_Queue Rpc_Msg Ringbuffer Pmic_Dual Pmic_Safety Pmic_Behaviour Aon_Misc Chip_Domains Chip_Sleep Sys_Clk Rtc Dw_Timer Dw_Wdt Pmic_Bus Aon_Mailbox Aon_Main
begin

text \<open>
  Verification of the always-on (AON) firmware of the TH1520 (\<^verbatim>\<open>csi-rtos/solutions/fm_aon_low_power\<close>) and of the layers
  it is built on (\<^verbatim>\<open>csi-rtos/csi\<close>); all paths below are relative to \<^verbatim>\<open>src/csi-rtos\<close>.

  \<^bold>\<open>The program.\<close> The firmware runs on the E902 core that stays powered while the rest of the chip sleeps. It owns the
  power management chips (PMICs) on an I2C bus, the power domains, clocks and resets of the chip, the watchdogs and the
  temperature alarm. The host cores ask for these services by remote procedure calls (RPC) over a mailbox. The mailbox
  interrupt answers most requests itself and puts slow ones into a queue; the main loop takes them out and answers them.
  A timer interrupt watches the watchdogs of the other subsystems.

  \<^bold>\<open>Modelling conventions\<close> (\<open>Aon_Base\<close>). Fixed-width C integers are words, so that wrap-around and truncation are those of
  the code. A function that changes state is an action \<open>'s \<Rightarrow> 'a res \<times> 's\<close> with result \<open>Ok\<close>, \<open>Err\<close> (an error code),
  \<open>Ub\<close> (undefined behaviour in C: a NULL call, an index outside an array, a division by zero) or \<open>Hang\<close> (a loop out of
  fuel, or one that waits for the hardware forever). An error or an undefined step keeps the state changes made before it.
  Structures are records of the same name, enumerations datatypes. \<open>keeps\<close>, \<open>emits\<close>, \<open>runs\<close> and \<open>serves\<close> are Hoare-style
  predicates on actions; their rules are collected in named theorems and follow the structure of a definition.

  \<^bold>\<open>Outside code.\<close> Hardware and controller drivers are parameters of the firmware and of the PMIC subsystem: \<open>if_dev\<close> of the PMIC handle holds the I2C and GPIO
  functions over an abstract world \<open>'w\<close>, \<open>soc\<close> of the chip state the register reads, mailbox, sensor and DDR functions over
  an abstract environment \<open>'e\<close>. A register read may answer anything, so theorems on the chip layer hold for every
  behaviour of the hardware, or say which answers they need. Register writes and reads are recorded in \<open>trace\<close>.

  \<^bold>\<open>Queues.\<close>
  \<^item> \<open>Fifo_Spec\<close>: locale of a bounded FIFO queue and its abstract specification.
  \<^item> \<open>Rpc_Queue\<close> (\<^verbatim>\<open>aon_rpc.c\<close>: \<^verbatim>\<open>enqueue\<close>, \<^verbatim>\<open>dequeue\<close>) and \<open>Ringbuffer\<close> (\<^verbatim>\<open>csi/drivers/common/ringbuffer.c\<close>):
    both implement the specification over every sequence of calls; block reads and writes; lifetime of the slot pointer
    that \<open>dequeue\<close> returns.

  \<^bold>\<open>PMIC subsystem\<close> (\<^verbatim>\<open>csi/drivers/pmic/wj/v1.0\<close>).
  \<^item> \<open>Pmic_Types\<close>, \<open>Pmic_Iic\<close>, \<open>Pmic_Ops\<close>: the packed configuration, lookups, register access over I2C, the tables of
    function pointers with the drivers' entries. \<open>Pmic_Sample\<close> is a bus of register arrays used by the witnesses.
  \<^item> \<open>Da9063\<close>, \<open>Da9121\<close>, \<open>Slg51000\<close>: the drivers; voltages, watchdog period, initialisation.
  \<^item> \<open>Pmic_Coupling\<close>, \<open>Pmic_Regulator\<close>, \<open>Pmic_Device\<close>, \<open>Pmic_Power\<close> (\<^verbatim>\<open>pmic.c\<close>): coupled rails, the set/get/switch
    operations, device operations and registration, power sequencing and initialisation.
  \<^item> \<open>Pmic_Rails\<close>, \<open>Pmic_Dual\<close>: one contract for the three drivers, and the loop that moves two coupled rails: it ends, with
    both rails at their targets. Its fuel is the explicit bound of the theorem.
  \<^item> \<open>Pmic_Invariant\<close>, \<open>Pmic_Safety\<close>, \<open>Pmic_Behaviour\<close>: the tables stay well formed over any sequence of calls, no call runs
    into undefined behaviour, and what the calls do in particular situations.

  \<^bold>\<open>Chip layer\<close> (\<^verbatim>\<open>csi/chips/thead/light_aon\<close>).
  \<^item> \<open>C_String\<close>, \<open>Chip_Regs\<close>, \<open>Chip_Base\<close>: string functions, register addresses, register access and the trace of a run.
  \<^item> \<open>Regmap\<close> (\<^verbatim>\<open>devices.c\<close>), \<open>Chip_Reset\<close> (\<^verbatim>\<open>sysrst.c\<close>), \<open>Chip_Clk\<close> (\<^verbatim>\<open>sysclk.c\<close>), \<open>Chip_Wdt\<close> (\<^verbatim>\<open>wdt.c\<close>),
    \<open>Sys_Clk\<close> (\<^verbatim>\<open>sys_clk.c\<close>), \<open>Chip_Power\<close> and \<open>Chip_Sleep\<close> (\<^verbatim>\<open>power.c\<close>).
  \<^item> \<open>Chip_Domains\<close>: power control changes only the bits of its domain, no bit belongs to two domains, and the writes come in
    the order reset, clock, isolation, switch or its reverse. \<open>Chip_Sleep\<close>: the wake-up interrupts over a sleep.
    \<open>Sys_Clk\<close>: clock source selection, PLL lock.

  \<^bold>\<open>Peripheral drivers.\<close>
  \<^item> \<open>Csi_Dev\<close> (\<^verbatim>\<open>devices.c\<close>, \<^verbatim>\<open>csi/drivers/common/target_get.c\<close>, \<^verbatim>\<open>irq.c\<close>): the table of peripherals and the table of
    interrupt handlers, with device objects in a store.
  \<^item> \<open>Rtc_Alg\<close> (\<^verbatim>\<open>csi/drivers/rtc/wj/alg\<close>): the calendar; it is the civil calendar for 1970 to 2099.
  \<^item> \<open>Rtc\<close> (\<^verbatim>\<open>csi/drivers/rtc/wj/v2.0\<close>): the driver; what is read back after setting the time. The sleep functions of
    \<open>Chip_Sleep\<close> only clear its interrupt and have that call as the parameter \<open>rtc_intr_clr\<close>.
  \<^item> \<open>Wj_Mbox\<close> (\<^verbatim>\<open>csi/drivers/mbox/wj/v5.0\<close>), \<open>Dw_Timer\<close> (\<^verbatim>\<open>csi/drivers/timer/dw/v1.0\<close>), \<open>Dw_Wdt\<close> (\<^verbatim>\<open>csi/drivers/wdt/dw/v1.0\<close>):
    the message protocol of the mailbox, the ticks a timer is loaded with, the timeout codes of a watchdog. The laws of \<open>computes\<close> in
    \<open>Chip_Base\<close> give what a driver function leaves in registers that hold what is written to them.
  \<^item> \<open>Dw_Iic\<close> (\<^verbatim>\<open>csi/drivers/iic/dw/v1.0\<close>, \<^verbatim>\<open>csi/drivers/tick/mtime\<close>): the blocking master transfers of the I2C driver and their clock; which
    bytes a transfer puts on the bus, by the laws of \<open>answers\<close>, for every behaviour of the controller.
  \<^item> \<open>Pmic_Bus\<close>: the PMIC register access with the I2C driver in place of the bus parameters.

  \<^bold>\<open>Firmware\<close> (\<^verbatim>\<open>solutions/fm_aon_low_power/src\<close>).
  \<^item> \<open>Rpc_Msg\<close> (\<^verbatim>\<open>inc/aon_rpc.h\<close>): messages and accessor macros. \<open>Aon_State\<close>: the state of all modules, which extends the
    chip state and holds the PMIC handle; the table of services.
  \<^item> \<open>Aon_Misc\<close>, \<open>Aon_Sys\<close>, \<open>Aon_Pmic\<close>, \<open>Aon_Wdt\<close>, \<open>Aon_Sleep\<close>: the five services (\<^verbatim>\<open>aon_misc.c\<close>, \<^verbatim>\<open>aon_sys.c\<close>,
    \<^verbatim>\<open>aon_pmic.c\<close>, \<^verbatim>\<open>aon_wdt.c\<close>, \<^verbatim>\<open>aon_lpm.c\<close> with the suspend and resume of \<^verbatim>\<open>power.c\<close>). They show that the register
    dump ends and stays in its buffers, which transitions the watchdog monitor makes, and that suspend only reads registers
    until all cores are down.
  \<^item> \<open>Aon_Service\<close>: the contract between a service and the RPC layer as a locale, interpreted on the five dispatchers.
  \<^item> \<open>Aon_Rpc\<close> (\<^verbatim>\<open>aon_rpc.c\<close>, \<^verbatim>\<open>aon_pvt.c\<close>): the mailbox interrupt and the main loop; from the contract follows that
    every reply is a well-formed acknowledgement of its request and that only core hotplug requests are ever queued.
  \<^item> \<open>Aon_Mailbox\<close>: the RPC layer with the mailbox driver in place of the mailbox parameters; a request and its reply are followed
    from the registers through the services back to the registers.
  \<^item> \<open>Aon_Main\<close> (\<^verbatim>\<open>main.c\<close>): the order of initialisation and when the main loop is entered.

  \<^bold>\<open>Fuel.\<close> Loops that end by a counter or a table are structurally recursive. Loops that wait for the hardware or for a
  voltage take fuel; the theorems on them either give the number of turns that is enough (voltage setting, register dump,
  PLL lock) or hold for every fuel.

  \<^bold>\<open>Build.\<close> The model is of the configuration that is built: audio and power management enabled, boot by U-Boot, log
  messages below error level and parameter checks compiled out, no hardware power-down mode, no debug monitor.

  \<^bold>\<open>Not modelled.\<close> The debug monitor (an interactive console that is not compiled in). The drivers of the sensor and GPIO
  controllers and DDR retention are parameters, as described above: what they do depends on the hardware. The firmware has the timer and the
  watchdog as parameters, too; their drivers are modelled without the functions that save and restore registers over a sleep. Of the I2C driver
  the asynchronous and slave functions are left out, which the firmware does not call.
  Start-up code, traps and cache instructions are assembler or print. PMIC drivers of other boards, other chips, DSP and crypto
  libraries, validation programs and the C library are not linked into this firmware. Real time and interrupts that arrive
  while a function runs are not modelled: interrupt handlers are separate steps between the steps of the main loop.
\<close>

end
